(* ===== verification/Go_Prelude.thy ===== *)
theory Go_Prelude
  imports Main "HOL-Library.Word" "HOL-Library.AList"
begin

text \<open>
  Shared vocabulary of the development: what the services use of the Go language and its
  standard library, and the generic lemmas the component theories share.

  A Go string is a list of bytes (\<^typ>\<open>string\<close>). The functions of package \<^verbatim>\<open>strings\<close> are
  exact on ASCII text; bytes from 0x80 on are left unchanged by case mapping and are not white
  space for \<^verbatim>\<open>TrimSpace\<close> (multi-byte letters and spaces are outside the model). An \<^verbatim>\<open>error\<close>
  is a value of \<open>goerr\<close>, a fallible call returns \<open>goerr + 'a\<close>, and a call that can
  panic returns an \<open>outcome\<close>. A \<^verbatim>\<open>map[string]any\<close> is an association list, whose order is
  the order in which \<^verbatim>\<open>range\<close> happens to visit the entries; every theorem holds for all orders.
  A float64 is its IEEE bit pattern: the services carry such values and never compute with them.
\<close>

section \<open>Errors, outcomes, external faults\<close>

datatype goerr = ErrJobNotFound | Err string

fun error_text :: "goerr \<Rightarrow> string" where
  "error_text ErrJobNotFound = ''job not found''"
| "error_text (Err s) = s"

text \<open>\<^verbatim>\<open>fmt.Errorf("p: %w", err)\<close>: a new error value, no longer equal to the one it wraps.\<close>

definition wrap :: "string \<Rightarrow> goerr \<Rightarrow> goerr" where
  "wrap p e = Err (p @ '': '' @ error_text e)"

lemma wrap_not_sentinel [simp]: "wrap p e \<noteq> ErrJobNotFound"
  by (simp add: wrap_def)

datatype 'a outcome = Returns 'a | Panics

text \<open>
  What an external service may do with one call: answer, report that the key is gone (expired or
  evicted), fail with an error text and no effect, or take effect and lose the reply, so that the
  caller sees an error. A component's state carries the list of the faults still to come, one entry
  per call; an exhausted list means that the service answers.
\<close>

datatype fault = NoFault | Missing | Fails string | LostReply string

fun next_fault :: "fault list \<Rightarrow> fault \<times> fault list" where
  "next_fault [] = (NoFault, [])"
| "next_fault (f # fs) = (f, fs)"

section \<open>Package strings\<close>

definition ascii_space :: "char \<Rightarrow> bool" where
  "ascii_space c \<longleftrightarrow>
     c = CHR 0x09 \<or> c = CHR 0x0A \<or> c = CHR 0x0B \<or> c = CHR 0x0C \<or> c = CHR 0x0D \<or> c = CHR 0x20"

text \<open>\<^verbatim>\<open>unicode.IsSpace(rune(b))\<close> for one byte \<^verbatim>\<open>b\<close> also holds for U+0085 and U+00A0.\<close>

definition byte_space :: "char \<Rightarrow> bool" where
  "byte_space c \<longleftrightarrow> ascii_space c \<or> c = CHR 0x85 \<or> c = CHR 0xA0"

definition trim_with :: "(char \<Rightarrow> bool) \<Rightarrow> string \<Rightarrow> string" where
  "trim_with p s = rev (dropWhile p (rev (dropWhile p s)))"

definition trim_space :: "string \<Rightarrow> string" where
  "trim_space s = trim_with ascii_space s"

definition trim_cutset :: "string \<Rightarrow> string \<Rightarrow> string" where
  "trim_cutset cs s = trim_with (\<lambda>c. c \<in> set cs) s"

definition trim_suffix :: "string \<Rightarrow> string \<Rightarrow> string" where
  "trim_suffix suf s =
     (if length suf \<le> length s \<and> drop (length s - length suf) s = suf
      then take (length s - length suf) s else s)"

text \<open>Upper and lower case of an ASCII letter differ in bit 5 only.\<close>

fun lower_char :: "char \<Rightarrow> char" where
  "lower_char (Char b0 b1 b2 b3 b4 b5 b6 b7) =
     (let n = of_char (Char b0 b1 b2 b3 b4 b5 b6 b7) :: int
      in Char b0 b1 b2 b3 b4 (b5 \<or> 65 \<le> n \<and> n \<le> 90) b6 b7)"

definition to_lower :: "string \<Rightarrow> string" where
  "to_lower s = map lower_char s"

definition equal_fold :: "string \<Rightarrow> string \<Rightarrow> bool" where
  "equal_fold a b \<longleftrightarrow> to_lower a = to_lower b"

fun join :: "string \<Rightarrow> string list \<Rightarrow> string" where
  "join sep [] = []"
| "join sep [x] = x"
| "join sep (x # y # ys) = x @ sep @ join sep (y # ys)"

text \<open>\<^verbatim>\<open>strings.Split(s, c)\<close> for a one-byte separator.\<close>

fun split_on :: "char \<Rightarrow> string \<Rightarrow> string list" where
  "split_on c [] = [[]]"
| "split_on c (x # xs) =
     (if x = c then [] # split_on c xs
      else (case split_on c xs of [] \<Rightarrow> [[x]] | w # ws \<Rightarrow> (x # w) # ws))"

text \<open>\<^verbatim>\<open>strings.ReplaceAll(s, old, new)\<close> for a one-byte \<^verbatim>\<open>old\<close>.\<close>

definition replace_char :: "char \<Rightarrow> string \<Rightarrow> string \<Rightarrow> string" where
  "replace_char c new s = concat (map (\<lambda>x. if x = c then new else [x]) s)"

text \<open>The part of a string behind its last separator: all of it when there is none.\<close>

definition after_last :: "char \<Rightarrow> string \<Rightarrow> string" where
  "after_last c s = rev (takeWhile (\<lambda>x. x \<noteq> c) (rev s))"

lemma trim_with_Nil [simp]: "trim_with p [] = []"
  by (simp add: trim_with_def)

lemma trim_with_infix: "\<exists>a b. s = a @ trim_with p s @ b"
proof -
  let ?d = "dropWhile p s"
  have l: "s = takeWhile p s @ ?d" by simp
  have "rev ?d = takeWhile p (rev ?d) @ dropWhile p (rev ?d)" by simp
  then have "?d = rev (dropWhile p (rev ?d)) @ rev (takeWhile p (rev ?d))"
    by (metis rev_append rev_rev_ident)
  with l show ?thesis unfolding trim_with_def by metis
qed

lemma trim_with_id:
  assumes "s \<noteq> []" and "\<not> p (hd s)" and "\<not> p (last s)"
  shows "trim_with p s = s"
proof -
  have "dropWhile p s = s" using assms by (cases s) auto
  moreover have "dropWhile p (rev s) = rev s"
    using assms by (cases "rev s") (auto simp: hd_rev [symmetric])
  ultimately show ?thesis by (simp add: trim_with_def)
qed

lemma trim_with_head: "trim_with p s \<noteq> [] \<Longrightarrow> \<not> p (hd (trim_with p s))"
proof -
  assume ne: "trim_with p s \<noteq> []"
  let ?d = "dropWhile p s"
  have nd: "?d \<noteq> []"
  proof
    assume "?d = []"
    then have "trim_with p s = []" unfolding trim_with_def by (simp only: rev.simps dropWhile.simps)
    with ne show False ..
  qed
  have "rev ?d = takeWhile p (rev ?d) @ dropWhile p (rev ?d)" by simp
  then have split: "?d = trim_with p s @ rev (takeWhile p (rev ?d))"
    by (metis rev_append rev_rev_ident trim_with_def)
  then have "hd ?d = hd (trim_with p s)" using ne by (metis hd_append2)
  with hd_dropWhile [OF nd] show ?thesis by simp
qed

lemma trim_with_last: "trim_with p s \<noteq> [] \<Longrightarrow> \<not> p (last (trim_with p s))"
  unfolding trim_with_def by (metis hd_dropWhile last_rev rev_is_Nil_conv)

lemma trim_with_idem [simp]: "trim_with p (trim_with p s) = trim_with p s"
  by (cases "trim_with p s = []") (simp_all add: trim_with_id trim_with_head trim_with_last)

lemma trim_space_idem [simp]: "trim_space (trim_space s) = trim_space s"
  by (simp add: trim_space_def)

lemma trim_space_Nil [simp]: "trim_space [] = []"
  by (simp add: trim_space_def)

lemma set_trim_with: "set (trim_with p s) \<subseteq> set s"
  using trim_with_infix [of s p] by (metis Un_iff set_append subsetI)

lemma trim_with_all [simp]: "\<forall>c\<in>set s. p c \<Longrightarrow> trim_with p s = []"
  by (simp add: trim_with_def dropWhile_eq_Nil_conv [THEN iffD2])

lemma replace_char_append [simp]:
  "replace_char c new (a @ b) = replace_char c new a @ replace_char c new b"
  by (simp add: replace_char_def)

lemma replace_char_Nil [simp]: "replace_char c new [] = []"
  by (simp add: replace_char_def)

lemma replace_char_Cons:
  "replace_char c new (x # xs) = (if x = c then new else [x]) @ replace_char c new xs"
  by (simp add: replace_char_def)

lemma replace_char_id: "c \<notin> set s \<Longrightarrow> replace_char c new s = s"
  by (induction s) (auto simp: replace_char_Cons)

section \<open>Package strconv and the integer types\<close>

definition char_code :: "char \<Rightarrow> int" where
  "char_code c = of_char c"

lemma char_code_range: "0 \<le> char_code c" "char_code c < 256"
proof -
  have "char_code c = int (of_char c :: nat)" by (simp add: char_code_def of_nat_of_char)
  moreover have "(of_char c :: nat) < 256" by simp
  ultimately show "0 \<le> char_code c" "char_code c < 256" by simp_all
qed

lemma char_of_code [simp]: "char_of (char_code c) = c"
  by (simp add: char_code_def)

definition digit_char :: "int \<Rightarrow> char" where
  "digit_char n = char_of (48 + n)"

function digits :: "int \<Rightarrow> string" where
  "digits n = (if n < 10 then [digit_char n] else digits (n div 10) @ [digit_char (n mod 10)])"
  by pat_completeness auto
termination
  by (relation "measure nat") auto

declare digits.simps [simp del]

definition itoa :: "int \<Rightarrow> string" where
  "itoa i = (if i < 0 then CHR ''-'' # digits (- i) else digits i)"

definition is_digit :: "char \<Rightarrow> bool" where
  "is_digit c \<longleftrightarrow> 48 \<le> char_code c \<and> char_code c \<le> 57"

definition max_int64 :: int where "max_int64 = 9223372036854775807"
definition min_int64 :: int where "min_int64 = - 9223372036854775808"

text \<open>
  The loop of \<^verbatim>\<open>strconv.ParseUint\<close> to base 10 up to \<open>most\<close>, \<open>Inl\<close> an error: False a malformed number, True one out
  of range. It stops at the first character that makes one, so a number may be out of range before its end is read.
\<close>

fun parse_digits :: "int \<Rightarrow> int \<Rightarrow> string \<Rightarrow> bool + int" where
  "parse_digits most n [] = Inr n"
| "parse_digits most n (c # cs) =
     (if \<not> is_digit c then Inl False
      else let n' = 10 * n + (char_code c - 48) in if n' > most then Inl True else parse_digits most n' cs)"

text \<open>
  \<^verbatim>\<open>strconv.Atoi\<close>: the value and whether there was no error. A malformed number gives 0 and an
  out-of-range one the nearest int64, both with an error, which several callers ignore.
\<close>

definition atoi :: "string \<Rightarrow> int \<times> bool" where
  "atoi s =
     (let neg = (s \<noteq> [] \<and> hd s = CHR ''-'');
          body = (if s \<noteq> [] \<and> (hd s = CHR ''-'' \<or> hd s = CHR ''+'') then tl s else s)
      in if body = [] then (0, False)
         else (case parse_digits 18446744073709551615 0 body of
             Inl too_long \<Rightarrow> (if \<not> too_long then 0 else if neg then min_int64 else max_int64, False)
           | Inr n \<Rightarrow>
               (let v = (if neg then - n else n)
                in if v > max_int64 then (max_int64, False)
                   else if v < min_int64 then (min_int64, False)
                   else (v, True))))"

lemma parse_digits_prefix: "parse_digits most n (xs @ ys) = (case parse_digits most n xs of Inl e \<Rightarrow> Inl e | Inr k \<Rightarrow> parse_digits most k ys)"
  by (induction xs arbitrary: n) (auto simp: Let_def)

text \<open>\<^verbatim>\<open>int32(x)\<close> keeps the low 32 bits; reading an int32 as an int sign-extends.\<close>

definition to_int32 :: "int \<Rightarrow> 32 word" where
  "to_int32 i = word_of_int i"

lemma digit_char_code: "0 \<le> n \<Longrightarrow> n < 10 \<Longrightarrow> char_code (digit_char n) = 48 + n"
  by (simp add: char_code_def digit_char_def)

lemma is_digit_digit_char: "0 \<le> n \<Longrightarrow> n < 10 \<Longrightarrow> is_digit (digit_char n)"
  by (simp add: is_digit_def digit_char_code)

lemma digits_digits: "0 \<le> n \<Longrightarrow> list_all is_digit (digits n)"
proof (induction n rule: digits.induct)
  case (1 n)
  then show ?case
    by (cases "n < 10") (simp_all add: digits.simps [of n] is_digit_digit_char)
qed

lemma digits_not_Nil [simp]: "digits n \<noteq> []"
  by (simp add: digits.simps [of n])

lemma itoa_not_Nil [simp]: "itoa i \<noteq> []"
  by (simp add: itoa_def)

lemma hd_digits: "0 \<le> n \<Longrightarrow> is_digit (hd (digits n))"
  using digits_digits [of n] by (cases "digits n") auto

lemma digit_not_sign [simp]: "is_digit c \<Longrightarrow> c \<noteq> CHR ''-''" "is_digit c \<Longrightarrow> c \<noteq> CHR ''+''"
  by (auto simp: is_digit_def char_code_def)

text \<open>What \<^verbatim>\<open>%d\<close> prints, \<^verbatim>\<open>Atoi\<close> reads back.\<close>

lemma parse_digits_digits: "0 \<le> n \<Longrightarrow> n \<le> most \<Longrightarrow> parse_digits most 0 (digits n) = Inr n"
proof (induction n rule: digits.induct)
  case (1 n)
  show ?case
  proof (cases "n < 10")
    case True
    with "1.prems" show ?thesis by (simp add: digits.simps [of n] is_digit_digit_char digit_char_code)
  next
    case False
    with "1.prems" "1.IH" have "parse_digits most 0 (digits (n div 10)) = Inr (n div 10)" by simp
    with False "1.prems" show ?thesis
      by (simp add: digits.simps [of n] parse_digits_prefix is_digit_digit_char digit_char_code)
  qed
qed

lemma atoi_itoa:
  assumes "min_int64 \<le> i" and "i \<le> max_int64"
  shows "atoi (itoa i) = (i, True)"
proof (cases "i < 0")
  case True
  with assms have "parse_digits 18446744073709551615 0 (digits (- i)) = Inr (- i)"
    by (simp add: parse_digits_digits min_int64_def)
  with True assms show ?thesis by (simp add: atoi_def itoa_def Let_def)
next
  case False
  with assms have "parse_digits 18446744073709551615 0 (digits i) = Inr i" "is_digit (hd (digits i))"
    by (simp_all add: parse_digits_digits hd_digits max_int64_def)
  with False assms show ?thesis by (auto simp: atoi_def itoa_def Let_def)
qed

text \<open>A number too long for 64 bits is out of range, whatever follows.\<close>

lemma atoi_errors:
  "atoi ''99999999999999999999x'' = (9223372036854775807, False)" "atoi ''12x'' = (0, False)" "atoi ''-'' = (0, False)"
  by code_simp+

text \<open>The verb \<^verbatim>\<open>%q\<close> on ASCII text.\<close>

definition hex_digit :: "int \<Rightarrow> char" where
  "hex_digit n = (if n < 10 then char_of (48 + n) else char_of (87 + n))"

definition quote_char :: "char \<Rightarrow> string" where
  "quote_char c =
     (let n = char_code c; bs = CHR 0x5C in
      if c = CHR 0x22 \<or> c = bs then [bs, c]
      else if n = 7 then bs # ''a'' else if n = 8 then bs # ''b'' else if n = 12 then bs # ''f''
      else if n = 10 then bs # ''n'' else if n = 13 then bs # ''r'' else if n = 9 then bs # ''t''
      else if n = 11 then bs # ''v''
      else if n < 32 \<or> n = 127 then bs # ''x'' @ [hex_digit (n div 16), hex_digit (n mod 16)]
      else [c])"

definition go_quote :: "string \<Rightarrow> string" where
  "go_quote s = [CHR 0x22] @ concat (map quote_char s) @ [CHR 0x22]"

section \<open>JSON-like values and Go maps\<close>

datatype jval =
    JNull
  | JBool bool
  | JNum "64 word"
  | JStr string
  | JArr "jval list"
  | JObj "(string \<times> jval) list"

type_synonym gomap = "(string \<times> jval) list"

text \<open>\<^verbatim>\<open>v, _ := m[key].(string)\<close>: the zero value when the key is missing or the type differs.\<close>

definition get_str :: "gomap \<Rightarrow> string \<Rightarrow> string" where
  "get_str m k = (case map_of m k of Some (JStr s) \<Rightarrow> s | _ \<Rightarrow> [])"

text \<open>
  JSON has no NaN and no infinities: \<^verbatim>\<open>json.Marshal\<close> and \<^verbatim>\<open>structpb\<close> values with such a float
  fail to encode. Their exponent bits are all ones.
\<close>

definition finite_float :: "64 word \<Rightarrow> bool" where
  "finite_float w \<longleftrightarrow> (uint w div 4503599627370496) mod 2048 \<noteq> 2047"

fun marshalable :: "jval \<Rightarrow> bool" where
  "marshalable (JNum w) = finite_float w"
| "marshalable (JArr vs) = list_all marshalable vs"
| "marshalable (JObj kvs) = list_all (\<lambda>kv. marshalable (snd kv)) kvs"
| "marshalable _ = True"

text \<open>The text \<^verbatim>\<open>encoding/json\<close> reports for the first such float it meets.\<close>

definition float_name :: "64 word \<Rightarrow> string" where
  "float_name w =
     (if uint w mod 4503599627370496 \<noteq> 0 then ''NaN'' else if uint w < 9223372036854775808 then ''+Inf'' else ''-Inf'')"

fun bad_floats :: "jval \<Rightarrow> string list" where
  "bad_floats (JNum w) = (if finite_float w then [] else [float_name w])"
| "bad_floats (JArr vs) = concat (map bad_floats vs)"
| "bad_floats (JObj kvs) = concat (map (\<lambda>kv. bad_floats (snd kv)) kvs)"
| "bad_floats _ = []"

text \<open>\<^verbatim>\<open>json.Marshal\<close> of some values: nothing on success, the error otherwise.\<close>

definition marshal_error :: "jval list \<Rightarrow> goerr option" where
  "marshal_error vs =
     (case concat (map bad_floats vs) of
        [] \<Rightarrow> None
      | n # _ \<Rightarrow> Some (Err (''json: unsupported value: '' @ n)))"

lemma bad_floats_marshalable: "bad_floats v = [] \<longleftrightarrow> marshalable v"
  by (induction v rule: bad_floats.induct) (auto simp: list_all_iff)

lemma marshal_error_None: "marshal_error vs = None \<longleftrightarrow> list_all marshalable vs"
proof -
  have "concat (map bad_floats vs) = [] \<longleftrightarrow> list_all marshalable vs"
    by (induction vs) (simp_all add: bad_floats_marshalable)
  moreover have "marshal_error vs = None \<longleftrightarrow> concat (map bad_floats vs) = []"
    unfolding marshal_error_def by (simp split: list.split del: concat_eq_Nil_conv)
  ultimately show ?thesis by simp
qed

section \<open>Replies of the servers\<close>

text \<open>gRPC status codes the services use, and the error a handler returns.\<close>

datatype code = InvalidArgument | NotFound | AlreadyExists | PermissionDenied | Unauthenticated
  | FailedPrecondition | Unavailable | Internal | Unimplemented

datatype rpc_error = Status code string | Plain goerr

text \<open>
  An HTTP reply: a status with an error value as its body (its text is the error's), or a status with
  a JSON body, represented by the value encoded.
\<close>

datatype ('e, 'a) reply = HttpError int 'e | HttpJson int 'a

end
