(* ===== verification/Sandbox.thy ===== *)
theory Sandbox
  imports Go_Prelude "HOL-Library.List_Lexorder" "HOL-Library.Char_ord"
begin

text \<open>
  The SQL sandbox of Query Engine (\<^verbatim>\<open>services/query-engine/internal/sandbox/sandbox.go\<close>): a lexer
  over the bytes of the statement, the token-level checks, the extraction of the referenced tables
  and their allowlist, the tenant predicate and the row limit. The Go loops over an index into the
  statement or the token slice become recursions over the remaining suffix; the lexer carries the
  index to record each token's position.
\<close>

section \<open>Data\<close>

record policy =
  AllowedTables :: "string list"
  TenantColumn :: string
  TenantValue :: string

record sandbox_result =
  Allowed :: bool
  Sanitized :: string
  Reason :: string
  Tables :: "string list"

record token =
  tok_value :: string
  tok_lower :: string
  tok_start :: nat
  tok_end :: nat

abbreviation sq :: char where "sq \<equiv> CHR 0x27"
abbreviation dq :: char where "dq \<equiv> CHR 0x22"
abbreviation bq :: char where "bq \<equiv> CHR 0x60"

definition DefaultRowLimit :: int where "DefaultRowLimit = 10000"

text \<open>The regular expression \<^verbatim>\<open>^[A-Za-z_][A-Za-z0-9_$]*$\<close>.\<close>

definition is_letter :: "char \<Rightarrow> bool" where
  "is_letter c = (let n = char_code c in 65 \<le> n \<and> n \<le> 90 \<or> 97 \<le> n \<and> n \<le> 122)"

definition ident_start :: "char \<Rightarrow> bool" where
  "ident_start c \<longleftrightarrow> is_letter c \<or> c = CHR ''_''"

definition ident_char :: "char \<Rightarrow> bool" where
  "ident_char c \<longleftrightarrow> ident_start c \<or> is_digit c \<or> c = CHR ''$''"

fun is_identifier :: "string \<Rightarrow> bool" where
  "is_identifier [] = False"
| "is_identifier (c # cs) = (ident_start c \<and> list_all ident_char cs)"

section \<open>The lexer\<close>

text \<open>The bytes \<^verbatim>\<open>(),.;\<close>, each a token of its own, and the bytes that end a word.\<close>

definition punct :: "char \<Rightarrow> bool" where
  "punct c \<longleftrightarrow> c = CHR ''('' \<or> c = CHR '')'' \<or> c = CHR '','' \<or> c = CHR ''.'' \<or> c = CHR '';''"

definition word_char :: "char \<Rightarrow> bool" where
  "word_char c \<longleftrightarrow> \<not> byte_space c \<and> \<not> punct c \<and> c \<noteq> sq \<and> c \<noteq> dq \<and> c \<noteq> bq"

text \<open>
  The inner loop for a string literal: the bytes consumed behind the opening quote. A doubled
  quote is skipped, a single one ends the literal.
\<close>

fun scan_string :: "string \<Rightarrow> nat" where
  "scan_string [] = 0"
| "scan_string [c] = 1"
| "scan_string (c # d # cs) =
     (if c = sq then (if d = sq then 2 + scan_string cs else 1) else 1 + scan_string (d # cs))"

definition mk_tok :: "nat \<Rightarrow> nat \<Rightarrow> string \<Rightarrow> string \<Rightarrow> token" where
  "mk_tok i n v l = \<lparr>tok_value = v, tok_lower = l, tok_start = i, tok_end = i + n\<rparr>"

text \<open>
  One round of the main loop at a byte \<open>c\<close> that is no space, with \<open>cs\<close> behind it: the length of
  the token that starts here and its lower-case form, or the error.
\<close>

definition scan_token :: "char \<Rightarrow> string \<Rightarrow> goerr + nat \<times> string" where
  "scan_token c cs =
     (if c = CHR ''-'' \<and> cs \<noteq> [] \<and> hd cs = CHR ''-'' then Inl (Err ''SQL comments are not allowed'')
      else if c = CHR ''/'' \<and> cs \<noteq> [] \<and> hd cs = CHR ''*'' then Inl (Err ''SQL comments are not allowed'')
      else if c = sq then
        (let n = 1 + scan_string cs; v = take n (c # cs) in
         if last v \<noteq> sq then Inl (Err ''unterminated string literal'') else Inr (n, v))
      else if c = dq \<or> c = bq then
        (let k = length (takeWhile (\<lambda>x. x \<noteq> c) cs) in
         if k \<ge> length cs then Inl (Err ''unterminated identifier'')
         else Inr (k + 2, to_lower (trim_cutset [dq, bq] (take (k + 2) (c # cs)))))
      else if punct c then Inr (1, [c])
      else let n = length (takeWhile word_char (c # cs)) in Inr (n, to_lower (take n (c # cs))))"

lemma scan_string_le: "scan_string s \<le> length s"
  by (induction s rule: scan_string.induct) auto

lemma scan_token_bounds:
  assumes "\<not> byte_space c" and "scan_token c cs = Inr (n, l)"
  shows "0 < n" and "n \<le> length (c # cs)"
proof -
  have "length (takeWhile word_char cs) \<le> length cs" by (rule length_takeWhile_le)
  with assms scan_string_le [of cs] show "0 < n" and "n \<le> length (c # cs)"
    by (auto simp: scan_token_def Let_def word_char_def split: if_splits)
qed

definition push_tok :: "token \<Rightarrow> goerr + token list \<Rightarrow> goerr + token list" where
  "push_tok t r = (case r of Inl e \<Rightarrow> Inl e | Inr ts \<Rightarrow> Inr (t # ts))"

function lex_from :: "nat \<Rightarrow> string \<Rightarrow> goerr + token list" where
  "lex_from i [] = Inr []"
| "lex_from i (c # cs) =
     (if byte_space c then lex_from (i + 1) cs
      else (case scan_token c cs of
          Inl e \<Rightarrow> Inl e
        | Inr (n, l) \<Rightarrow>
            push_tok (mk_tok i n (take n (c # cs)) l) (lex_from (i + n) (drop n (c # cs)))))"
  by pat_completeness auto
termination
  by (relation "measure (\<lambda>(i, s). length s)") (auto dest: scan_token_bounds)

declare lex_from.simps(2) [simp del]

definition lex :: "string \<Rightarrow> goerr + token list" where
  "lex sql = lex_from 0 sql"

section \<open>Token checks\<close>

definition forbidden_words :: "string list" where
  "forbidden_words =
     [''insert'', ''update'', ''delete'', ''merge'', ''create'', ''alter'', ''drop'', ''truncate'',
      ''grant'', ''revoke'', ''copy'', ''call'', ''execute'', ''into'', ''union'', ''intersect'',
      ''except'', ''pg_sleep'', ''sleep'', ''benchmark'', ''load_file'']"

definition isForbidden :: "string \<Rightarrow> bool" where
  "isForbidden k \<longleftrightarrow> k \<in> set [''insert'', ''update'', ''delete'', ''merge'', ''create'', ''alter'',
     ''drop'', ''truncate'', ''grant'', ''revoke'', ''copy'', ''call'', ''execute'']"

definition paren_delta :: "token \<Rightarrow> int" where
  "paren_delta t = (if tok_value t = ''('' then 1 else if tok_value t = '')'' then -1 else 0)"

text \<open>The main loop over the tokens: \<open>Some reason\<close> is an early rejection.\<close>

fun check_tokens :: "int \<Rightarrow> token list \<Rightarrow> string option" where
  "check_tokens depth [] = (if depth \<noteq> 0 then Some ''unbalanced parentheses'' else None)"
| "check_tokens depth (t # ts) =
     (if tok_value t = '';'' then Some ''multiple SQL statements are not allowed''
      else let depth' = depth + paren_delta t in
        if depth' < 0 then Some ''unbalanced parentheses''
        else if tok_lower t = ''select'' \<and> depth' > 0 then Some ''subqueries are not allowed''
        else if tok_lower t \<in> set forbidden_words then Some (''forbidden SQL construct: '' @ tok_value t)
        else if tok_lower t = ''for'' then Some ''locking SELECT is not allowed''
        else check_tokens depth' ts)"

section \<open>Tables and aliases\<close>

definition reserved_words :: "string list" where
  "reserved_words = [''where'', ''join'', ''left'', ''right'', ''inner'', ''outer'', ''full'', ''cross'',
     ''on'', ''group'', ''order'', ''having'', ''limit'', ''offset'']"

text \<open>The loop over \<^verbatim>\<open>. part\<close> pairs behind the first name of a table.\<close>

fun take_parts :: "token list \<Rightarrow> string list \<times> token list" where
  "take_parts (d # p # ts) =
     (if tok_value d = ''.'' then (case take_parts ts of (ps, r) \<Rightarrow> (trim_cutset [dq, bq] (tok_value p) # ps, r))
      else ([], d # p # ts))"
| "take_parts ts = ([], ts)"

definition next_is :: "string \<Rightarrow> token list \<Rightarrow> bool" where
  "next_is v ts \<longleftrightarrow> ts \<noteq> [] \<and> tok_value (hd ts) = v"

definition take_alias :: "token list \<Rightarrow> goerr + string \<times> token list" where
  "take_alias ts =
     (case ts of
        [] \<Rightarrow> Inr ([], ts)
      | a # r \<Rightarrow>
          if tok_lower a = ''as'' then
            (case r of [] \<Rightarrow> Inl (Err ''missing table alias'')
                     | b # r' \<Rightarrow> Inr (trim_cutset [dq, bq] (tok_value b), r'))
          else if is_identifier (tok_value a) \<and> tok_lower a \<notin> set reserved_words then Inr (tok_value a, r)
          else Inr ([], ts))"

lemma take_parts_length: "take_parts ts = (ps, r) \<Longrightarrow> length r \<le> length ts"
  by (induction ts arbitrary: ps r rule: take_parts.induct) (auto split: if_splits prod.splits)

lemma take_alias_length: "take_alias ts = Inr (a, r) \<Longrightarrow> length r \<le> length ts"
  by (auto simp: take_alias_def split: list.splits if_splits)

function extract_loop :: "token list \<Rightarrow> goerr + (string \<times> string) list" where
  "extract_loop [] = Inr []"
| "extract_loop (t # ts) =
     (if tok_lower t \<noteq> ''from'' \<and> tok_lower t \<noteq> ''join'' then extract_loop ts
      else (case ts of
          [] \<Rightarrow> Inl (Err ''derived tables and subqueries are not allowed'')
        | u # us \<Rightarrow>
            if tok_value u = ''('' then Inl (Err ''derived tables and subqueries are not allowed'')
            else (case take_parts us of (ps, r) \<Rightarrow>
              if next_is ''('' r then Inl (Err ''table functions are not allowed'')
              else (case take_alias r of
                  Inl e \<Rightarrow> Inl e
                | Inr (alias, r') \<Rightarrow>
                    if next_is '','' r'
                    then Inl (Err ''comma-separated tables are not allowed; use explicit JOIN'')
                    else (case extract_loop r' of
                        Inl e \<Rightarrow> Inl e
                      | Inr rest \<Rightarrow>
                          Inr ((to_lower (join ''.'' (trim_cutset [dq, bq] (tok_value u) # ps)), alias) # rest))))))"
  by pat_completeness auto
termination
  by (relation "measure length")
     (auto dest!: take_parts_length [OF sym] take_alias_length split: list.splits)

definition extractTables :: "token list \<Rightarrow> goerr + string list \<times> string list" where
  "extractTables ts =
     (case extract_loop ts of
        Inl e \<Rightarrow> Inl e
      | Inr tas \<Rightarrow> if tas = [] then Inl (Err ''SELECT must reference a base table'')
                   else Inr (map fst tas, map snd tas))"

definition table_allowed :: "string list \<Rightarrow> string \<Rightarrow> bool" where
  "table_allowed allowed table \<longleftrightarrow>
     (let names = map (\<lambda>a. to_lower (trim_space a)) allowed
      in table \<in> set names \<or> after_last (CHR ''.'') table \<in> set names)"

definition enforceAllowlist :: "string list \<Rightarrow> string list \<Rightarrow> goerr option" where
  "enforceAllowlist tables allowed =
     (if allowed = [] then Some (Err ''table allowlist is required'')
      else (case find (\<lambda>t. \<not> table_allowed allowed t) tables of
          None \<Rightarrow> None
        | Some t \<Rightarrow> Some (Err (''table '' @ go_quote t @ '' is not allowed''))))"

section \<open>Limit, tenant predicate, validation\<close>

fun parseLimit :: "token list \<Rightarrow> goerr + int option" where
  "parseLimit [] = Inr None"
| "parseLimit (t # ts) =
     (if tok_lower t = ''limit'' then
        (case ts of
           [] \<Rightarrow> Inl (Err ''LIMIT must be numeric'')
         | u # _ \<Rightarrow> (case atoi (tok_value u) of (n, ok) \<Rightarrow>
                      if ok then Inr (Some n) else Inl (Err ''LIMIT must be numeric'')))
      else parseLimit ts)"

definition clause_word :: "string \<Rightarrow> bool" where
  "clause_word w \<longleftrightarrow> w \<in> set [''group'', ''order'', ''having'', ''limit'', ''offset'']"

text \<open>
  The loop of \<^verbatim>\<open>injectPredicate\<close>: the position of the last top-level \<^verbatim>\<open>WHERE\<close> and the start of the
  first top-level clause behind it, at which the loop breaks off.
\<close>

fun scan_clauses :: "int \<Rightarrow> (nat \<times> nat) option \<Rightarrow> nat \<Rightarrow> token list \<Rightarrow> (nat \<times> nat) option \<times> nat" where
  "scan_clauses depth wh at [] = (wh, at)"
| "scan_clauses depth wh at (t # ts) =
     (let depth' = depth + paren_delta t in
      if depth' \<noteq> 0 then scan_clauses depth' wh at ts
      else let wh' = (if tok_lower t = ''where'' then Some (tok_start t, tok_end t) else wh) in
        if clause_word (tok_lower t) then (wh', tok_start t)
        else scan_clauses depth' wh' at ts)"

definition injectPredicate :: "string \<Rightarrow> token list \<Rightarrow> string \<Rightarrow> string" where
  "injectPredicate sql ts predicate =
     (case scan_clauses 0 None (length sql) ts of (wh, at) \<Rightarrow>
        let suffix = trim_space (drop at sql);
            tail = (if suffix \<noteq> [] then '' '' @ suffix else [])
        in (case wh of
              Some (ws, we) \<Rightarrow>
                trim_space (take we sql) @ '' ('' @ trim_space (drop we (take at sql)) @ '') AND ''
                  @ predicate @ tail
            | None \<Rightarrow> trim_space (take at sql) @ '' WHERE '' @ predicate @ tail))"

definition quoteIdentifier :: "string \<Rightarrow> string" where
  "quoteIdentifier v = [dq] @ replace_char dq [dq, dq] v @ [dq]"

definition quoteLiteral :: "string \<Rightarrow> string" where
  "quoteLiteral v = [sq] @ replace_char sq [sq, sq] v @ [sq]"

definition reject :: "string \<Rightarrow> sandbox_result" where
  "reject reason = \<lparr>Allowed = False, Sanitized = [], Reason = reason, Tables = []\<rparr>"

definition tenant_predicate :: "policy \<Rightarrow> string \<Rightarrow> string \<Rightarrow> string" where
  "tenant_predicate pol table alias =
     (let qualifier = (if alias = [] then after_last (CHR ''.'') table else alias)
      in quoteIdentifier qualifier @ ''.'' @ quoteIdentifier (TenantColumn pol) @ '' = ''
         @ quoteLiteral (TenantValue pol))"

text \<open>The branch for a policy with a tenant column: \<open>Inl\<close> a rejection, \<open>Inr\<close> the rewritten statement.\<close>

definition apply_tenant :: "policy \<Rightarrow> string \<Rightarrow> token list \<Rightarrow> string list \<Rightarrow> string list \<Rightarrow> string + string" where
  "apply_tenant pol sql ts tables aliases =
     (if TenantColumn pol = [] then Inr sql
      else if \<not> is_identifier (TenantColumn pol) then Inl ''invalid tenant column policy''
      else if TenantValue pol = [] then Inl ''tenant value is required by policy''
      else if length tables \<noteq> 1 then Inl ''tenant predicate injection requires exactly one base table''
      else Inr (injectPredicate sql ts (tenant_predicate pol (hd tables) (hd aliases))))"

definition apply_limit :: "token list \<Rightarrow> string \<Rightarrow> string + string" where
  "apply_limit ts sanitized =
     (case parseLimit ts of
        Inl e \<Rightarrow> Inl (error_text e)
      | Inr (Some limit) \<Rightarrow>
          if limit < 0 \<or> limit > DefaultRowLimit
          then Inl (''LIMIT must be between 0 and '' @ itoa DefaultRowLimit)
          else Inr sanitized
      | Inr None \<Rightarrow> Inr (sanitized @ '' LIMIT '' @ itoa DefaultRowLimit))"

text \<open>Both trims and the one trailing semicolon that is tolerated.\<close>

definition normalise :: "string \<Rightarrow> string" where
  "normalise sql = trim_space (trim_suffix '';'' (trim_space sql))"

definition ValidatePolicy :: "string \<Rightarrow> policy \<Rightarrow> sandbox_result" where
  "ValidatePolicy sql pol =
     (if trim_space sql = [] then reject ''empty query''
      else let trimmed = normalise sql in
      (case lex trimmed of
         Inl e \<Rightarrow> reject (error_text e)
       | Inr ts \<Rightarrow>
           if ts = [] \<or> tok_lower (hd ts) \<noteq> ''select'' then
             (if ts \<noteq> [] \<and> isForbidden (tok_lower (hd ts))
              then reject (''forbidden SQL construct: '' @ tok_value (hd ts))
              else reject ''query must start with SELECT'')
           else (case check_tokens 0 ts of
               Some reason \<Rightarrow> reject reason
             | None \<Rightarrow>
                 (case extractTables ts of
                    Inl e \<Rightarrow> reject (error_text e)
                  | Inr (tables, aliases) \<Rightarrow>
                      (case enforceAllowlist tables (AllowedTables pol) of
                         Some e \<Rightarrow> reject (error_text e)
                       | None \<Rightarrow>
                           (case apply_tenant pol trimmed ts tables aliases of
                              Inl reason \<Rightarrow> reject reason
                            | Inr rewritten \<Rightarrow>
                                (case apply_limit ts rewritten of
                                   Inl reason \<Rightarrow> reject reason
                                 | Inr sanitized \<Rightarrow>
                                     \<lparr>Allowed = True, Sanitized = sanitized, Reason = [],
                                      Tables = tables\<rparr>)))))))"

definition Validate :: "string \<Rightarrow> string list \<Rightarrow> sandbox_result" where
  "Validate sql allowed =
     ValidatePolicy sql \<lparr>AllowedTables = allowed, TenantColumn = [], TenantValue = []\<rparr>"

definition SortedTables :: "sandbox_result \<Rightarrow> string list" where
  "SortedTables r = sort (Tables r)"

end
