(* ===== verification/Sandbox_Lexing.thy ===== *)
theory Sandbox_Lexing
  imports Sandbox
begin

text \<open>
  Facts about the lexer: its tokens tile the statement, and lexing splits and composes at token
  boundaries. These are what the rewriting properties of \<open>Sandbox_Facts\<close> rest on.
\<close>

section \<open>One token\<close>

lemma mk_tok_simps [simp]:
  "tok_value (mk_tok i n v l) = v" "tok_lower (mk_tok i n v l) = l"
  "tok_start (mk_tok i n v l) = i" "tok_end (mk_tok i n v l) = i + n"
  by (simp_all add: mk_tok_def)

lemma push_tok_Inr: "push_tok t r = Inr ts \<longleftrightarrow> (\<exists>us. r = Inr us \<and> ts = t # us)"
  by (auto simp: push_tok_def split: sum.splits)

lemma lex_space: "byte_space c \<Longrightarrow> lex_from i (c # cs) = lex_from (Suc i) cs"
  by (simp add: lex_from.simps)

lemma lex_tokenE:
  assumes "lex_from i (c # cs) = Inr ts" and "\<not> byte_space c"
  obtains n l us where "scan_token c cs = Inr (n, l)" and "0 < n" and "n \<le> length (c # cs)"
    and "lex_from (i + n) (drop n (c # cs)) = Inr us"
    and "ts = mk_tok i n (take n (c # cs)) l # us"
  using assms scan_token_bounds [of c cs]
  by (auto simp: lex_from.simps push_tok_Inr split: sum.splits prod.splits)

lemma lex_tokenI:
  assumes "\<not> byte_space c" and "scan_token c cs = Inr (n, l)"
  shows "lex_from i (c # cs) = push_tok (mk_tok i n (take n (c # cs)) l) (lex_from (i + n) (drop n (c # cs)))"
  using assms by (simp add: lex_from.simps)

text \<open>A token found in a longer text and lying within its front part is found in the front part.\<close>

lemma scan_string_trunc:
  "scan_string (cs @ b) \<le> length cs \<Longrightarrow> scan_string cs = scan_string (cs @ b)"
proof (induction cs rule: scan_string.induct)
  case (2 c)
  then show ?case by (cases b) (auto split: if_splits)
next
  case (3 c d cs)
  then show ?case by (auto split: if_splits)
qed (use scan_string_le in auto)

lemma takeWhile_trunc:
  "length (takeWhile P (cs @ b)) \<le> length cs \<Longrightarrow> takeWhile P (cs @ b) = takeWhile P cs"
  by (induction cs) auto

text \<open>The branches of \<open>scan_token\<close>, one equation each.\<close>

definition comment_at :: "char \<Rightarrow> string \<Rightarrow> bool" where
  "comment_at c cs \<longleftrightarrow> cs \<noteq> [] \<and> (c = CHR ''-'' \<and> hd cs = CHR ''-'' \<or> c = CHR ''/'' \<and> hd cs = CHR ''*'')"

lemma scan_token_comment: "comment_at c cs \<Longrightarrow> scan_token c cs = Inl (Err ''SQL comments are not allowed'')"
  by (auto simp: comment_at_def scan_token_def)

lemma scan_token_string:
  "scan_token sq cs =
     (if last (take (1 + scan_string cs) (sq # cs)) = sq
      then Inr (1 + scan_string cs, take (1 + scan_string cs) (sq # cs))
      else Inl (Err ''unterminated string literal''))"
  by (simp add: scan_token_def Let_def)

lemma scan_token_ident:
  assumes "q = dq \<or> q = bq" and "length (takeWhile (\<lambda>x. x \<noteq> q) cs) < length cs"
  shows "scan_token q cs =
    Inr (length (takeWhile (\<lambda>x. x \<noteq> q) cs) + 2,
         to_lower (trim_cutset [dq, bq] (take (length (takeWhile (\<lambda>x. x \<noteq> q) cs) + 2) (q # cs))))"
  using assms by (auto simp: scan_token_def Let_def)

lemma scan_token_ident_open:
  assumes "q = dq \<or> q = bq" and "\<not> length (takeWhile (\<lambda>x. x \<noteq> q) cs) < length cs"
  shows "scan_token q cs = Inl (Err ''unterminated identifier'')"
  using assms by (auto simp: scan_token_def Let_def)

lemma scan_token_punct: "punct c \<Longrightarrow> scan_token c cs = Inr (1, [c])"
  by (auto simp: scan_token_def punct_def)

lemma scan_token_word:
  assumes "word_char c" and "\<not> comment_at c cs"
  shows "scan_token c cs =
    Inr (length (takeWhile word_char (c # cs)), to_lower (take (length (takeWhile word_char (c # cs))) (c # cs)))"
  using assms by (auto simp: scan_token_def comment_at_def word_char_def Let_def)

lemma byte_cases [case_names space string ident punct word]:
  obtains "byte_space c" | "c = sq" | "c = dq \<or> c = bq" | "punct c" | "word_char c"
  by (auto simp: word_char_def)

lemma scan_token_trunc:
  assumes ns: "\<not> byte_space c" and st: "scan_token c (cs @ b) = Inr (n, l)" and n: "n \<le> length (c # cs)"
  shows "scan_token c cs = Inr (n, l)"
proof (cases c rule: byte_cases)
  case string
  with st have "n = 1 + scan_string (cs @ b)" and l: "l = take n (sq # cs @ b)"
    and lst: "last (take n (sq # cs @ b)) = sq"
    by (auto simp: scan_token_string split: if_splits)
  with n scan_string_trunc [of cs b] have nn: "1 + scan_string cs = n" by simp
  have e: "take n (sq # cs @ b) = take n (sq # cs)" using n by (cases n) auto
  show ?thesis using l lst unfolding string scan_token_string nn e by simp
next
  case ident
  let ?k = "length (takeWhile (\<lambda>x. x \<noteq> c) (cs @ b))"
  have k: "n = ?k + 2" "l = to_lower (trim_cutset [dq, bq] (take n (c # cs @ b)))"
    using st ident scan_token_ident [of c "cs @ b"] scan_token_ident_open [of c "cs @ b"] by fastforce+
  with n have tw: "takeWhile (\<lambda>x. x \<noteq> c) (cs @ b) = takeWhile (\<lambda>x. x \<noteq> c) cs"
    by (intro takeWhile_trunc) simp
  have "take n (c # cs @ b) = take n (c # cs)" using n by (cases n) auto
  with k tw n ident show ?thesis by (simp add: scan_token_ident)
next
  case punct
  with st show ?thesis by (simp add: scan_token_punct)
next
  case word
  have nc: "\<not> comment_at c (cs @ b)" using st scan_token_comment [of c "cs @ b"] by auto
  with st word have k: "n = length (takeWhile word_char (c # cs @ b))" "l = to_lower (take n (c # cs @ b))"
    by (auto simp: scan_token_word simp del: takeWhile.simps)
  have w: "takeWhile word_char (c # cs @ b) = takeWhile word_char (c # cs)"
    using takeWhile_trunc [of word_char "c # cs" b] n k(1) by simp
  have e: "take n (c # cs @ b) = take n (c # cs)" using n by (cases n) auto
  have nc': "\<not> comment_at c cs" using nc by (auto simp: comment_at_def)
  have n': "length (takeWhile word_char (c # cs)) = n" using k(1) unfolding w by simp
  show ?thesis using k(2) unfolding scan_token_word [OF word nc'] n' e by simp
qed (use ns in simp)

section \<open>The tokens tile the statement\<close>

text \<open>
  \<open>covers i s ts\<close>: read from offset \<open>i\<close>, the text \<open>s\<close> consists of white space and of the
  non-empty tokens \<open>ts\<close>, in order, each at its recorded position.
\<close>

fun covers :: "nat \<Rightarrow> string \<Rightarrow> token list \<Rightarrow> bool" where
  "covers i s [] = list_all byte_space s"
| "covers i s (t # ts) =
     (let k = tok_start t - i; n = tok_end t - tok_start t in
      i \<le> tok_start t \<and> 0 < n \<and> k + n \<le> length s \<and> list_all byte_space (take k s)
      \<and> tok_value t = take n (drop k s) \<and> covers (tok_end t) (drop (k + n) s) ts)"

lemma covers_space: "byte_space c \<Longrightarrow> covers (Suc i) cs ts \<Longrightarrow> covers i (c # cs) ts"
  by (cases ts) (auto simp: Let_def Suc_diff_le [symmetric] take_Cons' drop_Cons' split: nat.splits)

lemma lex_from_covers: "lex_from i s = Inr ts \<Longrightarrow> covers i s ts"
proof (induction i s arbitrary: ts rule: lex_from.induct)
  case (1 i)
  then show ?case by simp
next
  case (2 i c cs)
  show ?case
  proof (cases "byte_space c")
    case True
    with "2.prems" have "covers (i + 1) cs ts" by (intro "2.IH"(1)) (simp_all add: lex_space)
    with True show ?thesis by (intro covers_space) simp_all
  next
    case False
    with "2.prems" obtain n l us where t: "scan_token c cs = Inr (n, l)" "0 < n" "n \<le> length (c # cs)"
      "lex_from (i + n) (drop n (c # cs)) = Inr us" "ts = mk_tok i n (take n (c # cs)) l # us"
      by (rule lex_tokenE)
    have "covers (i + n) (drop n (c # cs)) us"
      using "2.IH"(2) [OF False t(1) refl t(4)] .
    with t show ?thesis by (simp add: Let_def)
  qed
qed

section \<open>Lexemes\<close>

text \<open>The token texts alone, without their positions.\<close>

definition vals :: "goerr + token list \<Rightarrow> goerr + string list" where
  "vals r = (case r of Inl e \<Rightarrow> Inl e | Inr ts \<Rightarrow> Inr (map tok_value ts))"

definition lexemes :: "string \<Rightarrow> goerr + string list" where
  "lexemes s = vals (lex_from 0 s)"

definition cons_val :: "string \<Rightarrow> goerr + string list \<Rightarrow> goerr + string list" where
  "cons_val v r = (case r of Inl e \<Rightarrow> Inl e | Inr vs \<Rightarrow> Inr (v # vs))"

lemma cons_val_Inr [simp]: "cons_val v (Inr vs) = Inr (v # vs)"
  by (simp add: cons_val_def)

lemma cons_val_eq_Inr: "cons_val v r = Inr vs \<longleftrightarrow> (\<exists>us. r = Inr us \<and> vs = v # us)"
  by (auto simp: cons_val_def split: sum.splits)

lemma vals_push [simp]: "vals (push_tok t r) = cons_val (tok_value t) (vals r)"
  by (simp add: vals_def push_tok_def cons_val_def split: sum.splits)

lemma vals_Inr [simp]: "vals (Inr ts) = Inr (map tok_value ts)" "vals (Inl e) = Inl e"
  by (simp_all add: vals_def)

lemma vals_lex_from: "vals (lex_from i s) = lexemes s"
proof -
  have "vals (lex_from i s) = vals (lex_from j s)" for i j
  proof (induction i s arbitrary: j rule: lex_from.induct)
    case (2 i c cs)
    show ?case
    proof (cases "byte_space c")
      case True
      then show ?thesis using "2.IH"(1) [OF True, of "Suc j"] by (simp add: lex_space)
    next
      case False
      show ?thesis
      proof (cases "scan_token c cs")
        case (Inl e)
        with False show ?thesis by (simp add: lex_from.simps)
      next
        case (Inr nl)
        obtain n l where nl: "nl = (n, l)" by (cases nl)
        have st: "scan_token c cs = Inr (n, l)" using Inr nl by simp
        have "vals (lex_from (i + n) (drop n (c # cs))) = vals (lex_from (j + n) (drop n (c # cs)))"
          using "2.IH"(2) [OF False Inr nl [symmetric]] .
        then show ?thesis unfolding lex_tokenI [OF False st] vals_push by simp
      qed
    qed
  qed simp
  then show ?thesis unfolding lexemes_def .
qed

lemma lexemes_Nil [simp]: "lexemes [] = Inr []"
  by (simp add: lexemes_def)

lemma lexemes_space [simp]: "byte_space c \<Longrightarrow> lexemes (c # cs) = lexemes cs"
  by (simp add: lexemes_def [of "c # cs"] lex_space vals_lex_from)

lemma lexemes_token:
  "\<not> byte_space c \<Longrightarrow> scan_token c cs = Inr (n, l) \<Longrightarrow>
   lexemes (c # cs) = cons_val (take n (c # cs)) (lexemes (drop n (c # cs)))"
  by (simp add: lexemes_def [of "c # cs"] lex_tokenI vals_lex_from)

lemma lexemes_tokenE:
  assumes "lexemes (c # cs) = Inr vs" and "\<not> byte_space c"
  obtains n l us where "scan_token c cs = Inr (n, l)" and "0 < n" and "n \<le> length (c # cs)"
    and "lexemes (drop n (c # cs)) = Inr us" and "vs = take n (c # cs) # us"
proof -
  obtain n l where nl: "scan_token c cs = Inr (n, l)"
    using assms by (auto simp: lexemes_def lex_from.simps split: sum.splits prod.splits)
  have "cons_val (take n (c # cs)) (lexemes (drop n (c # cs))) = Inr vs"
    using assms(1) unfolding lexemes_token [OF assms(2) nl] .
  then obtain us where "lexemes (drop n (c # cs)) = Inr us" "vs = take n (c # cs) # us"
    unfolding cons_val_eq_Inr by blast
  with that nl scan_token_bounds [OF assms(2) nl] show ?thesis by blast
qed

lemma lexemes_spaces: "list_all byte_space sp \<Longrightarrow> lexemes (sp @ s) = lexemes s"
  by (induction sp) auto

subsection \<open>Splitting at a token boundary\<close>

lemma lex_split:
  assumes "lex_from i s = Inr (ts1 @ ts2)" and "i \<le> e" and "e \<le> i + length s"
    and "\<forall>t\<in>set ts1. tok_end t \<le> e" and "\<forall>t\<in>set ts2. e \<le> tok_start t"
  shows "lex_from i (take (e - i) s) = Inr ts1 \<and> lex_from e (drop (e - i) s) = Inr ts2"
  using assms
proof (induction i s arbitrary: ts1 rule: lex_from.induct)
  case (1 i)
  then show ?case by simp
next
  case (2 i c cs)
  note prems = "2.prems"
  show ?case
  proof (cases "byte_space c")
    case True
    show ?thesis
    proof (cases "e = i")
      case e: True
      have "covers (Suc i) cs (ts1 @ ts2)"
        using prems(1) True lex_from_covers by (simp add: lex_space)
      then have "ts1 = []" using prems(4) e by (cases ts1) (auto simp: Let_def)
      with prems e show ?thesis by simp
    next
      case False
      then have k: "e - i = Suc (e - Suc i)" using prems(2) by simp
      have "lex_from (i + 1) (take (e - (i + 1)) cs) = Inr ts1 \<and> lex_from e (drop (e - (i + 1)) cs) = Inr ts2"
        using prems True False by (intro "2.IH"(1)) (simp_all add: lex_space)
      with True k show ?thesis by (simp add: lex_space)
    qed
  next
    case False
    with prems(1) obtain n l us where t: "scan_token c cs = Inr (n, l)" "0 < n" "n \<le> length (c # cs)"
      "lex_from (i + n) (drop n (c # cs)) = Inr us" "ts1 @ ts2 = mk_tok i n (take n (c # cs)) l # us"
      by (rule lex_tokenE)
    show ?thesis
    proof (cases ts1)
      case Nil
      with t(5) prems(2,5) have "e = i" by auto
      with Nil prems(1) show ?thesis by simp
    next
      case (Cons t1 ts1')
      with t(5) have t1: "t1 = mk_tok i n (take n (c # cs)) l" and us: "us = ts1' @ ts2" by auto
      have e: "i + n \<le> e" using prems(4) Cons t1 by simp
      have IH: "lex_from (i + n) (take (e - (i + n)) (drop n (c # cs))) = Inr ts1'
          \<and> lex_from e (drop (e - (i + n)) (drop n (c # cs))) = Inr ts2"
        using "2.IH"(2) [OF False t(1) refl, of ts1'] t(3,4) us e prems(3-5) Cons by simp
      define m where "m = e - Suc i"
      have m: "e - i = Suc m" "n \<le> Suc m" "e - (i + n) = Suc m - n" using e t(2) by (auto simp: m_def)
      have "scan_token c (take m cs @ drop m cs) = Inr (n, l)" using t(1) by simp
      moreover have "n \<le> length (c # take m cs)" using m(2) t(3) by simp
      ultimately have "scan_token c (take m cs) = Inr (n, l)" using False scan_token_trunc by blast
      then have "lex_from i (c # take m cs)
          = push_tok (mk_tok i n (take n (c # take m cs)) l) (lex_from (i + n) (drop n (c # take m cs)))"
        using False by (rule lex_tokenI [rotated])
      moreover have "drop n (c # take m cs) = take (Suc m - n) (drop n (c # cs))"
        by (metis drop_take take_Suc_Cons)
      moreover have "take n (c # take m cs) = take n (c # cs)"
        using m(2) by (metis min.absorb1 take_Suc_Cons take_take)
      ultimately have "lex_from i (take (e - i) (c # cs)) = Inr ts1"
        using IH m Cons t1 by (simp add: push_tok_def)
      moreover have "drop (e - i) (c # cs) = drop (e - (i + n)) (drop n (c # cs))"
        using e by simp
      ultimately show ?thesis using IH by simp
    qed
  qed
qed

section \<open>Composing texts\<close>

text \<open>The bytes behind an opening quote are one closed literal: the last byte is the closing quote.\<close>

fun closed_rest :: "string \<Rightarrow> bool" where
  "closed_rest [] = False"
| "closed_rest [c] = (c = sq)"
| "closed_rest (c # d # cs) = (if c = sq then d = sq \<and> closed_rest cs else closed_rest (d # cs))"

definition lit_closed :: "string \<Rightarrow> bool" where
  "lit_closed v \<longleftrightarrow> (v \<noteq> [] \<and> hd v = sq \<longrightarrow> closed_rest (tl v))"

text \<open>A text that cannot continue a word or a string literal.\<close>

definition stops :: "string \<Rightarrow> bool" where
  "stops b \<longleftrightarrow> b = [] \<or> (\<not> word_char (hd b) \<and> hd b \<noteq> sq)"

lemma stops_simps [simp]: "stops []" "stops (CHR '' '' # b)" "stops (dq # b)" "stops (CHR ''.'' # b)"
  by (simp_all add: stops_def word_char_def byte_space_def ascii_space_def punct_def)

lemma scan_string_ext:
  "closed_rest (take (scan_string s) s) \<Longrightarrow> b = [] \<or> hd b \<noteq> sq \<Longrightarrow> scan_string (s @ b) = scan_string s"
proof (induction s rule: scan_string.induct)
  case (2 c)
  then show ?case by (cases b) auto
next
  case (3 c d cs)
  have "0 < scan_string (d # cs)" by (cases cs) auto
  then show ?case using 3 by (cases "scan_string (d # cs)") (auto split: if_splits)
qed simp

lemma takeWhile_ext: "b = [] \<or> \<not> P (hd b) \<Longrightarrow> takeWhile P (s @ b) = takeWhile P s"
  by (induction s) (cases b, auto)

lemma takeWhile_inside:
  "length (takeWhile P s) < length s \<Longrightarrow> takeWhile P (s @ b) = takeWhile P s"
  by (induction s) auto

lemma take_append_le: "n \<le> length s \<Longrightarrow> take n (s @ b) = take n s"
  by simp

lemma scan_token_ext:
  assumes ns: "\<not> byte_space c" and st: "scan_token c cs = Inr (n, l)"
    and cl: "lit_closed (take n (c # cs))" and b: "stops b"
  shows "scan_token c (cs @ b) = Inr (n, l)"
proof -
  have n: "n \<le> length (c # cs)" using scan_token_bounds [OF ns st] by simp
  have e: "take n (c # cs @ b) = take n (c # cs)" using n take_append_le [of n "c # cs" b] by simp
  show ?thesis
  proof (cases c rule: byte_cases)
    case string
    with st have k: "n = 1 + scan_string cs" and l: "l = take n (sq # cs)"
      and lst: "last (take n (sq # cs)) = sq"
      by (auto simp: scan_token_string split: if_splits)
    have "closed_rest (take (scan_string cs) cs)" using cl string k by (simp add: lit_closed_def)
    then have "1 + scan_string (cs @ b) = n" using b k scan_string_ext by (auto simp: stops_def)
    then show ?thesis using l lst e unfolding string scan_token_string by simp
  next
    case ident
    let ?k = "length (takeWhile (\<lambda>x. x \<noteq> c) cs)"
    have k: "?k < length cs" using st ident scan_token_ident_open [of c cs] by fastforce
    then have nl: "n = ?k + 2" "l = to_lower (trim_cutset [dq, bq] (take n (c # cs)))"
      using st ident scan_token_ident [of c cs] by auto
    have tw: "takeWhile (\<lambda>x. x \<noteq> c) (cs @ b) = takeWhile (\<lambda>x. x \<noteq> c) cs"
      using k by (rule takeWhile_inside)
    have "length (takeWhile (\<lambda>x. x \<noteq> c) (cs @ b)) < length (cs @ b)" using k unfolding tw by simp
    from scan_token_ident [OF ident this] show ?thesis unfolding tw nl(1) [symmetric] using nl(2) e by simp
  next
    case punct
    with st show ?thesis by (simp add: scan_token_punct)
  next
    case word
    have nc: "\<not> comment_at c cs" using st scan_token_comment [of c cs] by auto
    have tw: "takeWhile word_char (c # cs @ b) = takeWhile word_char (c # cs)"
      using takeWhile_ext [of b word_char "c # cs"] b by (auto simp: stops_def)
    have nc': "\<not> comment_at c (cs @ b)"
    proof (cases cs)
      case Nil
      then show ?thesis using b
        by (auto simp: comment_at_def stops_def word_char_def byte_space_def ascii_space_def punct_def)
    qed (use nc in \<open>simp add: comment_at_def\<close>)
    have nl: "length (takeWhile word_char (c # cs)) = n" "l = to_lower (take n (c # cs))"
      using st unfolding scan_token_word [OF word nc] by auto
    show ?thesis unfolding scan_token_word [OF word nc'] tw nl(1) e by (simp add: nl(2))
  qed (use ns in simp)
qed

definition app_vals :: "string list \<Rightarrow> goerr + string list \<Rightarrow> goerr + string list" where
  "app_vals us r = (case r of Inl e \<Rightarrow> Inl e | Inr vs \<Rightarrow> Inr (us @ vs))"

lemma app_vals_simps [simp]: "app_vals [] r = r" "app_vals us (Inr vs) = Inr (us @ vs)"
  "cons_val v (app_vals us r) = app_vals (v # us) r"
  by (simp_all add: app_vals_def cons_val_def split: sum.splits)

lemma lexemes_append:
  "lexemes a = Inr va \<Longrightarrow> list_all lit_closed va \<Longrightarrow> stops b \<Longrightarrow> lexemes (a @ b) = app_vals va (lexemes b)"
proof (induction a arbitrary: va rule: length_induct)
  case (1 a)
  show ?case
  proof (cases a)
    case Nil
    with 1 show ?thesis by simp
  next
    case (Cons c cs)
    show ?thesis
    proof (cases "byte_space c")
      case True
      with 1 Cons show ?thesis by simp
    next
      case False
      obtain n l us where t: "scan_token c cs = Inr (n, l)" "0 < n" "n \<le> length (c # cs)"
        "lexemes (drop n (c # cs)) = Inr us" "va = take n (c # cs) # us"
        using lexemes_tokenE [OF "1.prems"(1) [unfolded Cons] False] .
      have "scan_token c (cs @ b) = Inr (n, l)"
        using False t(1) "1.prems"(2,3) t(5) by (intro scan_token_ext) simp_all
      from lexemes_token [OF False this]
      have "lexemes (a @ b) = cons_val (take n (c # cs)) (lexemes (drop n (c # cs) @ b))"
        using t(3) take_append_le [of n "c # cs" b] drop_append [of n "c # cs" b] Cons by simp
      moreover have "lexemes (drop n (c # cs) @ b) = app_vals us (lexemes b)"
        using "1.IH" Cons t(2,4,5) "1.prems"(2,3) by simp
      ultimately show ?thesis using t(5) by simp
    qed
  qed
qed

text \<open>No token ends in white space, so trailing white space may go.\<close>

lemma scan_token_last:
  assumes ns: "\<not> byte_space c" and st: "scan_token c cs = Inr (n, l)"
  shows "\<not> byte_space (last (take n (c # cs)))"
proof (cases c rule: byte_cases)
  case string
  with st have "last (take n (c # cs)) = sq"
    by (auto simp: scan_token_string split: if_splits)
  then show ?thesis by (simp add: byte_space_def ascii_space_def)
next
  case ident
  let ?w = "takeWhile (\<lambda>x. x \<noteq> c) cs"
  have k: "length ?w < length cs" using st ident scan_token_ident_open [of c cs] by fastforce
  then have n: "n = length ?w + 2" using st ident scan_token_ident [of c cs] by auto
  have "take n (c # cs) = c # take (Suc (length ?w)) cs" using n by simp
  also have "take (Suc (length ?w)) cs = take (length ?w) cs @ [cs ! length ?w]"
    using k by (rule take_Suc_conv_app_nth)
  finally have "last (take n (c # cs)) = cs ! length ?w" by simp
  also have "\<dots> = c" using nth_length_takeWhile [OF k] by simp
  finally show ?thesis using ns by simp
next
  case punct
  with st have "n = 1" by (simp add: scan_token_punct)
  then show ?thesis using ns by simp
next
  case word
  have nc: "\<not> comment_at c cs" using st scan_token_comment [of c cs] by auto
  have "take n (c # cs) = takeWhile word_char (c # cs)"
    using st takeWhile_eq_take [of word_char "c # cs"] unfolding scan_token_word [OF word nc] by auto
  moreover have "last (takeWhile word_char (c # cs)) \<in> set (takeWhile word_char (c # cs))"
    using word by (intro last_in_set) simp
  ultimately show ?thesis by (auto dest: set_takeWhileD simp: word_char_def)
qed (use ns in simp)

lemma last_take_append:
  "length a < n \<Longrightarrow> n \<le> length (a @ y) \<Longrightarrow> last (take n (a @ y)) \<in> set y"
proof -
  assume n: "length a < n" "n \<le> length (a @ y)"
  then have "take (n - length a) y \<noteq> []" by auto
  then have "last (take n (a @ y)) = last (take (n - length a) y)" using n by simp
  with \<open>take (n - length a) y \<noteq> []\<close> show ?thesis using last_in_set in_set_takeD by metis
qed

lemma lexemes_trail:
  "lexemes (s @ y) = Inr vs \<Longrightarrow> list_all byte_space y \<Longrightarrow> lexemes s = Inr vs"
proof (induction s arbitrary: vs rule: length_induct)
  case (1 s)
  show ?case
  proof (cases s)
    case Nil
    with 1 lexemes_spaces [of y "[]"] show ?thesis by simp
  next
    case (Cons c cs)
    show ?thesis
    proof (cases "byte_space c")
      case True
      with 1 Cons show ?thesis by simp
    next
      case False
      obtain n l us where t: "scan_token c (cs @ y) = Inr (n, l)" "0 < n" "n \<le> length (c # cs @ y)"
        "lexemes (drop n (c # cs @ y)) = Inr us" "vs = take n (c # cs @ y) # us"
        using lexemes_tokenE [OF "1.prems"(1) [unfolded Cons append_Cons] False] .
      have n: "n \<le> length (c # cs)"
      proof (rule ccontr)
        assume "\<not> n \<le> length (c # cs)"
        with t(3) last_take_append [of "c # cs" n y] have "last (take n (c # cs @ y)) \<in> set y" by simp
        with "1.prems"(2) scan_token_last [OF False t(1)] show False by (auto simp: list_all_iff)
      qed
      have st: "scan_token c cs = Inr (n, l)" using False t(1) n by (rule scan_token_trunc)
      have "lexemes (drop n (c # cs) @ y) = Inr us"
        using t(4) n drop_append [of n "c # cs" y] by simp
      then have "lexemes (drop n (c # cs)) = Inr us" using "1.IH" Cons t(2) "1.prems"(2) by simp
      then show ?thesis
        using lexemes_token [OF False st] t(5) n take_append_le [of n "c # cs" y] Cons by simp
    qed
  qed
qed

lemma dropWhile_split: "\<exists>x. s = x @ dropWhile p s \<and> list_all p x"
  by (metis list_all_iff set_takeWhileD takeWhile_dropWhile_id)

lemma trim_with_split: "\<exists>x y. s = x @ trim_with p s @ y \<and> list_all p x \<and> list_all p y"
proof -
  let ?d = "dropWhile p s"
  obtain x where x: "s = x @ ?d" "list_all p x" using dropWhile_split by blast
  obtain y where y: "rev ?d = y @ dropWhile p (rev ?d)" "list_all p y" using dropWhile_split by blast
  from y(1) have "?d = trim_with p s @ rev y" unfolding trim_with_def by (metis rev_append rev_rev_ident)
  with x y(2) show ?thesis by (metis list_all_rev)
qed

lemma lexemes_trim: "lexemes s = Inr vs \<Longrightarrow> lexemes (trim_space s) = Inr vs"
proof -
  assume s: "lexemes s = Inr vs"
  obtain x y where xy: "s = x @ trim_space s @ y" "list_all ascii_space x" "list_all ascii_space y"
    unfolding trim_space_def using trim_with_split by blast
  then have "list_all byte_space x" "list_all byte_space y" by (auto simp: list_all_iff byte_space_def)
  then show ?thesis using s lexemes_spaces [of x "trim_space s @ y"] lexemes_trail xy(1) by metis
qed

section \<open>Quoting\<close>

lemma scan_string_quoted:
  "b = [] \<or> hd b \<noteq> sq \<Longrightarrow>
   scan_string (replace_char sq [sq, sq] v @ sq # b) = length (replace_char sq [sq, sq] v) + 1"
proof (induction v)
  case Nil
  then show ?case by (cases b) auto
next
  case (Cons x v)
  then show ?case
    by (cases "replace_char sq [sq, sq] v @ sq # b") (auto simp: replace_char_Cons)
qed

lemma closed_rest_quoted: "closed_rest (replace_char sq [sq, sq] v @ [sq])"
proof (induction v)
  case (Cons x v)
  then show ?case
    by (cases "replace_char sq [sq, sq] v @ [sq]") (auto simp: replace_char_Cons)
qed simp

lemma lit_closed_quoteLiteral [simp]: "lit_closed (quoteLiteral v)"
  by (simp add: lit_closed_def quoteLiteral_def closed_rest_quoted)

text \<open>A quoted value is read back as one token, whatever bytes the value has.\<close>

lemma lexemes_quoteLiteral:
  assumes "stops b"
  shows "lexemes (quoteLiteral v @ b) = cons_val (quoteLiteral v) (lexemes b)"
proof -
  let ?r = "replace_char sq [sq, sq] v"
  have k: "scan_string (?r @ sq # b) = length ?r + 1" using assms by (intro scan_string_quoted) (auto simp: stops_def)
  have t: "take (1 + (length ?r + 1)) (sq # ?r @ sq # b) = sq # ?r @ [sq]" by simp
  have "scan_token sq (?r @ sq # b) = Inr (length ?r + 2, sq # ?r @ [sq])"
    unfolding scan_token_string k t by simp
  then have "lexemes (sq # ?r @ sq # b) = cons_val (take (length ?r + 2) (sq # ?r @ sq # b))
      (lexemes (drop (length ?r + 2) (sq # ?r @ sq # b)))"
    by (rule lexemes_token [rotated]) (simp add: byte_space_def ascii_space_def)
  then show ?thesis by (simp add: quoteLiteral_def)
qed

text \<open>
  A doubled quote inside a quoted identifier ends one token for the lexer and starts the next:
  the identifier is read as one token per part between its quotes.
\<close>

definition ident_pieces :: "string \<Rightarrow> string list" where
  "ident_pieces v = map (\<lambda>p. [dq] @ p @ [dq]) (split_on dq v)"

lemma split_on_not_Nil [simp]: "split_on c s \<noteq> []"
  by (induction s) (auto split: list.splits)

lemma split_on_no_sep: "c \<notin> set s \<Longrightarrow> split_on c s = [s]"
  by (induction s) auto

lemma split_on_first: "c \<notin> set a \<Longrightarrow> split_on c (a @ c # s) = a # split_on c s"
  by (induction a) auto

lemma lexemes_ident_piece:
  assumes "dq \<notin> set p"
  shows "lexemes (dq # p @ dq # b) = cons_val ([dq] @ p @ [dq]) (lexemes b)"
proof -
  have tw: "takeWhile (\<lambda>x. x \<noteq> dq) (p @ dq # b) = p" using assms by (subst takeWhile_append2) auto
  have "scan_token dq (p @ dq # b)
      = Inr (length p + 2, to_lower (trim_cutset [dq, bq] (take (length p + 2) (dq # p @ dq # b))))"
    using scan_token_ident [of dq "p @ dq # b"] unfolding tw by simp
  then have "lexemes (dq # p @ dq # b) = cons_val (take (length p + 2) (dq # p @ dq # b))
      (lexemes (drop (length p + 2) (dq # p @ dq # b)))"
    by (rule lexemes_token [rotated]) (simp add: byte_space_def ascii_space_def)
  then show ?thesis by simp
qed

lemma lexemes_quoteIdentifier: "lexemes (quoteIdentifier v @ b) = app_vals (ident_pieces v) (lexemes b)"
proof (induction v rule: length_induct)
  case (1 v)
  show ?case
  proof (cases "dq \<in> set v")
    case False
    then show ?thesis
      using lexemes_ident_piece [OF False, of b]
      by (simp add: quoteIdentifier_def replace_char_id ident_pieces_def split_on_no_sep app_vals_def cons_val_def
          split: sum.splits)
  next
    case True
    then obtain a v' where v: "v = a @ dq # v'" "dq \<notin> set a" by (metis split_list_first)
    have "quoteIdentifier v @ b = dq # a @ dq # (quoteIdentifier v' @ b)"
      using v by (simp add: quoteIdentifier_def replace_char_id replace_char_Cons)
    moreover have "lexemes (quoteIdentifier v' @ b) = app_vals (ident_pieces v') (lexemes b)"
      using 1 v by simp
    ultimately show ?thesis
      using v lexemes_ident_piece [OF v(2)]
      by (simp add: ident_pieces_def split_on_first)
  qed
qed

lemma lexemes_word:
  assumes "w \<noteq> []" and "list_all word_char w" and "\<not> comment_at (hd w) (tl w)" and "b = [] \<or> \<not> word_char (hd b)"
    and "tl w = [] \<longrightarrow> \<not> comment_at (hd w) b"
  shows "lexemes (w @ b) = cons_val w (lexemes b)"
proof -
  obtain c cs where w: "w = c # cs" using assms(1) by (cases w) auto
  have tw: "takeWhile word_char (c # cs @ b) = w"
    using assms(2,4) w takeWhile_append2 [of w word_char b] by (cases b) (auto simp: list_all_iff)
  have "\<not> comment_at c (cs @ b)" using assms(3,5) w by (cases cs) (auto simp: comment_at_def)
  then have "scan_token c (cs @ b) = Inr (length w, to_lower (take (length w) (c # cs @ b)))"
    using assms(2) w scan_token_word [of c "cs @ b"] unfolding tw by simp
  from lexemes_token [OF _ this] show ?thesis using assms(2) w by (simp add: word_char_def)
qed

lemma lexemes_punct: "punct c \<Longrightarrow> lexemes (c # b) = cons_val [c] (lexemes b)"
  using lexemes_token [of c b 1 "[c]"]
  by (auto simp: scan_token_punct punct_def byte_space_def ascii_space_def)

end
