(* ===== verification/Sandbox_Facts.thy ===== *)
theory Sandbox_Facts
  imports Sandbox_Lexing
begin

text \<open>
  What a statement admitted by the sandbox satisfies: the token checks, the allowlist, the row
  limit, and the tenant predicate read back from the rewritten text.
\<close>

section \<open>Token order and token keys\<close>

fun ordered :: "nat \<Rightarrow> nat \<Rightarrow> token list \<Rightarrow> bool" where
  "ordered i e [] = (i \<le> e)"
| "ordered i e (t # ts) = (i \<le> tok_start t \<and> tok_start t < tok_end t \<and> ordered (tok_end t) e ts)"

lemma covers_ordered: "covers i s ts \<Longrightarrow> ordered i (i + length s) ts"
proof (induction i s ts rule: covers.induct)
  case (2 i s t ts)
  let ?k = "tok_start t - i" and ?n = "tok_end t - tok_start t"
  have c: "i \<le> tok_start t" "0 < ?n" "?k + ?n \<le> length s" "covers (tok_end t) (drop (?k + ?n) s) ts"
    using "2.prems" by (auto simp: Let_def)
  then have "ordered (tok_end t) (tok_end t + length (drop (?k + ?n) s)) ts"
    using "2.IH" by auto
  moreover have e: "tok_end t + length (drop (?k + ?n) s) = i + length s" using c by simp
  ultimately have "ordered (tok_end t) (i + length s) ts" unfolding e by simp
  then show ?case using c by simp
qed simp

lemma lex_ordered: "lex s = Inr ts \<Longrightarrow> ordered 0 (length s) ts"
  using covers_ordered [OF lex_from_covers] by (fastforce simp: lex_def)

lemma ordered_le: "ordered i e ts \<Longrightarrow> i \<le> e"
  by (induction i e ts rule: ordered.induct) auto

lemma ordered_append: "ordered i e (xs @ ys) \<Longrightarrow> \<exists>m. ordered i m xs \<and> ordered m e ys"
  by (induction xs arbitrary: i) (auto intro: exI [of _ i])

lemma ordered_bounds: "ordered i e ts \<Longrightarrow> t \<in> set ts \<Longrightarrow> i \<le> tok_start t \<and> tok_end t \<le> e"
  by (induction i e ts rule: ordered.induct) (auto dest: ordered_le)

lemma ordered_split_at:
  assumes "ordered i e (xs @ t # ys)"
  shows "\<forall>u\<in>set xs. tok_end u \<le> tok_start t" and "\<forall>u\<in>set (t # ys). tok_start t \<le> tok_start u"
    and "\<forall>u\<in>set (xs @ [t]). tok_end u \<le> tok_end t" and "\<forall>u\<in>set ys. tok_end t \<le> tok_start u"
    and "i \<le> tok_start t" and "tok_start t \<le> tok_end t" and "tok_end t \<le> e"
proof -
  obtain m where m: "ordered i m xs" "ordered m e (t # ys)" using ordered_append [OF assms] by blast
  then have t: "m \<le> tok_start t" "tok_start t < tok_end t" "ordered (tok_end t) e ys" by simp_all
  have x: "u \<in> set xs \<Longrightarrow> tok_end u \<le> m" for u using ordered_bounds [OF m(1)] by blast
  have y: "u \<in> set ys \<Longrightarrow> tok_end t \<le> tok_start u" for u using ordered_bounds [OF t(3)] by blast
  show "\<forall>u\<in>set xs. tok_end u \<le> tok_start t" using x t(1) by fastforce
  show "\<forall>u\<in>set (t # ys). tok_start t \<le> tok_start u" using y t(2) by fastforce
  show "\<forall>u\<in>set (xs @ [t]). tok_end u \<le> tok_end t" using x t(1,2) by fastforce
  show "\<forall>u\<in>set ys. tok_end t \<le> tok_start u" using y by blast
  show "i \<le> tok_start t" using ordered_le [OF m(1)] t(1) by simp
  show "tok_start t \<le> tok_end t" using t(2) by simp
  show "tok_end t \<le> e" using ordered_le [OF t(3)] .
qed

text \<open>The lower-case form the checks compare is a function of the token's text.\<close>

definition word_key :: "string \<Rightarrow> string" where
  "word_key v =
     (if v = [] \<or> hd v = sq then v
      else if hd v = dq \<or> hd v = bq then to_lower (trim_cutset [dq, bq] v) else to_lower v)"

lemma to_lower_punct: "punct c \<Longrightarrow> to_lower [c] = [c]"
  unfolding punct_def to_lower_def by (elim disjE) simp_all

lemma scan_token_key:
  assumes ns: "\<not> byte_space c" and st: "scan_token c cs = Inr (n, l)"
  shows "l = word_key (take n (c # cs))"
proof -
  define v where "v = take n (c # cs)"
  have v: "hd v = c" "v \<noteq> []" using scan_token_bounds [OF ns st] by (cases n; simp add: v_def)+
  have "l = word_key v"
  proof (cases c rule: byte_cases)
    case string
    then have "l = v" using st unfolding v_def by (auto simp: scan_token_string split: if_splits)
    with v string show ?thesis by (simp add: word_key_def)
  next
    case ident
    have "l = to_lower (trim_cutset [dq, bq] v)"
    proof (cases "length (takeWhile (\<lambda>x. x \<noteq> c) cs) < length cs")
      case True
      with st show ?thesis unfolding scan_token_ident [OF ident True] v_def by auto
    qed (use st ident scan_token_ident_open [OF ident, of cs] in simp)
    with v ident show ?thesis by (auto simp: word_key_def)
  next
    case punct
    then have "c \<noteq> sq \<and> c \<noteq> dq \<and> c \<noteq> bq" by (auto simp: punct_def)
    moreover have "l = [c]" "v = [c]" using st scan_token_punct [OF punct, of cs] by (auto simp: v_def)
    ultimately show ?thesis using to_lower_punct [OF punct] by (simp add: word_key_def)
  next
    case word
    have nc: "\<not> comment_at c cs" using st scan_token_comment [of c cs] by auto
    have "l = to_lower v" using st unfolding scan_token_word [OF word nc] v_def by auto
    with word v show ?thesis by (simp add: word_key_def word_char_def)
  qed (use ns in simp)
  then show ?thesis unfolding v_def .
qed

lemma lex_from_key: "lex_from i s = Inr ts \<Longrightarrow> t \<in> set ts \<Longrightarrow> tok_lower t = word_key (tok_value t)"
proof (induction i s arbitrary: ts rule: lex_from.induct)
  case (2 i c cs)
  show ?case
  proof (cases "byte_space c")
    case True
    with 2 show ?thesis by (simp add: lex_space)
  next
    case False
    with "2.prems"(1) obtain n l us where nl: "scan_token c cs = Inr (n, l)"
      "lex_from (i + n) (drop n (c # cs)) = Inr us" "ts = mk_tok i n (take n (c # cs)) l # us"
      by (rule lex_tokenE)
    with "2.IH"(2) [OF False nl(1) refl nl(2)] "2.prems"(2) scan_token_key [OF False nl(1)]
    show ?thesis by auto
  qed
qed simp

lemma lex_key: "lex s = Inr ts \<Longrightarrow> t \<in> set ts \<Longrightarrow> tok_lower t = word_key (tok_value t)"
  unfolding lex_def by (rule lex_from_key)

section \<open>Parentheses\<close>

definition val_delta :: "string \<Rightarrow> int" where
  "val_delta v = (if v = ''('' then 1 else if v = '')'' then -1 else 0)"

definition val_depth :: "string list \<Rightarrow> int" where
  "val_depth vs = sum_list (map val_delta vs)"

fun balanced :: "int \<Rightarrow> string list \<Rightarrow> bool" where
  "balanced d [] = (d = 0)"
| "balanced d (v # vs) = (0 \<le> d + val_delta v \<and> balanced (d + val_delta v) vs)"

lemma val_depth_simps [simp]: "val_depth [] = 0" "val_depth (v # vs) = val_delta v + val_depth vs"
  "val_depth (us @ vs) = val_depth us + val_depth vs"
  by (simp_all add: val_depth_def)

lemma paren_delta_val: "paren_delta t = val_delta (tok_value t)"
  by (simp add: paren_delta_def val_delta_def)

lemma balanced_suffix: "balanced d (xs @ ys) \<Longrightarrow> balanced (d + val_depth xs) ys"
proof (induction xs arbitrary: d)
  case (Cons x xs)
  then have "balanced (d + val_delta x + val_depth xs) ys" by simp
  then show ?case by (simp add: add.assoc)
qed simp

lemma balanced_prefix: "balanced d (xs @ ys) \<Longrightarrow> d + val_depth xs = 0 \<Longrightarrow> balanced d xs"
  by (induction xs arbitrary: d) (auto simp: add.assoc)

lemma val_delta_key: "word_key v \<noteq> ''('' \<Longrightarrow> word_key v \<noteq> '')'' \<Longrightarrow> val_delta v = 0"
  by (auto simp: val_delta_def word_key_def to_lower_def)

section \<open>The token checks\<close>

lemma check_tokens_None:
  "check_tokens d ts = None \<Longrightarrow>
   balanced d (map tok_value ts)
   \<and> (\<forall>t\<in>set ts. tok_value t \<noteq> '';'' \<and> tok_lower t \<notin> set forbidden_words \<and> tok_lower t \<noteq> ''for'')"
  by (induction d ts rule: check_tokens.induct)
     (auto simp: Let_def paren_delta_val not_less split: if_splits)

lemma check_tokens_select:
  "check_tokens d (xs @ t # ys) = None \<Longrightarrow> tok_lower t = ''select'' \<Longrightarrow>
   d + val_depth (map tok_value (xs @ [t])) = 0"
proof (induction xs arbitrary: d)
  case Nil
  then show ?case by (auto simp: Let_def paren_delta_val split: if_splits)
next
  case (Cons x xs)
  then have "check_tokens (d + val_delta (tok_value x)) (xs @ t # ys) = None"
    by (auto simp: Let_def paren_delta_val split: if_splits)
  from Cons.IH [OF this Cons.prems(2)] show ?case by simp
qed

lemma find_None_all: "find P xs = None \<Longrightarrow> \<forall>x\<in>set xs. \<not> P x"
  by (induction xs) (auto split: if_splits)

lemma enforceAllowlist_None:
  "enforceAllowlist tables allowed = None \<Longrightarrow> \<forall>t\<in>set tables. table_allowed allowed t"
  by (auto simp: enforceAllowlist_def dest: find_None_all split: if_splits option.splits)

lemma extractTables_Inr: "extractTables ts = Inr (tabs, als) \<Longrightarrow> tabs \<noteq> [] \<and> length als = length tabs"
  by (auto simp: extractTables_def split: sum.splits if_splits)

lemma allowedE:
  assumes "Allowed (ValidatePolicy sql pol)"
  obtains ts als rewritten where "lex (normalise sql) = Inr ts" and "ts \<noteq> []"
    and "tok_lower (hd ts) = ''select''" and "check_tokens 0 ts = None"
    and "extractTables ts = Inr (Tables (ValidatePolicy sql pol), als)"
    and "enforceAllowlist (Tables (ValidatePolicy sql pol)) (AllowedTables pol) = None"
    and "apply_tenant pol (normalise sql) ts (Tables (ValidatePolicy sql pol)) als = Inr rewritten"
    and "apply_limit ts rewritten = Inr (Sanitized (ValidatePolicy sql pol))"
    and "Reason (ValidatePolicy sql pol) = []"
  using assms
  by (auto simp: ValidatePolicy_def Let_def reject_def split: if_splits sum.splits option.splits prod.splits)

section \<open>The tenant predicate\<close>

text \<open>No keyword of a set \<open>P\<close> among the lexemes, at the level of the statement itself.\<close>

fun top_free :: "(string \<Rightarrow> bool) \<Rightarrow> int \<Rightarrow> string list \<Rightarrow> bool" where
  "top_free P d [] = True"
| "top_free P d (v # vs) = ((d + val_delta v = 0 \<longrightarrow> \<not> P (word_key v)) \<and> top_free P (d + val_delta v) vs)"

lemma top_free_append [simp]: "top_free P d (xs @ ys) = (top_free P d xs \<and> top_free P (d + val_depth xs) ys)"
  by (induction xs arbitrary: d) (auto simp: add.assoc)

lemma top_free_or: "top_free P d vs \<Longrightarrow> top_free Q d vs \<Longrightarrow> top_free (\<lambda>k. P k \<or> Q k) d vs"
  by (induction vs arbitrary: d) auto

abbreviation where_word :: "string \<Rightarrow> bool" where
  "where_word k \<equiv> k = ''where''"

text \<open>What the scan found: the first clause word \<open>at\<close> top level, and the last \<^verbatim>\<open>WHERE\<close> before it.\<close>

definition found_where :: "int \<Rightarrow> (nat \<times> nat) option \<Rightarrow> token list \<Rightarrow> (nat \<times> nat) option \<Rightarrow> bool" where
  "found_where d wh A wh' \<longleftrightarrow> wh' = wh \<and> top_free where_word d (map tok_value A)
     \<or> (\<exists>A1 w A2. A = A1 @ w # A2 \<and> tok_lower w = ''where'' \<and> wh' = Some (tok_start w, tok_end w)
          \<and> d + val_depth (map tok_value A1) + val_delta (tok_value w) = 0 \<and> top_free where_word 0 (map tok_value A2))"

lemma found_where_skip:
  assumes "found_where (d + val_delta (tok_value t)) wh A wh'" and "d + val_delta (tok_value t) = 0 \<longrightarrow> \<not> where_word (word_key (tok_value t))"
  shows "found_where d wh (t # A) wh'"
  using assms(1) unfolding found_where_def
proof (elim disjE exE conjE)
  fix A1 w A2
  assume "A = A1 @ w # A2" "tok_lower w = ''where''" "wh' = Some (tok_start w, tok_end w)" "top_free where_word 0 (map tok_value A2)"
    "d + val_delta (tok_value t) + val_depth (map tok_value A1) + val_delta (tok_value w) = 0"
  then show "wh' = wh \<and> top_free where_word d (map tok_value (t # A)) \<or> (\<exists>A1 w A2. t # A = A1 @ w # A2 \<and> tok_lower w = ''where''
    \<and> wh' = Some (tok_start w, tok_end w) \<and> d + val_depth (map tok_value A1) + val_delta (tok_value w) = 0
    \<and> top_free where_word 0 (map tok_value A2))"
    by (intro disjI2 exI [of _ "t # A1"] exI [of _ w] exI [of _ A2]) simp
qed (use assms(2) in simp)

lemma found_where_here:
  assumes "found_where 0 (Some (tok_start t, tok_end t)) A wh'" and "tok_lower t = ''where''" and "d + val_delta (tok_value t) = 0"
  shows "found_where d wh (t # A) wh'"
  using assms(1) unfolding found_where_def
proof (elim disjE exE conjE)
  assume "wh' = Some (tok_start t, tok_end t)" "top_free where_word 0 (map tok_value A)"
  with assms(2,3) show "wh' = wh \<and> top_free where_word d (map tok_value (t # A)) \<or> (\<exists>A1 w A2. t # A = A1 @ w # A2
    \<and> tok_lower w = ''where'' \<and> wh' = Some (tok_start w, tok_end w)
    \<and> d + val_depth (map tok_value A1) + val_delta (tok_value w) = 0 \<and> top_free where_word 0 (map tok_value A2))"
    by (intro disjI2 exI [of _ "[]"] exI [of _ t] exI [of _ A]) simp
next
  fix A1 w A2
  assume "A = A1 @ w # A2" "tok_lower w = ''where''" "wh' = Some (tok_start w, tok_end w)" "top_free where_word 0 (map tok_value A2)"
    "0 + val_depth (map tok_value A1) + val_delta (tok_value w) = 0"
  with assms(3) show "wh' = wh \<and> top_free where_word d (map tok_value (t # A)) \<or> (\<exists>A1 w A2. t # A = A1 @ w # A2
    \<and> tok_lower w = ''where'' \<and> wh' = Some (tok_start w, tok_end w)
    \<and> d + val_depth (map tok_value A1) + val_delta (tok_value w) = 0 \<and> top_free where_word 0 (map tok_value A2))"
    by (intro disjI2 exI [of _ "t # A1"] exI [of _ w] exI [of _ A2]) simp
qed

lemma scan_clauses_split:
  "scan_clauses d wh e ts = (wh', e') \<Longrightarrow> \<forall>t\<in>set ts. tok_lower t = word_key (tok_value t) \<Longrightarrow>
   \<exists>A B. ts = A @ B \<and> top_free clause_word d (map tok_value A) \<and> found_where d wh A wh'
     \<and> (B = [] \<and> e' = e
        \<or> B \<noteq> [] \<and> e' = tok_start (hd B) \<and> clause_word (tok_lower (hd B))
          \<and> d + val_depth (map tok_value A) + val_delta (tok_value (hd B)) = 0)"
proof (induction d wh e ts rule: scan_clauses.induct)
  case (1 d wh e)
  then show ?case by (auto simp: found_where_def intro!: exI [of _ "[]"])
next
  case (2 d wh e t ts)
  let ?d = "d + val_delta (tok_value t)"
  have key: "tok_lower t = word_key (tok_value t)" "\<forall>t\<in>set ts. tok_lower t = word_key (tok_value t)" using "2.prems"(2) by simp_all
  show ?case
  proof (cases "?d = 0")
    case False
    then have r: "scan_clauses ?d wh e ts = (wh', e')" using "2.prems" by (simp add: paren_delta_val Let_def)
    from "2.IH"(1) [of ?d] False r key(2) obtain A B where AB: "ts = A @ B" "top_free clause_word ?d (map tok_value A)"
      "found_where ?d wh A wh'" "B = [] \<and> e' = e \<or> B \<noteq> [] \<and> e' = tok_start (hd B) \<and> clause_word (tok_lower (hd B))
          \<and> ?d + val_depth (map tok_value A) + val_delta (tok_value (hd B)) = 0" by (auto simp: paren_delta_val)
    with False found_where_skip [OF AB(3)] show ?thesis
      by (intro exI [of _ "t # A"] exI [of _ B]) (auto simp: add.assoc)
  next
    case True
    define w0 where "w0 = (if tok_lower t = ''where'' then Some (tok_start t, tok_end t) else wh)"
    show ?thesis
    proof (cases "clause_word (tok_lower t)")
      case cl: True
      then have nw: "tok_lower t \<noteq> ''where''" by (auto simp: clause_word_def)
      with cl True "2.prems" have "wh' = wh" "e' = tok_start t" by (auto simp: paren_delta_val Let_def)
      with cl True show ?thesis by (intro exI [of _ "[]"] exI [of _ "t # ts"]) (simp add: found_where_def)
    next
      case False
      then have r: "scan_clauses ?d w0 e ts = (wh', e')"
        using "2.prems" True by (simp add: paren_delta_val Let_def w0_def)
      from "2.IH"(2) [of ?d w0] False True r key(2) obtain A B where AB: "ts = A @ B" "top_free clause_word ?d (map tok_value A)"
        "found_where ?d w0 A wh'" "B = [] \<and> e' = e \<or> B \<noteq> [] \<and> e' = tok_start (hd B) \<and> clause_word (tok_lower (hd B))
          \<and> ?d + val_depth (map tok_value A) + val_delta (tok_value (hd B)) = 0" by (auto simp: paren_delta_val w0_def)
      have "found_where d wh (t # A) wh'"
      proof (cases "tok_lower t = ''where''")
        case True
        with AB(3) \<open>?d = 0\<close> show ?thesis using found_where_here [of t A wh' d wh] by (simp add: w0_def)
      next
        case False
        with AB(3) key(1) show ?thesis using found_where_skip [of d t wh A wh'] by (simp add: w0_def)
      qed
      with AB False key(1) show ?thesis by (intro exI [of _ "t # A"] exI [of _ B]) (auto simp: add.assoc)
    qed
  qed
qed

definition predicate_lexemes :: "policy \<Rightarrow> string \<Rightarrow> string list" where
  "predicate_lexemes pol qualifier =
     ident_pieces qualifier @ [''.''] @ ident_pieces (TenantColumn pol) @ [''='', quoteLiteral (TenantValue pol)]"

lemma lexemes_sp [simp]: "lexemes (CHR '' '' # s) = lexemes s"
  by (rule lexemes_space) (simp add: byte_space_def ascii_space_def)

lemma word_space: "\<not> word_char (CHR '' '')" "\<not> word_char CHR ''(''" "\<not> word_char CHR '')''"
  by (simp_all add: word_char_def byte_space_def ascii_space_def punct_def)

lemma lexemes_keyword:
  assumes "w \<in> {''WHERE'', ''AND'', ''LIMIT'', ''='', ''10000''}" and "b = [] \<or> hd b = CHR '' ''"
  shows "lexemes (w @ b) = cons_val w (lexemes b)"
proof (rule lexemes_word)
  show "list_all word_char w" "w \<noteq> []" using assms(1)
    by (auto simp: word_char_def byte_space_def ascii_space_def punct_def)
  show "\<not> comment_at (hd w) (tl w)" "tl w = [] \<longrightarrow> \<not> comment_at (hd w) b"
    using assms(1) by (auto simp: comment_at_def)
  show "b = [] \<or> \<not> word_char (hd b)" using assms(2) word_space by auto
qed

lemmas keyword_lexemes =
  lexemes_keyword [of "''WHERE''", simplified] lexemes_keyword [of "''AND''", simplified]
  lexemes_keyword [of "''LIMIT''", simplified] lexemes_keyword [of "''=''", simplified]
  lexemes_keyword [of "''10000''", simplified]

lemma paren_lexemes [simp]:
  "lexemes (CHR ''('' # b) = cons_val ''('' (lexemes b)" "lexemes (CHR '')'' # b) = cons_val '')'' (lexemes b)"
  "lexemes (CHR ''.'' # b) = cons_val ''.'' (lexemes b)"
  by (rule lexemes_punct; simp add: punct_def)+

lemma stops_paren [simp]: "stops (CHR '')'' # b)"
  by (simp add: stops_def word_space)

lemma cons_app [simp]: "cons_val v r = app_vals [v] r"
  by (simp add: cons_val_def app_vals_def split: sum.splits)

lemma app_app [simp]: "app_vals us (app_vals vs r) = app_vals (us @ vs) r"
  by (simp add: app_vals_def split: sum.splits)

lemma lexemes_tenant_predicate:
  assumes "stops b"
  shows "lexemes (tenant_predicate pol t a @ b)
    = app_vals (predicate_lexemes pol (if a = [] then after_last (CHR ''.'') t else a)) (lexemes b)"
  using lexemes_quoteLiteral [OF assms]
  by (simp add: tenant_predicate_def Let_def lexemes_quoteIdentifier keyword_lexemes predicate_lexemes_def)

lemma lex_split_lexemes:
  assumes "lex s = Inr (ts1 @ ts2)" and "e \<le> length s"
    and "\<forall>t\<in>set ts1. tok_end t \<le> e" and "\<forall>t\<in>set ts2. e \<le> tok_start t"
  shows "lexemes (take e s) = Inr (map tok_value ts1)" and "lexemes (drop e s) = Inr (map tok_value ts2)"
    and "lex (take e s) = Inr ts1"
proof -
  have "lex_from 0 (take e s) = Inr ts1 \<and> lex_from e (drop e s) = Inr ts2"
    using lex_split [of 0 s ts1 ts2 e] assms by (simp add: lex_def)
  then show "lexemes (take e s) = Inr (map tok_value ts1)" "lexemes (drop e s) = Inr (map tok_value ts2)"
    "lex (take e s) = Inr ts1"
    using vals_lex_from [of 0 "take e s"] vals_lex_from [of e "drop e s"] by (auto simp: lex_def)
qed

text \<open>How the statement \<open>vs\<close> reads once the predicate for \<open>q\<close> is in it, token by token, for a tail of tokens \<open>lim\<close>
  behind it. The trailing clauses \<open>post\<close> start with the first clause word of the top level. The predicate is put in
  front of them: behind a new \<^verbatim>\<open>WHERE\<close> when the statement has none there, or behind the whole condition of the last
  one, in parentheses.\<close>

inductive tenant_form :: "policy \<Rightarrow> string \<Rightarrow> string list \<Rightarrow> string list \<Rightarrow> string list \<Rightarrow> bool"
  for pol :: policy and q :: string and lim :: "string list" where
  fresh: "post = [] \<or> clause_word (word_key (hd post)) \<Longrightarrow> balanced 0 pre \<Longrightarrow>
    top_free (\<lambda>k. where_word k \<or> clause_word k) 0 pre \<Longrightarrow>
    tenant_form pol q lim (pre @ post) (pre @ [''WHERE''] @ predicate_lexemes pol q @ post @ lim)"
| conjoined: "post = [] \<or> clause_word (word_key (hd post)) \<Longrightarrow> balanced 0 pre \<Longrightarrow> balanced 0 cond \<Longrightarrow>
    word_key w = ''where'' \<Longrightarrow> top_free clause_word 0 pre \<Longrightarrow>
    top_free (\<lambda>k. where_word k \<or> clause_word k) 0 cond \<Longrightarrow>
    tenant_form pol q lim (pre @ [w] @ cond @ post)
      (pre @ [w, ''(''] @ cond @ ['')'', ''AND''] @ predicate_lexemes pol q @ post @ lim)"

lemma val_delta_word: "word_key v = ''where'' \<or> clause_word (word_key v) \<Longrightarrow> val_delta v = 0"
  by (rule val_delta_key) (auto simp: clause_word_def)

lemma lexemes_tail:
  assumes "lexemes s = Inr vs" and "list_all lit_closed vs" and "stops b"
  shows "lexemes ((if trim_space s \<noteq> [] then '' '' @ trim_space s else []) @ b) = app_vals vs (lexemes b)"
proof (cases "trim_space s = []")
  case True
  with lexemes_trim [OF assms(1)] show ?thesis by simp
next
  case False
  then show ?thesis using lexemes_append [OF lexemes_trim [OF assms(1)] assms(2,3)] by simp
qed

lemma injectPredicate_form:
  fixes s :: string
  assumes lx: "lex s = Inr ts" and bal: "balanced 0 (map tok_value ts)"
    and cl: "list_all lit_closed (map tok_value ts)" and b: "stops b" "lexemes b = Inr lim"
  shows "\<exists>out. lexemes (injectPredicate s ts (tenant_predicate pol t a) @ b) = Inr out
           \<and> tenant_form pol (if a = [] then after_last (CHR ''.'') t else a) lim (map tok_value ts) out"
proof -
  obtain wh e where sc: "scan_clauses 0 None (length s) ts = (wh, e)" by fastforce
  have key: "u \<in> set ts \<Longrightarrow> tok_lower u = word_key (tok_value u)" for u using lex_key [OF lx] .
  from scan_clauses_split [OF sc] key obtain A B where AB: "ts = A @ B"
    and free: "top_free clause_word 0 (map tok_value A)" and wh: "found_where 0 None A wh"
    and B: "B = [] \<and> e = length s \<or> B \<noteq> [] \<and> e = tok_start (hd B) \<and> clause_word (tok_lower (hd B))
      \<and> val_depth (map tok_value A) + val_delta (tok_value (hd B)) = 0"
    unfolding add_0 by blast
  have ord: "ordered 0 (length s) ts" using lex_ordered [OF lx] .
  have e: "e \<le> length s \<and> (\<forall>u\<in>set A. tok_end u \<le> e) \<and> (\<forall>u\<in>set B. e \<le> tok_start u)"
  proof (cases B)
    case Nil
    with B AB ordered_bounds [OF ord] show ?thesis by auto
  next
    case (Cons u B')
    then have "ordered 0 (length s) (A @ u # B')" using ord AB by simp
    from ordered_split_at [OF this] Cons B show ?thesis by auto
  qed
  note parts = lex_split_lexemes [OF lx [unfolded AB]]
  have A: "lexemes (take e s) = Inr (map tok_value A)" "lex (take e s) = Inr A"
    "lexemes (drop e s) = Inr (map tok_value B)" using parts e by blast+
  have post: "B = [] \<or> clause_word (word_key (tok_value (hd B)))" using B key AB by auto
  have post': "map tok_value B = [] \<or> clause_word (word_key (hd (map tok_value B)))"
    using post by (cases B) auto
  have zero: "val_depth (map tok_value A) = 0"
  proof (cases "B = []")
    case True
    with bal AB balanced_suffix [of 0 "map tok_value A" "[]"] show ?thesis by simp
  next
    case False
    with B post val_delta_word show ?thesis by auto
  qed
  have balA: "balanced 0 (map tok_value A)" using bal AB zero by (auto intro: balanced_prefix)
  define q where "q = (if a = [] then after_last (CHR ''.'') t else a)"
  define P where "P = predicate_lexemes pol q"
  define tail where "tail = (if trim_space (drop e s) \<noteq> [] then '' '' @ trim_space (drop e s) else []) @ b"
  have tl: "lexemes tail = Inr (map tok_value B @ lim)" "stops tail"
    using lexemes_tail [OF A(3) _ b(1)] cl AB b by (simp_all add: tail_def)
  have pt: "lexemes (tenant_predicate pol t a @ tail) = Inr (P @ map tok_value B @ lim)"
    using lexemes_tenant_predicate [OF tl(2)] tl(1) by (simp add: P_def q_def)
  show ?thesis
  proof (cases "wh = None")
    case True
    have i: "injectPredicate s ts (tenant_predicate pol t a) @ b
        = trim_space (take e s) @ '' WHERE'' @ '' '' @ tenant_predicate pol t a @ tail"
      using sc True by (simp add: injectPredicate_def Let_def tail_def)
    have "lexemes (injectPredicate s ts (tenant_predicate pol t a) @ b)
        = Inr (map tok_value A @ [''WHERE''] @ P @ map tok_value B @ lim)"
      unfolding i using lexemes_append [OF lexemes_trim [OF A(1)], of "'' WHERE'' @ '' '' @ tenant_predicate pol t a @ tail"]
        cl AB pt keyword_lexemes(1) [of "'' '' @ tenant_predicate pol t a @ tail"] by simp
    moreover have "top_free where_word 0 (map tok_value A)" using wh True by (auto simp: found_where_def)
    then have "tenant_form pol q lim (map tok_value A @ map tok_value B)
        (map tok_value A @ [''WHERE''] @ P @ map tok_value B @ lim)"
      unfolding P_def using post' balA free by (intro tenant_form.fresh top_free_or)
    ultimately show ?thesis using AB by (auto simp: q_def)
  next
    case False
    with wh obtain A1 w A2 where w: "A = A1 @ w # A2" "tok_lower w = ''where''"
      "wh = Some (tok_start w, tok_end w)" "val_depth (map tok_value A1) + val_delta (tok_value w) = 0"
      and fw: "top_free where_word 0 (map tok_value A2)" by (auto simp: found_where_def)
    have kw: "word_key (tok_value w) = ''where''" using key w AB by simp
    have d: "val_delta (tok_value w) = 0" using kw val_delta_word by blast
    have balA1: "balanced 0 (map tok_value A1)" "balanced 0 (map tok_value A2)"
      using balA w d balanced_prefix [of 0 "map tok_value A1"]
        balanced_suffix [of 0 "map tok_value A1" "tok_value w # map tok_value A2"] by auto
    note ow = ordered_split_at [OF lex_ordered [OF A(2), unfolded w(1)]]
    have "lex (take e s) = Inr ((A1 @ [w]) @ A2)" using A(2) w(1) by simp
    note wp = lex_split_lexemes [OF this, of "tok_end w"]
    have W: "lexemes (take (tok_end w) (take e s)) = Inr (map tok_value (A1 @ [w]))"
      "lexemes (drop (tok_end w) (take e s)) = Inr (map tok_value A2)"
      using wp ow by blast+
    have "tok_end w \<le> e" using ow(7) by simp
    then have tt: "take (tok_end w) (take e s) = take (tok_end w) s" by (simp add: min_def)
    have rest: "lexemes (''AND '' @ tenant_predicate pol t a @ tail) = Inr (''AND'' # P @ map tok_value B @ lim)"
      using pt keyword_lexemes(2) [of "'' '' @ tenant_predicate pol t a @ tail"] by simp
    have mid: "lexemes ('' ('' @ trim_space (drop (tok_end w) (take e s)) @ '') AND '' @ tenant_predicate pol t a @ tail)
        = Inr (''('' # map tok_value A2 @ '')'' # ''AND'' # P @ map tok_value B @ lim)"
      using lexemes_append [OF lexemes_trim [OF W(2)], of "'') AND '' @ tenant_predicate pol t a @ tail"]
        cl AB w(1) rest by simp
    have i: "injectPredicate s ts (tenant_predicate pol t a) @ b
        = trim_space (take (tok_end w) s)
          @ '' ('' @ trim_space (drop (tok_end w) (take e s)) @ '') AND '' @ tenant_predicate pol t a @ tail"
      using sc w(3) by (simp add: injectPredicate_def Let_def tail_def)
    have "lexemes (injectPredicate s ts (tenant_predicate pol t a) @ b)
        = Inr (map tok_value (A1 @ [w]) @ ''('' # map tok_value A2 @ '')'' # ''AND'' # P @ map tok_value B @ lim)"
      unfolding i using lexemes_append [OF lexemes_trim [OF W(1)]] cl AB w(1) mid unfolding tt by simp
    moreover have "top_free clause_word 0 (map tok_value A1)" "top_free clause_word 0 (map tok_value A2)"
      using free w(1,4) by (simp_all add: add.assoc)
    then have "tenant_form pol q lim (map tok_value A1 @ [tok_value w] @ map tok_value A2 @ map tok_value B)
        (map tok_value A1 @ [tok_value w, ''(''] @ map tok_value A2 @ ['')'', ''AND''] @ P @ map tok_value B @ lim)"
      unfolding P_def using post' balA1 kw fw by (intro tenant_form.conjoined top_free_or)
    ultimately show ?thesis using AB w(1) by (auto simp: q_def)
  qed
qed

lemma parseLimit_None: "parseLimit ts = Inr None \<Longrightarrow> \<forall>t\<in>set ts. tok_lower t \<noteq> ''limit''"
  by (induction ts rule: parseLimit.induct) (auto split: if_splits list.splits prod.splits)

lemma parseLimit_Some:
  "parseLimit ts = Inr (Some n) \<Longrightarrow>
   \<exists>A t u B. ts = A @ t # u # B \<and> (\<forall>x\<in>set A. tok_lower x \<noteq> ''limit'') \<and> tok_lower t = ''limit''
     \<and> atoi (tok_value u) = (n, True)"
proof (induction ts rule: parseLimit.induct)
  case (2 t ts)
  show ?case
  proof (cases "tok_lower t = ''limit''")
    case True
    with 2 show ?thesis by (intro exI [of _ "[]"]) (auto split: list.splits prod.splits if_splits)
  next
    case False
    with 2 obtain A x u B where "ts = A @ x # u # B" "\<forall>y\<in>set A. tok_lower y \<noteq> ''limit''"
      "tok_lower x = ''limit''" "atoi (tok_value u) = (n, True)" by auto
    with False show ?thesis by (intro exI [of _ "t # A"] exI [of _ x] exI [of _ u] exI [of _ B]) auto
  qed
qed simp

section \<open>Properties\<close>

definition sample_policy :: policy where
  "sample_policy = \<lparr>AllowedTables = [''public.orders''], TenantColumn = ''tenant_id'', TenantValue = ''t1''\<rparr>"

definition sample_sql :: string where
  "sample_sql = ''SELECT id FROM public.orders o WHERE id > 3 ORDER BY id;''"

text \<open>C5. Every statement the sandbox admits starts with the token \<^verbatim>\<open>SELECT\<close>, has balanced
  parentheses and no nested \<^verbatim>\<open>SELECT\<close>, contains neither a statement separator nor a forbidden or
  locking keyword, and every table it was found to reference is on the allowlist.\<close>

theorem sandbox_admits_only_safe:
  assumes "Allowed (ValidatePolicy sql pol)"
  shows "\<exists>ts. lex (normalise sql) = Inr ts \<and> ts \<noteq> [] \<and> tok_lower (hd ts) = ''select''
    \<and> balanced 0 (map tok_value ts)
    \<and> (\<forall>t\<in>set ts. tok_value t \<noteq> '';'' \<and> tok_lower t \<notin> set forbidden_words \<and> tok_lower t \<noteq> ''for'')
    \<and> (\<forall>xs t ys. ts = xs @ t # ys \<and> tok_lower t = ''select'' \<longrightarrow> val_depth (map tok_value xs) = 0)
    \<and> Tables (ValidatePolicy sql pol) \<noteq> []
    \<and> (\<forall>t\<in>set (Tables (ValidatePolicy sql pol)). table_allowed (AllowedTables pol) t)"
  using assms
proof (rule allowedE)
  fix ts als rewritten
  assume lx: "lex (normalise sql) = Inr ts" "ts \<noteq> []" "tok_lower (hd ts) = ''select''"
    and chk: "check_tokens 0 ts = None"
    and ext: "extractTables ts = Inr (Tables (ValidatePolicy sql pol), als)"
    and allow: "enforceAllowlist (Tables (ValidatePolicy sql pol)) (AllowedTables pol) = None"
  have "val_depth (map tok_value xs) = 0" if "ts = xs @ t # ys" "tok_lower t = ''select''" for xs t ys
  proof -
    have "word_key (tok_value t) = ''select''" using lex_key [OF lx(1), of t] that by simp
    then have "val_delta (tok_value t) = 0" by (intro val_delta_key) simp_all
    with check_tokens_select [OF chk [unfolded that(1)] that(2)] show ?thesis by simp
  qed
  with lx check_tokens_None [OF chk] extractTables_Inr [OF ext] enforceAllowlist_None [OF allow]
  show ?thesis by blast
qed

lemma sample_allowed: "Allowed (ValidatePolicy sample_sql sample_policy)"
  unfolding sample_sql_def sample_policy_def by code_simp

lemma sandbox_admits_only_safe_witness:
  "\<exists>ts. lex (normalise sample_sql) = Inr ts \<and> ts \<noteq> [] \<and> balanced 0 (map tok_value ts)"
  using sandbox_admits_only_safe [OF sample_allowed] by blast

lemma appended_limit:
  assumes "apply_limit ts rewritten = Inr y" and "\<forall>t\<in>set ts. tok_lower t = word_key (tok_value t)"
  shows "y = rewritten @ (if \<exists>v\<in>set (map tok_value ts). word_key v = ''limit'' then [] else '' LIMIT 10000'')"
proof -
  have L: "itoa DefaultRowLimit = ''10000''" by code_simp
  consider "parseLimit ts = Inr None" "y = rewritten @ '' LIMIT 10000''" | n where "parseLimit ts = Inr (Some n)" "y = rewritten"
    using assms(1) by (auto simp: apply_limit_def L split: sum.splits option.splits if_splits)
  then show ?thesis
  proof cases
    case 1
    with parseLimit_None [of ts] assms(2) show ?thesis by auto
  next
    case 2
    from parseLimit_Some [OF 2(1)] assms(2) have "\<exists>t\<in>set ts. word_key (tok_value t) = ''limit''" by fastforce
    with 2(2) show ?thesis by auto
  qed
qed

text \<open>C4. Under a tenant policy, for a statement whose string literals are closed: the rewritten statement, read back
  by the lexer, is the original token sequence with the predicate \<^verbatim>\<open>qualifier.column = 'tenant'\<close>, for the alias or the
  name of its one table, conjoined to the condition of the statement: as a new \<^verbatim>\<open>WHERE\<close> in front of the trailing
  clauses where the statement has none, behind the whole old condition in parentheses where it has one. The tenant
  value is one literal token, and \<^verbatim>\<open>LIMIT 10000\<close> follows just when the statement has no limit.\<close>

theorem tenant_predicate_enforced:
  assumes ok: "Allowed (ValidatePolicy sql pol)" and tenant: "TenantColumn pol \<noteq> []"
    and cl: "list_all lit_closed vs" and vs: "lexemes (normalise sql) = Inr vs"
  shows "\<exists>ts table al out. lex (normalise sql) = Inr ts \<and> extractTables ts = Inr ([table], [al])
    \<and> tenant_form pol (if al = [] then after_last (CHR ''.'') table else al)
        (if \<exists>v\<in>set vs. word_key v = ''limit'' then [] else [''LIMIT'', ''10000'']) vs out
    \<and> lexemes (Sanitized (ValidatePolicy sql pol)) = Inr out"
  using ok
proof (rule allowedE)
  let ?s = "normalise sql" and ?r = "ValidatePolicy sql pol"
  let ?lim = "if \<exists>v\<in>set vs. word_key v = ''limit'' then [] else [''LIMIT'', ''10000'']"
  fix ts als rewritten
  assume lx: "lex ?s = Inr ts" and chk: "check_tokens 0 ts = None" and ext: "extractTables ts = Inr (Tables ?r, als)"
    and ten: "apply_tenant pol ?s ts (Tables ?r) als = Inr rewritten"
    and lim: "apply_limit ts rewritten = Inr (Sanitized ?r)"
  have v: "vs = map tok_value ts" using vs lx by (simp add: lexemes_def lex_def)
  have "length (Tables ?r) = 1" using ten tenant by (simp add: apply_tenant_def split: if_splits)
  with extractTables_Inr [OF ext] obtain t a where ta: "Tables ?r = [t]" "als = [a]"
    by (auto simp: length_Suc_conv)
  have rw: "rewritten = injectPredicate ?s ts (tenant_predicate pol t a)"
    using ten tenant ta by (simp add: apply_tenant_def split: if_splits)
  define b where "b = (if \<exists>v\<in>set vs. word_key v = ''limit'' then [] else '' LIMIT'' @ '' 10000'')"
  have san: "Sanitized ?r = rewritten @ b"
    using appended_limit [OF lim] lex_key [OF lx] by (simp add: v b_def)
  have "lexemes ('' LIMIT'' @ '' 10000'') = Inr [''LIMIT'', ''10000'']"
    using keyword_lexemes(3) [of "'' 10000''"] keyword_lexemes(5) [of "[]"] by simp
  then have b: "stops b" "lexemes b = Inr ?lim" by (simp_all add: b_def)
  from injectPredicate_form [OF lx conjunct1 [OF check_tokens_None [OF chk]] cl [unfolded v] b, of pol t a]
  obtain out where "lexemes (rewritten @ b) = Inr out"
    "tenant_form pol (if a = [] then after_last (CHR ''.'') t else a) ?lim vs out" unfolding rw v by blast
  with lx ext ta san show ?thesis by auto
qed

lemma tenant_predicate_enforced_witness:
  "\<exists>vs out. tenant_form sample_policy ''o'' [''LIMIT'', ''10000''] vs out
    \<and> lexemes (Sanitized (ValidatePolicy sample_sql sample_policy)) = Inr out"
proof -
  let ?vs = "[''SELECT'', ''id'', ''FROM'', ''public'', ''.'', ''orders'', ''o'', ''WHERE'', ''id'', ''>'', ''3'', ''ORDER'', ''BY'', ''id'']"
  have "TenantColumn sample_policy \<noteq> []" by (simp add: sample_policy_def)
  moreover have "list_all lit_closed ?vs" by code_simp
  moreover have "lexemes (normalise sample_sql) = Inr ?vs" unfolding sample_sql_def by code_simp
  ultimately obtain ts table al out where w: "lex (normalise sample_sql) = Inr ts" "extractTables ts = Inr ([table], [al])"
    "tenant_form sample_policy (if al = [] then after_last (CHR ''.'') table else al)
        (if \<exists>v\<in>set ?vs. word_key v = ''limit'' then [] else [''LIMIT'', ''10000'']) ?vs out"
    "lexemes (Sanitized (ValidatePolicy sample_sql sample_policy)) = Inr out"
    using tenant_predicate_enforced [OF sample_allowed] by blast
  have "(case lex (normalise sample_sql) of Inl e \<Rightarrow> Inl e | Inr ts \<Rightarrow> extractTables ts) = Inr ([''public.orders''], [''o''])"
    unfolding sample_sql_def by code_simp
  then have "al = ''o''" using w(1,2) by simp
  moreover have "\<not> (\<exists>v\<in>set ?vs. word_key v = ''limit'')" by code_simp
  ultimately have "tenant_form sample_policy ''o'' [''LIMIT'', ''10000''] ?vs out" using w(3) by simp
  with w(4) show ?thesis by blast
qed

text \<open>C6. The row cap: a statement without a \<^verbatim>\<open>LIMIT\<close> token gets \<^verbatim>\<open>LIMIT 10000\<close> appended, and in any
  other the token behind the first \<^verbatim>\<open>LIMIT\<close> is a decimal number between 0 and 10000.\<close>

theorem row_limit_enforced:
  assumes "Allowed (ValidatePolicy sql pol)"
  shows "\<exists>ts. lex (normalise sql) = Inr ts
    \<and> ((\<exists>rewritten. Sanitized (ValidatePolicy sql pol) = rewritten @ '' LIMIT 10000''
          \<and> (\<forall>t\<in>set ts. tok_lower t \<noteq> ''limit''))
       \<or> (\<exists>A t u B n. ts = A @ t # u # B \<and> (\<forall>x\<in>set A. tok_lower x \<noteq> ''limit'')
            \<and> tok_lower t = ''limit'' \<and> atoi (tok_value u) = (n, True) \<and> 0 \<le> n \<and> n \<le> 10000))"
  using assms
proof (rule allowedE)
  fix ts als rewritten
  assume lx: "lex (normalise sql) = Inr ts"
    and lim: "apply_limit ts rewritten = Inr (Sanitized (ValidatePolicy sql pol))"
  have L: "'' LIMIT '' @ itoa DefaultRowLimit = '' LIMIT 10000''" "DefaultRowLimit = 10000"
    by code_simp+
  show ?thesis
  proof (cases "parseLimit ts")
    case (Inr lm)
    show ?thesis
    proof (cases lm)
      case None
      with lim Inr L have "Sanitized (ValidatePolicy sql pol) = rewritten @ '' LIMIT 10000''"
        by (simp add: apply_limit_def)
      with None Inr parseLimit_None [of ts] lx show ?thesis by blast
    next
      case (Some n)
      with lim Inr have "0 \<le> n" "n \<le> 10000" by (auto simp: apply_limit_def L(2) split: if_splits)
      with parseLimit_Some [of ts n] Inr Some lx show ?thesis by blast
    qed
  qed (use lim in \<open>simp add: apply_limit_def\<close>)
qed

lemma row_limit_enforced_witness:
  "\<exists>ts. lex (normalise sample_sql) = Inr ts \<and> length ts = 14"
proof -
  obtain ts where "lex (normalise sample_sql) = Inr ts"
    using row_limit_enforced [OF sample_allowed] by blast
  moreover have "map_option length (case lex (normalise sample_sql) of Inl e \<Rightarrow> None | Inr us \<Rightarrow> Some us) = Some 14"
    unfolding sample_sql_def by code_simp
  ultimately show ?thesis by simp
qed

text \<open>Every error of the lexer and the extraction has a text.\<close>

lemma scan_token_error: "scan_token c cs = Inl e \<Longrightarrow> error_text e \<noteq> []"
  by (auto simp: scan_token_def Let_def split: if_splits)

lemma lex_from_error: "lex_from i s = Inl e \<Longrightarrow> error_text e \<noteq> []"
proof (induction i s rule: lex_from.induct)
  case (2 i c cs)
  then show ?case
    by (cases "byte_space c")
       (auto simp: lex_space lex_from.simps(2) push_tok_def dest: scan_token_error split: sum.splits prod.splits)
qed simp

lemma take_alias_error: "take_alias ts = Inl e \<Longrightarrow> error_text e \<noteq> []"
  by (auto simp: take_alias_def split: list.splits if_splits)

text \<open>A result whose error, if it is one, has a text; pushed through the constructs of the loop.\<close>

definition speaking :: "goerr + 'a \<Rightarrow> bool" where
  "speaking r \<longleftrightarrow> (\<forall>e. r = Inl e \<longrightarrow> error_text e \<noteq> [])"

lemma speaking_simps [simp]: "speaking (Inr x)" "speaking (Inl e) \<longleftrightarrow> error_text e \<noteq> []"
  by (simp_all add: speaking_def)

lemma speaking_if: "(b \<Longrightarrow> speaking x) \<Longrightarrow> (\<not> b \<Longrightarrow> speaking y) \<Longrightarrow> speaking (if b then x else y)"
  by simp

lemma speaking_sum:
  "(\<And>e. s = Inl e \<Longrightarrow> speaking (f e)) \<Longrightarrow> (\<And>x. s = Inr x \<Longrightarrow> speaking (g x)) \<Longrightarrow> speaking (case_sum f g s)"
  by (cases s) auto

lemma speaking_list:
  "(s = [] \<Longrightarrow> speaking x) \<Longrightarrow> (\<And>y ys. s = y # ys \<Longrightarrow> speaking (g y ys)) \<Longrightarrow> speaking (case_list x g s)"
  by (cases s) auto

lemma speaking_prod: "(\<And>a b. p = (a, b) \<Longrightarrow> speaking (f a b)) \<Longrightarrow> speaking (case_prod f p)"
  by (cases p) auto

lemmas speaking_rules = speaking_if speaking_sum speaking_list speaking_prod

lemma extract_loop_speaks: "speaking (extract_loop ts)"
proof (induction ts rule: length_induct)
  case (1 ts)
  then have IH: "length r \<le> length us \<Longrightarrow> ts = t # us \<Longrightarrow> extract_loop r = Inl e \<Longrightarrow> error_text e \<noteq> []" for r t us e
    unfolding speaking_def by (metis length_Cons less_Suc_eq_le)
  show ?case
  proof (cases ts)
    case (Cons t us)
    have short: "take_parts ys = (ps, r) \<Longrightarrow> take_alias r = Inr (al, r') \<Longrightarrow> length r' \<le> Suc (length ys)" for ys ps r al r'
      by (drule take_parts_length, drule take_alias_length) simp
    show ?thesis
      unfolding Cons extract_loop.simps(2)
      by (intro speaking_rules) (auto simp: take_alias_error speaking_def short dest: IH [OF _ Cons, rotated])
  qed simp
qed

lemma extract_loop_error: "extract_loop ts = Inl e \<Longrightarrow> error_text e \<noteq> []"
  using extract_loop_speaks [of ts] by (simp add: speaking_def)

lemma check_tokens_reason: "check_tokens d ts = Some r \<Longrightarrow> r \<noteq> []"
  by (induction d ts rule: check_tokens.induct) (auto simp: Let_def split: if_splits)

lemma parseLimit_error: "parseLimit ts = Inl e \<Longrightarrow> error_text e \<noteq> []"
  by (induction ts rule: parseLimit.induct) (auto split: if_splits list.splits prod.splits)

lemma injectPredicate_not_Nil: "p \<noteq> [] \<Longrightarrow> injectPredicate s ts p \<noteq> []"
  by (simp add: injectPredicate_def Let_def split: prod.splits option.splits)

lemma apply_tenant_result:
  "apply_tenant pol s ts tabs als = Inl r \<Longrightarrow> r \<noteq> []"
  "apply_tenant pol s ts tabs als = Inr x \<Longrightarrow> s \<noteq> [] \<Longrightarrow> x \<noteq> []"
  by (auto simp: apply_tenant_def tenant_predicate_def Let_def quoteIdentifier_def
      intro!: injectPredicate_not_Nil split: if_splits)

lemma apply_limit_result:
  "apply_limit ts s = Inl r \<Longrightarrow> r \<noteq> []" "apply_limit ts s = Inr x \<Longrightarrow> s \<noteq> [] \<Longrightarrow> x \<noteq> []"
  by (auto simp: apply_limit_def dest: parseLimit_error split: sum.splits option.splits if_splits)

lemma extractTables_error: "extractTables ts = Inl e \<Longrightarrow> error_text e \<noteq> []"
  by (auto simp: extractTables_def dest: extract_loop_error split: sum.splits if_splits)

lemma enforceAllowlist_error: "enforceAllowlist ts al = Some e \<Longrightarrow> error_text e \<noteq> []"
  by (auto simp: enforceAllowlist_def split: option.splits if_splits)

text \<open>The predicate is pushed through the early returns of the validation, one rule per construct.\<close>

definition shaped :: "sandbox_result \<Rightarrow> bool" where
  "shaped r \<longleftrightarrow> (if Allowed r then Reason r = [] \<and> Sanitized r \<noteq> [] \<and> Tables r \<noteq> []
     else Reason r \<noteq> [] \<and> Sanitized r = [] \<and> Tables r = [])"

lemma shaped_reject: "r \<noteq> [] \<Longrightarrow> shaped (reject r)"
  by (simp add: shaped_def reject_def)

lemma shaped_if: "(b \<Longrightarrow> shaped x) \<Longrightarrow> (\<not> b \<Longrightarrow> shaped y) \<Longrightarrow> shaped (if b then x else y)"
  by simp

lemma shaped_sum:
  "(\<And>e. s = Inl e \<Longrightarrow> shaped (f e)) \<Longrightarrow> (\<And>x. s = Inr x \<Longrightarrow> shaped (g x)) \<Longrightarrow> shaped (case_sum f g s)"
  by (cases s) auto

lemma shaped_option:
  "(s = None \<Longrightarrow> shaped x) \<Longrightarrow> (\<And>y. s = Some y \<Longrightarrow> shaped (g y)) \<Longrightarrow> shaped (case_option x g s)"
  by (cases s) auto

lemma shaped_prod: "(\<And>a b. p = (a, b) \<Longrightarrow> shaped (f a b)) \<Longrightarrow> shaped (case_prod f p)"
  by (cases p) auto

lemmas shaped_rules = shaped_if shaped_sum shaped_option shaped_prod shaped_reject

lemma shaped_admission:
  assumes "lex s = Inr ts" and "\<not> (ts = [] \<or> tok_lower (hd ts) \<noteq> ''select'')"
    and "extractTables ts = Inr (tabs, als)" and "apply_tenant pol s ts tabs als = Inr x"
    and "apply_limit ts x = Inr y"
  shows "shaped \<lparr>Allowed = True, Sanitized = y, Reason = [], Tables = tabs\<rparr>"
proof -
  have "s \<noteq> []" using assms(1,2) by (auto simp: lex_def)
  then have "y \<noteq> []" using apply_tenant_result(2) [OF assms(4)] apply_limit_result(2) [OF assms(5)] by blast
  with extractTables_Inr [OF assms(3)] show ?thesis by (simp add: shaped_def)
qed

text \<open>A result is either an admission, with a statement and tables and no reason, or a rejection
  with a reason and nothing else: callers may branch on the flag alone.\<close>

theorem validate_dichotomy:
  "if Allowed (ValidatePolicy sql pol)
   then Reason (ValidatePolicy sql pol) = [] \<and> Sanitized (ValidatePolicy sql pol) \<noteq> []
     \<and> Tables (ValidatePolicy sql pol) \<noteq> []
   else Reason (ValidatePolicy sql pol) \<noteq> [] \<and> Sanitized (ValidatePolicy sql pol) = []
     \<and> Tables (ValidatePolicy sql pol) = []"
proof -
  have lex: "lex s = Inl e \<Longrightarrow> error_text e \<noteq> []" for s e by (simp add: lex_def lex_from_error)
  have "shaped (ValidatePolicy sql pol)"
    unfolding ValidatePolicy_def Let_def
    by (intro shaped_rules)
       (simp_all add: lex extractTables_error enforceAllowlist_error check_tokens_reason
          apply_tenant_result(1) apply_limit_result(1) shaped_admission)
  then show ?thesis unfolding shaped_def .
qed

text \<open>The lexer is lossless: read from the start, the statement consists of white space and of
  the tokens in order, each non-empty, at its recorded offsets and with its text.\<close>

lemma lex_tiles_statement:
  assumes "lex sql = Inr ts"
  shows "covers 0 sql ts"
  using lex_from_covers assms unfolding lex_def by blast

lemma replace_quote_inj: "replace_char sq [sq, sq] v = replace_char sq [sq, sq] v' \<Longrightarrow> v = v'"
proof (induction v arbitrary: v')
  case Nil
  then show ?case by (cases v') (auto simp: replace_char_Cons split: if_splits)
next
  case (Cons x v)
  then show ?case by (cases v') (auto simp: replace_char_Cons split: if_splits)
qed

text \<open>No tenant value can break out of its literal: quoted and followed by any text that starts
  with a space (as every text the sandbox appends does), it is read back as exactly one token, and
  different values give different literals.\<close>

lemma quoteLiteral_safe:
  "lexemes (quoteLiteral v @ '' '' @ b) = app_vals [quoteLiteral v] (lexemes b)
   \<and> inj quoteLiteral"
proof
  show "lexemes (quoteLiteral v @ '' '' @ b) = app_vals [quoteLiteral v] (lexemes b)"
    using lexemes_quoteLiteral [of "'' '' @ b" v] by simp
  show "inj quoteLiteral" by (rule injI) (auto simp: quoteLiteral_def dest: replace_quote_inj)
qed

section \<open>Statements the checks let through\<close>

text \<open>
  Concrete consequences of how the code reads a statement. The lexer looks for a comment only where a
  token starts, so a word may end in \<^verbatim>\<open>--\<close>: everything the sandbox appends, the tenant predicate
  included, is then a comment for the database.
\<close>

lemma comment_inside_word:
  "ValidatePolicy ''SELECT * FROM orders x--''
     \<lparr>AllowedTables = [''orders''], TenantColumn = ''tenant_id'', TenantValue = ''t1''\<rparr>
   = \<lparr>Allowed = True,
      Sanitized = ''SELECT * FROM orders x-- WHERE '' @ quoteIdentifier ''orders'' @ ''.''
        @ quoteIdentifier ''tenant_id'' @ '' = '' @ quoteLiteral ''t1'' @ '' LIMIT 10000'',
      Reason = [], Tables = [''orders'']\<rparr>"
  by code_simp

text \<open>A comma behind a join condition, behind \<^verbatim>\<open>TABLESAMPLE\<close> or a \<^verbatim>\<open>TABLE\<close> command reaches a table that is
  neither extracted nor checked against the allowlist.\<close>

lemma unlisted_tables:
  "Tables (Validate ''SELECT * FROM users u JOIN users v ON u.id = v.id, secrets'' [''users'']) = [''users'', ''users'']"
  "Allowed (Validate ''SELECT * FROM users u JOIN users v ON u.id = v.id, secrets'' [''users''])"
  "Allowed (Validate ''SELECT * FROM users WHERE id IN (TABLE secrets)'' [''users''])"
  by code_simp+

text \<open>Only the token behind \<^verbatim>\<open>LIMIT\<close> is checked, not the whole expression.\<close>

lemma limit_expression:
  "Sanitized (Validate ''SELECT id FROM users LIMIT 1 + 20000'' [''users''])
   = ''SELECT id FROM users LIMIT 1 + 20000''"
  by code_simp

text \<open>A quoted identifier is compared like a keyword.\<close>

lemma quoted_keyword:
  "Reason (Validate (''SELECT '' @ quoteIdentifier ''limit'' @ '' FROM users'') [''users'']) = ''LIMIT must be numeric''"
  by code_simp

text \<open>A single quote at the end of the statement is taken for a closed literal.\<close>

lemma lone_quote: "lexemes [sq] = Inr [[sq]]"
  by code_simp

end
