(* ===== verification/JobStore.thy ===== *)
theory JobStore
  imports Go_Prelude
begin

text \<open>
  The job store of Query Engine (\<^verbatim>\<open>services/query-engine/internal/job/store.go\<close>). A store is either
  an in-memory map (\<open>st_redis = None\<close>) or a Redis key space, with an optional object store for large
  results. Redis and the object store answer according to the fault list of the state, one entry per
  call; \<open>st_now\<close> is what \<^verbatim>\<open>time.Now\<close> returns. A stored payload is represented by the value it
  encodes, or by the text of the decoding error when foreign bytes stand under the key. The length of
  a JSON text is the argument \<open>jlen\<close>. A nil slice of rows is the empty list: no code here tells them
  apart. The mutex makes every access to the map atomic; an operation that reads and later writes is
  given by its two accesses in this order.
\<close>

section \<open>Data\<close>

abbreviation StatusPending :: string where "StatusPending \<equiv> ''pending''"
abbreviation StatusRunning :: string where "StatusRunning \<equiv> ''running''"
abbreviation StatusSuccess :: string where "StatusSuccess \<equiv> ''success''"
abbreviation StatusFailed :: string where "StatusFailed \<equiv> ''failed''"

record job_record =
  job_id :: string
  job_tenant :: string
  job_conn :: string
  job_sql :: string
  job_status :: string
  job_error :: string
  job_rows :: "gomap list"
  job_truncated :: bool
  job_created :: int
  job_updated :: int
  job_ref :: string

record store =
  st_jobs :: "string \<rightharpoonup> job_record"
  st_redis :: "(string \<rightharpoonup> string + job_record) option"
  st_objects :: "(string \<rightharpoonup> string + gomap list) option"
  st_inline :: int
  st_faults :: "fault list"
  st_now :: int

definition empty_job :: job_record where
  "empty_job = \<lparr>job_id = [], job_tenant = [], job_conn = [], job_sql = [], job_status = [],
     job_error = [], job_rows = [], job_truncated = False, job_created = 0, job_updated = 0, job_ref = []\<rparr>"

section \<open>Constructors\<close>

definition NewStore :: "int \<Rightarrow> store" where
  "NewStore now = \<lparr>st_jobs = Map.empty, st_redis = None, st_objects = None, st_inline = 0,
     st_faults = [], st_now = now\<rparr>"

record durable_config =
  RedisMode :: string
  RedisAddr :: string
  RedisAddrs :: "string list"
  RedisUsername :: string
  RedisPassword :: string
  RedisDB :: int
  TTL :: int
  ObjectClient :: "(string \<rightharpoonup> string + gomap list) option"
  ObjectBucket :: string
  InlineMaxBytes :: int

datatype redis_client =
    Standalone string string string int
  | Cluster "string list" string string

definition redis_addrs :: "durable_config \<Rightarrow> string list" where
  "redis_addrs cfg =
     (let addrs = filter (\<lambda>a. a \<noteq> []) (map trim_space (RedisAddrs cfg))
      in if addrs = [] \<and> trim_space (RedisAddr cfg) \<noteq> [] then [trim_space (RedisAddr cfg)] else addrs)"

definition newRedisClient :: "durable_config \<Rightarrow> goerr + redis_client" where
  "newRedisClient cfg =
     (let addrs = redis_addrs cfg; mode = to_lower (trim_space (RedisMode cfg)) in
      if addrs = [] then Inl (Err ''redis address is required'')
      else if mode \<in> {[], ''standalone'', ''single''} then
        (if length addrs \<noteq> 1 then Inl (Err ''standalone redis requires exactly one address'')
         else Inr (Standalone (hd addrs) (RedisUsername cfg) (RedisPassword cfg) (RedisDB cfg)))
      else if mode = ''cluster'' then
        (if RedisDB cfg \<noteq> 0 then Inl (Err ''redis cluster does not support redis_db other than 0'')
         else Inr (Cluster addrs (RedisUsername cfg) (RedisPassword cfg)))
      else Inl (Err (''unsupported redis mode '' @ go_quote (RedisMode cfg)
        @ '' (expected standalone or cluster)'')))"

text \<open>
  The store built over the Redis key space \<open>keys\<close> the client reaches, the answer to the ping being the
  first fault; and the time to live, in nanoseconds, which every write passes to Redis.
\<close>

definition NewDurableStore ::
  "(string \<rightharpoonup> string + job_record) \<Rightarrow> fault list \<Rightarrow> int \<Rightarrow> durable_config \<Rightarrow> goerr + store \<times> int" where
  "NewDurableStore keys faults now cfg =
     (case newRedisClient cfg of
        Inl e \<Rightarrow> Inl e
      | Inr client \<Rightarrow>
          (case next_fault faults of
             (Fails e, _) \<Rightarrow> Inl (wrap ''redis ping'' (Err e))
           | (LostReply e, _) \<Rightarrow> Inl (wrap ''redis ping'' (Err e))
           | (_, fs) \<Rightarrow>
               (if ObjectClient cfg \<noteq> None \<and> ObjectBucket cfg = []
                then Inl (Err ''object bucket is required'')
                else Inr (\<lparr>st_jobs = Map.empty, st_redis = Some keys, st_objects = ObjectClient cfg,
                            st_inline = (if InlineMaxBytes cfg \<le> 0 then 1048576 else InlineMaxBytes cfg),
                            st_faults = fs, st_now = now\<rparr>,
                          if TTL cfg \<le> 0 then 86400000000000 else TTL cfg))))"

section \<open>Redis and object store access\<close>

definition job_key :: "string \<Rightarrow> string" where
  "job_key i = ''n0:job:'' @ i"

definition pop_fault :: "store \<Rightarrow> fault \<times> store" where
  "pop_fault st = (case next_fault (st_faults st) of (f, fs) \<Rightarrow> (f, st\<lparr>st_faults := fs\<rparr>))"

text \<open>The rows of a record as JSON values, for the encoder.\<close>

definition rows_json :: "gomap list \<Rightarrow> jval list" where
  "rows_json rows = map JObj rows"

definition save :: "job_record \<Rightarrow> store \<Rightarrow> goerr option \<times> store" where
  "save r st =
     (case marshal_error (rows_json (job_rows r)) of
        Some e \<Rightarrow> (Some (wrap ''marshal job'' e), st)
      | None \<Rightarrow>
          (let written = map_option (\<lambda>m. m(job_key (job_id r) \<mapsto> Inr r)) (st_redis st) in
           case pop_fault st of
             (Fails e, st') \<Rightarrow> (Some (wrap ''save job'' (Err e)), st')
           | (LostReply e, st') \<Rightarrow> (Some (wrap ''save job'' (Err e)), st'\<lparr>st_redis := written\<rparr>)
           | (_, st') \<Rightarrow> (None, st'\<lparr>st_redis := written\<rparr>)))"

definition load :: "string \<Rightarrow> store \<Rightarrow> (goerr + job_record) \<times> store" where
  "load i st =
     (case pop_fault st of
        (Fails e, st') \<Rightarrow> (Inl (wrap ''load job'' (Err e)), st')
      | (LostReply e, st') \<Rightarrow> (Inl (wrap ''load job'' (Err e)), st')
      | (Missing, st') \<Rightarrow>
          (Inl ErrJobNotFound, st'\<lparr>st_redis := map_option (\<lambda>m. m(job_key i := None)) (st_redis st)\<rparr>)
      | (NoFault, st') \<Rightarrow>
          ((case Option.bind (st_redis st) (\<lambda>m. m (job_key i)) of
              None \<Rightarrow> Inl ErrJobNotFound
            | Some (Inl e) \<Rightarrow> Inl (wrap ''decode job'' (Err e))
            | Some (Inr r) \<Rightarrow> Inr r), st'))"

text \<open>Copying a row map entry by entry gives the same entries.\<close>

definition cloneRows :: "gomap list \<Rightarrow> gomap list" where
  "cloneRows rows = map (\<lambda>row. map (\<lambda>kv. (fst kv, snd kv)) row) rows"

definition cloneRecord :: "job_record \<Rightarrow> job_record" where
  "cloneRecord r = r\<lparr>job_rows := cloneRows (job_rows r)\<rparr>"

section \<open>Operations\<close>

definition CreateContext :: "job_record \<Rightarrow> store \<Rightarrow> (goerr + job_record) \<times> store" where
  "CreateContext r st =
     (let cp = r\<lparr>job_status := StatusPending, job_error := [], job_rows := cloneRows (job_rows r),
                 job_created := st_now st, job_updated := st_now st\<rparr> in
      if st_redis st \<noteq> None then
        (case save cp st of
           (Some e, st') \<Rightarrow> (Inl e, st')
         | (None, st') \<Rightarrow> (Inr (cloneRecord cp), st'))
      else (Inr (cloneRecord cp), st\<lparr>st_jobs := (st_jobs st)(job_id r \<mapsto> cp)\<rparr>))"

text \<open>\<^verbatim>\<open>Create\<close> drops the error: it returns the empty record then.\<close>

definition Create :: "job_record \<Rightarrow> store \<Rightarrow> job_record \<times> store" where
  "Create r st =
     (case CreateContext r st of
        (Inl e, st') \<Rightarrow> (empty_job, st')
      | (Inr c, st') \<Rightarrow> (c, st'))"

definition GetJob :: "string \<Rightarrow> store \<Rightarrow> (goerr + job_record) \<times> store" where
  "GetJob i st =
     (if st_redis st \<noteq> None then load i st
      else (case st_jobs st i of
          None \<Rightarrow> (Inl ErrJobNotFound, st)
        | Some r \<Rightarrow> (Inr (cloneRecord r), st)))"

definition GetForTenant :: "string \<Rightarrow> string \<Rightarrow> store \<Rightarrow> (goerr + job_record) \<times> store" where
  "GetForTenant i tenant st =
     (case GetJob i st of
        (Inl e, st') \<Rightarrow> (Inl ErrJobNotFound, st')
      | (Inr r, st') \<Rightarrow> ((if job_tenant r \<noteq> tenant then Inl ErrJobNotFound else Inr r), st'))"

text \<open>The write at the end of \<^verbatim>\<open>update\<close> and of \<^verbatim>\<open>MarkSucceeded\<close>.\<close>

definition put_job :: "string \<Rightarrow> job_record \<Rightarrow> store \<Rightarrow> goerr option \<times> store" where
  "put_job i r st =
     (if st_redis st \<noteq> None then save r st
      else (None, st\<lparr>st_jobs := (st_jobs st)(i \<mapsto> r)\<rparr>))"

definition update :: "string \<Rightarrow> (job_record \<Rightarrow> job_record) \<Rightarrow> store \<Rightarrow> goerr option \<times> store" where
  "update i mutate st =
     (case GetJob i st of
        (Inl e, st') \<Rightarrow> (Some e, st')
      | (Inr r, st') \<Rightarrow> put_job i ((mutate r)\<lparr>job_updated := st_now st'\<rparr>) st')"

definition MarkRunning :: "string \<Rightarrow> store \<Rightarrow> goerr option \<times> store" where
  "MarkRunning i st = update i (\<lambda>r. r\<lparr>job_status := StatusRunning, job_error := []\<rparr>) st"

definition MarkFailed :: "string \<Rightarrow> string \<Rightarrow> store \<Rightarrow> goerr option \<times> store" where
  "MarkFailed i msg st =
     update i (\<lambda>r. r\<lparr>job_status := StatusFailed, job_error := msg, job_rows := [], job_ref := []\<rparr>) st"

definition result_key :: "string \<Rightarrow> string" where
  "result_key i = ''results/'' @ i @ ''.json''"

definition put_object :: "string \<Rightarrow> gomap list \<Rightarrow> store \<Rightarrow> goerr option \<times> store" where
  "put_object key rows st =
     (let written = map_option (\<lambda>m. m(key \<mapsto> Inr rows)) (st_objects st) in
      case pop_fault st of
        (Fails e, st') \<Rightarrow> (Some (wrap ''store object result'' (Err e)), st')
      | (LostReply e, st') \<Rightarrow> (Some (wrap ''store object result'' (Err e)), st'\<lparr>st_objects := written\<rparr>)
      | (_, st') \<Rightarrow> (None, st'\<lparr>st_objects := written\<rparr>))"

text \<open>The middle part of \<^verbatim>\<open>MarkSucceeded\<close>: where the rows go when the store is durable.\<close>

definition place_rows ::
  "(gomap list \<Rightarrow> int) \<Rightarrow> string \<Rightarrow> gomap list \<Rightarrow> job_record \<Rightarrow> store \<Rightarrow> (goerr + job_record) \<times> store" where
  "place_rows jlen i rows r st =
     (if st_redis st = None then (Inr r, st)
      else (case marshal_error (rows_json rows) of
          Some e \<Rightarrow> (Inl (wrap ''marshal result'' e), st)
        | None \<Rightarrow>
            if jlen rows \<le> st_inline st then (Inr r, st)
            else if st_objects st = None
            then (Inl (Err ''result exceeds inline limit and object storage is unavailable''), st)
            else (case put_object (result_key i) rows st of
                (Some e, st') \<Rightarrow> (Inl e, st')
              | (None, st') \<Rightarrow> (Inr (r\<lparr>job_rows := [], job_ref := result_key i\<rparr>), st'))))"

definition MarkSucceeded ::
  "(gomap list \<Rightarrow> int) \<Rightarrow> string \<Rightarrow> gomap list \<Rightarrow> bool \<Rightarrow> store \<Rightarrow> goerr option \<times> store" where
  "MarkSucceeded jlen i rows truncated st =
     (case GetJob i st of
        (Inl e, st') \<Rightarrow> (Some e, st')
      | (Inr r, st') \<Rightarrow>
          (let r' = r\<lparr>job_status := StatusSuccess, job_error := [], job_truncated := truncated,
                      job_updated := st_now st', job_rows := cloneRows rows\<rparr> in
           case place_rows jlen i rows r' st' of
             (Inl e, st'') \<Rightarrow> (Some e, st'')
           | (Inr r'', st'') \<Rightarrow> put_job i r'' st''))"

section \<open>Result pages\<close>

definition clamp_page :: "32 word \<Rightarrow> 32 word" where
  "clamp_page page = (if sint page \<le> 0 then 1 else page)"

definition clamp_size :: "32 word \<Rightarrow> 32 word" where
  "clamp_size psize =
     (let s = (if sint psize \<le> 0 then 100 else psize) in if sint s > 1000 then 1000 else s)"

text \<open>
  The slice of one page: \<^verbatim>\<open>(page - 1) * pageSize\<close> is computed in int32, and slicing with a negative
  start panics.
\<close>

definition page_slice :: "gomap list \<Rightarrow> 32 word \<Rightarrow> 32 word \<Rightarrow> (gomap list \<times> string) outcome" where
  "page_slice rows page psize =
     (let start = sint ((clamp_page page - 1) * clamp_size psize); n = int (length rows) in
      if start \<ge> n then Returns ([], [])
      else let e = start + sint (clamp_size psize); e' = (if e > n then n else e);
               token = (if e' < n then itoa (sint (clamp_page page + 1)) else [])
        in if start < 0 then Panics
           else Returns (cloneRows (take (nat (e' - start)) (drop (nat start) rows)), token))"

definition get_object :: "string \<Rightarrow> store \<Rightarrow> (goerr + gomap list) \<times> store" where
  "get_object key st =
     (case pop_fault st of
        (Fails e, st') \<Rightarrow> (Inl (wrap ''get object result'' (Err e)), st')
      | (LostReply e, st') \<Rightarrow> (Inl (wrap ''read object result'' (Err e)), st')
      | (f, st') \<Rightarrow>
          ((case Option.bind (st_objects st) (\<lambda>m. if f = Missing then None else m key) of
              None \<Rightarrow> Inl (wrap ''read object result'' (Err ''The specified key does not exist.''))
            | Some (Inl e) \<Rightarrow> Inl (wrap ''decode object result'' (Err e))
            | Some (Inr rows) \<Rightarrow> Inr rows), st'))"

definition GetResultPage ::
  "string \<Rightarrow> 32 word \<Rightarrow> 32 word \<Rightarrow> store \<Rightarrow>
   (goerr + job_record \<times> gomap list \<times> string) outcome \<times> store" where
  "GetResultPage i page psize st =
     (case GetJob i st of
        (Inl e, st') \<Rightarrow> (Returns (Inl e), st')
      | (Inr r, st') \<Rightarrow>
          (let (loaded, st'') =
             (if job_ref r = [] then (Inr r, st')
              else if st_objects st' = None then (Inl (Err ''object result backend unavailable''), st')
              else (case get_object (job_ref r) st' of
                  (Inl e, st'') \<Rightarrow> (Inl e, st'')
                | (Inr rows, st'') \<Rightarrow> (Inr (r\<lparr>job_rows := rows\<rparr>), st'')))
           in case loaded of
                Inl e \<Rightarrow> (Returns (Inl e), st'')
              | Inr r' \<Rightarrow>
                  ((case page_slice (job_rows r') page psize of
                      Panics \<Rightarrow> Panics
                    | Returns (rows, token) \<Rightarrow> Returns (Inr (r', rows, token))), st'')))"

definition GetResultPageForTenant ::
  "string \<Rightarrow> string \<Rightarrow> 32 word \<Rightarrow> 32 word \<Rightarrow> store \<Rightarrow>
   (goerr + job_record \<times> gomap list \<times> string) outcome \<times> store" where
  "GetResultPageForTenant i tenant page psize st =
     (case GetForTenant i tenant st of
        (Inl e, st') \<Rightarrow> (Returns (Inl e), st')
      | (Inr r, st') \<Rightarrow> GetResultPage i page psize st')"

end
