(* ===== verification/Audit_Events.thy ===== *)
theory Audit_Events
  imports Go_Prelude
begin

text \<open>
  The audit event contract (\<^verbatim>\<open>pkg/shared/audit/audit.go\<close>). A publisher is a log of the messages the
  stream accepted, each a subject with the event its payload encodes, and the faults still to come.
  \<^verbatim>\<open>uuid.NewString\<close> and \<^verbatim>\<open>time.Now\<close> give the arguments \<open>fresh\<close> and \<open>now\<close>; the zero time is 0.
\<close>

record event =
  ev_id :: string
  ev_tenant :: string
  ev_actor :: string
  ev_action :: string
  ev_resource_type :: string
  ev_resource :: string
  ev_success :: bool
  ev_error :: string
  ev_metadata :: gomap
  ev_occurred :: int

record publisher =
  pub_log :: "(string \<times> event) list"
  pub_faults :: "fault list"

definition SubjectPrefix :: string where "SubjectPrefix = ''audit.events''"

definition sanitizeSubjectToken :: "string \<Rightarrow> string" where
  "sanitizeSubjectToken v =
     map (\<lambda>c. if c \<in> {CHR ''.'', CHR ''*'', CHR ''>'', CHR '' ''} then CHR ''_'' else c) v"

text \<open>One publish call at the stream.\<close>

definition stream_publish :: "string \<Rightarrow> event \<Rightarrow> publisher \<Rightarrow> goerr option \<times> publisher" where
  "stream_publish subject ev p =
     (let accepted = pub_log p @ [(subject, ev)] in
      case next_fault (pub_faults p) of
        (Fails e, fs) \<Rightarrow> (Some (Err e), p\<lparr>pub_faults := fs\<rparr>)
      | (LostReply e, fs) \<Rightarrow> (Some (Err e), p\<lparr>pub_faults := fs, pub_log := accepted\<rparr>)
      | (_, fs) \<Rightarrow> (None, p\<lparr>pub_faults := fs, pub_log := accepted\<rparr>))"

text \<open>The identity and the time an event gets before it is published.\<close>

definition stamp :: "string \<Rightarrow> int \<Rightarrow> event \<Rightarrow> event" where
  "stamp fresh now ev =
     (let ev1 = (if ev_id ev = [] then ev\<lparr>ev_id := fresh\<rparr> else ev)
      in if ev_occurred ev1 = 0 then ev1\<lparr>ev_occurred := now\<rparr> else ev1)"

definition Publish :: "string \<Rightarrow> int \<Rightarrow> event \<Rightarrow> publisher option \<Rightarrow> goerr option \<times> publisher option" where
  "Publish fresh now ev p =
     (case p of
        None \<Rightarrow> (Some (Err ''audit publisher is required''), None)
      | Some pub \<Rightarrow>
          if trim_space (ev_tenant ev) = [] then (Some (Err ''audit tenant_id is required''), p)
          else
            let ev2 = stamp fresh now ev
            in case marshal_error [JObj (ev_metadata ev2)] of
                 Some e \<Rightarrow> (Some (wrap ''marshal audit event'' e), p)
               | None \<Rightarrow>
                   (case stream_publish (SubjectPrefix @ ''.'' @ sanitizeSubjectToken (ev_tenant ev2)) ev2 pub of
                      (Some e, pub') \<Rightarrow> (Some (wrap ''publish audit event'' e), Some pub')
                    | (None, pub') \<Rightarrow> (None, Some pub')))"

text \<open>The timeout of a JetStream publisher, in nanoseconds.\<close>

definition NewJetStreamPublisher :: "int \<Rightarrow> int" where
  "NewJetStreamPublisher timeout = (if timeout \<le> 0 then 5000000000 else timeout)"

section \<open>Facts\<close>

lemma stream_publish_log:
  "stream_publish subject ev p = (e, p') \<Longrightarrow>
   pub_log p' = pub_log p @ [(subject, ev)] \<or> e \<noteq> None \<and> pub_log p' = pub_log p"
  by (auto simp: stream_publish_def Let_def split: prod.splits fault.splits)

lemma Publish_log:
  assumes "Publish fresh now ev (Some p) = (e, q)"
  shows "\<exists>p'. q = Some p' \<and> (e \<noteq> None \<and> pub_log p' = pub_log p
    \<or> (\<exists>ev'. pub_log p' = pub_log p @ [(SubjectPrefix @ ''.'' @ sanitizeSubjectToken (ev_tenant ev), ev')]
        \<and> ev_tenant ev' = ev_tenant ev \<and> ev_success ev' = ev_success ev \<and> ev_error ev' = ev_error ev
        \<and> ev_resource ev' = ev_resource ev \<and> ev_id ev' = (if ev_id ev = [] then fresh else ev_id ev)))"
proof -
  define ev2 where "ev2 = stamp fresh now ev"
  have f: "ev_tenant ev2 = ev_tenant ev" "ev_success ev2 = ev_success ev" "ev_error ev2 = ev_error ev"
    "ev_resource ev2 = ev_resource ev" "ev_id ev2 = (if ev_id ev = [] then fresh else ev_id ev)"
    by (simp_all add: ev2_def stamp_def Let_def)
  obtain x p' where st: "stream_publish (SubjectPrefix @ ''.'' @ sanitizeSubjectToken (ev_tenant ev)) ev2 p = (x, p')"
    by fastforce
  have unf: "Publish fresh now ev (Some p) =
     (if trim_space (ev_tenant ev) = [] then (Some (Err ''audit tenant_id is required''), Some p)
      else case marshal_error [JObj (ev_metadata ev2)] of
                 Some e \<Rightarrow> (Some (wrap ''marshal audit event'' e), Some p)
               | None \<Rightarrow> (case x of Some e \<Rightarrow> (Some (wrap ''publish audit event'' e), Some p')
                    | None \<Rightarrow> (None, Some p')))"
    using st f(1) by (simp add: Publish_def Let_def ev2_def [symmetric] split: option.split)
  from stream_publish_log [OF st] assms f show ?thesis
    unfolding unf by (auto split: if_splits option.splits)
qed

text \<open>An event is published under exactly one token below \<^verbatim>\<open>audit.events\<close>, whatever the tenant
  identifier: no tenant can publish into the partition of a deeper subject or use a wildcard.\<close>

lemma subject_single_token:
  "set (sanitizeSubjectToken tenant) \<inter> {CHR ''.'', CHR ''*'', CHR ''>'', CHR '' ''} = {}
   \<and> length (split_on (CHR ''.'') (SubjectPrefix @ ''.'' @ sanitizeSubjectToken tenant)) = 3"
proof
  show d: "set (sanitizeSubjectToken tenant) \<inter> {CHR ''.'', CHR ''*'', CHR ''>'', CHR '' ''} = {}"
    by (auto simp: sanitizeSubjectToken_def)
  have "CHR ''.'' \<notin> set s \<Longrightarrow> split_on (CHR ''.'') s = [s]" for s
    by (induction s) auto
  with d show "length (split_on (CHR ''.'') (SubjectPrefix @ ''.'' @ sanitizeSubjectToken tenant)) = 3"
    by (auto simp: SubjectPrefix_def)
qed

end
