(* ===== verification/Messages.thy ===== *)
theory Messages
  imports Go_Prelude
begin

text \<open>
  Messages of the generated protobuf API (\<^verbatim>\<open>proto/gen/go/n0/platform/v1\<close>) that more than one service
  handles, with the fields the services read or set. A row is the list of its cells.
\<close>

record connection =
  cn_adapter :: string
  cn_params :: gomap

record exec_request =
  xq_conn :: string
  xq_sql :: string
  xq_limit :: "32 word"
  xq_timeout :: "32 word"
  xq_adapter :: string
  xq_params :: gomap

record exec_response =
  xr_columns :: "string list"
  xr_rows :: "jval list list"
  xr_truncated :: bool

text \<open>What a consumer tells the stream about a message.\<close>

datatype disposition = Ack | NakWithDelay int | TermWithReason string

text \<open>A table and its columns: one shape shared by the adapter interface, Meta Service and the messages.\<close>

record column_info =
  ci_name :: string
  ci_type :: string
  ci_nullable :: bool

record table_info =
  ti_name :: string
  ti_columns :: "column_info list"

text \<open>How JSON text and protobuf structs are made and read, shared by the services.\<close>

record codec =
  co_marshal :: "gomap \<Rightarrow> goerr + string"
  co_unmarshal :: "string \<Rightarrow> goerr + gomap"
  co_struct :: "gomap \<Rightarrow> goerr + gomap"

definition sample_codec :: codec where
  "sample_codec = \<lparr>co_marshal = \<lambda>m. Inr ''{}'', co_unmarshal = \<lambda>s. Inr [], co_struct = Inr\<rparr>"

end
