(* ===== verification/Worker.thy ===== *)
theory Worker
  imports Sandbox JobStore Audit_Events Messages
begin

text \<open>
  The query workers of Query Engine (\<^verbatim>\<open>services/query-engine/internal/worker\<close>): the processor of one
  job, with its deferred audit event, and the loop of a pool worker over the messages of the stream.
  Meta Service, Connection Manager, \<^verbatim>\<open>structpb.NewStruct\<close>, the event identifier (a SHA-1 UUID of the job
  identifier) and the clocks are the record \<open>proc_env\<close>: the answers for one delivery. The requests sent
  to Connection Manager are recorded in the order they are sent.
\<close>

section \<open>Messages\<close>

record query_job =
  qj_id :: string
  qj_tenant :: string
  qj_conn :: string
  qj_sql :: string

record proc_env =
  pe_lookup :: "string \<Rightarrow> string \<Rightarrow> goerr + connection option"
  pe_exec :: "exec_request \<Rightarrow> goerr + exec_response"
  pe_new_struct :: "gomap \<Rightarrow> goerr + gomap"
  pe_event_id :: "string \<Rightarrow> string"
  pe_jlen :: "gomap list \<Rightarrow> int"
  pe_elapsed :: "64 word"
  pe_now :: int

record world =
  w_store :: store
  w_audit :: "publisher option"
  w_sent :: "exec_request list"

section \<open>The processor\<close>

fun strings_of :: "jval list \<Rightarrow> goerr + string list" where
  "strings_of [] = Inr []"
| "strings_of (v # vs) =
     (case v of
        JStr s \<Rightarrow>
          if s = [] then Inl (Err ''allowed_tables must contain strings'')
          else (case strings_of vs of Inl e \<Rightarrow> Inl e | Inr ss \<Rightarrow> Inr (s # ss))
      | _ \<Rightarrow> Inl (Err ''allowed_tables must contain strings''))"

definition policyFromConnection :: "gomap \<Rightarrow> string \<Rightarrow> goerr + policy" where
  "policyFromConnection params tenant =
     (case map_of params ''query_policy'' of
        Some (JObj raw) \<Rightarrow>
          (case map_of raw ''allowed_tables'' of
             Some (JArr values) \<Rightarrow>
               if values = [] then Inl (Err ''allowed_tables is required'')
               else (case strings_of values of
                   Inl e \<Rightarrow> Inl e
                 | Inr allowed \<Rightarrow>
                     Inr \<lparr>AllowedTables = allowed, TenantColumn = get_str raw ''tenant_column'', TenantValue = tenant\<rparr>)
           | _ \<Rightarrow> Inl (Err ''allowed_tables is required''))
      | _ \<Rightarrow> Inl (Err ''query_policy is required''))"

text \<open>One row of the answer as a map from column names to cells; missing cells are nil.\<close>

definition row_map :: "string list \<Rightarrow> jval list \<Rightarrow> gomap" where
  "row_map columns values =
     fold (\<lambda>(i, col) m. AList.update col (if i < length values then values ! i else JNull) m)
       (enumerate 0 columns) []"

definition with_store :: "(store \<Rightarrow> 'a \<times> store) \<Rightarrow> world \<Rightarrow> 'a \<times> world" where
  "with_store f w = (case f (w_store w) of (x, st) \<Rightarrow> (x, w\<lparr>w_store := st\<rparr>))"

text \<open>What the body of \<^verbatim>\<open>Process\<close> leaves to its deferred function: error, success flag, error text.\<close>

type_synonym verdict = "goerr option \<times> bool \<times> string"

definition failJob :: "string \<Rightarrow> string \<Rightarrow> world \<Rightarrow> goerr option \<times> world" where
  "failJob i msg w =
     (case with_store (MarkFailed i msg) w of
        (Some e, w') \<Rightarrow> (Some (wrap ''mark job failed'' e), w')
      | (None, w') \<Rightarrow> (None, w'))"

definition fail_with :: "string \<Rightarrow> string \<Rightarrow> world \<Rightarrow> verdict \<times> world" where
  "fail_with i msg w = (case failJob i msg w of (e, w') \<Rightarrow> ((e, False, msg), w'))"

definition store_result :: "proc_env \<Rightarrow> string \<Rightarrow> exec_response \<Rightarrow> world \<Rightarrow> verdict \<times> world" where
  "store_result env i resp w =
     (let rows = map (row_map (xr_columns resp)) (xr_rows resp) in
      case with_store (MarkSucceeded (pe_jlen env) i rows (xr_truncated resp)) w of
        (None, w') \<Rightarrow> ((None, True, []), w')
      | (Some e, w') \<Rightarrow>
          (case with_store (MarkFailed i (''result persistence: '' @ error_text e)) w' of
             (Some f, w'') \<Rightarrow>
               ((Some (wrap (''persist result: '' @ error_text e @ ''; mark job failed'') f), False, error_text e), w'')
           | (None, w'') \<Rightarrow> ((Some (wrap ''mark job success'' e), False, error_text e), w'')))"

definition clean_params :: "gomap \<Rightarrow> gomap" where
  "clean_params params = filter (\<lambda>kv. fst kv \<noteq> ''query_policy'') params"

definition exec_request_for :: "query_job \<Rightarrow> connection \<Rightarrow> gomap \<Rightarrow> string \<Rightarrow> exec_request" where
  "exec_request_for job conn params sql =
     \<lparr>xq_conn = qj_conn job, xq_sql = sql, xq_limit = 0, xq_timeout = 60,
      xq_adapter = cn_adapter conn, xq_params = params\<rparr>"

definition execute :: "proc_env \<Rightarrow> query_job \<Rightarrow> connection \<Rightarrow> world \<Rightarrow> verdict \<times> world" where
  "execute env job conn w =
     (let i = qj_id job in
      case policyFromConnection (cn_params conn) (qj_tenant job) of
        Inl e \<Rightarrow> fail_with i (''invalid query policy: '' @ error_text e) w
      | Inr pol \<Rightarrow>
          (let res = ValidatePolicy (qj_sql job) pol in
           if \<not> Allowed res then fail_with i (''sandbox rejection: '' @ Reason res) w
           else (case pe_new_struct env (clean_params (cn_params conn)) of
               Inl e \<Rightarrow> fail_with i (''sanitize connection params: '' @ error_text e) w
             | Inr params \<Rightarrow>
                 (let req = exec_request_for job conn params (Sanitized res);
                      w' = w\<lparr>w_sent := w_sent w @ [req]\<rparr>
                  in case pe_exec env req of
                       Inl e \<Rightarrow> fail_with i (''execute query: '' @ error_text e) w'
                     | Inr resp \<Rightarrow> store_result env i resp w'))))"

definition run_job :: "proc_env \<Rightarrow> query_job \<Rightarrow> world \<Rightarrow> verdict \<times> world" where
  "run_job env job w =
     (let i = qj_id job in
      case with_store (MarkRunning i) w of
        (Some e, w') \<Rightarrow> ((Some (wrap ''mark job running'' e), False, error_text e), w')
      | (None, w') \<Rightarrow>
          (case pe_lookup env (qj_conn job) (qj_tenant job) of
             Inl e \<Rightarrow> fail_with i (''get connection: '' @ error_text e) w'
           | Inr None \<Rightarrow> fail_with i ''connection not found'' w'
           | Inr (Some conn) \<Rightarrow> execute env job conn w'))"

text \<open>A redelivered job that is already terminal is not run again; a failing lookup does not stop it.\<close>

definition process_body :: "proc_env \<Rightarrow> query_job \<Rightarrow> world \<Rightarrow> verdict \<times> world" where
  "process_body env job w =
     (case with_store (GetJob (qj_id job)) w of
        (Inr r, w') \<Rightarrow>
          if job_status r = StatusSuccess then ((None, True, []), w')
          else if job_status r = StatusFailed then ((None, False, job_error r), w')
          else run_job env job w'
      | (Inl e, w') \<Rightarrow> run_job env job w')"

definition audit_event :: "proc_env \<Rightarrow> query_job \<Rightarrow> bool \<Rightarrow> string \<Rightarrow> event" where
  "audit_event env job success err =
     \<lparr>ev_id = pe_event_id env (qj_id job), ev_tenant = qj_tenant job, ev_actor = qj_tenant job,
      ev_action = ''query.execute'', ev_resource_type = ''query_job'', ev_resource = qj_id job,
      ev_success = success, ev_error = err,
      ev_metadata = [(''connection_id'', JStr (qj_conn job)), (''duration_ms'', JNum (pe_elapsed env))],
      ev_occurred = 0\<rparr>"

definition publish_audit :: "proc_env \<Rightarrow> query_job \<Rightarrow> verdict \<Rightarrow> world \<Rightarrow> goerr option \<times> world" where
  "publish_audit env job v w =
     (case v of (err, success, text) \<Rightarrow>
        if w_audit w = None then (err, w)
        else (case Publish [] (pe_now env) (audit_event env job success text) (w_audit w) of
            (None, a) \<Rightarrow> (err, w\<lparr>w_audit := a\<rparr>)
          | (Some e, a) \<Rightarrow>
              ((if err = None then Some (wrap ''publish durable audit event'' e) else err), w\<lparr>w_audit := a\<rparr>)))"

definition Process :: "proc_env \<Rightarrow> query_job \<Rightarrow> world \<Rightarrow> goerr option \<times> world" where
  "Process env job w = (case process_body env job w of (v, w') \<Rightarrow> publish_audit env job v w')"

section \<open>The pool\<close>

definition NewPool :: "int \<Rightarrow> int" where
  "NewPool numWorkers = (if numWorkers \<le> 0 then 4 else numWorkers)"

text \<open>
  A message is a decoded job or the decoding error, with the environment of its processing.
\<close>

type_synonym message = "(goerr + query_job) \<times> proc_env"

text \<open>The processor is an interface: the loop is given the implementation.\<close>

definition handle_message ::
  "(proc_env \<Rightarrow> query_job \<Rightarrow> world \<Rightarrow> goerr option \<times> world) \<Rightarrow> message \<Rightarrow> world \<Rightarrow> disposition \<times> world" where
  "handle_message process msg w =
     (case msg of
        (Inl e, env) \<Rightarrow> (TermWithReason ''invalid JSON job payload'', w)
      | (Inr job, env) \<Rightarrow>
          (case process env job w of
             (Some e, w') \<Rightarrow> (NakWithDelay 5000000000, w')
           | (None, w') \<Rightarrow> (Ack, w')))"

text \<open>What one round of the worker loop meets: a stop signal, a fetch error, or a batch of messages.\<close>

datatype round = CtxDone | Stopped | FetchError string | Batch "message list"

fun handle_batch ::
  "(proc_env \<Rightarrow> query_job \<Rightarrow> world \<Rightarrow> goerr option \<times> world) \<Rightarrow> message list \<Rightarrow> world \<Rightarrow> disposition list \<times> world" where
  "handle_batch process [] w = ([], w)"
| "handle_batch process (m # ms) w =
     (case handle_message process m w of (d, w') \<Rightarrow>
        (case handle_batch process ms w' of (ds, w'') \<Rightarrow> (d # ds, w'')))"

fun pool_run ::
  "(proc_env \<Rightarrow> query_job \<Rightarrow> world \<Rightarrow> goerr option \<times> world) \<Rightarrow> round list \<Rightarrow> world \<Rightarrow> disposition list \<times> world" where
  "pool_run process [] w = ([], w)"
| "pool_run process (CtxDone # rs) w = ([], w)"
| "pool_run process (Stopped # rs) w = ([], w)"
| "pool_run process (FetchError e # rs) w = pool_run process rs w"
| "pool_run process (Batch ms # rs) w =
     (case handle_batch process ms w of (ds, w') \<Rightarrow>
        (case pool_run process rs w' of (es, w'') \<Rightarrow> (ds @ es, w'')))"

definition NoopProcess :: "proc_env \<Rightarrow> query_job \<Rightarrow> world \<Rightarrow> goerr option \<times> world" where
  "NoopProcess env job w = (None, w)"

end
