(* ===== verification/QueryServer.thy ===== *)
theory QueryServer
  imports Worker
begin

text \<open>
  The front of Query Engine (\<^verbatim>\<open>services/query-engine/internal/server\<close>): the gRPC handlers over the job
  store and the job stream, and the HTTP routes in front of them. The identifier \<^verbatim>\<open>nuid.Next()\<close> is the
  argument \<open>nuid\<close>, the conversion of a row to a protobuf struct the argument \<open>new_struct\<close>. A job payload
  consists of strings, so encoding it cannot fail and its error branch has no counterpart here.
\<close>

section \<open>Messages and state\<close>

record submit_request =
  sq_tenant :: string
  sq_conn :: string
  sq_sql :: string

record submit_response =
  sr_job :: string
  sr_status :: string

record status_response =
  tr_job :: string
  tr_status :: string
  tr_error :: string

record result_response =
  rr_job :: string
  rr_rows :: "gomap list"
  rr_next :: string
  rr_truncated :: bool

record job_stream =
  js_log :: "(string \<times> query_job) list"
  js_faults :: "fault list"

record query_server =
  qs_store :: store
  qs_stream :: "job_stream option"

definition querySubject :: string where "querySubject = ''QUERIES.jobs''"

text \<open>Without a store the server makes an in-memory one.\<close>

definition NewGRPCServer :: "int \<Rightarrow> store option \<Rightarrow> job_stream option \<Rightarrow> query_server" where
  "NewGRPCServer now st stream =
     \<lparr>qs_store = (case st of None \<Rightarrow> NewStore now | Some s \<Rightarrow> s), qs_stream = stream\<rparr>"

section \<open>gRPC handlers\<close>

definition publish_job :: "string \<Rightarrow> query_job \<Rightarrow> job_stream \<Rightarrow> goerr option \<times> job_stream" where
  "publish_job subject job js =
     (let accepted = js_log js @ [(subject, job)] in
      case next_fault (js_faults js) of
        (Fails e, fs) \<Rightarrow> (Some (Err e), js\<lparr>js_faults := fs\<rparr>)
      | (LostReply e, fs) \<Rightarrow> (Some (Err e), js\<lparr>js_faults := fs, js_log := accepted\<rparr>)
      | (_, fs) \<Rightarrow> (None, js\<lparr>js_faults := fs, js_log := accepted\<rparr>))"

definition job_of :: "job_record \<Rightarrow> query_job" where
  "job_of r = \<lparr>qj_id = job_id r, qj_tenant = job_tenant r, qj_conn = job_conn r, qj_sql = job_sql r\<rparr>"

definition new_record :: "string \<Rightarrow> submit_request \<Rightarrow> job_record" where
  "new_record nuid req =
     empty_job\<lparr>job_id := ''job-'' @ to_lower nuid, job_tenant := sq_tenant req, job_conn := sq_conn req,
       job_sql := sq_sql req\<rparr>"

definition SubmitQuery ::
  "string \<Rightarrow> submit_request \<Rightarrow> query_server \<Rightarrow> (rpc_error + submit_response) \<times> query_server" where
  "SubmitQuery nuid req s =
     (if trim_space (sq_conn req) = [] then (Inl (Status InvalidArgument ''connection_id is required''), s)
      else if trim_space (sq_sql req) = [] then (Inl (Status InvalidArgument ''sql is required''), s)
      else (case qs_stream s of
          None \<Rightarrow> (Inl (Status FailedPrecondition ''query publisher is not configured''), s)
        | Some js \<Rightarrow>
            (case CreateContext (new_record nuid req) (qs_store s) of
               (Inl e, st) \<Rightarrow> (Inl (Status Unavailable (''persist job: '' @ error_text e)), s\<lparr>qs_store := st\<rparr>)
             | (Inr r, st) \<Rightarrow>
                 (case publish_job querySubject (job_of r) js of
                    (Some e, js') \<Rightarrow>
                      (Inl (Status Unavailable (''publish job: '' @ error_text e)),
                       s\<lparr>qs_store := snd (MarkFailed (job_id r) (''publish job: '' @ error_text e) st),
                         qs_stream := Some js'\<rparr>)
                  | (None, js') \<Rightarrow>
                      (Inr \<lparr>sr_job = job_id r, sr_status = job_status r\<rparr>,
                       s\<lparr>qs_store := st, qs_stream := Some js'\<rparr>)))))"

definition GetJobStatus ::
  "string \<Rightarrow> string \<Rightarrow> query_server \<Rightarrow> (rpc_error + status_response) \<times> query_server" where
  "GetJobStatus i tenant s =
     (if trim_space i = [] \<or> trim_space tenant = []
      then (Inl (Status InvalidArgument ''job_id and tenant_id are required''), s)
      else (case GetForTenant i tenant (qs_store s) of
          (Inl e, st) \<Rightarrow>
            (Inl (if e = ErrJobNotFound then Status NotFound ''job not found''
                  else Status Internal (''get job status: '' @ error_text e)), s\<lparr>qs_store := st\<rparr>)
        | (Inr r, st) \<Rightarrow>
            (Inr \<lparr>tr_job = job_id r, tr_status = job_status r, tr_error = job_error r\<rparr>, s\<lparr>qs_store := st\<rparr>)))"

fun structs_of :: "(gomap \<Rightarrow> goerr + gomap) \<Rightarrow> gomap list \<Rightarrow> goerr + gomap list" where
  "structs_of new_struct [] = Inr []"
| "structs_of new_struct (row # rows) =
     (case new_struct row of
        Inl e \<Rightarrow> Inl e
      | Inr r \<Rightarrow> (case structs_of new_struct rows of Inl e \<Rightarrow> Inl e | Inr rs \<Rightarrow> Inr (r # rs)))"

definition GetJobResult ::
  "(gomap \<Rightarrow> goerr + gomap) \<Rightarrow> string \<Rightarrow> string \<Rightarrow> 32 word \<Rightarrow> 32 word \<Rightarrow> query_server \<Rightarrow>
   (rpc_error + result_response) outcome \<times> query_server" where
  "GetJobResult new_struct i tenant page psize s =
     (if trim_space i = [] \<or> trim_space tenant = []
      then (Returns (Inl (Status InvalidArgument ''job_id and tenant_id are required'')), s)
      else (case GetResultPageForTenant i tenant page psize (qs_store s) of (x, st) \<Rightarrow>
        ((case x of
            Panics \<Rightarrow> Panics
          | Returns (Inl e) \<Rightarrow>
              Returns (Inl (if e = ErrJobNotFound then Status NotFound ''job not found''
                            else Status Internal (''get job result: '' @ error_text e)))
          | Returns (Inr (r, rows, token)) \<Rightarrow>
              if job_status r \<noteq> StatusSuccess
              then Returns (Inl (Status FailedPrecondition (''job status is '' @ job_status r)))
              else (case structs_of new_struct rows of
                  Inl e \<Rightarrow> Returns (Inl (Status Internal (''marshal job row: '' @ error_text e)))
                | Inr pb \<Rightarrow> Returns (Inr \<lparr>rr_job = job_id r, rr_rows = pb, rr_next = token,
                    rr_truncated = job_truncated r\<rparr>))),
         s\<lparr>qs_store := st\<rparr>)))"

definition SuggestChartConfig :: "string \<times> gomap" where
  "SuggestChartConfig = (''line'', [(''x'', JStr ''date''), (''y'', JStr ''revenue'')])"

section \<open>HTTP routes\<close>

definition parseInt :: "string \<Rightarrow> int" where
  "parseInt s = fst (atoi s)"

text \<open>
  The routes with what the handlers read of a request: a decoded body or its decoding error, or the
  query parameters, a missing one being the empty string.
\<close>

datatype http_request =
    Healthz
  | SubmitRoute "goerr + submit_request"
  | StatusRoute "string \<Rightarrow> string"
  | ResultRoute "string \<Rightarrow> string"
  | SuggestRoute "goerr + unit"

datatype http_body =
    OkText
  | SubmitBody submit_response
  | StatusBody status_response
  | ResultBody result_response
  | SuggestBody string gomap

text \<open>
  A panic in a handler is turned into status 500 by the recovery middleware; \<open>Panicked\<close> is its body.
\<close>

datatype http_failure = BadBody goerr | RpcFailed rpc_error | Panicked

definition http_serve ::
  "string \<Rightarrow> (gomap \<Rightarrow> goerr + gomap) \<Rightarrow> http_request \<Rightarrow> query_server \<Rightarrow>
   (http_failure, http_body) reply \<times> query_server" where
  "http_serve nuid new_struct req s =
     (case req of
        Healthz \<Rightarrow> (HttpJson 200 OkText, s)
      | SubmitRoute (Inl e) \<Rightarrow> (HttpError 400 (BadBody e), s)
      | SubmitRoute (Inr q) \<Rightarrow>
          (case SubmitQuery nuid q s of
             (Inl e, s') \<Rightarrow> (HttpError 500 (RpcFailed e), s')
           | (Inr r, s') \<Rightarrow> (HttpJson 202 (SubmitBody r), s'))
      | StatusRoute q \<Rightarrow>
          (case GetJobStatus (q ''job_id'') (q ''tenant_id'') s of
             (Inl e, s') \<Rightarrow> (HttpError 500 (RpcFailed e), s')
           | (Inr r, s') \<Rightarrow> (HttpJson 200 (StatusBody r), s'))
      | ResultRoute q \<Rightarrow>
          (case GetJobResult new_struct (q ''job_id'') (q ''tenant_id'') (to_int32 (parseInt (q ''page'')))
                  (to_int32 (parseInt (q ''page_size''))) s of
             (Panics, s') \<Rightarrow> (HttpError 500 Panicked, s')
           | (Returns (Inl e), s') \<Rightarrow> (HttpError 500 (RpcFailed e), s')
           | (Returns (Inr r), s') \<Rightarrow> (HttpJson 200 (ResultBody r), s'))
      | SuggestRoute (Inl e) \<Rightarrow> (HttpError 400 (BadBody e), s)
      | SuggestRoute (Inr u) \<Rightarrow>
          (case SuggestChartConfig of (kind, cfg) \<Rightarrow> (HttpJson 200 (SuggestBody kind cfg), s)))"

end
