(* ===== verification/JobStore_Facts.thy ===== *)
theory JobStore_Facts
  imports JobStore
begin

text \<open>
  The contract of the job store as a locale, its interpretation on both backends of the model, the
  tenant check, and the result pages.
\<close>

section \<open>The abstract view\<close>

text \<open>The job under an identifier, whichever backend holds it.\<close>

definition peek :: "store \<Rightarrow> string \<Rightarrow> job_record option" where
  "peek st i =
     (case st_redis st of
        None \<Rightarrow> st_jobs st i
      | Some m \<Rightarrow> (case m (job_key i) of Some (Inr r) \<Rightarrow> Some r | _ \<Rightarrow> None))"

text \<open>Every job stands under its own identifier.\<close>

definition keyed :: "store \<Rightarrow> bool" where
  "keyed st \<longleftrightarrow> (\<forall>i r. peek st i = Some r \<longrightarrow> job_id r = i)"

lemma job_key_inj [simp]: "job_key i = job_key j \<longleftrightarrow> i = j"
  by (simp add: job_key_def)

lemma cloneRows_id [simp]: "cloneRows rows = rows"
  by (simp add: cloneRows_def)

lemma cloneRecord_id [simp]: "cloneRecord r = r"
  by (simp add: cloneRecord_def)

lemma peek_faults [simp]: "peek (st\<lparr>st_faults := fs\<rparr>) = peek st"
  by (rule ext) (simp add: peek_def split: option.split)

lemma peek_objects [simp]: "peek (st\<lparr>st_objects := ob\<rparr>) = peek st"
  by (rule ext) (simp add: peek_def split: option.split)

lemma pop_fault_simps [simp]:
  "st_redis (snd (pop_fault st)) = st_redis st" "st_jobs (snd (pop_fault st)) = st_jobs st"
  "st_objects (snd (pop_fault st)) = st_objects st" "peek (snd (pop_fault st)) = peek st"
  "st_now (snd (pop_fault st)) = st_now st" "st_inline (snd (pop_fault st)) = st_inline st"
  by (simp_all add: pop_fault_def split: prod.splits)

lemma pop_faultE:
  assumes "pop_fault st = (f, st')"
  shows "st_redis st' = st_redis st" and "st_jobs st' = st_jobs st" and "st_objects st' = st_objects st"
    and "peek st' = peek st" and "st_now st' = st_now st" and "st_inline st' = st_inline st"
  using assms pop_fault_simps [of st] by simp_all

lemma pop_fault_none: "st_faults st = [] \<Longrightarrow> pop_fault st = (NoFault, st)"
  by (simp add: pop_fault_def)

text \<open>Writing a record changes its own entry only, if anything.\<close>

lemma peek_redis_write:
  "st_redis st = Some m \<Longrightarrow> peek (st\<lparr>st_redis := Some (m(job_key i \<mapsto> Inr r))\<rparr>) = (peek st)(i \<mapsto> r)"
  by (rule ext) (simp add: peek_def)

lemma peek_redis_delete:
  "st_redis st = Some m \<Longrightarrow> peek (st\<lparr>st_redis := Some (m(job_key i := None))\<rparr>) = (peek st)(i := None)"
  by (rule ext) (simp add: peek_def)

lemma peek_mem_write: "st_redis st = None \<Longrightarrow> peek (st\<lparr>st_jobs := (st_jobs st)(i \<mapsto> r)\<rparr>) = (peek st)(i \<mapsto> r)"
  by (rule ext) (simp add: peek_def)

lemma put_job_peek:
  assumes "put_job i r st = (e, st')" and "job_id r = i"
  shows "(st_redis st' = None) = (st_redis st = None)"
    and "peek st' = (peek st)(i \<mapsto> r) \<or> e \<noteq> None \<and> peek st' = peek st"
proof -
  show "(st_redis st' = None) = (st_redis st = None)"
    using assms by (auto simp: put_job_def save_def Let_def dest: pop_faultE split: if_splits option.splits prod.splits fault.splits)
  show "peek st' = (peek st)(i \<mapsto> r) \<or> e \<noteq> None \<and> peek st' = peek st"
  proof (cases "st_redis st")
    case None
    with assms show ?thesis using peek_mem_write [of st i r] by (auto simp: put_job_def)
  next
    case (Some m)
    obtain f st1 where f: "pop_fault st = (f, st1)" by fastforce
    note p = pop_faultE [OF f]
    have w: "peek (st1\<lparr>st_redis := Some (m(job_key i \<mapsto> Inr r))\<rparr>) = (peek st)(i \<mapsto> r)"
      using peek_redis_write [of st1 m i r] p Some by simp
    show ?thesis
      using assms Some w p f by (cases f) (auto simp: put_job_def save_def Let_def split: option.splits)
  qed
qed

lemma GetJob_peek:
  assumes "GetJob i st = (x, st')"
  shows "(st_redis st' = None) = (st_redis st = None)" and "st_now st' = st_now st"
    and "st_objects st' = st_objects st" and "st_inline st' = st_inline st"
    and "x = Inr r \<Longrightarrow> peek st i = Some r \<and> peek st' = peek st"
    and "x = Inl e \<Longrightarrow> peek st' = peek st \<or> peek st' = (peek st)(i := None)"
proof -
  obtain f st1 where f: "pop_fault st = (f, st1)" by fastforce
  note p = pop_faultE [OF f]
  show "(st_redis st' = None) = (st_redis st = None)" "st_now st' = st_now st"
    "st_objects st' = st_objects st" "st_inline st' = st_inline st"
    using assms p f by (auto simp: GetJob_def load_def split: if_splits option.splits fault.splits)
  show "x = Inr r \<Longrightarrow> peek st i = Some r \<and> peek st' = peek st"
    using assms p f
    by (auto simp: GetJob_def load_def split: if_splits option.splits fault.splits sum.splits bind_splits)
       (auto simp: peek_def)
  show "x = Inl e \<Longrightarrow> peek st' = peek st \<or> peek st' = (peek st)(i := None)"
    using assms p f peek_redis_delete [of st1 _ i]
    by (auto simp: GetJob_def load_def split: if_splits option.splits fault.splits)
qed

section \<open>The contract\<close>

text \<open>
  What a job store promises its clients about an update, whatever the backend and its faults: only the
  named job changes; success means that the job existed and now is the updated one; a failed update
  leaves the job as it was, applied the update, or lost it with the backend.
\<close>

locale job_store =
  fixes view :: "'s \<Rightarrow> string \<Rightarrow> job_record option"
    and inv :: "'s \<Rightarrow> bool"
    and upd :: "string \<Rightarrow> (job_record \<Rightarrow> job_record) \<Rightarrow> 's \<Rightarrow> goerr option \<times> 's"
  assumes view_keyed: "inv s \<Longrightarrow> view s i = Some r \<Longrightarrow> job_id r = i"
    and upd_inv: "inv s \<Longrightarrow> \<forall>r. job_id (f r) = job_id r \<Longrightarrow> inv (snd (upd i f s))"
    and upd_frame: "inv s \<Longrightarrow> \<forall>r. job_id (f r) = job_id r \<Longrightarrow> j \<noteq> i \<Longrightarrow> view (snd (upd i f s)) j = view s j"
    and upd_ok: "inv s \<Longrightarrow> \<forall>r. job_id (f r) = job_id r \<Longrightarrow> upd i f s = (None, s') \<Longrightarrow>
      \<exists>r t. view s i = Some r \<and> view s' i = Some ((f r)\<lparr>job_updated := t\<rparr>)"
    and upd_err: "inv s \<Longrightarrow> \<forall>r. job_id (f r) = job_id r \<Longrightarrow> upd i f s = (Some e, s') \<Longrightarrow>
      view s' i = view s i \<or> view s' i = None
      \<or> (\<exists>r t. view s i = Some r \<and> view s' i = Some ((f r)\<lparr>job_updated := t\<rparr>))"
begin

text \<open>A run of updates: each names a job and a function on records.\<close>

fun updates :: "(string \<times> (job_record \<Rightarrow> job_record)) list \<Rightarrow> 's \<Rightarrow> 's" where
  "updates [] s = s"
| "updates ((i, f) # us) s = updates us (snd (upd i f s))"

definition keeps :: "(job_record \<Rightarrow> job_record) \<Rightarrow> bool" where
  "keeps f \<longleftrightarrow> (\<forall>r. job_id (f r) = job_id r \<and> job_tenant (f r) = job_tenant r \<and> job_sql (f r) = job_sql r
     \<and> job_conn (f r) = job_conn r)"

lemma updates_frame:
  "inv s \<Longrightarrow> \<forall>(i, f)\<in>set us. i \<noteq> j \<and> keeps f \<Longrightarrow> view (updates us s) j = view s j"
proof (induction us arbitrary: s)
  case (Cons u us)
  obtain i f where u: "u = (i, f)" by (cases u)
  with Cons.prems have f: "\<forall>r. job_id (f r) = job_id r" "i \<noteq> j" by (auto simp: keeps_def)
  have "view (updates us (snd (upd i f s))) j = view (snd (upd i f s)) j"
    using Cons upd_inv [OF Cons.prems(1) f(1), of i] u by auto
  with u upd_frame [OF Cons.prems(1) f(1), of j i] f(2) show ?case by simp
qed simp

text \<open>No run of updates changes whose job it is, or what it runs.\<close>

lemma upd_owner:
  assumes "inv s" and "keeps f" and "view (snd (upd i f s)) j = Some r'"
  shows "\<exists>r. view s j = Some r \<and> job_tenant r' = job_tenant r \<and> job_sql r' = job_sql r \<and> job_conn r' = job_conn r"
proof -
  have f: "\<forall>r. job_id (f r) = job_id r" using assms(2) by (simp add: keeps_def)
  show ?thesis
  proof (cases "j = i")
    case False
    with upd_frame [OF assms(1) f] assms(3) show ?thesis by simp
  next
    case True
    obtain e s' where u: "upd i f s = (e, s')" by fastforce
    show ?thesis
    proof (cases e)
      case None
      with u upd_ok [OF assms(1) f, of i s'] assms True show ?thesis by (auto simp: keeps_def)
    next
      case (Some x)
      with u upd_err [OF assms(1) f, of i x s'] assms(3) True
      have "view s i = Some r' \<or> (\<exists>r t. view s i = Some r \<and> r' = (f r)\<lparr>job_updated := t\<rparr>)" by auto
      with True assms(2) show ?thesis by (auto simp: keeps_def)
    qed
  qed
qed

lemma updates_owner:
  "inv s \<Longrightarrow> \<forall>(i, f)\<in>set us. keeps f \<Longrightarrow> view (updates us s) j = Some r' \<Longrightarrow>
   \<exists>r. view s j = Some r \<and> job_tenant r' = job_tenant r \<and> job_sql r' = job_sql r \<and> job_conn r' = job_conn r"
proof (induction us arbitrary: s)
  case (Cons u us)
  obtain i f where u: "u = (i, f)" by (cases u)
  with Cons.prems have f: "keeps f" by auto
  then have "inv (snd (upd i f s))" using upd_inv Cons.prems(1) by (simp add: keeps_def)
  with Cons u obtain r1 where r1: "view (snd (upd i f s)) j = Some r1" "job_tenant r' = job_tenant r1"
    "job_sql r' = job_sql r1" "job_conn r' = job_conn r1" by fastforce
  from upd_owner [OF Cons.prems(1) f r1(1)] r1 show ?case by auto
qed simp

end

text \<open>Both backends: the in-memory map and Redis.\<close>

lemma update_cases:
  fixes f :: "job_record \<Rightarrow> job_record"
  assumes "keyed st" and "\<forall>r. job_id (f r) = job_id r" and "update i f st = (e, st')"
  shows "(st_redis st' = None) = (st_redis st = None)"
    and "(peek st' = peek st \<or> peek st' = (peek st)(i := None)) \<and> e \<noteq> None
      \<or> (\<exists>r. peek st i = Some r \<and> peek st' = (peek st)(i \<mapsto> (f r)\<lparr>job_updated := st_now st\<rparr>))"
proof -
  obtain x st1 where g: "GetJob i st = (x, st1)" by fastforce
  have "(st_redis st' = None) = (st_redis st = None)
    \<and> ((peek st' = peek st \<or> peek st' = (peek st)(i := None)) \<and> e \<noteq> None
      \<or> (\<exists>r. peek st i = Some r \<and> peek st' = (peek st)(i \<mapsto> (f r)\<lparr>job_updated := st_now st\<rparr>)))"
  proof (cases x)
    case (Inl y)
    with g assms(3) have "e = Some y" "st' = st1" by (auto simp: update_def)
    with GetJob_peek(1,6) [OF g] Inl show ?thesis by auto
  next
    case (Inr r)
    have p: "peek st i = Some r" "peek st1 = peek st" using GetJob_peek(5) [OF g Inr] by auto
    have u: "put_job i ((f r)\<lparr>job_updated := st_now st\<rparr>) st1 = (e, st')"
      using g Inr assms(3) GetJob_peek(2) [OF g] by (simp add: update_def)
    have "job_id ((f r)\<lparr>job_updated := st_now st\<rparr>) = i" using assms(1,2) p(1) by (simp add: keyed_def)
    from put_job_peek [OF u this] GetJob_peek(1) [OF g] p show ?thesis by auto
  qed
  then show "(st_redis st' = None) = (st_redis st = None)"
    and "(peek st' = peek st \<or> peek st' = (peek st)(i := None)) \<and> e \<noteq> None
      \<or> (\<exists>r. peek st i = Some r \<and> peek st' = (peek st)(i \<mapsto> (f r)\<lparr>job_updated := st_now st\<rparr>))"
    by blast+
qed

lemma update_contract:
  fixes B :: "store \<Rightarrow> bool"
  assumes B: "\<And>s s'. (st_redis s' = None) = (st_redis s = None) \<Longrightarrow> B s' = B s"
  shows "job_store peek (\<lambda>s. keyed s \<and> B s) update"
proof
  fix s i r j e s' and f :: "job_record \<Rightarrow> job_record"
  show "keyed s \<and> B s \<Longrightarrow> peek s i = Some r \<Longrightarrow> job_id r = i" by (simp add: keyed_def)
  assume inv: "keyed s \<and> B s" and f: "\<forall>r. job_id (f r) = job_id r"
  obtain x t where u: "update i f s = (x, t)" by fastforce
  note c = update_cases [OF conjunct1 [OF inv] f u]
  have "keyed t" using c(2) inv f by (auto simp: keyed_def split: if_splits)
  then show "keyed (snd (update i f s)) \<and> B (snd (update i f s))" using u inv B [OF c(1)] by simp
  show "j \<noteq> i \<Longrightarrow> peek (snd (update i f s)) j = peek s j" using c(2) u by auto
  show "update i f s = (None, s') \<Longrightarrow>
      \<exists>r t. peek s i = Some r \<and> peek s' i = Some ((f r)\<lparr>job_updated := t\<rparr>)"
    using c(2) u by auto
  show "update i f s = (Some e, s') \<Longrightarrow> peek s' i = peek s i \<or> peek s' i = None
      \<or> (\<exists>r t. peek s i = Some r \<and> peek s' i = Some ((f r)\<lparr>job_updated := t\<rparr>))"
    using c(2) u by auto
qed

interpretation memory: job_store peek "\<lambda>s. keyed s \<and> st_redis s = None" update
  by (rule update_contract) simp

interpretation durable: job_store peek "\<lambda>s. keyed s \<and> st_redis s \<noteq> None" update
  by (rule update_contract) simp

interpretation jobs: job_store peek "\<lambda>s. keyed s \<and> True" update
  by (rule update_contract) simp

section \<open>Result pages\<close>

lemma sint_of_int32: "- (2 ^ 31) \<le> k \<Longrightarrow> k < 2 ^ 31 \<Longrightarrow> sint (word_of_int k :: 32 word) = k"
  using signed_take_bit_int_eq_self [of 31 k] by (simp add: signed_of_int)

lemma sint_start:
  assumes "- (2 ^ 31) \<le> (sint p - 1) * sint s" and "(sint p - 1) * sint s < 2 ^ 31"
  shows "sint ((p - 1) * s :: 32 word) = (sint p - 1) * sint s"
proof -
  have e: "(p - 1) * s = word_of_int ((sint p - 1) * sint s)" by simp
  show ?thesis unfolding e using assms by (rule sint_of_int32)
qed

lemma clamp_bounds:
  "1 \<le> sint (clamp_page p)" "1 \<le> sint (clamp_size s)" "sint (clamp_size s) \<le> 1000"
  by (auto simp: clamp_page_def clamp_size_def Let_def)

lemma clamp_id [simp]: "1 \<le> sint p \<Longrightarrow> clamp_page p = p" "clamp_size (clamp_size s) = clamp_size s"
  by (auto simp: clamp_page_def clamp_size_def Let_def)

lemma page_slice_small:
  fixes p s :: "32 word" and rows :: "gomap list"
  defines "P \<equiv> sint (clamp_page p)" and "S \<equiv> sint (clamp_size s)"
  assumes small: "(P - 1) * S < 2 ^ 31 - 1"
  shows "page_slice rows p s = Returns (take (nat S) (drop (nat ((P - 1) * S)) rows),
    (if P * S < int (length rows) then itoa (sint (clamp_page p + 1)) else []))"
proof -
  have b: "1 \<le> P" "1 \<le> S" unfolding P_def S_def using clamp_bounds by auto
  define X where "X = (P - 1) * S"
  have nn: "0 \<le> X" "X < 2 ^ 31" using b small by (simp_all add: X_def)
  have start: "sint ((clamp_page p - 1) * clamp_size s) = X"
    using sint_start [of "clamp_page p" "clamp_size s"] nn unfolding P_def S_def X_def by simp
  have step: "P * S = X + S" by (simp add: X_def algebra_simps)
  have "page_slice rows p s = Returns (take (nat S) (drop (nat X) rows),
    (if X + S < int (length rows) then itoa (sint (clamp_page p + 1)) else []))"
  proof (cases "int (length rows) \<le> X")
    case True
    with b nn show ?thesis by (simp add: page_slice_def start)
  next
    case False
    show ?thesis
    proof (cases "X + S < int (length rows)")
      case True
      with False nn b show ?thesis
        unfolding page_slice_def Let_def start S_def [symmetric] by simp
    next
      case last: False
      have "nat (int (length rows) - X) = length (drop (nat X) rows)" using nn by simp
      moreover have "length (drop (nat X) rows) \<le> nat S" using last nn by simp
      ultimately show ?thesis
        using False nn b last unfolding page_slice_def Let_def start S_def [symmetric] by simp
    qed
  qed
  then show ?thesis unfolding step by (simp add: X_def)
qed

text \<open>A client that follows the page tokens.\<close>

fun follow :: "nat \<Rightarrow> gomap list \<Rightarrow> 32 word \<Rightarrow> 32 word \<Rightarrow> gomap list option" where
  "follow 0 rows page psize = None"
| "follow (Suc k) rows page psize =
     (case page_slice rows page psize of
        Panics \<Rightarrow> None
      | Returns (xs, token) \<Rightarrow>
          if token = [] then Some xs
          else map_option (\<lambda>ys. xs @ ys) (follow k rows (to_int32 (fst (atoi token))) psize))"

lemma follow_from:
  fixes p s :: "32 word"
  defines "S \<equiv> sint (clamp_size s)"
  assumes n: "int (length rows) < 2 ^ 31 - 1" and p: "1 \<le> sint p" "(sint p - 1) * S \<le> int (length rows)"
    and k: "length rows < nat (sint p - 1) + k"
  shows "follow k rows p s = Some (drop (nat ((sint p - 1) * S)) rows)"
  using p k
proof (induction k arbitrary: p)
  case 0
  have "sint p - 1 \<le> (sint p - 1) * S" using 0 clamp_bounds(2) [of s] mult_left_mono [of 1 S "sint p - 1"] by (simp add: S_def)
  with 0 show ?case by simp
next
  case (Suc k)
  have S: "1 \<le> S" unfolding S_def by (rule clamp_bounds)
  define X where "X = (sint p - 1) * S"
  have X: "0 \<le> X" "X \<le> int (length rows)" using Suc.prems S by (simp_all add: X_def)
  have step: "sint p * S = X + S" by (simp add: X_def algebra_simps)
  have sl: "page_slice rows p s = Returns (take (nat S) (drop (nat X) rows),
      (if X + S < int (length rows) then itoa (sint (p + 1)) else []))"
    using page_slice_small [of p s rows] Suc.prems(1) X n by (simp add: S_def [symmetric] X_def [symmetric] step)
  show ?case
  proof (cases "X + S < int (length rows)")
    case False
    then have "length (drop (nat X) rows) \<le> nat S" using X by simp
    with sl False show ?thesis unfolding X_def [symmetric] by simp
  next
    case True
    have "sint p \<le> sint p * S" using S Suc.prems(1) by simp
    then have "sint p + 1 < 2 ^ 31" using True n unfolding step by simp
    moreover have "sint p + 1 = sint (word_of_int (sint p + 1) :: 32 word)"
      using \<open>sint p + 1 < 2 ^ 31\<close> Suc.prems(1) by (intro sint_of_int32 [symmetric]) simp_all
    moreover have "word_of_int (sint p + 1) = p + 1" by simp
    ultimately have q: "sint (p + 1) = sint p + 1" by metis
    have tok: "to_int32 (fst (atoi (itoa (sint (p + 1))))) = p + 1"
      using Suc.prems(1) \<open>sint p + 1 < 2 ^ 31\<close>
      by (simp add: atoi_itoa min_int64_def max_int64_def to_int32_def q)
    have "follow k rows (p + 1) s = Some (drop (nat ((sint (p + 1) - 1) * S)) rows)"
      using Suc.prems True q step by (intro Suc.IH) simp_all
    then have f: "follow k rows (p + 1) s = Some (drop (nat (X + S)) rows)" using q step by simp
    have "take (nat S) (drop (nat X) rows) @ drop (nat (X + S)) rows = drop (nat X) rows"
      using X S by (metis append_take_drop_id drop_drop nat_add_distrib add.commute order_trans zero_le_one)
    with sl True tok f show ?thesis unfolding X_def [symmetric] by simp
  qed
qed

text \<open>C25. Following the page tokens from the first page yields all rows, in order, once each, whatever page
  size is asked for; a walk of as many pages as there are rows, plus one, is enough.\<close>

theorem pages_complete:
  assumes "int (length rows) < 2 ^ 31 - 1"
  shows "follow (Suc (length rows)) rows 1 psize = Some rows"
  using follow_from [OF assms, of 1 psize "Suc (length rows)"] by simp

lemma pages_complete_witness:
  "follow 4 [[(''a'', JNull)], [(''a'', JBool True)], [(''a'', JStr ''x'')]] 1 2
   = Some [[(''a'', JNull)], [(''a'', JBool True)], [(''a'', JStr ''x'')]]"
  using pages_complete [of "[[(''a'', JNull)], [(''a'', JBool True)], [(''a'', JStr ''x'')]]" 2]
  by (simp add: numeral_nat)
lemma page_slice_length: "page_slice rows page psize = Returns (xs, tok) \<Longrightarrow> length xs \<le> 1000"
  using clamp_bounds(3) [of psize]
  by (auto simp: page_slice_def Let_def split: if_splits)

text \<open>C26. The start of a page is computed in 32 bits. While it stays below \<^verbatim>\<open>2^31\<close> the page is the slice
  one expects, with the next page as token exactly when rows are left; a negative product makes the
  slice expression panic, which page 2147485 of 1000 rows does for every result.\<close>

theorem page_slice_behaviour:
  "(case page_slice rows page psize of
      Panics \<Rightarrow> sint ((clamp_page page - 1) * clamp_size psize) < 0
    | Returns (xs, token) \<Rightarrow>
        0 \<le> sint ((clamp_page page - 1) * clamp_size psize) \<and> length xs \<le> 1000
        \<and> (\<exists>before behind. rows = before @ xs @ behind))
   \<and> page_slice rows 2147485 1000 = Panics"
proof
  let ?X = "sint ((clamp_page page - 1) * clamp_size psize)" and ?S = "sint (clamp_size psize)"
  have S: "1 \<le> ?S" "?S \<le> 1000" by (rule clamp_bounds)+
  have part: "\<exists>before behind. rows = before @ take n (drop m rows) @ behind" for n m
    by (rule exI [of _ "take m rows"], rule exI [of _ "drop n (drop m rows)"]) (simp only: append_take_drop_id)
  have none: "\<exists>before behind. rows = before @ behind" by blast
  show "case page_slice rows page psize of
      Panics \<Rightarrow> ?X < 0
    | Returns (xs, token) \<Rightarrow> 0 \<le> ?X \<and> length xs \<le> 1000 \<and> (\<exists>before behind. rows = before @ xs @ behind)"
  proof (cases "int (length rows) \<le> ?X")
    case True
    then have "page_slice rows page psize = Returns ([], [])" by (simp add: page_slice_def Let_def)
    moreover have "0 \<le> ?X" using True by simp
    ultimately show ?thesis using none by simp
  next
    case False
    then show ?thesis using part S unfolding page_slice_def Let_def by auto
  qed
  show "page_slice rows 2147485 1000 = Panics"
    by (simp add: page_slice_def clamp_page_def clamp_size_def Let_def)
qed

section \<open>Tenants\<close>

lemma GetForTenant_owner:
  "fst (GetForTenant i tenant st) = Inl ErrJobNotFound
   \<or> (\<exists>r. peek st i = Some r \<and> job_tenant r = tenant \<and> fst (GetForTenant i tenant st) = Inr r
        \<and> peek (snd (GetForTenant i tenant st)) = peek st)"
proof -
  obtain x st1 where g: "GetJob i st = (x, st1)" by fastforce
  show ?thesis
  proof (cases x)
    case (Inr r)
    with GetJob_peek(5) [OF g Inr] g show ?thesis by (simp add: GetForTenant_def)
  qed (use g in \<open>simp add: GetForTenant_def\<close>)
qed

text \<open>C10. A job of another tenant is indistinguishable from a missing one, whatever the backend and its
  faults: unless the asking tenant owns the job, both reads answer that it does not exist.\<close>

theorem tenant_isolation:
  "(\<exists>r. peek st i = Some r \<and> job_tenant r = tenant)
   \<or> (fst (GetForTenant i tenant st) = Inl ErrJobNotFound
      \<and> fst (GetResultPageForTenant i tenant page psize st) = Returns (Inl ErrJobNotFound))"
  using GetForTenant_owner [of i tenant st]
  by (auto simp: GetResultPageForTenant_def split: prod.splits)

lemma tenant_isolation_own:
  assumes "GetResultPageForTenant i tenant page psize st = (y, st')" and "y = Returns (Inr z)"
  shows "\<exists>r. peek st i = Some r \<and> job_tenant r = tenant"
  using GetForTenant_owner [of i tenant st] assms
  by (auto simp: GetResultPageForTenant_def split: prod.splits)

lemma GetResultPage_record:
  assumes "GetResultPage i page psize st = (y, st')" and "y = Returns (Inr (r', rows, tok))"
  shows "\<exists>r. peek st i = Some r \<and> job_id r' = job_id r \<and> job_tenant r' = job_tenant r
    \<and> job_status r' = job_status r \<and> job_truncated r' = job_truncated r
    \<and> page_slice (job_rows r') page psize = Returns (rows, tok)"
proof -
  obtain x st1 where g: "GetJob i st = (x, st1)" by fastforce
  then obtain r where x: "x = Inr r" using assms by (cases x) (auto simp: GetResultPage_def)
  have "job_id r' = job_id r \<and> job_tenant r' = job_tenant r \<and> job_status r' = job_status r
      \<and> job_truncated r' = job_truncated r \<and> page_slice (job_rows r') page psize = Returns (rows, tok)"
    using assms g x
    by (auto simp: GetResultPage_def split: if_splits prod.splits sum.splits outcome.splits)
  with GetJob_peek(5) [OF g x] show ?thesis by blast
qed

section \<open>Status changes\<close>

text \<open>Marking a job running or failed changes no other job, and when it reports success the job
  existed and carries the new status; a failed job keeps neither rows nor a reference to a result.\<close>

theorem mark_operations:
  assumes "keyed st"
  shows "(\<forall>j. j \<noteq> i \<longrightarrow> peek (snd (MarkRunning i st)) j = peek st j \<and> peek (snd (MarkFailed i msg st)) j = peek st j)
    \<and> keyed (snd (MarkRunning i st)) \<and> keyed (snd (MarkFailed i msg st))
    \<and> (fst (MarkRunning i st) = None \<longrightarrow>
        (\<exists>r t. peek st i = Some r \<and> peek (snd (MarkRunning i st)) i
           = Some (r\<lparr>job_status := StatusRunning, job_error := [], job_updated := t\<rparr>)))
    \<and> (fst (MarkFailed i msg st) = None \<longrightarrow>
        (\<exists>r t. peek st i = Some r \<and> peek (snd (MarkFailed i msg st)) i
           = Some (r\<lparr>job_status := StatusFailed, job_error := msg, job_rows := [], job_ref := [], job_updated := t\<rparr>)))"
proof -
  let ?run = "\<lambda>r :: job_record. r\<lparr>job_status := StatusRunning, job_error := []\<rparr>"
  let ?fail = "\<lambda>r :: job_record. r\<lparr>job_status := StatusFailed, job_error := msg, job_rows := [], job_ref := []\<rparr>"
  have k: "keyed st \<and> True" "\<forall>r. job_id (?run r) = job_id r" "\<forall>r. job_id (?fail r) = job_id r"
    using assms by simp_all
  have m: "MarkRunning i st = update i ?run st" "MarkFailed i msg st = update i ?fail st"
    by (simp_all add: MarkRunning_def MarkFailed_def)
  show ?thesis
    unfolding m
    using jobs.upd_frame [OF k(1,2)] jobs.upd_frame [OF k(1,3)] jobs.upd_inv [OF k(1,2), of i]
      jobs.upd_inv [OF k(1,3), of i] jobs.upd_ok [OF k(1,2), of i "snd (update i ?run st)"]
      jobs.upd_ok [OF k(1,3), of i "snd (update i ?fail st)"]
    by (metis (no_types, lifting) prod.collapse)
qed

lemma mark_failed_ok:
  assumes "keyed st" and "MarkFailed i msg st = (None, st')"
  shows "\<exists>r t. peek st i = Some r \<and> peek st' i
    = Some (r\<lparr>job_status := StatusFailed, job_error := msg, job_rows := [], job_ref := [], job_updated := t\<rparr>)"
  using assms jobs.upd_ok [of st "\<lambda>r. r\<lparr>job_status := StatusFailed, job_error := msg, job_rows := [], job_ref := []\<rparr>" i st']
  by (simp add: MarkFailed_def)

section \<open>Results\<close>

lemma GetJob_answer:
  assumes "st_faults st = []" and "peek st i = Some r"
  shows "GetJob i st = (Inr r, st)"
  using assms by (auto simp: GetJob_def load_def pop_fault_none peek_def split: option.splits sum.splits)

lemma put_job_answer:
  assumes "st_faults st = []" and "put_job i r st = (None, st')" and "job_id r = i"
  shows "peek st' = (peek st)(i \<mapsto> r)" and "st_faults st' = []" and "st_objects st' = st_objects st"
proof -
  show "peek st' = (peek st)(i \<mapsto> r)" using put_job_peek(2) [OF assms(2,3)] by simp
  show "st_faults st' = []" "st_objects st' = st_objects st"
    using assms by (auto simp: put_job_def save_def Let_def pop_fault_none split: if_splits option.splits)
qed

text \<open>Without a word about the faults: what went well was written.\<close>

lemma put_job_written:
  assumes "put_job i r st = (None, st')" and "job_id r = i"
  shows "peek st' = (peek st)(i \<mapsto> r)" and "st_objects st' = st_objects st"
proof -
  show "peek st' = (peek st)(i \<mapsto> r)" using put_job_peek(2) [OF assms] by simp
  show "st_objects st' = st_objects st"
    using assms by (auto simp: put_job_def save_def Let_def dest: pop_faultE split: if_splits option.splits prod.splits fault.splits)
qed

lemma place_rows_written:
  assumes "place_rows jlen i rows r st = (Inr r', st')"
  shows "peek st' = peek st"
    and "r' = r \<or> r' = r\<lparr>job_rows := [], job_ref := result_key i\<rparr>
      \<and> (\<exists>m. st_objects st' = Some m \<and> m (result_key i) = Some (Inr rows))"
  using assms
  by (auto simp: place_rows_def put_object_def Let_def peek_def dest: pop_faultE
      split: if_splits option.splits prod.splits fault.splits)

lemma result_key_not_Nil [simp]: "result_key i \<noteq> []"
  by (simp add: result_key_def)

lemma GetResultPage_stored:
  assumes "st_faults st = []" and "peek st i = Some r"
    and "r = r0 \<and> job_ref r0 = [] \<or> r = r0\<lparr>job_rows := [], job_ref := result_key i\<rparr>
      \<and> (\<exists>m. st_objects st = Some m \<and> m (result_key i) = Some (Inr (job_rows r0)))"
  shows "\<exists>r'. fst (GetResultPage i page psize st)
      = (case page_slice (job_rows r0) page psize of Panics \<Rightarrow> Panics | Returns (xs, tok) \<Rightarrow> Returns (Inr (r', xs, tok)))
    \<and> job_status r' = job_status r0 \<and> job_tenant r' = job_tenant r0 \<and> job_truncated r' = job_truncated r0"
  using assms(3)
proof
  assume "r = r0 \<and> job_ref r0 = []"
  then show ?thesis
    using GetJob_answer [OF assms(1,2)]
    by (intro exI [of _ r0]) (simp add: GetResultPage_def Let_def split: outcome.splits)
next
  assume "r = r0\<lparr>job_rows := [], job_ref := result_key i\<rparr>
      \<and> (\<exists>m. st_objects st = Some m \<and> m (result_key i) = Some (Inr (job_rows r0)))"
  then show ?thesis
    using GetJob_answer [OF assms(1,2)] assms(1)
    by (intro exI [of _ "r0\<lparr>job_ref := result_key i\<rparr>"])
       (auto simp: GetResultPage_def Let_def get_object_def pop_fault_none split: outcome.splits)
qed

text \<open>C11. A result that was stored is the result that is paged out: when a job without an earlier reference to the
  object store was marked successful, whatever its backends did meanwhile, then on backends that answer the page
  is cut from exactly the stored rows, whether they went inline, to Redis or to the object store.\<close>

theorem result_roundtrip:
  assumes "keyed st" and "peek st i = Some r" and "job_ref r = []"
    and "MarkSucceeded jlen i rows truncated st = (None, st')" and "st_faults st' = []"
  shows "\<exists>r'. fst (GetResultPage i page psize st')
      = (case page_slice rows page psize of Panics \<Rightarrow> Panics | Returns (xs, tok) \<Rightarrow> Returns (Inr (r', xs, tok)))
    \<and> job_status r' = StatusSuccess \<and> job_tenant r' = job_tenant r \<and> job_truncated r' = truncated"
proof -
  obtain y st0 where g: "GetJob i st = (y, st0)" by fastforce
  with assms(4) obtain x where y: "y = Inr x" by (cases y) (auto simp: MarkSucceeded_def)
  from GetJob_peek(5) [OF g y] assms(2) have g: "GetJob i st = (Inr r, st0)" "peek st0 = peek st" using g y by auto
  define r0 where "r0 = r\<lparr>job_status := StatusSuccess, job_error := [], job_truncated := truncated,
    job_updated := st_now st0, job_rows := rows\<rparr>"
  obtain x st1 where p: "place_rows jlen i rows r0 st0 = (x, st1)" by fastforce
  with assms(4) g(1) obtain r1 where r1: "x = Inr r1" "put_job i r1 st1 = (None, st')"
    by (cases x) (auto simp: MarkSucceeded_def r0_def)
  have r0: "job_ref r0 = []" "job_rows r0 = rows" "job_id r0 = i"
    using assms(1-3) by (simp_all add: r0_def keyed_def)
  note pl = place_rows_written [OF p [unfolded r1(1)]]
  have "job_id r1 = i" using pl(2) r0(3) by auto
  note pj = put_job_written [OF r1(2) this]
  have "peek st' i = Some r1" using pj(1) by simp
  with GetResultPage_stored [OF assms(5) this, of r0 page psize] pl(2) pj(2) r0
  obtain r' where "fst (GetResultPage i page psize st')
      = (case page_slice rows page psize of Panics \<Rightarrow> Panics | Returns (xs, tok) \<Rightarrow> Returns (Inr (r', xs, tok)))"
    "job_status r' = job_status r0" "job_tenant r' = job_tenant r0" "job_truncated r' = job_truncated r0"
    by auto
  then show ?thesis by (intro exI [of _ r']) (simp add: r0_def)
qed

section \<open>Concrete stores\<close>

definition sample_job :: job_record where
  "sample_job = empty_job\<lparr>job_id := ''j1'', job_tenant := ''t1'', job_conn := ''c1'', job_sql := ''SELECT id FROM users''\<rparr>"

text \<open>A durable store with an object store, an inline limit of one byte, and one pending job.\<close>

definition sample_durable :: store where
  "sample_durable = \<lparr>st_jobs = Map.empty,
     st_redis = Some [''n0:job:j1'' \<mapsto> Inr (sample_job\<lparr>job_status := StatusPending\<rparr>)],
     st_objects = Some Map.empty, st_inline = 1, st_faults = [], st_now = 7\<rparr>"

lemma sample_durable_keyed: "keyed sample_durable"
  by (auto simp: keyed_def peek_def sample_durable_def job_key_def sample_job_def empty_job_def
      split: option.splits if_splits)

lemma mark_operations_witness:
  "keyed (snd (MarkRunning ''j1'' sample_durable))
   \<and> peek (snd (MarkFailed ''j1'' ''boom'' sample_durable)) ''j2'' = peek sample_durable ''j2''"
  using mark_operations [OF sample_durable_keyed, of "''j1''" "''boom''"] by simp

lemma result_roundtrip_witness:
  "\<exists>r' st'. fst (MarkSucceeded (\<lambda>rows. 2) ''j1'' [[(''id'', JStr ''x'')]] False sample_durable) = None
    \<and> fst (GetResultPage ''j1'' 1 10 st') = Returns (Inr (r', [[(''id'', JStr ''x'')]], []))
    \<and> job_status r' = StatusSuccess"
proof -
  let ?rows = "[[(''id'', JStr ''x'')]] :: gomap list"
  have ok: "fst (MarkSucceeded (\<lambda>rows. 2) ''j1'' ?rows False sample_durable) = None"
    by (simp add: MarkSucceeded_def GetJob_def load_def pop_fault_def sample_durable_def job_key_def
        place_rows_def marshal_error_def rows_json_def put_object_def put_job_def save_def)
  then obtain st' where st': "MarkSucceeded (\<lambda>rows. 2) ''j1'' ?rows False sample_durable = (None, st')"
    by (metis prod.collapse)
  have p: "peek sample_durable ''j1'' = Some (sample_job\<lparr>job_status := StatusPending\<rparr>)"
    by (simp add: peek_def sample_durable_def job_key_def)
  have page: "page_slice ?rows 1 10 = Returns (?rows, [])"
    by (simp add: page_slice_def clamp_page_def clamp_size_def)
  have "st_faults (snd (MarkSucceeded (\<lambda>rows. 2) ''j1'' ?rows False sample_durable)) = []"
    by (simp add: MarkSucceeded_def GetJob_def load_def pop_fault_def sample_durable_def job_key_def
        place_rows_def marshal_error_def rows_json_def put_object_def put_job_def save_def)
  with st' have "st_faults st' = []" by simp
  with result_roundtrip [OF sample_durable_keyed p _ st', of 1 10] ok page show ?thesis
    by (auto simp: sample_durable_def sample_job_def empty_job_def)
qed

end
