(* ===== verification/Worker_Facts.thy ===== *)
theory Worker_Facts
  imports Worker JobStore_Facts Sandbox_Facts
begin

text \<open>
  What a worker guarantees: only sandboxed statements reach Connection Manager, a processed delivery
  touches its own job only, and an acknowledged one leaves a terminal job with a matching audit event.
\<close>

section \<open>Which jobs an operation touches\<close>

text \<open>Identifiers stay keys, no other job changes, and no job appears or changes hands.\<close>

definition same_query :: "job_record \<Rightarrow> job_record \<Rightarrow> bool" where
  "same_query r' r \<longleftrightarrow> job_tenant r' = job_tenant r \<and> job_sql r' = job_sql r \<and> job_conn r' = job_conn r"

definition touches :: "string \<Rightarrow> store \<Rightarrow> store \<Rightarrow> bool" where
  "touches i st st' \<longleftrightarrow> (keyed st \<longrightarrow> keyed st' \<and> (\<forall>j. j \<noteq> i \<longrightarrow> peek st' j = peek st j)
     \<and> (\<forall>r'. peek st' i = Some r' \<longrightarrow> (\<exists>r. peek st i = Some r \<and> same_query r' r)))"

lemma same_query_refl [simp]: "same_query r r"
  by (simp add: same_query_def)

lemma touches_refl [simp]: "touches i st st"
  by (simp add: touches_def)

lemma touches_trans: "touches i a b \<Longrightarrow> touches i b c \<Longrightarrow> touches i a c"
  unfolding touches_def same_query_def by metis

lemma touches_peek: "peek st' = peek st \<Longrightarrow> touches i st st'"
  by (simp add: touches_def keyed_def)

lemma GetJob_touches: "GetJob i st = (x, st') \<Longrightarrow> touches i st st'"
  using GetJob_peek(5,6) [of i st x st'] by (cases x) (auto simp: touches_def keyed_def split: if_splits)

lemma update_touches:
  fixes f :: "job_record \<Rightarrow> job_record"
  assumes k: "jobs.keeps f" and u: "update i f st = (e, st')"
  shows "touches i st st'"
proof -
  have f: "\<forall>r. job_id (f r) = job_id r" using k by (simp add: jobs.keeps_def)
  show ?thesis
    unfolding touches_def same_query_def
    using jobs.upd_inv [of st f i] jobs.upd_frame [of st f _ i] jobs.upd_owner [of st f i] f k u by simp
qed

lemma MarkRunning_touches: "MarkRunning i st = (e, st') \<Longrightarrow> touches i st st'"
  unfolding MarkRunning_def by (rule update_touches [rotated], assumption) (simp add: jobs.keeps_def)

lemma MarkFailed_touches: "MarkFailed i msg st = (e, st') \<Longrightarrow> touches i st st'"
  unfolding MarkFailed_def by (rule update_touches [rotated], assumption) (simp add: jobs.keeps_def)

lemma MarkFailed_status:
  assumes "keyed st" and "MarkFailed i msg st = (None, st')"
  shows "\<exists>r. peek st' i = Some r \<and> job_status r = StatusFailed \<and> job_error r = msg"
  using mark_failed_ok [OF assms] by auto

lemma place_rows_peek: "place_rows jlen i rows r st = (x, st') \<Longrightarrow> peek st' = peek st"
proof -
  assume a: "place_rows jlen i rows r st = (x, st')"
  have p: "put_object key rows st = (e, st1) \<Longrightarrow> peek st1 = peek st" for key e st1
    by (auto simp: put_object_def Let_def dest: pop_faultE(4) split: prod.splits fault.splits)
  with a show ?thesis by (auto simp: place_rows_def split: if_splits option.splits prod.splits)
qed

lemma place_rows_record:
  "place_rows jlen i rows r st = (Inr r', st') \<Longrightarrow> job_id r' = job_id r \<and> job_status r' = job_status r \<and> same_query r' r"
  by (auto simp: place_rows_def same_query_def split: if_splits option.splits prod.splits)

lemma MarkSucceeded_touches:
  assumes "MarkSucceeded jlen i rows tr st = (e, st')"
  shows "touches i st st'" and "keyed st \<Longrightarrow> e = None \<Longrightarrow> \<exists>r. peek st' i = Some r \<and> job_status r = StatusSuccess"
proof -
  obtain x st1 where g: "GetJob i st = (x, st1)" by fastforce
  note t1 = GetJob_touches [OF g]
  have "touches i st st' \<and> (keyed st \<longrightarrow> e = None \<longrightarrow> (\<exists>r. peek st' i = Some r \<and> job_status r = StatusSuccess))"
  proof (cases x)
    case (Inl y)
    with g assms have "e = Some y" "st' = st1" by (simp_all add: MarkSucceeded_def)
    with t1 show ?thesis by simp
  next
    case (Inr r)
    define r0 where "r0 = r\<lparr>job_status := StatusSuccess, job_error := [], job_truncated := tr,
      job_updated := st_now st1, job_rows := rows\<rparr>"
    have ms: "MarkSucceeded jlen i rows tr st =
        (case place_rows jlen i rows r0 st1 of (Inl e, st'') \<Rightarrow> (Some e, st'') | (Inr r'', st'') \<Rightarrow> put_job i r'' st'')"
      using g Inr by (simp add: MarkSucceeded_def r0_def)
    obtain y st2 where p: "place_rows jlen i rows r0 st1 = (y, st2)" by fastforce
    have t2: "touches i st1 st2" using place_rows_peek [OF p] by (rule touches_peek)
    show ?thesis
    proof (cases y)
      case (Inl z)
      with p assms have "e = Some z" "st' = st2" unfolding ms by simp_all
      with touches_trans [OF t1 t2] show ?thesis by simp
    next
      case y: (Inr r1)
      with p assms have w: "put_job i r1 st2 = (e, st')" unfolding ms by simp
      have id: "keyed st \<Longrightarrow> job_id r1 = i"
        using place_rows_record [OF p [unfolded y]] GetJob_peek(5) [OF g Inr] by (simp add: r0_def keyed_def)
      have s: "job_status r1 = StatusSuccess" using place_rows_record [OF p [unfolded y]] by (simp add: r0_def)
      have t3: "touches i st2 st'" if k: "keyed st"
      proof -
        have "peek st i = Some r" "peek st1 = peek st" using GetJob_peek(5) [OF g Inr] by auto
        then have "peek st2 i = Some r" using place_rows_peek [OF p] by simp
        moreover have "same_query r1 r"
          using place_rows_record [OF p [unfolded y]] by (simp add: r0_def same_query_def)
        ultimately show ?thesis
          using put_job_peek(2) [OF w id [OF k]] id [OF k] by (auto simp: touches_def keyed_def split: if_splits)
      qed
      have "touches i st st'"
      proof (cases "keyed st")
        case True
        from touches_trans [OF touches_trans [OF t1 t2] t3 [OF True]] show ?thesis .
      qed (simp add: touches_def)
      moreover have "peek st' i = Some r1" if "keyed st" "e = None"
        using put_job_peek(2) [OF w id [OF that(1)]] that(2) by simp
      ultimately show ?thesis using s by blast
    qed
  qed
  then show "touches i st st'" "keyed st \<Longrightarrow> e = None \<Longrightarrow> \<exists>r. peek st' i = Some r \<and> job_status r = StatusSuccess"
    by blast+
qed

section \<open>The body of Process\<close>

lemma with_storeE:
  assumes "with_store f w = (x, w')"
  obtains st' where "f (w_store w) = (x, st')" and "w' = w\<lparr>w_store := st'\<rparr>"
  using assms by (auto simp: with_store_def split: prod.splits)

text \<open>
  The verdict on a job: nothing but its entry and the request list changes, and a verdict without error
  means that the stored job is terminal with the reported outcome.
\<close>

definition settles :: "string \<Rightarrow> world \<Rightarrow> verdict \<Rightarrow> world \<Rightarrow> bool" where
  "settles i w v w' \<longleftrightarrow> touches i (w_store w) (w_store w') \<and> w_audit w' = w_audit w
     \<and> (keyed (w_store w) \<and> fst v = None \<longrightarrow>
         (\<exists>r. peek (w_store w') i = Some r
            \<and> job_status r = (if fst (snd v) then StatusSuccess else StatusFailed)))"

lemma settles_after:
  assumes "touches i (w_store w) (w_store w1)" and "w_audit w1 = w_audit w" and "settles i w1 v w'"
  shows "settles i w v w'"
  using assms touches_trans [OF assms(1)] by (auto simp: settles_def touches_def)

lemma settles_sent: "settles i (w\<lparr>w_sent := q\<rparr>) v w' \<Longrightarrow> settles i w v w'"
  by (simp add: settles_def)

lemma fail_with_settles: "settles i w (fst (fail_with i msg w)) (snd (fail_with i msg w))"
proof -
  obtain e st' where m: "MarkFailed i msg (w_store w) = (e, st')" by fastforce
  show ?thesis
    using MarkFailed_touches [OF m] MarkFailed_status [of "w_store w" i msg st'] m
    by (cases e) (auto simp: fail_with_def failJob_def with_store_def settles_def)
qed

lemma store_result_settles: "settles i w (fst (store_result env i resp w)) (snd (store_result env i resp w))"
proof -
  define rows where "rows = map (row_map (xr_columns resp)) (xr_rows resp)"
  obtain e st1 where m: "MarkSucceeded (pe_jlen env) i rows (xr_truncated resp) (w_store w) = (e, st1)" by fastforce
  note t = MarkSucceeded_touches [OF m]
  show ?thesis
  proof (cases e)
    case None
    with t m show ?thesis
      by (auto simp: store_result_def rows_def [symmetric] Let_def with_store_def settles_def)
  next
    case (Some x)
    obtain f st2 where m2: "MarkFailed i (''result persistence: '' @ error_text x) st1 = (f, st2)" by fastforce
    from touches_trans [OF t(1) MarkFailed_touches [OF m2]] m m2 Some show ?thesis
      by (cases f) (simp_all add: store_result_def rows_def [symmetric] Let_def with_store_def settles_def)
  qed
qed

text \<open>The requests a job may add: none, or the one sandboxed request.\<close>

definition sandboxed_request :: "proc_env \<Rightarrow> query_job \<Rightarrow> exec_request \<Rightarrow> bool" where
  "sandboxed_request env job req \<longleftrightarrow>
     (\<exists>conn pol params. pe_lookup env (qj_conn job) (qj_tenant job) = Inr (Some conn)
        \<and> policyFromConnection (cn_params conn) (qj_tenant job) = Inr pol
        \<and> TenantValue pol = qj_tenant job
        \<and> Allowed (ValidatePolicy (qj_sql job) pol)
        \<and> pe_new_struct env (clean_params (cn_params conn)) = Inr params
        \<and> req = exec_request_for job conn params (Sanitized (ValidatePolicy (qj_sql job) pol)))"

definition sends :: "proc_env \<Rightarrow> query_job \<Rightarrow> world \<Rightarrow> world \<Rightarrow> bool" where
  "sends env job w w' \<longleftrightarrow>
     w_sent w' = w_sent w \<or> (\<exists>req. sandboxed_request env job req \<and> w_sent w' = w_sent w @ [req])"

lemma failJob_sent: "w_sent (snd (fail_with i msg w)) = w_sent w"
  by (auto simp: fail_with_def failJob_def with_store_def split: prod.splits option.splits)

lemma store_result_sent: "w_sent (snd (store_result env i resp w)) = w_sent w"
  by (auto simp: store_result_def Let_def with_store_def split: prod.splits option.splits)

lemma policy_tenant: "policyFromConnection params tenant = Inr pol \<Longrightarrow> TenantValue pol = tenant"
  by (auto simp: policyFromConnection_def split: option.splits jval.splits if_splits sum.splits)

lemma execute_facts:
  assumes "pe_lookup env (qj_conn job) (qj_tenant job) = Inr (Some conn)"
  shows "settles (qj_id job) w (fst (execute env job conn w)) (snd (execute env job conn w))
    \<and> sends env job w (snd (execute env job conn w))"
proof (cases "policyFromConnection (cn_params conn) (qj_tenant job)")
  case (Inl e)
  then show ?thesis by (simp add: execute_def Let_def fail_with_settles sends_def failJob_sent)
next
  case pol: (Inr pol)
  show ?thesis
  proof (cases "Allowed (ValidatePolicy (qj_sql job) pol)")
    case False
    with pol show ?thesis by (simp add: execute_def Let_def fail_with_settles sends_def failJob_sent)
  next
    case ok: True
    show ?thesis
    proof (cases "pe_new_struct env (clean_params (cn_params conn))")
      case (Inl e)
      with pol ok show ?thesis by (simp add: execute_def Let_def fail_with_settles sends_def failJob_sent)
    next
      case (Inr params)
      define req where "req = exec_request_for job conn params (Sanitized (ValidatePolicy (qj_sql job) pol))"
      have s: "sandboxed_request env job req"
        using assms pol ok Inr policy_tenant [OF pol] unfolding sandboxed_request_def req_def by blast
      have x: "execute env job conn w =
          (case pe_exec env req of
             Inl e \<Rightarrow> fail_with (qj_id job) (''execute query: '' @ error_text e) (w\<lparr>w_sent := w_sent w @ [req]\<rparr>)
           | Inr resp \<Rightarrow> store_result env (qj_id job) resp (w\<lparr>w_sent := w_sent w @ [req]\<rparr>))"
        using pol ok Inr unfolding execute_def Let_def req_def by simp
      show ?thesis
      proof (cases "pe_exec env req")
        case (Inl e)
        with s show ?thesis unfolding x
          by (auto simp: sends_def failJob_sent intro: settles_sent [OF fail_with_settles])
      next
        case (Inr resp)
        with s show ?thesis unfolding x
          by (auto simp: sends_def store_result_sent intro: settles_sent [OF store_result_settles])
      qed
    qed
  qed
qed

lemma run_job_facts:
  "settles (qj_id job) w (fst (run_job env job w)) (snd (run_job env job w))
   \<and> sends env job w (snd (run_job env job w))"
proof -
  obtain e st1 where m: "MarkRunning (qj_id job) (w_store w) = (e, st1)" by fastforce
  let ?w1 = "w\<lparr>w_store := st1\<rparr>"
  note t = MarkRunning_touches [OF m]
  show ?thesis
  proof (cases e)
    case (Some x)
    with m t show ?thesis by (simp add: run_job_def Let_def with_store_def settles_def sends_def)
  next
    case None
    have cont: "settles (qj_id job) w v w' \<and> sends env job w w'"
      if "settles (qj_id job) ?w1 v w' \<and> sends env job ?w1 w'" for v w'
      using that settles_after [of "qj_id job" w ?w1 v w'] t by (simp add: sends_def)
    have r: "run_job env job w =
        (case pe_lookup env (qj_conn job) (qj_tenant job) of
           Inl e \<Rightarrow> fail_with (qj_id job) (''get connection: '' @ error_text e) ?w1
         | Inr None \<Rightarrow> fail_with (qj_id job) ''connection not found'' ?w1
         | Inr (Some conn) \<Rightarrow> execute env job conn ?w1)"
      using m None by (simp add: run_job_def Let_def with_store_def)
    have "settles (qj_id job) ?w1 (fst (run_job env job w)) (snd (run_job env job w))
        \<and> sends env job ?w1 (snd (run_job env job w))"
    proof (cases "pe_lookup env (qj_conn job) (qj_tenant job)")
      case (Inl e)
      then show ?thesis unfolding r by (simp add: fail_with_settles sends_def failJob_sent)
    next
      case (Inr c)
      with execute_facts [of env job _ ?w1] show ?thesis
        unfolding r by (cases c) (simp_all add: fail_with_settles, simp add: sends_def failJob_sent)
    qed
    then show ?thesis by (rule cont)
  qed
qed

lemma process_body_facts:
  "settles (qj_id job) w (fst (process_body env job w)) (snd (process_body env job w))
   \<and> sends env job w (snd (process_body env job w))"
proof -
  obtain x st1 where g: "GetJob (qj_id job) (w_store w) = (x, st1)" by fastforce
  let ?w1 = "w\<lparr>w_store := st1\<rparr>"
  note t = GetJob_touches [OF g]
  have run: "settles (qj_id job) w (fst (run_job env job ?w1)) (snd (run_job env job ?w1))
      \<and> sends env job w (snd (run_job env job ?w1))"
    using run_job_facts [of job ?w1 env] settles_after [of "qj_id job" w ?w1] t by (auto simp: sends_def)
  show ?thesis
  proof (cases x)
    case (Inl e)
    with g run show ?thesis by (simp add: process_body_def with_store_def)
  next
    case (Inr r)
    with g run t GetJob_peek(5) [OF g Inr] show ?thesis
      by (auto simp: process_body_def with_store_def settles_def sends_def)
  qed
qed

section \<open>Process\<close>

lemma publish_audit_frame:
  "w_store (snd (publish_audit env job v w)) = w_store w" "w_sent (snd (publish_audit env job v w)) = w_sent w"
  by (auto simp: publish_audit_def split: prod.splits option.splits)

lemma publish_audit_log:
  assumes "publish_audit env job v w = (None, w')" and "w_audit w = Some p"
  shows "fst v = None \<and> (\<exists>p' ev. w_audit w' = Some p'
    \<and> pub_log p' = pub_log p @ [(SubjectPrefix @ ''.'' @ sanitizeSubjectToken (qj_tenant job), ev)]
    \<and> ev_tenant ev = qj_tenant job \<and> ev_resource ev = qj_id job \<and> ev_success ev = fst (snd v)
    \<and> ev_id ev = pe_event_id env (qj_id job))"
proof -
  obtain err ok msg where v: "v = (err, ok, msg)" by (cases v)
  obtain e q where pub: "Publish [] (pe_now env) (audit_event env job ok msg) (Some p) = (e, q)" by fastforce
  have e: "e = None" "err = None" "w_audit w' = q"
    using assms v pub by (auto simp: publish_audit_def split: option.splits if_splits)
  show ?thesis using Publish_log [OF pub] e v by (auto simp: audit_event_def)
qed

lemma Process_eq:
  "Process env job w = publish_audit env job (fst (process_body env job w)) (snd (process_body env job w))"
  by (simp add: Process_def split: prod.split)

lemma Process_touches: "touches (qj_id job) (w_store w) (w_store (snd (Process env job w)))"
  using process_body_facts [of job w env] by (simp add: Process_eq publish_audit_frame settles_def)

text \<open>Processing one delivery sends Connection Manager nothing, or exactly one request: the sandboxed
  form of the job's statement under the policy of the connection looked up for the job's tenant, with
  that tenant as the tenant value.\<close>

theorem process_sends_only_sandboxed:
  "w_sent (snd (Process env job w)) = w_sent w
   \<or> (\<exists>req. sandboxed_request env job req \<and> w_sent (snd (Process env job w)) = w_sent w @ [req])"
  using process_body_facts [of job w env] by (simp add: Process_eq publish_audit_frame sends_def)

lemma acknowledged:
  assumes "Process env job w = (None, w')" and "keyed (w_store w)" and "w_audit w = Some p"
  shows "\<exists>r p' ev. peek (w_store w') (qj_id job) = Some r
    \<and> job_status r = (if ev_success ev then StatusSuccess else StatusFailed)
    \<and> w_audit w' = Some p'
    \<and> pub_log p' = pub_log p @ [(SubjectPrefix @ ''.'' @ sanitizeSubjectToken (qj_tenant job), ev)]
    \<and> ev_resource ev = qj_id job \<and> ev_tenant ev = qj_tenant job \<and> ev_id ev = pe_event_id env (qj_id job)"
proof -
  obtain v w1 where b: "process_body env job w = (v, w1)" by fastforce
  have s: "settles (qj_id job) w v w1" using process_body_facts [of job w env] b by simp
  have pa: "publish_audit env job v w1 = (None, w')" using assms(1) b by (simp add: Process_eq)
  have "w_audit w1 = Some p" using s assms(3) by (simp add: settles_def)
  from publish_audit_log [OF pa this] obtain p' ev where log: "fst v = None" "w_audit w' = Some p'"
    "pub_log p' = pub_log p @ [(SubjectPrefix @ ''.'' @ sanitizeSubjectToken (qj_tenant job), ev)]"
    "ev_tenant ev = qj_tenant job" "ev_resource ev = qj_id job" "ev_success ev = fst (snd v)"
    "ev_id ev = pe_event_id env (qj_id job)" by blast
  have "w_store w' = w_store w1" using publish_audit_frame(1) [of env job v w1] pa by simp
  moreover obtain r where "peek (w_store w1) (qj_id job) = Some r"
    "job_status r = (if fst (snd v) then StatusSuccess else StatusFailed)"
    using s assms(2) log(1) by (auto simp: settles_def)
  ultimately show ?thesis using log by (intro exI [of _ r] exI [of _ p'] exI [of _ ev]) simp
qed

text \<open>C7. Whatever the services answer, a delivery that is acknowledged leaves its job terminal in the
  store, and exactly one audit event for it in the stream, in the tenant's partition and under the
  job's deterministic identifier, whose success flag is the stored outcome.\<close>

theorem acknowledged_job_is_settled:
  assumes "Process env job w = (None, w')" and "keyed (w_store w)" and "w_audit w = Some p"
  shows "\<exists>r p' ev. peek (w_store w') (qj_id job) = Some r
    \<and> job_status r = (if ev_success ev then StatusSuccess else StatusFailed)
    \<and> w_audit w' = Some p'
    \<and> pub_log p' = pub_log p @ [(SubjectPrefix @ ''.'' @ sanitizeSubjectToken (qj_tenant job), ev)]
    \<and> ev_resource ev = qj_id job \<and> ev_tenant ev = qj_tenant job \<and> ev_id ev = pe_event_id env (qj_id job)"
  using assms by (rule acknowledged)

text \<open>Processing a delivery changes no job but its own, whatever fails on the way.\<close>

theorem process_touches_own_job:
  assumes "keyed (w_store w)" and "j \<noteq> qj_id job"
  shows "keyed (w_store (snd (Process env job w)))
    \<and> peek (w_store (snd (Process env job w))) j = peek (w_store w) j"
  using process_body_facts [of job w env] assms
  by (simp add: Process_eq publish_audit_frame settles_def touches_def)

text \<open>C24. A redelivered job that is already terminal is not executed again while the store answers: no
  request is sent, no job changes, and the audit event repeats the stored outcome.\<close>

theorem terminal_job_not_rerun:
  assumes "st_faults (w_store w) = []" and "peek (w_store w) (qj_id job) = Some r"
    and "job_status r = StatusSuccess \<or> job_status r = StatusFailed"
  shows "process_body env job w
    = ((None, job_status r = StatusSuccess, (if job_status r = StatusSuccess then [] else job_error r)), w)
    \<and> w_sent (snd (Process env job w)) = w_sent w \<and> w_store (snd (Process env job w)) = w_store w"
proof -
  have "process_body env job w
      = ((None, job_status r = StatusSuccess, (if job_status r = StatusSuccess then [] else job_error r)), w)"
    using GetJob_answer [OF assms(1,2)] assms(3) by (auto simp: process_body_def with_store_def)
  then show ?thesis by (simp add: Process_eq publish_audit_frame)
qed

section \<open>The pool\<close>

text \<open>A request that answers one of the messages, and the jobs the messages name.\<close>

definition answers :: "message list \<Rightarrow> exec_request \<Rightarrow> bool" where
  "answers ms req \<longleftrightarrow> (\<exists>job env. (Inr job, env) \<in> set ms \<and> sandboxed_request env job req)"

definition names_job :: "message list \<Rightarrow> string \<Rightarrow> bool" where
  "names_job ms j \<longleftrightarrow> (\<exists>job env. (Inr job, env) \<in> set ms \<and> qj_id job = j)"

lemma message_list_simps:
  "answers (xs @ ys) req \<longleftrightarrow> answers xs req \<or> answers ys req"
  "answers ((Inr job, env) # ys) req \<longleftrightarrow> sandboxed_request env job req \<or> answers ys req"
  "names_job (xs @ ys) j \<longleftrightarrow> names_job xs j \<or> names_job ys j"
  "names_job ((Inr job, env) # ys) j \<longleftrightarrow> qj_id job = j \<or> names_job ys j"
  "answers ((Inl e, env) # ys) req \<longleftrightarrow> answers ys req" "names_job ((Inl e, env) # ys) j \<longleftrightarrow> names_job ys j"
  by (auto simp: answers_def names_job_def)

definition pool_ok :: "message list \<Rightarrow> world \<Rightarrow> world \<Rightarrow> bool" where
  "pool_ok ms w w' \<longleftrightarrow>
     (\<exists>reqs. w_sent w' = w_sent w @ reqs \<and> (\<forall>req\<in>set reqs. answers ms req))
     \<and> (keyed (w_store w) \<longrightarrow> keyed (w_store w')
         \<and> (\<forall>j. \<not> names_job ms j \<longrightarrow> peek (w_store w') j = peek (w_store w) j))"

lemma pool_ok_refl [simp]: "pool_ok ms w w"
  by (simp add: pool_ok_def)

lemma pool_ok_append: "pool_ok xs a b \<Longrightarrow> pool_ok ys b c \<Longrightarrow> pool_ok (xs @ ys) a c"
  unfolding pool_ok_def message_list_simps by fastforce

lemma Process_pool_ok: "pool_ok [(Inr job, env)] w (snd (Process env job w))"
  using process_body_facts [of job w env]
  by (auto simp: pool_ok_def Process_eq publish_audit_frame settles_def touches_def sends_def
      message_list_simps answers_def [of "[]"] names_job_def [of "[]"])

lemma handle_message_pool_ok: "pool_ok [m] w (snd (handle_message Process m w))"
  using Process_pool_ok [of _ _ w]
  by (cases m; cases "fst m") (auto simp: handle_message_def case_prod_beta split: option.split)

lemma handle_batch_pool_ok: "pool_ok ms w (snd (handle_batch Process ms w))"
proof (induction ms arbitrary: w)
  case (Cons m ms)
  from pool_ok_append [OF handle_message_pool_ok [of m w] Cons.IH] show ?case
    by (simp add: case_prod_beta)
qed simp

text \<open>Every fetched message gets a disposition, in order.\<close>

lemma handle_batch_length: "length (fst (handle_batch process ms w)) = length ms"
  by (induction ms arbitrary: w) (auto simp: case_prod_beta)

fun batch_messages :: "round list \<Rightarrow> message list" where
  "batch_messages [] = []"
| "batch_messages (Batch ms # rs) = ms @ batch_messages rs"
| "batch_messages (r # rs) = batch_messages rs"

text \<open>C9. However long a worker runs and whatever it fetches, every request it sends is the sandboxed form
  of a message it received, and jobs that no message names stay as they are.\<close>

theorem pool_runs_only_sandboxed:
  "\<exists>reqs. w_sent (snd (pool_run Process rs w)) = w_sent w @ reqs
     \<and> (\<forall>req\<in>set reqs. answers (batch_messages rs) req)
     \<and> (keyed (w_store w) \<longrightarrow> keyed (w_store (snd (pool_run Process rs w)))
         \<and> (\<forall>j. \<not> names_job (batch_messages rs) j \<longrightarrow>
              peek (w_store (snd (pool_run Process rs w))) j = peek (w_store w) j))"
proof -
  have "pool_ok (batch_messages rs) w (snd (pool_run Process rs w))"
  proof (induction rs arbitrary: w)
    case (Cons r rs)
    show ?case
    proof (cases r)
      case (Batch ms)
      from pool_ok_append [OF handle_batch_pool_ok [of ms w] Cons.IH] show ?thesis
        using Batch by (simp add: case_prod_beta)
    qed (simp_all add: Cons.IH)
  qed simp
  then show ?thesis unfolding pool_ok_def by blast
qed

section \<open>Concrete deliveries\<close>

definition sample_env :: proc_env where
  "sample_env =
     \<lparr>pe_lookup = \<lambda>c t. Inr (Some \<lparr>cn_adapter = ''postgres'',
        cn_params = [(''query_policy'', JObj [(''allowed_tables'', JArr [JStr ''users''])])]\<rparr>),
      pe_exec = \<lambda>req. Inr \<lparr>xr_columns = [''id''], xr_rows = [[JStr ''x'']], xr_truncated = False\<rparr>,
      pe_new_struct = Inr, pe_event_id = \<lambda>i. ''uuid-'' @ i, pe_jlen = \<lambda>rows. 2, pe_elapsed = 0, pe_now = 9\<rparr>"

definition sample_query :: query_job where
  "sample_query = \<lparr>qj_id = ''j1'', qj_tenant = ''t1'', qj_conn = ''c1'', qj_sql = ''SELECT id FROM users''\<rparr>"

definition sample_world :: world where
  "sample_world = \<lparr>w_store = sample_durable, w_audit = Some \<lparr>pub_log = [], pub_faults = []\<rparr>, w_sent = []\<rparr>"

lemma sample_process: "fst (Process sample_env sample_query sample_world) = None"
  by code_simp

lemma sample_world_keyed: "keyed (w_store sample_world)"
  using sample_durable_keyed by (simp add: sample_world_def)

lemma acknowledged_job_is_settled_witness:
  "\<exists>r. peek (w_store (snd (Process sample_env sample_query sample_world))) ''j1'' = Some r
    \<and> (job_status r = StatusSuccess \<or> job_status r = StatusFailed)"
proof -
  obtain w' where w': "Process sample_env sample_query sample_world = (None, w')"
    using sample_process by (metis prod.collapse)
  have "w_audit sample_world = Some \<lparr>pub_log = [], pub_faults = []\<rparr>" by (simp add: sample_world_def)
  from acknowledged_job_is_settled [OF w' sample_world_keyed this] w' show ?thesis
    by (auto simp: sample_query_def split: if_splits)
qed

lemma process_touches_own_job_witness:
  "peek (w_store (snd (Process sample_env sample_query sample_world))) ''j2'' = peek sample_durable ''j2''"
  using process_touches_own_job [OF sample_world_keyed, of "''j2''" sample_query sample_env]
  by (simp add: sample_query_def sample_world_def)

definition sample_done :: world where
  "sample_done = \<lparr>w_store = sample_durable\<lparr>st_redis := Some [''n0:job:j1'' \<mapsto> Inr (sample_job\<lparr>job_status := StatusSuccess\<rparr>)]\<rparr>,
     w_audit = None, w_sent = []\<rparr>"

lemma terminal_job_not_rerun_witness:
  "w_sent (snd (Process sample_env sample_query sample_done)) = []"
proof -
  have "peek (w_store sample_done) (qj_id sample_query) = Some (sample_job\<lparr>job_status := StatusSuccess\<rparr>)"
    by (simp add: sample_done_def peek_def sample_query_def job_key_def)
  from terminal_job_not_rerun [OF _ this] show ?thesis
    by (simp add: sample_done_def sample_durable_def)
qed

lemma pool_runs_only_sandboxed_witness:
  "peek (w_store (snd (pool_run Process [Batch [(Inr sample_query, sample_env)]] sample_world))) ''j2''
   = peek sample_durable ''j2''"
  using pool_runs_only_sandboxed [of "[Batch [(Inr sample_query, sample_env)]]" sample_world] sample_world_keyed
  by (auto simp: names_job_def sample_query_def sample_world_def)

text \<open>
  The guard against a second execution reads the store once and ignores an error: with a failing first
  read, a job that has succeeded is marked running and its statement is sent again.
\<close>

lemma terminal_job_rerun_after_fault:
  "length (w_sent (snd (Process sample_env sample_query
     (sample_done\<lparr>w_store := (w_store sample_done)\<lparr>st_faults := [Fails ''i/o timeout'']\<rparr>\<rparr>)))) = 1"
  by code_simp

end
