(* ===== verification/QueryServer_Facts.thy ===== *)
theory QueryServer_Facts
  imports QueryServer Worker_Facts
begin

text \<open>
  What a client of Query Engine is promised: an accepted query is stored, queued and answered to its
  tenant; nobody else sees it; the answers of the handlers, errors included.
\<close>

section \<open>Submission\<close>

lemma CreateContext_peek:
  assumes "CreateContext r st = (x, st')"
  shows "x = Inr c \<Longrightarrow> peek st' = (peek st)(job_id r \<mapsto> c) \<and> job_id c = job_id r \<and> job_tenant c = job_tenant r
      \<and> job_conn c = job_conn r \<and> job_sql c = job_sql r \<and> job_status c = StatusPending \<and> job_error c = []"
    and "x = Inl e \<Longrightarrow> peek st' = peek st \<or> (\<exists>c. peek st' = (peek st)(job_id r \<mapsto> c) \<and> job_id c = job_id r)"
proof -
  define cp where "cp = r\<lparr>job_status := StatusPending, job_error := [], job_created := st_now st, job_updated := st_now st\<rparr>"
  have u: "CreateContext r st = (case put_job (job_id r) cp st of
      (Some e, st') \<Rightarrow> (Inl e, st') | (None, st') \<Rightarrow> (Inr cp, st'))"
    by (auto simp: CreateContext_def put_job_def cp_def Let_def split: prod.split option.split)
  obtain y st1 where p: "put_job (job_id r) cp st = (y, st1)" by fastforce
  have id: "job_id cp = job_id r" by (simp add: cp_def)
  note q = put_job_peek(2) [OF p id]
  show "x = Inr c \<Longrightarrow> peek st' = (peek st)(job_id r \<mapsto> c) \<and> job_id c = job_id r \<and> job_tenant c = job_tenant r
      \<and> job_conn c = job_conn r \<and> job_sql c = job_sql r \<and> job_status c = StatusPending \<and> job_error c = []"
    using assms u p q by (cases y) (auto simp: cp_def)
  show "x = Inl e \<Longrightarrow> peek st' = peek st \<or> (\<exists>c. peek st' = (peek st)(job_id r \<mapsto> c) \<and> job_id c = job_id r)"
    using assms u p q id by (cases y) auto
qed

lemma publish_job_log: "publish_job subject job js = (None, js') \<Longrightarrow> js_log js' = js_log js @ [(subject, job)]"
  by (auto simp: publish_job_def Let_def split: prod.splits fault.splits)

lemma submit_accepts_job:
  assumes "SubmitQuery nuid req s = (Inr resp, s')" and "qs_stream s = Some js"
  shows "\<exists>r js'. peek (qs_store s') = (peek (qs_store s))(sr_job resp \<mapsto> r)
    \<and> job_id r = sr_job resp \<and> job_tenant r = sq_tenant req \<and> job_conn r = sq_conn req \<and> job_sql r = sq_sql req
    \<and> job_status r = StatusPending \<and> sr_status resp = StatusPending
    \<and> qs_stream s' = Some js' \<and> js_log js' = js_log js @ [(querySubject, job_of r)]"
proof -
  obtain x st where c: "CreateContext (new_record nuid req) (qs_store s) = (x, st)" by fastforce
  obtain r where x: "x = Inr r" using assms c
    by (cases x) (auto simp: SubmitQuery_def split: if_splits)
  obtain y js' where p: "publish_job querySubject (job_of r) js = (y, js')" by fastforce
  have y: "y = None" "resp = \<lparr>sr_job = job_id r, sr_status = job_status r\<rparr>"
      "s' = s\<lparr>qs_store := st, qs_stream := Some js'\<rparr>"
    using assms c x p by (auto simp: SubmitQuery_def split: if_splits option.splits)
  note n = CreateContext_peek(1) [OF c x]
  then have "peek (qs_store s') = (peek (qs_store s))(sr_job resp \<mapsto> r)" using y by simp
  with n y publish_job_log [OF p [unfolded y(1)]] show ?thesis
    by (intro exI [of _ r] exI [of _ js']) (simp add: new_record_def)
qed

text \<open>An accepted query is in the store, pending, under the identifier the client gets, with the
  tenant, connection and statement of the request; the same job is the only message that was queued;
  no other job changed.\<close>

theorem submit_accepts:
  assumes "SubmitQuery nuid req s = (Inr resp, s')" and "qs_stream s = Some js"
  shows "\<exists>r js'. peek (qs_store s') = (peek (qs_store s))(sr_job resp \<mapsto> r)
    \<and> job_id r = sr_job resp \<and> job_tenant r = sq_tenant req \<and> job_conn r = sq_conn req \<and> job_sql r = sq_sql req
    \<and> job_status r = StatusPending \<and> sr_status resp = StatusPending
    \<and> qs_stream s' = Some js' \<and> js_log js' = js_log js @ [(querySubject, job_of r)]"
  using assms by (rule submit_accepts_job)

text \<open>What a refused submission leaves behind. The store fails only where a fault of its list says so: in the write of
  the new job, or in the read and the write that mark it failed.\<close>

lemma put_job_faults:
  assumes "put_job i r st = (x, st')" and "job_rows r = []" and "job_id r = i"
  shows "peek st' = (peek st)(i \<mapsto> r) \<and> (x = None \<or> (\<exists>m fs. st_faults st = LostReply m # fs))
    \<or> peek st' = peek st \<and> (\<exists>m fs. st_faults st = Fails m # fs)"
    and "st_redis st = None \<and> st_faults st' = st_faults st \<or> st_faults st' = tl (st_faults st)"
proof -
  have m: "marshal_error (rows_json (job_rows r)) = None" using assms(2) by (simp add: rows_json_def marshal_error_def)
  obtain f st1 where f: "pop_fault st = (f, st1)" by fastforce
  then have n: "next_fault (st_faults st) = (f, st_faults st1)" by (auto simp: pop_fault_def split: prod.splits)
  show "peek st' = (peek st)(i \<mapsto> r) \<and> (x = None \<or> (\<exists>m fs. st_faults st = LostReply m # fs))
    \<or> peek st' = peek st \<and> (\<exists>m fs. st_faults st = Fails m # fs)"
    using put_job_peek(2) [OF assms(1,3)] assms(1) m f n pop_faultE(4) [OF f] assms(3) peek_redis_write [of st1 _ i r] pop_faultE(1) [OF f]
    by (cases "st_faults st"; cases f) (auto simp: put_job_def save_def Let_def split: if_splits)
  show "st_redis st = None \<and> st_faults st' = st_faults st \<or> st_faults st' = tl (st_faults st)"
    using assms(1) m f n by (cases "st_faults st"; cases f) (auto simp: put_job_def save_def Let_def split: if_splits)
qed

lemma MarkFailed_faults:
  assumes "peek st i = Some r" and "job_id r = i" and st': "snd (MarkFailed i msg st) = st'"
  shows "(\<forall>j. j \<noteq> i \<longrightarrow> peek st' j = peek st j)
    \<and> ((\<exists>r'. peek st' i = Some r' \<and> job_status r' = StatusFailed)
       \<or> (\<exists>f\<in>set (take 2 (st_faults st)). f \<noteq> NoFault) \<and> (peek st' i = None \<or> peek st' i = Some r))"
proof -
  obtain x st1 where g: "GetJob i st = (x, st1)" by fastforce
  show ?thesis
  proof (cases x)
    case (Inl e)
    then have "st' = st1" using g by (simp add: st' [symmetric] MarkFailed_def update_def)
    moreover have "\<exists>f\<in>set (take 2 (st_faults st)). f \<noteq> NoFault"
    proof (cases "st_faults st")
      case Nil
      with GetJob_answer [OF Nil assms(1)] g Inl show ?thesis by simp
    next
      case (Cons f fs)
      have "f \<noteq> NoFault"
        using g Inl assms(1) Cons by (auto simp: GetJob_def load_def pop_fault_def peek_def split: if_splits option.splits sum.splits)
      with Cons show ?thesis by simp
    qed
    ultimately show ?thesis using GetJob_peek(6) [OF g Inl] assms(1) by auto
  next
    case (Inr y)
    with GetJob_peek(5) [OF g Inr] assms(1) have y: "y = r" "peek st1 = peek st" by auto
    have f1: "st_faults st1 = st_faults st \<and> st_redis st1 = None \<or> st_faults st1 = tl (st_faults st)"
      using g Inr by (cases "st_faults st")
        (auto simp: GetJob_def load_def pop_fault_def split: if_splits option.splits sum.splits fault.splits)
    let ?r = "r\<lparr>job_status := StatusFailed, job_error := msg, job_rows := [], job_ref := [], job_updated := st_now st1\<rparr>"
    obtain z st2 where p: "put_job i ?r st1 = (z, st2)" by fastforce
    have s2: "st' = st2" using g Inr y p by (simp add: st' [symmetric] MarkFailed_def update_def)
    have mem: "st_redis st1 = None \<Longrightarrow> peek st2 = (peek st1)(i \<mapsto> ?r)"
      using put_job_peek(2) [OF p] p assms(2) by (auto simp: put_job_def)
    have "peek st2 = (peek st1)(i \<mapsto> ?r) \<or> peek st2 = peek st1 \<and> (\<exists>m fs. st_faults st1 = Fails m # fs)"
      using put_job_faults(1) [OF p] assms(2) by auto
    then consider "peek st2 = (peek st1)(i \<mapsto> ?r)"
      | m fs where "peek st2 = peek st1" "tl (st_faults st) = Fails m # fs"
      using f1 mem by metis
    then show ?thesis
    proof cases
      case 2
      then have "Fails m \<in> set (take 2 (st_faults st))" by (cases "st_faults st") auto
      with 2(1) assms(1) show ?thesis unfolding s2 y(2) by auto
    qed (simp add: s2 y(2))
  qed
qed

text \<open>C27. A query that is refused leaves no job behind that would run, whatever fails: no other job changes, and the job
  is not stored, or stored as failed; or the store itself failed in this call. Then a pending job may stay: one
  that was never put in the stream, when only the reply to its write was lost, or one whose publication failed too
  and that could not be marked failed.\<close>

theorem submit_refused_leaves_no_pending_job:
  assumes "SubmitQuery nuid req s = (Inl e, s')" and "i = ''job-'' @ to_lower nuid"
  shows "(\<forall>j. j \<noteq> i \<longrightarrow> peek (qs_store s') j = peek (qs_store s) j)
    \<and> (peek (qs_store s') i = peek (qs_store s) i
       \<or> (\<exists>r. peek (qs_store s') i = Some r \<and> job_status r = StatusFailed)
       \<or> (\<exists>m fs. st_faults (qs_store s) = LostReply m # fs) \<and> qs_stream s' = qs_stream s
       \<or> (\<exists>f\<in>set (take 3 (st_faults (qs_store s))). f \<noteq> NoFault)
           \<and> (\<exists>js m fs. qs_stream s = Some js \<and> (js_faults js = Fails m # fs \<or> js_faults js = LostReply m # fs)))"
proof (cases "qs_store s' = qs_store s")
  case False
  obtain js where js: "qs_stream s = Some js" using False assms(1)
    by (auto simp: SubmitQuery_def split: if_splits option.splits)
  have id: "job_id (new_record nuid req) = i" by (simp add: new_record_def assms(2))
  obtain x st where c: "CreateContext (new_record nuid req) (qs_store s) = (x, st)" by fastforce
  define cp where "cp = (new_record nuid req)\<lparr>job_status := StatusPending, job_error := [],
    job_created := st_now (qs_store s), job_updated := st_now (qs_store s)\<rparr>"
  have cp: "job_rows cp = []" "job_id cp = i" using id by (simp_all add: cp_def new_record_def empty_job_def)
  obtain y where p: "put_job i cp (qs_store s) = (y, st)" "x = (case y of None \<Rightarrow> Inr cp | Some e \<Rightarrow> Inl e)"
    using c by (auto simp: CreateContext_def put_job_def cp_def Let_def id split: prod.splits option.splits if_splits)
  note w = put_job_faults [OF p(1) cp]
  show ?thesis
  proof (cases y)
    case (Some z)
    then have "qs_store s' = st" "qs_stream s' = qs_stream s" using assms(1) js c p(2) False
      by (auto simp: SubmitQuery_def split: if_splits)
    with w(1) Some show ?thesis by auto
  next
    case None
    then have x: "x = Inr cp" using p(2) by simp
    have pk: "peek st = (peek (qs_store s))(i \<mapsto> cp)" using put_job_peek(2) [OF p(1) cp(2)] None by simp
    obtain q js' where pub: "publish_job querySubject (job_of cp) js = (q, js')" by fastforce
    with assms(1) js c x cp False obtain z where q: "q = Some z"
      "qs_store s' = snd (MarkFailed i (''publish job: '' @ error_text z) st)"
      by (auto simp: SubmitQuery_def split: if_splits option.splits)
    have "\<exists>m fs. js_faults js = Fails m # fs \<or> js_faults js = LostReply m # fs"
      using pub q(1) by (cases "js_faults js") (auto simp: publish_job_def Let_def split: fault.splits)
    moreover have "set (take 2 (st_faults st)) \<subseteq> set (take 3 (st_faults (qs_store s)))"
      using w(2) set_take_subset_set_take [of 2 3 "st_faults (qs_store s)"]
      by (cases "st_faults (qs_store s)") (auto simp: take_Cons' numeral_3_eq_3 numeral_2_eq_2)
    moreover note MarkFailed_faults [of st i cp "''publish job: '' @ error_text z", OF _ cp(2) refl] pk
    ultimately show ?thesis unfolding q(2) using js by auto
  qed
qed simp

section \<open>Reads\<close>

text \<open>A status request is answered with the job of exactly the asking tenant, refused as malformed, or
  answered that there is no such job; it never fails otherwise, so a store outage reads as a missing job.\<close>

theorem status_answers:
  "(\<exists>r. peek (qs_store s) i = Some r \<and> job_tenant r = tenant
      \<and> fst (GetJobStatus i tenant s) = Inr \<lparr>tr_job = job_id r, tr_status = job_status r, tr_error = job_error r\<rparr>)
   \<or> fst (GetJobStatus i tenant s) = Inl (Status NotFound ''job not found'')
   \<or> fst (GetJobStatus i tenant s) = Inl (Status InvalidArgument ''job_id and tenant_id are required'')"
  using GetForTenant_owner [of i tenant "qs_store s"]
  by (auto simp: GetJobStatus_def split: prod.splits sum.splits)

lemma structs_of_length: "structs_of f rows = Inr out \<Longrightarrow> length out = length rows"
  by (induction rows arbitrary: out) (auto split: sum.splits)

text \<open>C28. Rows are returned only for a successful job of the asking tenant, at most 1000 at a time.\<close>

theorem result_answers:
  assumes "fst (GetJobResult new_struct i tenant page psize s) = Returns (Inr resp)"
  shows "\<exists>r. peek (qs_store s) i = Some r \<and> job_tenant r = tenant \<and> job_status r = StatusSuccess
    \<and> rr_job resp = job_id r \<and> rr_truncated resp = job_truncated r \<and> length (rr_rows resp) \<le> 1000"
proof -
  let ?st = "qs_store s"
  obtain y st2 where pg: "GetResultPageForTenant i tenant page psize ?st = (y, st2)" by fastforce
  obtain r' rows tok where y: "y = Returns (Inr (r', rows, tok))" and ok: "job_status r' = StatusSuccess"
    and pb: "\<exists>out. structs_of new_struct rows = Inr out \<and> resp = \<lparr>rr_job = job_id r', rr_rows = out, rr_next = tok,
        rr_truncated = job_truncated r'\<rparr>"
    using assms pg by (auto simp: GetJobResult_def split: if_splits outcome.splits sum.splits)
  have own: "\<exists>r. peek ?st i = Some r \<and> job_tenant r = tenant"
    using tenant_isolation_own [OF pg y] .
  then obtain r where r: "peek ?st i = Some r" "job_tenant r = tenant" by blast
  have page: "GetResultPage i page psize (snd (GetForTenant i tenant ?st)) = (y, st2)"
    "peek (snd (GetForTenant i tenant ?st)) = peek ?st"
    using pg y GetForTenant_owner [of i tenant ?st]
    by (auto simp: GetResultPageForTenant_def split: prod.splits sum.splits)
  from GetResultPage_record [OF page(1) y] page(2) r
  have e: "job_id r' = job_id r" "job_status r' = job_status r" "job_truncated r' = job_truncated r"
    "page_slice (job_rows r') page psize = Returns (rows, tok)" by auto
  have "length rows \<le> 1000" using page_slice_length [OF e(4)] .
  with pb structs_of_length e ok r show ?thesis by (intro exI [of _ r]) auto
qed

section \<open>From submission to answer\<close>

lemma GetJobStatus_answer:
  assumes "st_faults (qs_store s) = []" and "peek (qs_store s) i = Some r" and "job_tenant r = tenant"
    and "trim_space i \<noteq> []" and "trim_space tenant \<noteq> []"
  shows "fst (GetJobStatus i tenant s) = Inr \<lparr>tr_job = job_id r, tr_status = job_status r, tr_error = job_error r\<rparr>"
  using GetJob_answer [OF assms(1,2)] assms(3-5) by (simp add: GetJobStatus_def GetForTenant_def)

text \<open>C8. End to end: when a query was accepted and a worker acknowledged its delivery, its tenant reads a
  terminal status for the identifier it was given, and that status is the one in the audit event.\<close>

theorem submitted_query_is_answered:
  assumes sub: "SubmitQuery nuid req s = (Inr resp, s')" and stream: "qs_stream s = Some js"
    and keyed: "keyed (qs_store s)"
    and job: "(querySubject, job) \<in> set (js_log (the (qs_stream s')))" "qj_id job = sr_job resp"
      "qj_tenant job = sq_tenant req"
    and ack: "Process env job \<lparr>w_store = qs_store s', w_audit = Some p, w_sent = []\<rparr> = (None, w')"
    and up: "st_faults (w_store w') = []"
    and named: "trim_space (sr_job resp) \<noteq> []" "trim_space (sq_tenant req) \<noteq> []"
  shows "\<exists>ev p' status err. w_audit w' = Some p' \<and> last (pub_log p') = (''audit.events.'' @ sanitizeSubjectToken (sq_tenant req), ev)
    \<and> status = (if ev_success ev then StatusSuccess else StatusFailed)
    \<and> fst (GetJobStatus (sr_job resp) (sq_tenant req) (s'\<lparr>qs_store := w_store w'\<rparr>))
        = Inr \<lparr>tr_job = sr_job resp, tr_status = status, tr_error = err\<rparr>"
proof -
  let ?w = "\<lparr>w_store = qs_store s', w_audit = Some p, w_sent = []\<rparr>"
  obtain r where r: "peek (qs_store s') = (peek (qs_store s))(sr_job resp \<mapsto> r)" "job_id r = sr_job resp"
    "job_tenant r = sq_tenant req" using submit_accepts_job [OF sub stream] by blast
  have k: "keyed (w_store ?w)" using keyed r by (auto simp: keyed_def)
  obtain r' p' ev where fin: "peek (w_store w') (qj_id job) = Some r'"
    "job_status r' = (if ev_success ev then StatusSuccess else StatusFailed)" "w_audit w' = Some p'"
    "pub_log p' = pub_log p @ [(SubjectPrefix @ ''.'' @ sanitizeSubjectToken (qj_tenant job), ev)]"
    using acknowledged [OF ack k] by auto
  have t: "touches (qj_id job) (qs_store s') (w_store w')" using Process_touches [of job ?w env] ack by simp
  have k': "keyed (qs_store s')" using k by simp
  have t': "keyed (w_store w')" "\<exists>r. peek (qs_store s') (qj_id job) = Some r \<and> same_query r' r"
    using t k' fin(1) unfolding touches_def by blast+
  have "job_tenant r' = job_tenant r" using t'(2) r(1) job(2) by (simp add: same_query_def)
  moreover have "job_id r' = sr_job resp" using t'(1) fin(1) job(2) unfolding keyed_def by metis
  ultimately show ?thesis
    using GetJobStatus_answer [of "s'\<lparr>qs_store := w_store w'\<rparr>" "sr_job resp" r' "sq_tenant req"] fin r(3) job up named
    by (intro exI [of _ ev] exI [of _ p'] exI [of _ "job_status r'"] exI [of _ "job_error r'"])
       (simp add: SubjectPrefix_def)
qed

section \<open>Concrete requests\<close>

definition sample_server :: query_server where
  "sample_server = NewGRPCServer 5 None (Some \<lparr>js_log = [], js_faults = []\<rparr>)"

definition sample_request :: submit_request where
  "sample_request = \<lparr>sq_tenant = ''t1'', sq_conn = ''c1'', sq_sql = ''SELECT id FROM users''\<rparr>"

lemma sample_submit:
  "\<exists>s'. SubmitQuery ''ABC'' sample_request sample_server = (Inr \<lparr>sr_job = ''job-abc'', sr_status = ''pending''\<rparr>, s')
    \<and> keyed (qs_store sample_server) \<and> qs_stream sample_server = Some \<lparr>js_log = [], js_faults = []\<rparr>
    \<and> st_faults (qs_store sample_server) = []"
proof -
  have "fst (SubmitQuery ''ABC'' sample_request sample_server) = Inr \<lparr>sr_job = ''job-abc'', sr_status = ''pending''\<rparr>"
    by code_simp
  moreover have "keyed (qs_store sample_server)"
    by (simp add: keyed_def peek_def sample_server_def NewGRPCServer_def NewStore_def)
  ultimately show ?thesis
    by (intro exI [of _ "snd (SubmitQuery ''ABC'' sample_request sample_server)"])
       (simp add: prod_eq_iff, simp add: sample_server_def NewGRPCServer_def NewStore_def)
qed

lemma submit_accepts_witness:
  "\<exists>s' r. SubmitQuery ''ABC'' sample_request sample_server = (Inr \<lparr>sr_job = ''job-abc'', sr_status = ''pending''\<rparr>, s')
    \<and> peek (qs_store s') ''job-abc'' = Some r \<and> job_status r = StatusPending"
proof -
  obtain s' where s': "SubmitQuery ''ABC'' sample_request sample_server = (Inr \<lparr>sr_job = ''job-abc'', sr_status = ''pending''\<rparr>, s')"
    "qs_stream sample_server = Some \<lparr>js_log = [], js_faults = []\<rparr>" using sample_submit by blast
  from submit_accepts [OF s'] s' show ?thesis by auto
qed

definition failing_server :: query_server where
  "failing_server = NewGRPCServer 5 None (Some \<lparr>js_log = [], js_faults = [LostReply ''timeout'']\<rparr>)"

lemma submit_refused_leaves_no_pending_job_witness:
  "\<exists>e s'. SubmitQuery ''ABC'' sample_request failing_server = (Inl e, s')
    \<and> (peek (qs_store s') ''job-abc'' = peek (qs_store failing_server) ''job-abc''
       \<or> (\<exists>r. peek (qs_store s') ''job-abc'' = Some r \<and> job_status r = StatusFailed))"
proof -
  have "fst (SubmitQuery ''ABC'' sample_request failing_server) = Inl (Status Unavailable ''publish job: timeout'')"
    by code_simp
  then obtain s' where s': "SubmitQuery ''ABC'' sample_request failing_server = (Inl (Status Unavailable ''publish job: timeout''), s')"
    by (metis prod.collapse)
  have "st_faults (qs_store failing_server) = []"
    by (simp add: failing_server_def NewGRPCServer_def NewStore_def)
  moreover have "''job-abc'' = ''job-'' @ to_lower ''ABC''" by code_simp
  ultimately show ?thesis using submit_refused_leaves_no_pending_job [OF s'] s' by auto
qed

definition answered_server :: query_server where
  "answered_server = \<lparr>qs_store = (NewStore 5)\<lparr>st_jobs := [''j1'' \<mapsto> sample_job\<lparr>job_status := StatusSuccess,
     job_rows := [[(''id'', JStr ''x'')]]\<rparr>]\<rparr>, qs_stream = None\<rparr>"

lemma result_answers_witness:
  "\<exists>resp. fst (GetJobResult Inr ''j1'' ''t1'' 1 10 answered_server) = Returns (Inr resp) \<and> length (rr_rows resp) \<le> 1000"
proof -
  have "fst (GetJobResult Inr ''j1'' ''t1'' 1 10 answered_server)
      = Returns (Inr \<lparr>rr_job = ''j1'', rr_rows = [[(''id'', JStr ''x'')]], rr_next = [], rr_truncated = False\<rparr>)"
    by code_simp
  from result_answers [OF this] this show ?thesis by blast
qed

definition sample_delivery :: world where
  "sample_delivery = \<lparr>w_store = qs_store (snd (SubmitQuery ''ABC'' sample_request sample_server)),
     w_audit = Some \<lparr>pub_log = [], pub_faults = []\<rparr>, w_sent = []\<rparr>"

lemma submitted_query_is_answered_witness:
  "\<exists>status err. fst (GetJobStatus ''job-abc'' ''t1''
      ((snd (SubmitQuery ''ABC'' sample_request sample_server))
         \<lparr>qs_store := w_store (snd (Process sample_env (sample_query\<lparr>qj_id := ''job-abc''\<rparr>) sample_delivery))\<rparr>))
    = Inr \<lparr>tr_job = ''job-abc'', tr_status = status, tr_error = err\<rparr>"
proof -
  let ?job = "sample_query\<lparr>qj_id := ''job-abc''\<rparr>"
  obtain s' where s': "SubmitQuery ''ABC'' sample_request sample_server = (Inr \<lparr>sr_job = ''job-abc'', sr_status = ''pending''\<rparr>, s')"
    "keyed (qs_store sample_server)" "qs_stream sample_server = Some \<lparr>js_log = [], js_faults = []\<rparr>"
    using sample_submit by blast
  have m: "map snd (js_log (the (qs_stream (snd (SubmitQuery ''ABC'' sample_request sample_server))))) = [?job]
      \<and> map fst (js_log (the (qs_stream (snd (SubmitQuery ''ABC'' sample_request sample_server))))) = [querySubject]"
    by code_simp
  have job: "(querySubject, ?job) \<in> set (js_log (the (qs_stream s')))"
    using m s'(1) by (cases "js_log (the (qs_stream s'))") auto
  have "fst (Process sample_env ?job sample_delivery) = None" by code_simp
  then obtain w' where w': "Process sample_env ?job sample_delivery = (None, w')" by (metis prod.collapse)
  have up: "st_faults (w_store w') = []"
  proof -
    have "st_faults (w_store (snd (Process sample_env ?job sample_delivery))) = []" by code_simp
    with w' show ?thesis by simp
  qed
  have d: "sample_delivery = \<lparr>w_store = qs_store s', w_audit = Some \<lparr>pub_log = [], pub_faults = []\<rparr>, w_sent = []\<rparr>"
    using s'(1) by (simp add: sample_delivery_def)
  have n: "trim_space ''job-abc'' \<noteq> []" "trim_space ''t1'' \<noteq> []" by code_simp+
  from submitted_query_is_answered [OF s'(1,3,2) job _ _ w' [unfolded d] up] n s'(1) w' show ?thesis
    by (auto simp: sample_query_def sample_request_def)
qed

end
