(* ===== verification/JobStore_Refinement.thy ===== *)
theory JobStore_Refinement
  imports JobStore_Facts
begin

text \<open>
  The job store as an implementation of a plain map of jobs: what it holds is the map \<open>content\<close>, in which a
  result that was moved to the object store is part of its job again. Each operation of a store whose backends
  answer is one step of the map, on either backend, and a result page is cut from the map.
\<close>

section \<open>The specification\<close>

datatype job_op =
    Submit job_record
  | Start string
  | Finish string "gomap list" bool
  | Fail string string

fun spec_op :: "int \<Rightarrow> job_op \<Rightarrow> (string \<rightharpoonup> job_record) \<Rightarrow> (string \<rightharpoonup> job_record)" where
  "spec_op t (Submit r) m =
     m(job_id r \<mapsto> r\<lparr>job_status := StatusPending, job_error := [], job_created := t, job_updated := t\<rparr>)"
| "spec_op t (Start i) m =
     (case m i of None \<Rightarrow> m | Some r \<Rightarrow> m(i \<mapsto> r\<lparr>job_status := StatusRunning, job_error := [], job_updated := t\<rparr>))"
| "spec_op t (Finish i rows truncated) m =
     (case m i of None \<Rightarrow> m
      | Some r \<Rightarrow> m(i \<mapsto> r\<lparr>job_status := StatusSuccess, job_error := [], job_truncated := truncated,
          job_updated := t, job_rows := rows\<rparr>))"
| "spec_op t (Fail i msg) m =
     (case m i of None \<Rightarrow> m
      | Some r \<Rightarrow> m(i \<mapsto> r\<lparr>job_status := StatusFailed, job_error := msg, job_rows := [], job_updated := t\<rparr>))"

definition spec_page :: "string \<Rightarrow> 32 word \<Rightarrow> 32 word \<Rightarrow> (string \<rightharpoonup> job_record) \<Rightarrow>
    (string \<times> string \<times> bool \<times> gomap list \<times> string) option outcome" where
  "spec_page i page psize m =
     (case m i of None \<Rightarrow> Returns None
      | Some r \<Rightarrow>
          (case page_slice (job_rows r) page psize of
             Panics \<Rightarrow> Panics
           | Returns (xs, tok) \<Rightarrow> Returns (Some (job_status r, job_tenant r, job_truncated r, xs, tok))))"

section \<open>The implementation\<close>

fun store_op :: "(gomap list \<Rightarrow> int) \<Rightarrow> job_op \<Rightarrow> store \<Rightarrow> store" where
  "store_op jlen (Submit r) st = snd (CreateContext r st)"
| "store_op jlen (Start i) st = snd (MarkRunning i st)"
| "store_op jlen (Finish i rows truncated) st = snd (MarkSucceeded jlen i rows truncated st)"
| "store_op jlen (Fail i msg) st = snd (MarkFailed i msg st)"

definition page_view :: "(goerr + job_record \<times> gomap list \<times> string) outcome \<Rightarrow>
    (string \<times> string \<times> bool \<times> gomap list \<times> string) option outcome" where
  "page_view x =
     (case x of Panics \<Rightarrow> Panics
      | Returns (Inl e) \<Rightarrow> Returns None
      | Returns (Inr (r, xs, tok)) \<Rightarrow> Returns (Some (job_status r, job_tenant r, job_truncated r, xs, tok)))"

definition object_rows :: "store \<Rightarrow> string \<Rightarrow> gomap list" where
  "object_rows st key = (case Option.bind (st_objects st) (\<lambda>m. m key) of Some (Inr rows) \<Rightarrow> rows | _ \<Rightarrow> [])"

definition resolve :: "store \<Rightarrow> job_record \<Rightarrow> job_record" where
  "resolve st r = (if job_ref r = [] then r else r\<lparr>job_ref := [], job_rows := object_rows st (job_ref r)\<rparr>)"

definition content :: "store \<Rightarrow> (string \<rightharpoonup> job_record)" where
  "content st = (\<lambda>i. map_option (resolve st) (peek st i))"

definition object_present :: "store \<Rightarrow> string \<Rightarrow> bool" where
  "object_present st key \<longleftrightarrow> (\<exists>m rows. st_objects st = Some m \<and> m key = Some (Inr rows))"

definition record_ok :: "store \<Rightarrow> string \<Rightarrow> job_record \<Rightarrow> bool" where
  "record_ok st i r \<longleftrightarrow> list_all marshalable (rows_json (job_rows r))
     \<and> (job_ref r \<noteq> [] \<longrightarrow> job_ref r = result_key i \<and> object_present st (result_key i))"

definition healthy :: "store \<Rightarrow> bool" where
  "healthy st \<longleftrightarrow> keyed st \<and> st_faults st = [] \<and> (\<forall>i r. peek st i = Some r \<longrightarrow> record_ok st i r)"

text \<open>What the callers ensure: rows that encode, room for them, and a job finished once: a job whose result was moved
  keeps pointing there when a second, small result comes (see \<open>stale_reference\<close>).\<close>

fun admissible :: "(gomap list \<Rightarrow> int) \<Rightarrow> job_op \<Rightarrow> store \<Rightarrow> bool" where
  "admissible jlen (Submit r) st \<longleftrightarrow> list_all marshalable (rows_json (job_rows r)) \<and> job_ref r = []"
| "admissible jlen (Finish i rows truncated) st \<longleftrightarrow> list_all marshalable (rows_json rows)
     \<and> (st_objects st \<noteq> None \<or> jlen rows \<le> st_inline st) \<and> (\<forall>r. peek st i = Some r \<longrightarrow> job_ref r = [])"
| "admissible jlen _ st \<longleftrightarrow> True"

section \<open>One step\<close>

lemma present_bind:
  "object_present st key \<longleftrightarrow> (\<exists>rows. Option.bind (st_objects st) (\<lambda>m. m key) = Some (Inr rows))"
  by (cases "st_objects st") (simp_all add: object_present_def)

lemma GetJob_missing: "st_faults st = [] \<Longrightarrow> peek st i = None \<Longrightarrow> \<exists>e. GetJob i st = (Inl e, st)"
  by (auto simp: GetJob_def load_def pop_fault_none peek_def split: option.splits sum.splits)

lemma put_job_ok:
  assumes "st_faults st = []" and "list_all marshalable (rows_json (job_rows r))" and "job_id r = i"
  obtains st' where "put_job i r st = (None, st')" "peek st' = (peek st)(i \<mapsto> r)" "st_faults st' = []"
    "st_objects st' = st_objects st"
proof -
  have "\<exists>st'. put_job i r st = (None, st')"
    using assms by (auto simp: put_job_def save_def pop_fault_none marshal_error_None [THEN iffD2] Let_def)
  then obtain st' where "put_job i r st = (None, st')" ..
  then show thesis using put_job_answer [OF assms(1) _ assms(3)] that by blast
qed

text \<open>Writing a job keeps the store healthy and is one update of the map.\<close>

lemma written:
  assumes "healthy st" and "peek st' = (peek st)(i \<mapsto> r)" and "st_faults st' = []" and "job_id r = i" and "record_ok st' i r"
    and "\<And>j. j \<noteq> i \<Longrightarrow> Option.bind (st_objects st') (\<lambda>m. m (result_key j)) = Option.bind (st_objects st) (\<lambda>m. m (result_key j))"
  shows "healthy st' \<and> content st' = (content st)(i \<mapsto> resolve st' r)"
proof
  have "object_present st' (result_key j) = object_present st (result_key j)" if "j \<noteq> i" for j
    using assms(6) [OF that] by (simp add: present_bind)
  then have "record_ok st' j x = record_ok st j x" if "j \<noteq> i" for j x
    using that by (simp add: record_ok_def)
  then show "healthy st'"
    using assms(1-5) by (auto simp: healthy_def keyed_def)
  have "resolve st' x = resolve st x" if "peek st j = Some x" "j \<noteq> i" for j x
  proof -
    have "record_ok st j x" using assms(1) that(1) by (simp add: healthy_def)
    then show ?thesis using assms(6) [OF that(2)] by (auto simp: resolve_def object_rows_def record_ok_def)
  qed
  then have "content st' j = ((content st)(i \<mapsto> resolve st' r)) j" for j
    using assms(2) by (cases "peek st j") (auto simp: content_def)
  then show "content st' = (content st)(i \<mapsto> resolve st' r)" ..
qed

lemma update_step:
  assumes "healthy st" and "\<And>r. job_id (f r) = job_id r" and "\<And>r. job_rows (f r) \<in> {job_rows r, []}"
    and "\<And>r. job_ref (f r) = job_ref r \<and> job_rows (f r) = job_rows r \<or> job_ref (f r) = []"
  shows "case peek st i of
      None \<Rightarrow> snd (update i f st) = st
    | Some r \<Rightarrow> healthy (snd (update i f st))
        \<and> content (snd (update i f st)) = (content st)(i \<mapsto> resolve st ((f r)\<lparr>job_updated := st_now st\<rparr>))"
proof (cases "peek st i")
  case None
  with assms(1) GetJob_missing [of st i] show ?thesis by (auto simp: update_def healthy_def)
next
  case (Some r)
  let ?r = "(f r)\<lparr>job_updated := st_now st\<rparr>"
  have h: "st_faults st = []" "job_id r = i" "record_ok st i r"
    using assms(1) Some unfolding healthy_def keyed_def by blast+
  have m: "list_all marshalable (rows_json (job_rows ?r))"
    using assms(3) [of r] h(3) by (auto simp: rows_json_def record_ok_def)
  obtain st' where st': "put_job i ?r st = (None, st')" "peek st' = (peek st)(i \<mapsto> ?r)" "st_faults st' = []"
    "st_objects st' = st_objects st"
    using put_job_ok [OF h(1) m] assms(2) [of r] h(2) by (metis job_record.select_convs(1) job_record.surjective job_record.update_convs(10))
  have "snd (update i f st) = st'" using GetJob_answer [OF h(1) Some] st'(1) by (simp add: update_def)
  moreover have "healthy st' \<and> content st' = (content st)(i \<mapsto> resolve st' ?r)"
  proof (intro written [OF assms(1) st'(2,3)])
    show "record_ok st' i ?r"
      using assms(4) [of r] h(3) st'(4) m unfolding record_ok_def object_present_def by auto
  qed (use assms(2) h(2) st'(4) in auto)
  moreover have "resolve st' x = resolve st x" for x using st'(4) by (simp add: resolve_def object_rows_def)
  ultimately show ?thesis using Some by simp
qed

lemma resolve_update:
  "job_ref r = [] \<Longrightarrow> resolve st r = r"
  by (simp add: resolve_def)

lemma Submit_step:
  assumes "healthy st" and "admissible jlen (Submit r) st"
  shows "healthy (store_op jlen (Submit r) st) \<and> content (store_op jlen (Submit r) st) = spec_op (st_now st) (Submit r) (content st)"
proof -
  let ?r = "r\<lparr>job_status := StatusPending, job_error := [], job_created := st_now st, job_updated := st_now st\<rparr>"
  obtain st' where st': "put_job (job_id r) ?r st = (None, st')" "peek st' = (peek st)(job_id r \<mapsto> ?r)" "st_faults st' = []"
    "st_objects st' = st_objects st"
    using put_job_ok [of st ?r "job_id r"] assms(1) assms(2) by (auto simp: healthy_def)
  have "store_op jlen (Submit r) st = st'"
    using st'(1) by (auto simp: CreateContext_def put_job_def Let_def split: if_splits)
  moreover have "healthy st' \<and> content st' = (content st)(job_id r \<mapsto> resolve st' ?r)"
    using assms st'(4) by (intro written [OF assms(1) st'(2,3)]) (auto simp: record_ok_def)
  moreover have "resolve st' ?r = ?r" using assms(2) by (simp add: resolve_def)
  ultimately show ?thesis by simp
qed

lemma Start_step:
  assumes "healthy st"
  shows "healthy (store_op jlen (Start i) st) \<and> content (store_op jlen (Start i) st) = spec_op (st_now st) (Start i) (content st)"
  using assms update_step [OF assms, of "\<lambda>r. r\<lparr>job_status := StatusRunning, job_error := []\<rparr>" i]
  by (auto simp: MarkRunning_def content_def resolve_def split: option.splits)

lemma Fail_step:
  assumes "healthy st"
  shows "healthy (store_op jlen (Fail i msg) st) \<and> content (store_op jlen (Fail i msg) st) = spec_op (st_now st) (Fail i msg) (content st)"
  using assms update_step [OF assms, of "\<lambda>r. r\<lparr>job_status := StatusFailed, job_error := msg, job_rows := [], job_ref := []\<rparr>" i]
  by (auto simp: MarkFailed_def content_def resolve_def split: option.splits)

lemma Finish_step:
  assumes "healthy st" and "admissible jlen (Finish i rows truncated) st"
  shows "healthy (store_op jlen (Finish i rows truncated) st)
    \<and> content (store_op jlen (Finish i rows truncated) st) = spec_op (st_now st) (Finish i rows truncated) (content st)"
proof (cases "peek st i")
  case None
  with assms(1) GetJob_missing [of st i] show ?thesis by (auto simp: MarkSucceeded_def content_def healthy_def)
next
  case (Some r)
  have h: "st_faults st = []" "job_id r = i" "job_ref r = []" "list_all marshalable (rows_json rows)"
    using assms Some by (auto simp: healthy_def keyed_def)
  define r0 where "r0 = r\<lparr>job_status := StatusSuccess, job_error := [], job_truncated := truncated,
    job_updated := st_now st, job_rows := rows\<rparr>"
  have r0: "job_id r0 = i" "job_ref r0 = []" "job_rows r0 = rows" using h by (simp_all add: r0_def)
  have op: "store_op jlen (Finish i rows truncated) st
      = snd (case place_rows jlen i rows r0 st of (Inl e, st') \<Rightarrow> (Some e, st') | (Inr r', st') \<Rightarrow> put_job i r' st')"
    using GetJob_answer [OF h(1) Some] by (simp add: MarkSucceeded_def r0_def)
  have spec: "spec_op (st_now st) (Finish i rows truncated) (content st) = (content st)(i \<mapsto> r0)"
    using Some h(3) by (simp add: content_def resolve_def r0_def)
  show ?thesis
  proof (cases "st_redis st = None \<or> jlen rows \<le> st_inline st")
    case True
    then have "place_rows jlen i rows r0 st = (Inr r0, st)"
      using h(4) by (auto simp: place_rows_def marshal_error_None [THEN iffD2])
    moreover obtain st' where st': "put_job i r0 st = (None, st')" "peek st' = (peek st)(i \<mapsto> r0)" "st_faults st' = []"
      "st_objects st' = st_objects st"
      using put_job_ok [of st r0 i] h r0 by auto
    moreover have "healthy st' \<and> content st' = (content st)(i \<mapsto> resolve st' r0)"
      using st'(4) r0 h(4) by (intro written [OF assms(1) st'(2,3)]) (auto simp: record_ok_def)
    ultimately show ?thesis using r0 op spec by (simp add: resolve_def)
  next
    case False
    then obtain m where m: "st_objects st = Some m" using assms(2) by auto
    let ?st = "st\<lparr>st_objects := Some (m(result_key i \<mapsto> Inr rows))\<rparr>"
    let ?r = "r0\<lparr>job_rows := [], job_ref := result_key i\<rparr>"
    have p: "place_rows jlen i rows r0 st = (Inr ?r, ?st)"
      using False m h(1,4) by (auto simp: place_rows_def put_object_def pop_fault_none marshal_error_None [THEN iffD2] Let_def)
    obtain st' where st': "put_job i ?r ?st = (None, st')" "peek st' = (peek st)(i \<mapsto> ?r)" "st_faults st' = []"
      "st_objects st' = Some (m(result_key i \<mapsto> Inr rows))"
      using put_job_ok [of ?st ?r i] h(1) r0 by (auto simp: rows_json_def)
    have "healthy st' \<and> content st' = (content st)(i \<mapsto> resolve st' ?r)"
      using st'(4) r0 m by (intro written [OF assms(1) st'(2,3)]) (auto simp: rows_json_def record_ok_def object_present_def result_key_def)
    moreover have "resolve st' ?r = r0" using st'(4) r0 by (simp add: resolve_def object_rows_def)
    ultimately show ?thesis using op p st'(1) spec by simp
  qed
qed

lemma page_step:
  assumes "healthy st"
  shows "page_view (fst (GetResultPage i page psize st)) = spec_page i page psize (content st)"
proof (cases "peek st i")
  case None
  with assms GetJob_missing [of st i] show ?thesis
    by (auto simp: GetResultPage_def page_view_def spec_page_def content_def healthy_def)
next
  case (Some r)
  have h: "st_faults st = []" "record_ok st i r"
    using assms Some unfolding healthy_def by blast+
  show ?thesis
  proof (cases "job_ref r = []")
    case True
    with GetJob_answer [OF h(1) Some] Some show ?thesis
      by (auto simp: GetResultPage_def page_view_def spec_page_def content_def resolve_def split: outcome.splits)
  next
    case False
    with h(2) obtain m rows where "job_ref r = result_key i" "st_objects st = Some m" "m (result_key i) = Some (Inr rows)"
      by (auto simp: record_ok_def object_present_def)
    with GetJob_answer [OF h(1) Some] Some h(1) show ?thesis
      by (auto simp: GetResultPage_def page_view_def spec_page_def content_def resolve_def object_rows_def get_object_def
        pop_fault_none split: outcome.splits)
  qed
qed

text \<open>C21. The store implements a map of jobs, in memory as well as over Redis with results moved to the object store, as
  long as it is \<open>healthy\<close> (its backends answer, jobs lie under their identifiers, references lead to objects) and the
  operation is \<open>admissible\<close> (rows encode and find room, a new job has no reference, a job that is finished has no
  result in the object store yet): then the operation is the operation of the map, keeps the store healthy, and
  the pages read are those of the map, whichever backend it is.\<close>

theorem store_refines_job_map:
  assumes "healthy st" and "admissible jlen op st"
  shows "healthy (store_op jlen op st)
    \<and> content (store_op jlen op st) = spec_op (st_now st) op (content st)
    \<and> page_view (fst (GetResultPage i page psize (store_op jlen op st)))
        = spec_page i page psize (spec_op (st_now st) op (content st))"
proof -
  have "healthy (store_op jlen op st) \<and> content (store_op jlen op st) = spec_op (st_now st) op (content st)"
    using assms Submit_step Start_step Finish_step Fail_step by (cases op) metis+
  then show ?thesis by (simp add: page_step)
qed

lemma sample_durable_healthy: "healthy sample_durable"
  using sample_durable_keyed
  by (auto simp: healthy_def record_ok_def peek_def sample_durable_def sample_job_def empty_job_def rows_json_def split: option.splits if_splits)

lemma store_refines_job_map_witness:
  "page_view (fst (GetResultPage ''j1'' 1 10
      (store_op (\<lambda>rows. 2) (Finish ''j1'' [[(''id'', JStr ''x'')]] False) sample_durable)))
   = Returns (Some (StatusSuccess, ''t1'', False, [[(''id'', JStr ''x'')]], []))"
proof -
  have p: "peek sample_durable ''j1'' = Some (sample_job\<lparr>job_status := StatusPending\<rparr>)"
    by (simp add: peek_def sample_durable_def job_key_def)
  have "admissible (\<lambda>rows. 2) (Finish ''j1'' [[(''id'', JStr ''x'')]] False) sample_durable"
    using p by (simp add: rows_json_def sample_durable_def sample_job_def empty_job_def)
  from store_refines_job_map [OF sample_durable_healthy this, of "''j1''" 1 10] p show ?thesis
    by (simp add: content_def resolve_def spec_page_def sample_job_def empty_job_def page_slice_def clamp_page_def clamp_size_def)
qed

text \<open>Without the side condition a second result can be lost: an inline result leaves an old reference in place, and
  the reference wins when pages are read.\<close>

lemma stale_reference:
  "\<exists>st. fst (MarkSucceeded (\<lambda>rows. int (length rows)) ''j1'' [[(''id'', JStr ''new'')]] False st) = None
    \<and> page_view (fst (GetResultPage ''j1'' 1 10 (snd (MarkSucceeded (\<lambda>rows. int (length rows)) ''j1'' [[(''id'', JStr ''new'')]] False st))))
      = Returns (Some (StatusSuccess, ''t1'', False, [[(''id'', JStr ''old'')], [(''id'', JStr ''old'')]], []))"
proof -
  let ?old = "[[(''id'', JStr ''old'')], [(''id'', JStr ''old'')]]"
  let ?st = "snd (MarkSucceeded (\<lambda>rows. int (length rows)) ''j1'' ?old False sample_durable)"
  show ?thesis
    by (rule exI [of _ ?st])
      (simp add: MarkSucceeded_def GetJob_def load_def pop_fault_def sample_durable_def job_key_def place_rows_def marshal_error_def
        rows_json_def put_object_def put_job_def save_def sample_job_def empty_job_def result_key_def GetResultPage_def get_object_def
        page_slice_def clamp_page_def clamp_size_def page_view_def)
qed

end
