(* ===== verification/Adapters.thy ===== *)
theory Adapters
  imports Messages
begin

text \<open>
  The adapter interface (\<^verbatim>\<open>pkg/shared/adapter/adapter.go\<close>) and the built-in adapters of Connection Manager
  (\<^verbatim>\<open>services/connection-manager/internal/adapter\<close>). The Go interface is a record of functions over the
  pools an adapter keeps. The database drivers are third-party code: a \<open>driver\<close> is the record of their
  answers. A pool is known by the data source name it was opened with; a cursor yields, row by row, the
  scanned values or the scanning error, and one error at its end. A driver delivers one value per column.
\<close>

section \<open>The interface\<close>

text \<open>What an adapter keeps under a connection identifier: an open pool, or the parameters for a plugin.\<close>

datatype handle = Pool string | PluginParams gomap

record pools =
  pl_open :: "string \<rightharpoonup> handle"
  pl_closed :: "handle list"

definition no_pools :: pools where
  "no_pools = \<lparr>pl_open = Map.empty, pl_closed = []\<rparr>"

record adapter =
  ad_TestConnection :: "string \<Rightarrow> goerr option"
  ad_GetSchema :: "string \<Rightarrow> goerr + table_info list"
  ad_Prepare :: "string \<Rightarrow> string \<Rightarrow> pools \<Rightarrow> goerr option \<times> pools"
  ad_ExecuteQuery :: "string \<Rightarrow> string \<Rightarrow> 32 word \<Rightarrow> pools \<Rightarrow> goerr + gomap list"
  ad_Release :: "string \<Rightarrow> pools \<Rightarrow> goerr option \<times> pools"

section \<open>Drivers\<close>

record cursor =
  cu_cols :: "goerr + string list"
  cu_rows :: "(goerr + jval list) list"
  cu_err :: "goerr option"

record 'n schema_cursor =
  sc_rows :: "(goerr + string \<times> string \<times> string \<times> 'n) list"
  sc_err :: "goerr option"

text \<open>\<open>'n\<close> is the type the last column of the schema query is scanned into.\<close>

record 'n driver =
  dr_parse :: "string \<Rightarrow> goerr option"
  dr_open :: "string \<Rightarrow> goerr option"
  dr_connect :: "string \<Rightarrow> goerr option"
  dr_ping :: "string \<Rightarrow> goerr option"
  dr_query :: "string \<Rightarrow> string \<Rightarrow> goerr + cursor"
  dr_schema :: "string \<Rightarrow> string \<Rightarrow> goerr + 'n schema_cursor"

section \<open>Shared loops\<close>

definition row_of :: "string list \<Rightarrow> jval list \<Rightarrow> gomap" where
  "row_of cols values = fold (\<lambda>(c, v) m. AList.update c v m) (zip cols values) []"

fun read_rows :: "string \<Rightarrow> string list \<Rightarrow> (goerr + jval list) list \<Rightarrow> goerr + gomap list" where
  "read_rows what cols [] = Inr []"
| "read_rows what cols (r # rs) =
     (case r of
        Inl e \<Rightarrow> Inl (wrap what e)
      | Inr values \<Rightarrow>
          (case read_rows what cols rs of
             Inl e \<Rightarrow> Inl e
           | Inr rows \<Rightarrow> Inr (row_of cols values # rows)))"

text \<open>The rows of an answered query; the end of the cursor is checked once all rows are read.\<close>

definition drain :: "string \<Rightarrow> string list \<Rightarrow> cursor \<Rightarrow> goerr + gomap list" where
  "drain what cols cu =
     (case read_rows what cols (cu_rows cu) of
        Inl e \<Rightarrow> Inl e
      | Inr rows \<Rightarrow>
          (case cu_err cu of Some e \<Rightarrow> Inl (wrap ''row iteration'' e) | None \<Rightarrow> Inr rows))"

definition add_column :: "string \<Rightarrow> column_info \<Rightarrow> table_info list \<Rightarrow> table_info list" where
  "add_column t c ts =
     (if \<exists>x\<in>set ts. ti_name x = t
      then map (\<lambda>x. if ti_name x = t then x\<lparr>ti_columns := ti_columns x @ [c]\<rparr> else x) ts
      else ts @ [\<lparr>ti_name = t, ti_columns = [c]\<rparr>])"

fun scan_schema ::
  "('n \<Rightarrow> bool) \<Rightarrow> (goerr + string \<times> string \<times> string \<times> 'n) list \<Rightarrow> table_info list \<Rightarrow> goerr + table_info list" where
  "scan_schema nullable [] ts = Inr ts"
| "scan_schema nullable (r # rs) ts =
     (case r of
        Inl e \<Rightarrow> Inl (wrap ''scan'' e)
      | Inr (t, c, ty, n) \<Rightarrow>
          scan_schema nullable rs (add_column t \<lparr>ci_name = c, ci_type = ty, ci_nullable = nullable n\<rparr> ts))"

text \<open>The tables come out of a map: their order is one of many, here that of their first columns.\<close>

definition read_schema :: "('n \<Rightarrow> bool) \<Rightarrow> goerr + 'n schema_cursor \<Rightarrow> goerr + table_info list" where
  "read_schema nullable answer =
     (case answer of
        Inl e \<Rightarrow> Inl (wrap ''schema query'' e)
      | Inr sc \<Rightarrow>
          (case scan_schema nullable (sc_rows sc) [] of
             Inl e \<Rightarrow> Inl e
           | Inr ts \<Rightarrow> (case sc_err sc of Some e \<Rightarrow> Inl (wrap ''row iteration'' e) | None \<Rightarrow> Inr ts)))"

definition pool_missing :: "string \<Rightarrow> goerr" where
  "pool_missing i = Err (''pool not found for connection '' @ i)"

definition limit_suffix :: "string \<Rightarrow> 32 word \<Rightarrow> string" where
  "limit_suffix sql limit = (if sint limit > 0 then sql @ '' LIMIT '' @ itoa (sint limit) else sql)"

text \<open>\<^verbatim>\<open>Prepare\<close> and \<^verbatim>\<open>Release\<close> read the same in every adapter but for one error text.\<close>

definition pool_Prepare :: "string \<Rightarrow> (string \<Rightarrow> goerr option) \<Rightarrow> string \<Rightarrow> string \<Rightarrow> pools \<Rightarrow> goerr option \<times> pools" where
  "pool_Prepare what opener i dsn p =
     (if pl_open p i \<noteq> None then (None, p)
      else (case opener dsn of
          Some e \<Rightarrow> (Some (wrap what e), p)
        | None \<Rightarrow> (None, p\<lparr>pl_open := (pl_open p)(i \<mapsto> Pool dsn)\<rparr>)))"

definition pool_Release :: "string \<Rightarrow> pools \<Rightarrow> goerr option \<times> pools" where
  "pool_Release i p =
     (case pl_open p i of
        None \<Rightarrow> (None, p)
      | Some h \<Rightarrow> (None, p\<lparr>pl_open := (pl_open p)(i := None), pl_closed := pl_closed p @ [h]\<rparr>))"

definition pool_Execute ::
  "('n driver) \<Rightarrow> (string \<Rightarrow> 32 word \<Rightarrow> string) \<Rightarrow> (cursor \<Rightarrow> goerr + gomap list) \<Rightarrow> string \<Rightarrow> string \<Rightarrow> 32 word \<Rightarrow>
   pools \<Rightarrow> goerr + gomap list" where
  "pool_Execute dr rewrite collect i sql limit p =
     (case pl_open p i of
        Some (Pool dsn) \<Rightarrow>
          (case dr_query dr dsn (rewrite sql limit) of
             Inl e \<Rightarrow> Inl (wrap ''query execution'' e)
           | Inr cu \<Rightarrow> collect cu)
      | _ \<Rightarrow> Inl (pool_missing i))"

section \<open>PostgreSQL\<close>

definition schema_text :: "string list \<Rightarrow> string" where
  "schema_text ls = concat (map (\<lambda>l. [CHR 0x0A, CHR 0x09, CHR 0x09] @ l) ls) @ [CHR 0x0A, CHR 0x09]"

definition single_quoted :: "string \<Rightarrow> string" where
  "single_quoted s = [CHR 0x27] @ s @ [CHR 0x27]"

definition postgres_TestConnection :: "string driver \<Rightarrow> string \<Rightarrow> goerr option" where
  "postgres_TestConnection dr dsn =
     (case dr_parse dr dsn of
        Some e \<Rightarrow> Some (wrap ''parse config'' e)
      | None \<Rightarrow>
          (case dr_open dr dsn of
             Some e \<Rightarrow> Some (wrap ''create pool'' e)
           | None \<Rightarrow> (case dr_ping dr dsn of Some e \<Rightarrow> Some (wrap ''ping'' e) | None \<Rightarrow> None)))"

definition postgres_columns :: "cursor \<Rightarrow> goerr + gomap list" where
  "postgres_columns cu = drain ''read values'' (case cu_cols cu of Inl e \<Rightarrow> [] | Inr cols \<Rightarrow> cols) cu"

definition postgres_GetSchema :: "string driver \<Rightarrow> string \<Rightarrow> goerr + table_info list" where
  "postgres_GetSchema dr dsn =
     (case dr_connect dr dsn of
        Some e \<Rightarrow> Inl (wrap ''connect'' e)
      | None \<Rightarrow>
          read_schema (\<lambda>n. n = ''YES'')
            (dr_schema dr dsn (schema_text
               [''SELECT table_name, column_name, data_type, is_nullable'',
                ''FROM information_schema.columns'',
                ''WHERE table_schema = '' @ single_quoted ''public'',
                ''ORDER BY table_name, ordinal_position''])))"

definition PostgresAdapter :: "string driver \<Rightarrow> adapter" where
  "PostgresAdapter dr =
     \<lparr>ad_TestConnection = postgres_TestConnection dr,
      ad_GetSchema = postgres_GetSchema dr,
      ad_Prepare = pool_Prepare ''create pool'' (dr_open dr),
      ad_ExecuteQuery = pool_Execute dr limit_suffix postgres_columns,
      ad_Release = pool_Release\<rparr>"

section \<open>The adapters over database/sql\<close>

definition db_TestConnection :: "('n driver) \<Rightarrow> string \<Rightarrow> goerr option" where
  "db_TestConnection dr dsn =
     (case dr_open dr dsn of
        Some e \<Rightarrow> Some (wrap ''open'' e)
      | None \<Rightarrow> (case dr_ping dr dsn of Some e \<Rightarrow> Some (wrap ''ping'' e) | None \<Rightarrow> None))"

definition db_columns :: "cursor \<Rightarrow> goerr + gomap list" where
  "db_columns cu =
     (case cu_cols cu of
        Inl e \<Rightarrow> Inl (wrap ''columns'' e)
      | Inr cols \<Rightarrow> drain ''scan'' cols cu)"

definition db_GetSchema :: "('n driver) \<Rightarrow> ('n \<Rightarrow> bool) \<Rightarrow> string \<Rightarrow> string \<Rightarrow> goerr + table_info list" where
  "db_GetSchema dr nullable query dsn =
     (case dr_open dr dsn of
        Some e \<Rightarrow> Inl (wrap ''open'' e)
      | None \<Rightarrow> read_schema nullable (dr_schema dr dsn query))"

definition db_adapter ::
  "('n driver) \<Rightarrow> ('n \<Rightarrow> bool) \<Rightarrow> string \<Rightarrow> (string \<Rightarrow> 32 word \<Rightarrow> string) \<Rightarrow> adapter" where
  "db_adapter dr nullable query rewrite =
     \<lparr>ad_TestConnection = db_TestConnection dr,
      ad_GetSchema = db_GetSchema dr nullable query,
      ad_Prepare = pool_Prepare ''open'' (dr_open dr),
      ad_ExecuteQuery = pool_Execute dr rewrite db_columns,
      ad_Release = pool_Release\<rparr>"

definition MySQLAdapter :: "string driver \<Rightarrow> adapter" where
  "MySQLAdapter dr =
     db_adapter dr (\<lambda>n. n = ''YES'')
       (schema_text
          [''SELECT table_name, column_name, data_type, is_nullable'',
           ''FROM information_schema.columns'',
           ''WHERE table_schema = DATABASE()'',
           ''ORDER BY table_name, ordinal_position'']) limit_suffix"

definition ClickHouseAdapter :: "string driver \<Rightarrow> adapter" where
  "ClickHouseAdapter dr =
     db_adapter dr (\<lambda>n. n \<noteq> ''NOT_NULL'')
       (schema_text
          [''SELECT table, name, type, default_kind'',
           ''FROM system.columns'',
           ''WHERE database = currentDatabase()'',
           ''ORDER BY table, position'']) limit_suffix"

definition SQLiteAdapter :: "int driver \<Rightarrow> adapter" where
  "SQLiteAdapter dr =
     db_adapter dr (\<lambda>n. n = 0)
       (schema_text
          [''SELECT m.name, p.name, p.type, p.'' @ [CHR 0x22] @ ''notnull'' @ [CHR 0x22],
           ''FROM sqlite_master m'',
           ''JOIN pragma_table_info(m.name) p'',
           ''WHERE m.type = '' @ single_quoted ''table'',
           ''ORDER BY m.name, p.cid'']) limit_suffix"

definition top_rewrite :: "string \<Rightarrow> 32 word \<Rightarrow> string" where
  "top_rewrite sql limit =
     (if sint limit > 0 then ''SELECT TOP '' @ itoa (sint limit) @ '' * FROM ('' @ sql @ '') AS t'' else sql)"

definition MSSQLAdapter :: "bool driver \<Rightarrow> adapter" where
  "MSSQLAdapter dr =
     db_adapter dr (\<lambda>n. n)
       (schema_text
          [''SELECT t.name, c.name, ty.name, c.is_nullable'',
           ''FROM sys.tables t'',
           ''JOIN sys.columns c ON t.object_id = c.object_id'',
           ''JOIN sys.types ty ON c.user_type_id = ty.user_type_id'',
           ''ORDER BY t.name, c.column_id'']) top_rewrite"

section \<open>BigQuery\<close>

definition bigquery_error :: goerr where
  "bigquery_error = Err ''bigquery adapter not yet implemented''"

definition BigQueryAdapter :: adapter where
  "BigQueryAdapter =
     \<lparr>ad_TestConnection = \<lambda>dsn. Some bigquery_error,
      ad_GetSchema = \<lambda>dsn. Inl bigquery_error,
      ad_Prepare = \<lambda>i dsn p. (None, p),
      ad_ExecuteQuery = \<lambda>i sql limit p. Inl bigquery_error,
      ad_Release = \<lambda>i p. (None, p)\<rparr>"

section \<open>The contract of the interface\<close>

datatype lifecycle_op = PrepareOp string string | ReleaseOp string

fun op_connection :: "lifecycle_op \<Rightarrow> string" where
  "op_connection (PrepareOp i dsn) = i"
| "op_connection (ReleaseOp i) = i"

fun run_ops :: "adapter \<Rightarrow> lifecycle_op list \<Rightarrow> pools \<Rightarrow> pools" where
  "run_ops ad [] p = p"
| "run_ops ad (PrepareOp i dsn # ops) p = run_ops ad ops (snd (ad_Prepare ad i dsn p))"
| "run_ops ad (ReleaseOp i # ops) p = run_ops ad ops (snd (ad_Release ad i p))"

text \<open>What every adapter promises: a connection identifier is a name space of its own, and a failed
  preparation changes nothing.\<close>

locale adapter_contract =
  fixes ad :: adapter
  assumes prepare_frame: "j \<noteq> i \<Longrightarrow> pl_open (snd (ad_Prepare ad i dsn p)) j = pl_open p j"
    and prepare_error: "ad_Prepare ad i dsn p = (Some e, p') \<Longrightarrow> p' = p"
    and release_frame: "j \<noteq> i \<Longrightarrow> pl_open (snd (ad_Release ad i p)) j = pl_open p j"
    and release_ok: "fst (ad_Release ad i p) = None"
begin

lemma ops_frame:
  "\<forall>x\<in>set ops. op_connection x \<noteq> j \<Longrightarrow> pl_open (run_ops ad ops p) j = pl_open p j"
proof (induction ops arbitrary: p)
  case (Cons x ops)
  then show ?case by (cases x) (auto simp: prepare_frame release_frame)
qed simp

end

text \<open>What an adapter with pools promises beyond that: a prepared connection has a pool, the first
  preparation decides which, a released one has none, and a query needs one.\<close>

locale pooled_adapter = adapter_contract +
  assumes prepare_opens: "ad_Prepare ad i dsn p = (None, p') \<Longrightarrow> pl_open p' i \<noteq> None"
    and prepare_fresh: "pl_open p i = None \<Longrightarrow> ad_Prepare ad i dsn p = (None, p') \<Longrightarrow> pl_open p' i = Some (Pool dsn)"
    and prepare_keeps: "pl_open p i = Some h \<Longrightarrow> ad_Prepare ad i dsn p = (None, p)"
    and release_closes: "pl_open (snd (ad_Release ad i p)) i = None"
    and execute_needs_pool: "pl_open p i = None \<Longrightarrow> ad_ExecuteQuery ad i sql limit p = Inl (pool_missing i)"
begin

lemma reprepare: "ad_Prepare ad i dsn p = (None, p') \<Longrightarrow> ad_Prepare ad i dsn' p' = (None, p')"
  using prepare_opens prepare_keeps by blast

lemma first_name_wins:
  "pl_open p i = None \<Longrightarrow> ad_Prepare ad i dsn p = (None, p') \<Longrightarrow> \<forall>x\<in>set ops. \<forall>k. x \<noteq> ReleaseOp k \<Longrightarrow>
   pl_open (run_ops ad ops p') i = Some (Pool dsn)"
proof -
  assume a: "pl_open p i = None" "ad_Prepare ad i dsn p = (None, p')" "\<forall>x\<in>set ops. \<forall>k. x \<noteq> ReleaseOp k"
  have "pl_open q i = Some (Pool dsn) \<Longrightarrow> \<forall>x\<in>set ops. \<forall>k. x \<noteq> ReleaseOp k \<Longrightarrow>
      pl_open (run_ops ad ops q) i = Some (Pool dsn)" for q
  proof (induction ops arbitrary: q)
    case (Cons x ops)
    then obtain j d where x: "x = PrepareOp j d" by (cases x) auto
    have "pl_open (snd (ad_Prepare ad j d q)) i = Some (Pool dsn)"
      using Cons.prems(1) prepare_keeps [of q i "Pool dsn" d] prepare_frame [of i j d q] by (cases "j = i") auto
    with Cons x show ?case by simp
  qed simp
  with prepare_fresh [OF a(1,2)] a(3) show ?thesis by blast
qed

lemma released_fails: "ad_ExecuteQuery ad i sql limit (snd (ad_Release ad i p)) = Inl (pool_missing i)"
  by (intro execute_needs_pool release_closes)

end

lemma pool_adapter:
  assumes "ad_Prepare ad = pool_Prepare what opener" and "ad_Release ad = pool_Release"
    and "ad_ExecuteQuery ad = pool_Execute dr rewrite collect"
  shows "pooled_adapter ad"
  unfolding pooled_adapter_def pooled_adapter_axioms_def adapter_contract_def assms
  by (auto simp: pool_Prepare_def pool_Release_def pool_Execute_def split: option.splits if_splits)

interpretation postgres: pooled_adapter "PostgresAdapter dr" for dr
  by (rule pool_adapter [where what = "''create pool''"]) (simp_all add: PostgresAdapter_def)

interpretation mysql: pooled_adapter "MySQLAdapter dr" for dr
  by (rule pool_adapter [where what = "''open''"]) (simp_all add: MySQLAdapter_def db_adapter_def)

interpretation clickhouse: pooled_adapter "ClickHouseAdapter dr" for dr
  by (rule pool_adapter [where what = "''open''"]) (simp_all add: ClickHouseAdapter_def db_adapter_def)

interpretation sqlite: pooled_adapter "SQLiteAdapter dr" for dr
  by (rule pool_adapter [where what = "''open''"]) (simp_all add: SQLiteAdapter_def db_adapter_def)

interpretation mssql: pooled_adapter "MSSQLAdapter dr" for dr
  by (rule pool_adapter [where what = "''open''"]) (simp_all add: MSSQLAdapter_def db_adapter_def)

interpretation bigquery: adapter_contract BigQueryAdapter
  by unfold_locales (simp_all add: BigQueryAdapter_def)

section \<open>Schemas and rows\<close>

lemma row_of_distinct:
  "distinct cols \<Longrightarrow> length values = length cols \<Longrightarrow> k < length cols \<Longrightarrow>
   map_of (row_of cols values) (cols ! k) = Some (values ! k)"
proof -
  have upd: "map_of (fold (\<lambda>(c, v) m. AList.update c v m) cvs m) x
      = (case map_of (rev cvs) x of Some v \<Rightarrow> Some v | None \<Rightarrow> map_of m x)" for cvs :: gomap and m x
    by (induction cvs arbitrary: m) (auto simp: update_conv map_add_def split: option.splits)
  assume a: "distinct cols" "length values = length cols" "k < length cols"
  then have "map_of (rev (zip cols values)) (cols ! k) = Some (values ! k)"
    by (subst map_of_eq_Some_iff) (auto simp: rev_map [symmetric] set_zip intro!: exI [of _ k])
  with a show ?thesis by (simp add: row_of_def upd)
qed

definition columns_of :: "table_info list \<Rightarrow> string \<Rightarrow> column_info list" where
  "columns_of ts t = concat (map ti_columns (filter (\<lambda>x. ti_name x = t) ts))"

lemma add_column_names: "distinct (map ti_name ts) \<Longrightarrow> distinct (map ti_name (add_column t c ts))"
proof -
  have "map ti_name (map (\<lambda>x. if ti_name x = t then x\<lparr>ti_columns := ti_columns x @ [c]\<rparr> else x) ts) = map ti_name ts"
    by simp
  moreover assume "distinct (map ti_name ts)"
  ultimately show ?thesis
    unfolding add_column_def by (cases "\<exists>x\<in>set ts. ti_name x = t") (auto simp del: map_map)
qed

lemma columns_of_Cons:
  "columns_of (x # ts) t = (if ti_name x = t then ti_columns x else []) @ columns_of ts t"
  by (simp add: columns_of_def)

lemma columns_of_none: "t \<notin> ti_name ` set ts \<Longrightarrow> columns_of ts t = []"
  by (induction ts) (auto simp: columns_of_def)

lemma columns_of_add:
  "distinct (map ti_name ts) \<Longrightarrow> columns_of (add_column t c ts) u = columns_of ts u @ (if u = t then [c] else [])"
proof (cases "\<exists>x\<in>set ts. ti_name x = t")
  case True
  let ?f = "\<lambda>x. if ti_name x = t then x\<lparr>ti_columns := ti_columns x @ [c]\<rparr> else x"
  assume d: "distinct (map ti_name ts)"
  from True d have "columns_of (map ?f ts) u = columns_of ts u @ (if u = t then [c] else [])"
  proof (induction ts)
    case (Cons x ts)
    show ?case
    proof (cases "ti_name x = t")
      case True
      have "t \<notin> ti_name ` set ts" using Cons.prems(2) True by simp
      then have "y \<in> set ts \<Longrightarrow> ti_name y \<noteq> t" for y by blast
      then have "map ?f ts = ts" by (intro map_idI) simp
      moreover have "columns_of ts t = []" using Cons.prems(2) True by (intro columns_of_none) auto
      ultimately show ?thesis using True by (auto simp: columns_of_Cons)
    next
      case False
      with Cons show ?thesis by (simp add: columns_of_Cons)
    qed
  qed simp
  with True show ?thesis by (simp add: add_column_def)
next
  case False
  then show ?thesis by (simp add: add_column_def columns_of_def)
qed

fun schema_columns :: "('n \<Rightarrow> bool) \<Rightarrow> (goerr + string \<times> string \<times> string \<times> 'n) list \<Rightarrow> string \<Rightarrow> column_info list" where
  "schema_columns nullable [] t = []"
| "schema_columns nullable (Inl e # rs) t = schema_columns nullable rs t"
| "schema_columns nullable (Inr (u, c, ty, n) # rs) t =
     (if u = t then [\<lparr>ci_name = c, ci_type = ty, ci_nullable = nullable n\<rparr>] else []) @ schema_columns nullable rs t"

lemma scan_schema_columns:
  "scan_schema nullable rs ts = Inr out \<Longrightarrow> distinct (map ti_name ts) \<Longrightarrow>
   distinct (map ti_name out) \<and> (\<forall>t. columns_of out t = columns_of ts t @ schema_columns nullable rs t)"
proof (induction nullable rs ts rule: scan_schema.induct)
  case (2 nullable r rs ts)
  then obtain t c ty n where r: "r = Inr (t, c, ty, n)" by (auto split: sum.splits)
  with 2 add_column_names [OF 2(3)] columns_of_add [OF 2(3)] show ?case by fastforce
qed simp

text \<open>C29. The schema an adapter reports has one entry per table, whose columns are exactly the rows the
  database returned for it, in the database's order, whatever order the rows come in.\<close>

theorem schema_groups_columns:
  assumes "read_schema nullable (Inr sc) = Inr tables"
  shows "distinct (map ti_name tables) \<and> columns_of tables t = schema_columns nullable (sc_rows sc) t"
proof -
  have "scan_schema nullable (sc_rows sc) [] = Inr tables"
    using assms by (auto simp: read_schema_def split: sum.splits option.splits)
  from scan_schema_columns [OF this] show ?thesis by (simp add: columns_of_def)
qed

lemma schema_groups_columns_witness:
  "\<exists>tables. read_schema (\<lambda>n :: int. n = 0)
      (Inr \<lparr>sc_rows = [Inr (''a'', ''x'', ''int'', 0), Inr (''b'', ''y'', ''int'', 1), Inr (''a'', ''z'', ''text'', 1)], sc_err = None\<rparr>)
    = Inr tables \<and> map ci_name (columns_of tables ''a'') = [''x'', ''z'']"
proof -
  let ?sc = "\<lparr>sc_rows = [Inr (''a'', ''x'', ''int'', 0), Inr (''b'', ''y'', ''int'', 1), Inr (''a'', ''z'', ''text'', 1 :: int)], sc_err = None\<rparr>"
  obtain tables where t: "read_schema (\<lambda>n. n = 0) (Inr ?sc) = Inr tables"
    by (simp add: read_schema_def add_column_def)
  from schema_groups_columns [OF t, of "''a''"] t show ?thesis by simp
qed

text \<open>A connection keeps the pool of its first preparation: preparing it again with other parameters,
  any number of times and between any other preparations, succeeds and changes nothing until it is
  released. This holds for all five adapters with pools.\<close>

lemma first_preparation_wins:
  assumes "ad \<in> {PostgresAdapter d1, MySQLAdapter d2, ClickHouseAdapter d3, SQLiteAdapter d4, MSSQLAdapter d5}"
    and "ad_Prepare ad i dsn no_pools = (None, p)" and "\<forall>x\<in>set ops. \<forall>k. x \<noteq> ReleaseOp k"
  shows "pl_open (run_ops ad ops p) i = Some (Pool dsn)"
proof -
  have n: "pl_open no_pools i = None" by (simp add: no_pools_def)
  from assms(1) consider "ad = PostgresAdapter d1" | "ad = MySQLAdapter d2" | "ad = ClickHouseAdapter d3"
    | "ad = SQLiteAdapter d4" | "ad = MSSQLAdapter d5" by blast
  then show ?thesis
    using assms(2) postgres.first_name_wins [OF n _ assms(3)] mysql.first_name_wins [OF n _ assms(3)]
      clickhouse.first_name_wins [OF n _ assms(3)] sqlite.first_name_wins [OF n _ assms(3)]
      mssql.first_name_wins [OF n _ assms(3)]
    by cases blast+
qed

definition sample_driver :: "'n driver" where
  "sample_driver = \<lparr>dr_parse = \<lambda>d. None, dr_open = \<lambda>d. None, dr_connect = \<lambda>d. None, dr_ping = \<lambda>d. None,
     dr_query = \<lambda>d q. Inr \<lparr>cu_cols = Inr [''id''], cu_rows = [Inr [JStr ''x'']], cu_err = None\<rparr>,
     dr_schema = \<lambda>d q. Inr \<lparr>sc_rows = [], sc_err = None\<rparr>\<rparr>"

end
