(* ===== verification/Registry.thy ===== *)
theory Registry
  imports Adapters
begin

text \<open>
  The adapter registry of Connection Manager
  (\<^verbatim>\<open>services/connection-manager/internal/registry/registry.go\<close>): the built-in adapters with their pools,
  the routes to external plugins, and the client connections behind the routes. A plugin is the record
  of its answers; the client connections are numbered in the order they are made. JSON text and protobuf
  structs are converted by the functions of a \<open>codec\<close>.
\<close>

section \<open>External adapters\<close>

record plugin_client =
  pc_test :: "gomap \<Rightarrow> goerr + bool \<times> string"
  pc_schema :: "gomap \<Rightarrow> goerr + table_info list"
  pc_execute :: "gomap option \<Rightarrow> string \<Rightarrow> 32 word \<Rightarrow> goerr + string list \<times> jval list list"

definition paramsFromJSON :: "codec \<Rightarrow> string \<Rightarrow> goerr + gomap" where
  "paramsFromJSON co value =
     (case co_unmarshal co value of
        Inl e \<Rightarrow> Inl (wrap ''decode plugin params'' e)
      | Inr params \<Rightarrow> co_struct co params)"

definition external_TestConnection :: "codec \<Rightarrow> plugin_client \<Rightarrow> string \<Rightarrow> goerr option" where
  "external_TestConnection co client dsn =
     (case paramsFromJSON co dsn of
        Inl e \<Rightarrow> Some e
      | Inr params \<Rightarrow> (case pc_test client params of Inl e \<Rightarrow> Some e | Inr answer \<Rightarrow> None))"

definition external_GetSchema :: "codec \<Rightarrow> plugin_client \<Rightarrow> string \<Rightarrow> goerr + table_info list" where
  "external_GetSchema co client dsn =
     (case paramsFromJSON co dsn of
        Inl e \<Rightarrow> Inl e
      | Inr params \<Rightarrow>
          (case pc_schema client params of
             Inl e \<Rightarrow> Inl e
           | Inr tables \<Rightarrow>
               Inr (map (\<lambda>t. \<lparr>ti_name = ti_name t,
                 ti_columns = map (\<lambda>c. \<lparr>ci_name = ci_name c, ci_type = ci_type c, ci_nullable = ci_nullable c\<rparr>)
                   (ti_columns t)\<rparr>) tables)))"

definition external_Prepare :: "codec \<Rightarrow> string \<Rightarrow> string \<Rightarrow> pools \<Rightarrow> goerr option \<times> pools" where
  "external_Prepare co i dsn p =
     (case paramsFromJSON co dsn of
        Inl e \<Rightarrow> (Some e, p)
      | Inr params \<Rightarrow> (None, p\<lparr>pl_open := (pl_open p)(i \<mapsto> PluginParams params)\<rparr>))"

text \<open>A cell of a plugin is a protobuf message, and the message itself is what a row holds, not the value in it: here the
  map of its one field.\<close>

primrec pb_value :: "jval \<Rightarrow> jval" where
  "pb_value JNull = JObj [(''null_value'', JNull)]"
| "pb_value (JBool b) = JObj [(''bool_value'', JBool b)]"
| "pb_value (JNum n) = JObj [(''number_value'', JNum n)]"
| "pb_value (JStr v) = JObj [(''string_value'', JStr v)]"
| "pb_value (JArr vs) = JObj [(''list_value'', JArr (map pb_value vs))]"
| "pb_value (JObj kvs) = JObj [(''struct_value'', JObj (map (map_prod id pb_value) kvs))]"

text \<open>A row has the cells the plugin sent; a column without a cell is left out of the row.\<close>

definition external_ExecuteQuery ::
  "plugin_client \<Rightarrow> string \<Rightarrow> string \<Rightarrow> 32 word \<Rightarrow> pools \<Rightarrow> goerr + gomap list" where
  "external_ExecuteQuery client i sql limit p =
     (let params = (case pl_open p i of Some (PluginParams m) \<Rightarrow> Some m | _ \<Rightarrow> None) in
      case pc_execute client params sql limit of
        Inl e \<Rightarrow> Inl e
      | Inr (columns, rows) \<Rightarrow> Inr (map (\<lambda>cells. row_of columns (map pb_value cells)) rows))"

definition external_Release :: "string \<Rightarrow> pools \<Rightarrow> goerr option \<times> pools" where
  "external_Release i p = (None, p\<lparr>pl_open := (pl_open p)(i := None)\<rparr>)"

definition externalAdapter :: "codec \<Rightarrow> plugin_client \<Rightarrow> adapter" where
  "externalAdapter co client =
     \<lparr>ad_TestConnection = external_TestConnection co client,
      ad_GetSchema = external_GetSchema co client,
      ad_Prepare = external_Prepare co,
      ad_ExecuteQuery = external_ExecuteQuery client,
      ad_Release = external_Release\<rparr>"

interpretation external: adapter_contract "externalAdapter co client" for co client
  by unfold_locales
     (auto simp: externalAdapter_def external_Prepare_def external_Release_def split: sum.splits)

section \<open>The registry\<close>

record registry =
  rg_builtins :: "string \<rightharpoonup> adapter"
  rg_pools :: "string \<Rightarrow> pools"
  rg_external :: "string \<rightharpoonup> plugin_client"
  rg_conns :: "string \<rightharpoonup> nat"
  rg_closed :: "nat list"
  rg_next :: nat

record drivers =
  ds_postgres :: "string driver"
  ds_clickhouse :: "string driver"
  ds_mysql :: "string driver"
  ds_sqlite :: "int driver"
  ds_mssql :: "bool driver"

definition registerBuiltins :: "drivers \<Rightarrow> string \<rightharpoonup> adapter" where
  "registerBuiltins ds =
     [''postgres'' \<mapsto> PostgresAdapter (ds_postgres ds), ''clickhouse'' \<mapsto> ClickHouseAdapter (ds_clickhouse ds),
      ''mysql'' \<mapsto> MySQLAdapter (ds_mysql ds), ''sqlite'' \<mapsto> SQLiteAdapter (ds_sqlite ds),
      ''mssql'' \<mapsto> MSSQLAdapter (ds_mssql ds), ''bigquery'' \<mapsto> BigQueryAdapter]"

definition NewRegistry :: "drivers \<Rightarrow> registry" where
  "NewRegistry ds =
     \<lparr>rg_builtins = registerBuiltins ds, rg_pools = \<lambda>t. no_pools, rg_external = Map.empty,
      rg_conns = Map.empty, rg_closed = [], rg_next = 0\<rparr>"

definition close_conn :: "nat option \<Rightarrow> registry \<Rightarrow> registry" where
  "close_conn c r = (case c of None \<Rightarrow> r | Some k \<Rightarrow> r\<lparr>rg_closed := rg_closed r @ [k]\<rparr>)"

definition RemoveExternal :: "string \<Rightarrow> registry \<Rightarrow> registry" where
  "RemoveExternal t r =
     close_conn (rg_conns r t) (r\<lparr>rg_external := (rg_external r)(t := None), rg_conns := (rg_conns r)(t := None)\<rparr>)"

text \<open>The old connection is closed after the lock is released, and nothing that holds the lock reads whether it is closed,
  so both are one step here.\<close>

definition RouteExternal ::
  "(string \<Rightarrow> goerr + plugin_client) \<Rightarrow> string \<Rightarrow> string \<Rightarrow> string \<Rightarrow> registry \<Rightarrow> goerr option \<times> registry" where
  "RouteExternal dial t endpoint status r =
     (if status \<noteq> ''active'' then (None, RemoveExternal t r)
      else (case dial endpoint of
          Inl e \<Rightarrow> (Some (wrap ''dial external adapter'' e), r)
        | Inr client \<Rightarrow>
            (None, close_conn (rg_conns r t)
               (r\<lparr>rg_conns := (rg_conns r)(t \<mapsto> rg_next r), rg_external := (rg_external r)(t \<mapsto> client),
                  rg_next := rg_next r + 1\<rparr>))))"

text \<open>\<^verbatim>\<open>Close\<close> visits the routes in the order \<open>ts\<close> of the map iteration.\<close>

fun close_routes :: "string list \<Rightarrow> registry \<Rightarrow> registry" where
  "close_routes [] r = r"
| "close_routes (t # ts) r =
     (case rg_conns r t of
        None \<Rightarrow> close_routes ts r
      | Some k \<Rightarrow>
          close_routes ts (r\<lparr>rg_closed := rg_closed r @ [k], rg_conns := (rg_conns r)(t := None),
            rg_external := (rg_external r)(t := None)\<rparr>))"

definition RegisterExternal :: "string \<Rightarrow> plugin_client \<Rightarrow> registry \<Rightarrow> registry" where
  "RegisterExternal t client r = r\<lparr>rg_external := (rg_external r)(t \<mapsto> client)\<rparr>"

text \<open>The adapter for a type and the pools it works on: a plugin adapter is made anew on every lookup.\<close>

definition GetAdapter :: "codec \<Rightarrow> string \<Rightarrow> registry \<Rightarrow> goerr + adapter \<times> pools" where
  "GetAdapter co t r =
     (case rg_builtins r t of
        Some a \<Rightarrow> Inr (a, rg_pools r t)
      | None \<Rightarrow>
          (case rg_external r t of
             Some c \<Rightarrow> Inr (externalAdapter co c, no_pools)
           | None \<Rightarrow> Inl (Err (''unknown adapter type: '' @ t))))"

definition IsExternal :: "string \<Rightarrow> registry \<Rightarrow> bool" where
  "IsExternal t r \<longleftrightarrow> rg_external r t \<noteq> None"

text \<open>Lists the built-in types and then the routes, each in the order of its map.\<close>

definition ListTypes :: "string list \<Rightarrow> string list \<Rightarrow> string list" where
  "ListTypes builtins externals = builtins @ externals"

section \<open>A concrete registry\<close>

definition sample_drivers :: drivers where
  "sample_drivers = \<lparr>ds_postgres = sample_driver, ds_clickhouse = sample_driver, ds_mysql = sample_driver,
     ds_sqlite = sample_driver, ds_mssql = sample_driver\<rparr>"

definition sample_client :: plugin_client where
  "sample_client = \<lparr>pc_test = \<lambda>m. Inr (True, []), pc_schema = \<lambda>m. Inr [],
     pc_execute = \<lambda>m sql limit. Inr ([''id''], [[JStr ''x'']])\<rparr>"

abbreviation sample_dial :: "string \<Rightarrow> goerr + plugin_client" where
  "sample_dial \<equiv> \<lambda>e. Inr sample_client"

section \<open>Connections are accounted for\<close>

inductive reachable :: "drivers \<Rightarrow> registry \<Rightarrow> bool" for ds :: drivers where
  initial: "reachable ds (NewRegistry ds)"
| route: "reachable ds r \<Longrightarrow> reachable ds (snd (RouteExternal dial t endpoint status r))"
| remove: "reachable ds r \<Longrightarrow> reachable ds (RemoveExternal t r)"
| register: "reachable ds r \<Longrightarrow> reachable ds (RegisterExternal t client r)"
| close_all: "reachable ds r \<Longrightarrow> reachable ds (close_routes ts r)"
| use_pool: "reachable ds r \<Longrightarrow> reachable ds (r\<lparr>rg_pools := ps\<rparr>)"

text \<open>
  Every connection ever made is either the one of exactly one route or closed, closed once, and every
  route with a connection has a client.
\<close>

definition accounted :: "registry \<Rightarrow> bool" where
  "accounted r \<longleftrightarrow> ran (rg_conns r) \<union> set (rg_closed r) = {k. k < rg_next r}
     \<and> ran (rg_conns r) \<inter> set (rg_closed r) = {} \<and> distinct (rg_closed r)
     \<and> inj_on (rg_conns r) (dom (rg_conns r)) \<and> dom (rg_conns r) \<subseteq> dom (rg_external r)"

lemma ran_delete:
  "inj_on m (dom m) \<Longrightarrow> m t = Some k \<Longrightarrow> ran (m(t := None)) = ran m - {k} \<and> inj_on (m(t := None)) (dom (m(t := None)))"
proof -
  assume i: "inj_on m (dom m)" and k: "m t = Some k"
  have "x \<in> ran (m(t := None)) \<longleftrightarrow> x \<in> ran m - {k}" for x
  proof
    assume "x \<in> ran (m(t := None))"
    then obtain a where "a \<noteq> t" "m a = Some x" by (auto simp: ran_def split: if_splits)
    with i k show "x \<in> ran m - {k}" by (auto simp: ran_def inj_on_def dom_def)
  next
    assume "x \<in> ran m - {k}"
    then obtain a where "m a = Some x" "x \<noteq> k" by (auto simp: ran_def)
    with k have "(m(t := None)) a = Some x" by auto
    then show "x \<in> ran (m(t := None))" by (rule ranI)
  qed
  moreover have "inj_on (m(t := None)) (dom (m(t := None)))" using i by (auto simp: inj_on_def dom_def)
  ultimately show ?thesis by blast
qed

lemma accounted_drop:
  assumes "accounted r" and "rg_conns r t = Some k"
  shows "accounted (r\<lparr>rg_closed := rg_closed r @ [k], rg_conns := (rg_conns r)(t := None),
    rg_external := (rg_external r)(t := None)\<rparr>)"
proof -
  have "k \<in> ran (rg_conns r)" using assms(2) by (rule ranI)
  with assms ran_delete [of "rg_conns r" t k] show ?thesis
    by (auto simp: accounted_def)
qed

lemma accounted_RemoveExternal: "accounted r \<Longrightarrow> accounted (RemoveExternal t r)"
proof (cases "rg_conns r t")
  case None
  assume "accounted r"
  moreover have "(rg_conns r)(t := None) = rg_conns r" using None by auto
  ultimately show ?thesis using None by (auto simp: RemoveExternal_def close_conn_def accounted_def)
next
  case (Some k)
  assume "accounted r"
  from accounted_drop [OF this Some] Some show ?thesis
    by (simp add: RemoveExternal_def close_conn_def accounted_def)
qed

lemma accounted_fresh:
  assumes "accounted r" and "rg_conns r t = None"
  shows "accounted (r\<lparr>rg_conns := (rg_conns r)(t \<mapsto> rg_next r), rg_external := (rg_external r)(t \<mapsto> c),
    rg_next := rg_next r + 1\<rparr>)"
proof -
  have n: "rg_next r \<notin> ran (rg_conns r) \<union> set (rg_closed r)" using assms(1) by (simp add: accounted_def)
  have "ran ((rg_conns r)(t \<mapsto> rg_next r)) = insert (rg_next r) (ran (rg_conns r))"
    using assms(2) by (rule ran_map_upd)
  moreover have "inj_on ((rg_conns r)(t \<mapsto> rg_next r)) (dom ((rg_conns r)(t \<mapsto> rg_next r)))"
    using assms n by (auto simp: accounted_def inj_on_def ran_def dom_def)
  ultimately show ?thesis using assms n by (auto simp: accounted_def)
qed

lemma accounted_RouteExternal: "accounted r \<Longrightarrow> accounted (snd (RouteExternal dial t endpoint status r))"
proof -
  assume a: "accounted r"
  have "accounted (close_conn (rg_conns r t)
      (r\<lparr>rg_conns := (rg_conns r)(t \<mapsto> rg_next r), rg_external := (rg_external r)(t \<mapsto> c), rg_next := rg_next r + 1\<rparr>))" for c
  proof (cases "rg_conns r t")
    case None
    with accounted_fresh [OF a None] show ?thesis by (simp add: close_conn_def)
  next
    case (Some k)
    from accounted_fresh [OF accounted_drop [OF a Some], of t c] Some show ?thesis
      by (simp add: close_conn_def accounted_def)
  qed
  then show ?thesis
    using a accounted_RemoveExternal by (auto simp: RouteExternal_def split: sum.split)
qed

lemma accounted_close: "accounted r \<Longrightarrow> accounted (close_routes ts r)"
  by (induction ts r rule: close_routes.induct) (auto simp: accounted_drop split: option.splits)

lemma reachable_accounted: "reachable ds r \<Longrightarrow> accounted r"
proof (induction rule: reachable.induct)
  case initial
  show ?case by (simp add: NewRegistry_def accounted_def)
next
  case (register r t client)
  then show ?case by (auto simp: RegisterExternal_def accounted_def)
qed (auto simp: accounted_RouteExternal accounted_RemoveExternal accounted_close, simp add: accounted_def)

text \<open>C13. In every reachable state of the registry each connection it ever made is the connection of
  exactly one route or has been closed, exactly once: none leaks, none is closed under a live route.\<close>

theorem connections_accounted:
  assumes "reachable ds r"
  shows "accounted r"
  using assms by (rule reachable_accounted)

lemma connections_accounted_witness:
  "\<exists>r. accounted r \<and> rg_next r = 2 \<and> rg_closed r = [0]
    \<and> r = snd (RouteExternal sample_dial ''duck'' ''b:1'' ''active''
        (snd (RouteExternal sample_dial ''duck'' ''a:1'' ''active'' (NewRegistry sample_drivers))))"
proof -
  let ?r = "snd (RouteExternal sample_dial ''duck'' ''b:1'' ''active''
        (snd (RouteExternal sample_dial ''duck'' ''a:1'' ''active'' (NewRegistry sample_drivers))))"
  have "reachable sample_drivers ?r" by (intro reachable.intros)
  from connections_accounted [OF this] show ?thesis
    by (intro exI [of _ ?r]) (simp add: RouteExternal_def close_conn_def NewRegistry_def)
qed

lemma close_routes_builtins [simp]: "rg_builtins (close_routes ts r) = rg_builtins r"
  by (induction ts r rule: close_routes.induct) (auto split: option.splits)

lemma builtins_fixed: "reachable ds r \<Longrightarrow> rg_builtins r = registerBuiltins ds"
  by (induction rule: reachable.induct) (auto simp: NewRegistry_def RouteExternal_def RemoveExternal_def RegisterExternal_def close_conn_def
    split: sum.splits option.splits)

text \<open>No plugin can take over a built-in type: in every reachable state the lookup of a built-in type
  gives the built-in adapter, and a type of neither kind is refused.\<close>

theorem builtin_lookup:
  assumes "reachable ds r"
  shows "(case registerBuiltins ds t of
      Some a \<Rightarrow> GetAdapter co t r = Inr (a, rg_pools r t)
    | None \<Rightarrow>
        (case rg_external r t of
           Some c \<Rightarrow> GetAdapter co t r = Inr (externalAdapter co c, no_pools)
         | None \<Rightarrow> GetAdapter co t r = Inl (Err (''unknown adapter type: '' @ t))))"
  using builtins_fixed [OF assms] by (auto simp: GetAdapter_def split: option.splits)

lemma builtin_lookup_witness:
  "GetAdapter sample_codec ''mysql''
     (snd (RouteExternal sample_dial ''mysql'' ''a:1'' ''active'' (NewRegistry sample_drivers)))
   = Inr (MySQLAdapter sample_driver, no_pools)"
proof -
  have "reachable sample_drivers (snd (RouteExternal sample_dial ''mysql'' ''a:1'' ''active'' (NewRegistry sample_drivers)))"
    by (intro reachable.intros)
  from builtin_lookup [OF this, where t = "''mysql''" and co = sample_codec] show ?thesis
    by (simp add: registerBuiltins_def RouteExternal_def close_conn_def NewRegistry_def sample_drivers_def)
qed

end
