(* ===== verification/Dsn.thy ===== *)
theory Dsn
  imports Go_Prelude
begin

text \<open>
  The data source names Connection Manager builds from connection parameters
  (\<^verbatim>\<open>services/connection-manager/internal/dsn/builder.go\<close>), with the escaping of package \<^verbatim>\<open>net/url\<close>.
\<close>

section \<open>net/url\<close>

datatype encoding = EncodePath | EncodeHost | EncodeUserPassword | EncodeQuery

definition is_alnum :: "char \<Rightarrow> bool" where
  "is_alnum c = (let n = char_code c in 48 \<le> n \<and> n \<le> 57 \<or> 65 \<le> n \<and> n \<le> 90 \<or> 97 \<le> n \<and> n \<le> 122)"

definition shouldEscape :: "char \<Rightarrow> encoding \<Rightarrow> bool" where
  "shouldEscape c mode =
     (if is_alnum c then False
      else if mode = EncodeHost \<and> c \<in> set ''!$&'' \<union> {CHR 0x27} \<union> set ''()*+,;=:[]<>'' \<union> {CHR 0x22} then False
      else if c \<in> set ''-_.~'' then False
      else if c \<in> set ''$&+,/:;=?@'' then
        (case mode of
           EncodePath \<Rightarrow> c = CHR ''?''
         | EncodeUserPassword \<Rightarrow> c \<in> set ''@/?:''
         | EncodeQuery \<Rightarrow> True
         | EncodeHost \<Rightarrow> True)
      else True)"

definition upper_hex :: "int \<Rightarrow> char" where
  "upper_hex n = (if n < 10 then char_of (48 + n) else char_of (55 + n))"

definition escape_char :: "encoding \<Rightarrow> char \<Rightarrow> string" where
  "escape_char mode c =
     (if \<not> shouldEscape c mode then [c]
      else if c = CHR '' '' \<and> mode = EncodeQuery then ''+''
      else [CHR 0x25, upper_hex (char_code c div 16), upper_hex (char_code c mod 16)])"

definition url_escape :: "encoding \<Rightarrow> string \<Rightarrow> string" where
  "url_escape mode s = concat (map (escape_char mode) s)"

text \<open>\<^verbatim>\<open>URL.String\<close> for the URLs built here: a scheme and a non-empty host, perhaps user information, a path
  and an encoded query.\<close>

definition url_string :: "string \<Rightarrow> (string \<times> string) option \<Rightarrow> string \<Rightarrow> string \<Rightarrow> string \<Rightarrow> string" where
  "url_string scheme user host path query =
     scheme @ ''://''
     @ (case user of
          None \<Rightarrow> []
        | Some (u, p) \<Rightarrow> url_escape EncodeUserPassword u @ '':'' @ url_escape EncodeUserPassword p @ ''@'')
     @ url_escape EncodeHost host
     @ (let p = (if path = ''*'' then path else url_escape EncodePath path)
        in if p \<noteq> [] \<and> hd p \<noteq> CHR ''/'' then CHR ''/'' # p else p)
     @ (if query \<noteq> [] then CHR ''?'' # query else [])"

text \<open>\<^verbatim>\<open>Values.Encode\<close> of a single pair.\<close>

definition encode_pair :: "string \<Rightarrow> string \<Rightarrow> string" where
  "encode_pair k v = url_escape EncodeQuery k @ ''='' @ url_escape EncodeQuery v"

section \<open>The builder\<close>

definition getString :: "gomap \<Rightarrow> string \<Rightarrow> string" where
  "getString m key =
     (case map_of m key of
        Some v \<Rightarrow> (case v of JStr s \<Rightarrow> s | _ \<Rightarrow> [])
      | None \<Rightarrow> [])"

definition or_default :: "string \<Rightarrow> string \<Rightarrow> string" where
  "or_default s d = (if s = [] then d else s)"

definition user_info :: "gomap \<Rightarrow> (string \<times> string) option" where
  "user_info m =
     (if getString m ''user'' \<noteq> [] then Some (getString m ''user'', getString m ''password'') else None)"

definition host_port :: "gomap \<Rightarrow> string \<Rightarrow> string" where
  "host_port m port =
     or_default (getString m ''host'') ''localhost'' @ '':'' @ or_default (getString m ''port'') port"

definition buildPostgresDSN :: "gomap \<Rightarrow> string" where
  "buildPostgresDSN m =
     url_string ''postgres'' (user_info m) (host_port m ''5432'') (getString m ''database'')
       (encode_pair ''sslmode'' (or_default (getString m ''sslmode'') ''disable''))"

definition buildClickHouseDSN :: "gomap \<Rightarrow> string" where
  "buildClickHouseDSN m =
     (let db = getString m ''database'' in
      url_string ''clickhouse'' (user_info m) (host_port m ''9000'') []
        (if db \<noteq> [] then encode_pair ''database'' db else []))"

definition buildMySQLDSN :: "gomap \<Rightarrow> string" where
  "buildMySQLDSN m =
     getString m ''user'' @ '':'' @ getString m ''password'' @ ''@tcp('' @ host_port m ''3306'' @ '')/''
     @ getString m ''database'' @ ''?parseTime=true''"

definition buildSQLiteDSN :: "gomap \<Rightarrow> string" where
  "buildSQLiteDSN m = or_default (getString m ''path'') '':memory:''"

definition buildMSSQLDSN :: "gomap \<Rightarrow> string" where
  "buildMSSQLDSN m =
     ''sqlserver://'' @ getString m ''user'' @ '':'' @ getString m ''password'' @ ''@'' @ host_port m ''1433''
     @ ''?database='' @ getString m ''database''"

definition buildBigQueryDSN :: "gomap \<Rightarrow> goerr + string" where
  "buildBigQueryDSN m =
     (if getString m ''project_id'' = [] then Inl (Err ''project_id is required for bigquery'')
      else Inr (''bigquery://'' @ getString m ''project_id'' @ ''?location=''
        @ or_default (getString m ''location'') ''US''))"

definition BuildDSN :: "string \<Rightarrow> gomap \<Rightarrow> goerr + string" where
  "BuildDSN adapter m =
     (if adapter = ''postgres'' then Inr (buildPostgresDSN m)
      else if adapter = ''clickhouse'' then Inr (buildClickHouseDSN m)
      else if adapter = ''mysql'' then Inr (buildMySQLDSN m)
      else if adapter = ''sqlite'' then Inr (buildSQLiteDSN m)
      else if adapter = ''mssql'' then Inr (buildMSSQLDSN m)
      else if adapter = ''bigquery'' then buildBigQueryDSN m
      else Inl (Err (''unsupported adapter type: '' @ adapter)))"

section \<open>Facts\<close>

lemma url_escape_simps [simp]:
  "url_escape mode [] = []" "url_escape mode (a @ b) = url_escape mode a @ url_escape mode b"
  "url_escape mode (c # s) = escape_char mode c @ url_escape mode s"
  by (simp_all add: url_escape_def)

text \<open>The bytes that delimit the parts of the authority.\<close>

lemma hex_not_special: "0 \<le> n \<Longrightarrow> n < 16 \<Longrightarrow> upper_hex n \<notin> set ''@/?:''"
proof -
  assume "0 \<le> n" "n < 16"
  then have "char_code (upper_hex n) = (if n < 10 then 48 + n else 55 + n)"
    by (simp add: upper_hex_def char_code_def)
  moreover have "c \<in> set ''@/?:'' \<Longrightarrow> char_code c \<in> {64, 47, 63, 58}" for c
    by (auto simp: char_code_def)
  ultimately show ?thesis using \<open>0 \<le> n\<close> \<open>n < 16\<close> by (fastforce split: if_splits)
qed

lemma escape_user_safe: "set (url_escape EncodeUserPassword s) \<inter> set ''@/?:'' = {}"
proof (induction s)
  case (Cons c s)
  have "set (escape_char EncodeUserPassword c) \<inter> set ''@/?:'' = {}"
  proof (cases "shouldEscape c EncodeUserPassword")
    case True
    have "upper_hex (char_code c div 16) \<notin> set ''@/?:''" "upper_hex (char_code c mod 16) \<notin> set ''@/?:''"
      using char_code_range [of c] by (intro hex_not_special; simp)+
    with True show ?thesis by (simp add: escape_char_def)
  next
    case False
    then have "c \<notin> set ''@/?:''"
      by (auto simp: shouldEscape_def is_alnum_def char_code_def split: if_splits)
    with False show ?thesis by (simp add: escape_char_def)
  qed
  with Cons show ?case by auto
qed simp

text \<open>No user name or password can change which server a PostgreSQL data source name points to: the
  first \<^verbatim>\<open>@\<close> of the name ends the user information, and none of the bytes that delimit host, path or query
  occurs before it.\<close>

theorem postgres_credentials_contained:
  assumes "getString m ''user'' \<noteq> []"
  shows "\<exists>cred rest. buildPostgresDSN m = ''postgres://'' @ cred @ ''@'' @ url_escape EncodeHost (host_port m ''5432'') @ rest
    \<and> CHR ''@'' \<notin> set cred \<and> CHR ''/'' \<notin> set cred \<and> CHR ''?'' \<notin> set cred
    \<and> length (split_on (CHR '':'') cred) = 2"
proof -
  let ?u = "url_escape EncodeUserPassword (getString m ''user'')"
  let ?p = "url_escape EncodeUserPassword (getString m ''password'')"
  have s: "set ?u \<inter> set ''@/?:'' = {}" "set ?p \<inter> set ''@/?:'' = {}" by (rule escape_user_safe)+
  have none: "c \<notin> set x \<Longrightarrow> split_on c x = [x]" for c x by (induction x) auto
  have one: "c \<notin> set x \<Longrightarrow> c \<notin> set y \<Longrightarrow> split_on c (x @ c # y) = [x, y]" for c x y
    by (induction x) (auto simp: none)
  have "split_on (CHR '':'') (?u @ '':'' @ ?p) = [?u, ?p]" using s by (simp add: one)
  moreover have "CHR ''@'' \<notin> set (?u @ '':'' @ ?p)" "CHR ''/'' \<notin> set (?u @ '':'' @ ?p)"
    "CHR ''?'' \<notin> set (?u @ '':'' @ ?p)" using s by auto
  moreover have "\<exists>rest. buildPostgresDSN m
      = ''postgres://'' @ (?u @ '':'' @ ?p) @ ''@'' @ url_escape EncodeHost (host_port m ''5432'') @ rest"
    using assms by (simp add: buildPostgresDSN_def url_string_def user_info_def Let_def)
  ultimately show ?thesis by (metis list.size(3,4) One_nat_def Suc_1 add.commute plus_1_eq_Suc)
qed

lemma postgres_credentials_contained_witness:
  "\<exists>cred rest. buildPostgresDSN [(''user'', JStr ''a''), (''password'', JStr ''x@evil/'')]
     = ''postgres://'' @ cred @ ''@'' @ url_escape EncodeHost (host_port [(''user'', JStr ''a''), (''password'', JStr ''x@evil/'')] ''5432'') @ rest
   \<and> CHR ''@'' \<notin> set cred"
proof -
  have "getString [(''user'', JStr ''a''), (''password'', JStr ''x@evil/'')] ''user'' \<noteq> []" by (simp add: getString_def)
  from postgres_credentials_contained [OF this] show ?thesis by blast
qed

text \<open>The MySQL and SQL Server names are put together without escaping: a password with a delimiter gives
  the name of another server.\<close>

lemma mssql_name_ambiguous:
  "buildMSSQLDSN [(''user'', JStr ''sa''), (''password'', JStr ''p@db2''), (''host'', JStr ''db1'')]
   = buildMSSQLDSN [(''user'', JStr ''sa''), (''password'', JStr ''p''), (''host'', JStr ''db2@db1'')]"
  by (simp add: buildMSSQLDSN_def getString_def host_port_def or_default_def)

lemma BuildDSN_ok:
  "adapter \<in> {''postgres'', ''clickhouse'', ''mysql'', ''sqlite'', ''mssql''} \<Longrightarrow> \<exists>name. BuildDSN adapter m = Inr name"
  by (auto simp: BuildDSN_def)

text \<open>A name is built for each of the six adapters and for nothing else; only BigQuery needs a
  parameter.\<close>

theorem BuildDSN_total:
  "(\<exists>name. BuildDSN adapter m = Inr name)
   = (adapter \<in> {''postgres'', ''clickhouse'', ''mysql'', ''sqlite'', ''mssql''}
      \<or> adapter = ''bigquery'' \<and> getString m ''project_id'' \<noteq> [])"
  by (auto simp: BuildDSN_def buildBigQueryDSN_def)

end
