(* ===== verification/ConnServer.thy ===== *)
theory ConnServer
  imports Registry Dsn Messages
begin

text \<open>
  The front of Connection Manager (\<^verbatim>\<open>services/connection-manager/internal/server\<close> and the plugin routes of
  \<^verbatim>\<open>cmd/main.go\<close>). How \<^verbatim>\<open>%v\<close> prints a value of a driver, or the protobuf message of a plugin, is the argument \<open>show_v\<close>; the measured latency is
  the argument \<open>latency\<close>. The registry changes through the pools of its adapters and the routes.
\<close>

section \<open>gRPC handlers\<close>

record test_response =
  te_ok :: bool
  te_error :: string
  te_latency :: "64 word"

definition connectionConfig :: "codec \<Rightarrow> string \<Rightarrow> gomap \<Rightarrow> registry \<Rightarrow> goerr + string" where
  "connectionConfig co t params r =
     (if \<not> IsExternal t r then BuildDSN t params
      else (case co_marshal co params of
          Inl e \<Rightarrow> Inl (wrap ''marshal plugin params'' e)
        | Inr payload \<Rightarrow> Inr payload))"

definition TestConnection :: "codec \<Rightarrow> 64 word \<Rightarrow> string \<Rightarrow> gomap \<Rightarrow> registry \<Rightarrow> test_response" where
  "TestConnection co latency t params r =
     (case GetAdapter co t r of
        Inl e \<Rightarrow> \<lparr>te_ok = False, te_error = error_text e, te_latency = 0\<rparr>
      | Inr (a, p) \<Rightarrow>
          (case connectionConfig co t params r of
             Inl e \<Rightarrow> \<lparr>te_ok = False, te_error = error_text e, te_latency = 0\<rparr>
           | Inr dsn \<Rightarrow>
               (case ad_TestConnection a dsn of
                  Some e \<Rightarrow> \<lparr>te_ok = False, te_error = error_text e, te_latency = latency\<rparr>
                | None \<Rightarrow> \<lparr>te_ok = True, te_error = [], te_latency = latency\<rparr>)))"

text \<open>Healthy, with no active and no idle connections.\<close>

definition GetPoolHealth :: "bool \<times> int \<times> int" where
  "GetPoolHealth = (True, 0, 0)"

definition cells_of :: "(jval \<Rightarrow> string) \<Rightarrow> string list \<Rightarrow> gomap \<Rightarrow> jval list" where
  "cells_of show_v columns row =
     map (\<lambda>c. JStr (show_v (case map_of row c of Some v \<Rightarrow> v | None \<Rightarrow> JNull))) columns"

text \<open>The columns are the keys of the first row that has any, in the order its map is visited.\<close>

fun encode_rows :: "(jval \<Rightarrow> string) \<Rightarrow> string list \<Rightarrow> gomap list \<Rightarrow> string list \<times> jval list list" where
  "encode_rows show_v columns [] = (columns, [])"
| "encode_rows show_v columns (row # rows) =
     (let cols = (if columns = [] then map fst row else columns) in
      case encode_rows show_v cols rows of (final, rest) \<Rightarrow> (final, cells_of show_v cols row # rest))"

text \<open>The pools of a built-in adapter are shared; those of a plugin adapter go with it.\<close>

definition keep_pools :: "string \<Rightarrow> pools \<Rightarrow> registry \<Rightarrow> registry" where
  "keep_pools t p r =
     (if rg_builtins r t \<noteq> None then r\<lparr>rg_pools := (rg_pools r)(t := p)\<rparr> else r)"

definition ExecuteQuery ::
  "codec \<Rightarrow> (jval \<Rightarrow> string) \<Rightarrow> exec_request \<Rightarrow> registry \<Rightarrow> (goerr + exec_response) \<times> registry" where
  "ExecuteQuery co show_v req r =
     (let t = xq_adapter req in
      case GetAdapter co t r of
        Inl e \<Rightarrow> (Inl e, r)
      | Inr (a, p) \<Rightarrow>
          (case connectionConfig co t (xq_params req) r of
             Inl e \<Rightarrow> (Inl (wrap ''build connection config'' e), r)
           | Inr dsn \<Rightarrow>
               (case ad_Prepare a (xq_conn req) dsn p of
                  (Some e, p') \<Rightarrow> (Inl (wrap ''prepare adapter'' e), keep_pools t p' r)
                | (None, p') \<Rightarrow>
                    ((case ad_ExecuteQuery a (xq_conn req) (xq_sql req) (xq_limit req) p' of
                        Inl e \<Rightarrow> Inl (wrap ''execute query'' e)
                      | Inr rows \<Rightarrow>
                          (case encode_rows show_v [] rows of (columns, cells) \<Rightarrow>
                             Inr \<lparr>xr_columns = columns, xr_rows = cells, xr_truncated = False\<rparr>)),
                     keep_pools t p' r))))"

definition GetSchema :: "codec \<Rightarrow> string \<Rightarrow> gomap \<Rightarrow> registry \<Rightarrow> goerr + table_info list" where
  "GetSchema co t params r =
     (case GetAdapter co t r of
        Inl e \<Rightarrow> Inl e
      | Inr (a, p) \<Rightarrow>
          (case connectionConfig co t params r of
             Inl e \<Rightarrow> Inl e
           | Inr dsn \<Rightarrow>
               (case ad_GetSchema a dsn of
                  Inl e \<Rightarrow> Inl (wrap ''get schema'' e)
                | Inr tables \<Rightarrow>
                    Inr (map (\<lambda>t. \<lparr>ti_name = ti_name t,
                      ti_columns = map (\<lambda>c. \<lparr>ci_name = ci_name c, ci_type = ci_type c, ci_nullable = ci_nullable c\<rparr>)
                        (ti_columns t)\<rparr>) tables))))"

section \<open>Plugin routes\<close>

record plugin_route =
  pr_adapter :: string
  pr_endpoint :: string
  pr_status :: string

text \<open>A message on \<^verbatim>\<open>events.plugin.route\<close>; errors are logged only.\<close>

definition on_plugin_route ::
  "(string \<Rightarrow> goerr + plugin_client) \<Rightarrow> goerr + plugin_route \<Rightarrow> registry \<Rightarrow> registry" where
  "on_plugin_route dial msg r =
     (case msg of
        Inl e \<Rightarrow> r
      | Inr route \<Rightarrow> snd (RouteExternal dial (pr_adapter route) (pr_endpoint route) (pr_status route) r))"

section \<open>HTTP routes\<close>

datatype cm_request =
    CmHealthz
  | CmTest "goerr + string \<times> gomap"
  | CmExecute "goerr + exec_request"
  | CmSchema "goerr + string \<times> gomap"

datatype cm_body =
    CmOk
  | CmTested test_response
  | CmExecuted exec_response
  | CmTables "table_info list"

definition corsHeaders :: "(string \<times> string) list" where
  "corsHeaders =
     [(''Access-Control-Allow-Origin'', ''*''),
      (''Access-Control-Allow-Methods'', ''GET, POST, PUT, DELETE, OPTIONS''),
      (''Access-Control-Allow-Headers'', ''Content-Type, Authorization'')]"

text \<open>The middleware answers an \<^verbatim>\<open>OPTIONS\<close> request itself.\<close>

definition corsMiddleware :: "string \<Rightarrow> (goerr, cm_body) reply \<Rightarrow> (goerr, cm_body) reply" where
  "corsMiddleware verb next_reply = (if verb = ''OPTIONS'' then HttpJson 200 CmOk else next_reply)"

definition cm_serve ::
  "codec \<Rightarrow> (jval \<Rightarrow> string) \<Rightarrow> 64 word \<Rightarrow> cm_request \<Rightarrow> registry \<Rightarrow> (goerr, cm_body) reply \<times> registry" where
  "cm_serve co show_v latency req r =
     (case req of
        CmHealthz \<Rightarrow> (HttpJson 200 CmOk, r)
      | CmTest (Inl e) \<Rightarrow> (HttpError 400 e, r)
      | CmTest (Inr (t, params)) \<Rightarrow>
          (case co_struct co params of
             Inl e \<Rightarrow> (HttpError 400 e, r)
           | Inr pb \<Rightarrow> (HttpJson 200 (CmTested (TestConnection co latency t pb r)), r))
      | CmExecute (Inl e) \<Rightarrow> (HttpError 400 e, r)
      | CmExecute (Inr q) \<Rightarrow>
          (case ExecuteQuery co show_v q r of
             (Inl e, r') \<Rightarrow> (HttpError 500 e, r')
           | (Inr resp, r') \<Rightarrow> (HttpJson 200 (CmExecuted resp), r'))
      | CmSchema (Inl e) \<Rightarrow> (HttpError 400 e, r)
      | CmSchema (Inr (t, params)) \<Rightarrow>
          (case co_struct co params of
             Inl e \<Rightarrow> (HttpError 400 e, r)
           | Inr pb \<Rightarrow>
               (case GetSchema co t pb r of
                  Inl e \<Rightarrow> (HttpError 500 e, r)
                | Inr tables \<Rightarrow> (HttpJson 200 (CmTables tables), r))))"

section \<open>Facts\<close>

lemma encode_rows_shape:
  "encode_rows show_v columns rows = (final, cells) \<Longrightarrow>
   length cells = length rows \<and> (columns \<noteq> [] \<longrightarrow> final = columns)
   \<and> (\<forall>c\<in>set cells. c = [] \<or> length c = length final)"
proof (induction rows arbitrary: columns final cells)
  case (Cons row rows)
  define cols where "cols = (if columns = [] then map fst row else columns)"
  obtain f rest where e: "encode_rows show_v cols rows = (f, rest)" by fastforce
  have IH: "length rest = length rows" "cols \<noteq> [] \<longrightarrow> f = cols" "\<forall>c\<in>set rest. c = [] \<or> length c = length f"
    using Cons.IH [OF e] by auto
  have out: "final = f" "cells = cells_of show_v cols row # rest"
    using Cons.prems e by (simp_all add: cols_def [symmetric] Let_def)
  have "length (cells_of show_v cols row) = length cols" by (simp add: cells_of_def)
  then have "cells_of show_v cols row = [] \<or> length (cells_of show_v cols row) = length f"
    using IH(2) by (cases "cols = []") simp_all
  moreover have "columns \<noteq> [] \<longrightarrow> f = columns" using IH(2) by (auto simp: cols_def)
  ultimately show ?case using IH(1,3) unfolding out by simp
qed simp

text \<open>The answer of a query has one row per row of the adapter, never truncated, and every row has a
  cell for each reported column or none at all (a row the adapter returned empty).\<close>

lemma execute_rows_rectangular:
  assumes "fst (ExecuteQuery co show_v req r) = Inr resp"
  shows "\<not> xr_truncated resp
    \<and> (\<exists>a p dsn p' rows. GetAdapter co (xq_adapter req) r = Inr (a, p)
         \<and> connectionConfig co (xq_adapter req) (xq_params req) r = Inr dsn
         \<and> ad_Prepare a (xq_conn req) dsn p = (None, p')
         \<and> ad_ExecuteQuery a (xq_conn req) (xq_sql req) (xq_limit req) p' = Inr rows
         \<and> length (xr_rows resp) = length rows)
    \<and> (\<forall>cells\<in>set (xr_rows resp). cells = [] \<or> length cells = length (xr_columns resp))"
proof -
  obtain a p where a: "GetAdapter co (xq_adapter req) r = Inr (a, p)"
    using assms by (cases "GetAdapter co (xq_adapter req) r") (auto simp: ExecuteQuery_def Let_def)
  obtain dsn where d: "connectionConfig co (xq_adapter req) (xq_params req) r = Inr dsn"
    using assms a by (cases "connectionConfig co (xq_adapter req) (xq_params req) r") (auto simp: ExecuteQuery_def Let_def)
  obtain p' where p: "ad_Prepare a (xq_conn req) dsn p = (None, p')"
    using assms a d by (cases "ad_Prepare a (xq_conn req) dsn p"; cases "fst (ad_Prepare a (xq_conn req) dsn p)")
      (auto simp: ExecuteQuery_def Let_def)
  obtain rows where q: "ad_ExecuteQuery a (xq_conn req) (xq_sql req) (xq_limit req) p' = Inr rows"
    using assms a d p by (cases "ad_ExecuteQuery a (xq_conn req) (xq_sql req) (xq_limit req) p'") (auto simp: ExecuteQuery_def Let_def)
  obtain columns cells where e: "encode_rows show_v [] rows = (columns, cells)" by fastforce
  have "resp = \<lparr>xr_columns = columns, xr_rows = cells, xr_truncated = False\<rparr>"
    using assms a d p q e by (simp add: ExecuteQuery_def Let_def)
  with encode_rows_shape [OF e] a d p q show ?thesis by auto
qed

definition with_pool :: "registry \<Rightarrow> string \<Rightarrow> string \<Rightarrow> handle \<Rightarrow> bool" where
  "with_pool r t i h \<longleftrightarrow> pl_open (rg_pools r t) i = Some h"

lemma pooled_builtin:
  assumes "t \<in> {''postgres'', ''clickhouse'', ''mysql'', ''sqlite'', ''mssql''}"
  shows "\<exists>a. registerBuiltins ds t = Some a \<and> pooled_adapter a"
  using assms postgres.pooled_adapter_axioms clickhouse.pooled_adapter_axioms mysql.pooled_adapter_axioms
    sqlite.pooled_adapter_axioms mssql.pooled_adapter_axioms
  by (auto simp: registerBuiltins_def)

text \<open>C12. Once a connection has a pool, the connection parameters of a query have no influence on its result
  any more: with any other parameters for which a name can be built, the same query gives the same answer
  and the pool stays. A connection whose host, user or password was changed is still queried with the old
  ones until the process restarts, since nothing releases a pool.\<close>

theorem pooled_query_ignores_params:
  assumes "reachable ds r" and "xq_adapter req \<in> {''postgres'', ''clickhouse'', ''mysql'', ''sqlite'', ''mssql''}"
    and "with_pool r (xq_adapter req) (xq_conn req) h" and "\<not> IsExternal (xq_adapter req) r"
  shows "fst (ExecuteQuery co show_v req r) = fst (ExecuteQuery co show_v (req\<lparr>xq_params := params\<rparr>) r)
    \<and> with_pool (snd (ExecuteQuery co show_v req r)) (xq_adapter req) (xq_conn req) h"
proof -
  let ?t = "xq_adapter req" and ?i = "xq_conn req"
  obtain a where a: "rg_builtins r ?t = Some a" "pooled_adapter a"
    using pooled_builtin [OF assms(2)] builtins_fixed [OF assms(1)] by metis
  then have keep: "ad_Prepare a ?i dsn (rg_pools r ?t) = (None, rg_pools r ?t)" for dsn
    using assms(3) by (simp add: with_pool_def pooled_adapter.prepare_keeps)
  have dsn: "\<exists>d. BuildDSN ?t m = Inr d" for m
    using assms(2) BuildDSN_ok by blast
  have e: "ExecuteQuery co show_v (req\<lparr>xq_params := m\<rparr>) r =
      ((case ad_ExecuteQuery a ?i (xq_sql req) (xq_limit req) (rg_pools r ?t) of
          Inl e \<Rightarrow> Inl (wrap ''execute query'' e)
        | Inr rows \<Rightarrow>
            (case encode_rows show_v [] rows of (columns, cells) \<Rightarrow>
               Inr \<lparr>xr_columns = columns, xr_rows = cells, xr_truncated = False\<rparr>)),
       keep_pools ?t (rg_pools r ?t) r)" for m
    using dsn [of m] assms(4) a(1) by (auto simp: ExecuteQuery_def GetAdapter_def connectionConfig_def keep Let_def)
  have "req = req\<lparr>xq_params := xq_params req\<rparr>" by simp
  then have "ExecuteQuery co show_v req r = ExecuteQuery co show_v (req\<lparr>xq_params := params\<rparr>) r"
    using e [of "xq_params req"] e [of params] by metis
  moreover have "with_pool (snd (ExecuteQuery co show_v (req\<lparr>xq_params := params\<rparr>) r)) ?t ?i h"
    unfolding e using assms(3) by (simp add: with_pool_def keep_pools_def)
  ultimately show ?thesis by simp
qed

section \<open>Concrete requests\<close>

definition sample_exec :: exec_request where
  "sample_exec = \<lparr>xq_conn = ''c1'', xq_sql = ''SELECT id FROM users'', xq_limit = 0, xq_timeout = 60,
     xq_adapter = ''mysql'', xq_params = [(''host'', JStr ''db1'')]\<rparr>"

lemma sample_execute:
  "fst (ExecuteQuery sample_codec (\<lambda>v. ''v'') sample_exec (NewRegistry sample_drivers))
   = Inr \<lparr>xr_columns = [''id''], xr_rows = [[JStr ''v'']], xr_truncated = False\<rparr>"
  by (simp add: ExecuteQuery_def sample_exec_def GetAdapter_def NewRegistry_def registerBuiltins_def
      connectionConfig_def IsExternal_def BuildDSN_def MySQLAdapter_def db_adapter_def pool_Prepare_def no_pools_def
      sample_drivers_def sample_driver_def pool_Execute_def db_columns_def drain_def row_of_def cells_of_def Let_def)

lemma pooled_query_ignores_params_witness:
  "fst (ExecuteQuery sample_codec (\<lambda>v. ''v'') sample_exec
      (snd (ExecuteQuery sample_codec (\<lambda>v. ''v'') sample_exec (NewRegistry sample_drivers))))
   = fst (ExecuteQuery sample_codec (\<lambda>v. ''v'') (sample_exec\<lparr>xq_params := [(''host'', JStr ''db2'')]\<rparr>)
      (snd (ExecuteQuery sample_codec (\<lambda>v. ''v'') sample_exec (NewRegistry sample_drivers))))"
proof -
  let ?r = "snd (ExecuteQuery sample_codec (\<lambda>v. ''v'') sample_exec (NewRegistry sample_drivers))"
  have r: "?r = (NewRegistry sample_drivers)\<lparr>rg_pools := (\<lambda>t. no_pools)(''mysql'' :=
      \<lparr>pl_open = [''c1'' \<mapsto> Pool (buildMySQLDSN [(''host'', JStr ''db1'')])], pl_closed = []\<rparr>)\<rparr>"
    by (simp add: ExecuteQuery_def sample_exec_def GetAdapter_def NewRegistry_def registerBuiltins_def
      connectionConfig_def IsExternal_def BuildDSN_def MySQLAdapter_def db_adapter_def pool_Prepare_def no_pools_def
      sample_drivers_def sample_driver_def keep_pools_def Let_def)
  have "reachable sample_drivers ?r" unfolding r by (intro reachable.use_pool reachable.initial)
  moreover have "xq_adapter sample_exec = ''mysql''" "xq_conn sample_exec = ''c1''" by (simp_all add: sample_exec_def)
  moreover have "with_pool ?r ''mysql'' ''c1'' (Pool (buildMySQLDSN [(''host'', JStr ''db1'')]))" "\<not> IsExternal ''mysql'' ?r"
    unfolding r by (simp_all add: with_pool_def IsExternal_def NewRegistry_def)
  ultimately show ?thesis
    using pooled_query_ignores_params [of sample_drivers ?r sample_exec] by simp
qed

text \<open>A plugin route named like a built-in type does not replace the adapter, but turns its configuration
  into the JSON of a plugin: every connection of that type, of any tenant, is opened with a wrong name.\<close>

lemma route_breaks_builtin:
  "connectionConfig sample_codec ''postgres'' [(''host'', JStr ''db1'')]
     (snd (RouteExternal (\<lambda>e. Inr c) ''postgres'' ''evil:1'' ''active'' (NewRegistry ds))) = Inr ''{}''
   \<and> GetAdapter co ''postgres'' (snd (RouteExternal (\<lambda>e. Inr c) ''postgres'' ''evil:1'' ''active'' (NewRegistry ds)))
     = Inr (PostgresAdapter (ds_postgres ds), no_pools)"
  by (simp add: connectionConfig_def IsExternal_def RouteExternal_def close_conn_def NewRegistry_def sample_codec_def
      GetAdapter_def registerBuiltins_def)

end
