(* ===== verification/MetaStore.thy ===== *)
theory MetaStore
  imports Audit_Events Messages
begin

text \<open>
  The repository of Meta Service (\<^verbatim>\<open>services/meta-service/internal/repository/postgres.go\<close>) over the tables of
  its migrations. Each SQL statement of the file is written out as the operation on the tables it denotes,
  with the constraints of the migrations. A table is the list of its rows in the order of insertion; rows
  of equal creation time are listed in one of the possible orders. PostgreSQL answers according to the fault
  list of the database, one entry per statement. An identifier is its canonical text.
\<close>

section \<open>Data\<close>

type_synonym uuid = string

record workspace =
  ws_id :: uuid
  ws_tenant :: string
  ws_name :: string
  ws_created :: int

record workspace_row = workspace +
  wr_user :: uuid

record schema_snapshot =
  ss_conn :: uuid
  ss_tables :: "table_info list"
  ss_captured :: int

record meta_connection =
  mc_id :: uuid
  mc_workspace :: string
  mc_user :: string
  mc_tenant :: string
  mc_name :: string
  mc_adapter :: string
  mc_params :: gomap
  mc_created :: int

record plugin_definition =
  pd_id :: uuid
  pd_type :: string
  pd_name :: string
  pd_version :: string
  pd_author :: string
  pd_endpoint :: string
  pd_protocol :: string
  pd_status :: string
  pd_tenant :: string
  pd_global :: bool
  pd_heartbeat :: "int option"
  pd_error :: string
  pd_created :: int

record plugin_row = plugin_definition +
  pr_failures :: int

record user =
  us_id :: uuid
  us_email :: string
  us_hash :: string
  us_salt :: string
  us_role :: string
  us_created :: int

record agent =
  ag_id :: uuid
  ag_user :: uuid
  ag_name :: string
  ag_jti :: "string option"
  ag_status :: string
  ag_created :: int

record healthcheck =
  hc_plugin :: uuid
  hc_healthy :: bool
  hc_latency :: int
  hc_error :: string

record meta_db =
  db_users :: "user list"
  db_workspaces :: "workspace_row list"
  db_connections :: "meta_connection list"
  db_snapshots :: "schema_snapshot list"
  db_plugins :: "plugin_row list"
  db_tenant_plugins :: "(string \<times> uuid) list"
  db_health :: "healthcheck list"
  db_agents :: "agent list"
  db_audit :: "event list"
  db_next :: nat
  db_now :: int
  db_faults :: "fault list"

text \<open>How texts are read as identifiers by package \<^verbatim>\<open>uuid\<close> and by PostgreSQL, the identifiers PostgreSQL
  generates, and what it reports when a constraint is violated.\<close>

record pg_env =
  pg_parse :: "string \<Rightarrow> goerr + uuid"
  pg_cast :: "string \<Rightarrow> goerr + uuid"
  pg_id :: "nat \<Rightarrow> uuid"
  pg_violation :: "string \<Rightarrow> goerr"

text \<open>Empty tables. The migration \<^verbatim>\<open>000002_auth.up.sql\<close> also inserts one administrator, with an identifier of its own;
  a database with that row is one of the states the invariants speak of, not this one.\<close>

definition empty_db :: meta_db where
  "empty_db = \<lparr>db_users = [], db_workspaces = [], db_connections = [], db_snapshots = [], db_plugins = [],
     db_tenant_plugins = [], db_health = [], db_agents = [], db_audit = [], db_next = 0, db_now = 0, db_faults = []\<rparr>"

section \<open>Statements\<close>

text \<open>An error of the database: whether its code is 23505 (a unique constraint), and its text.\<close>

datatype dberr = DbErr bool goerr

text \<open>One statement: a failing one has no effect, one whose reply is lost has its effect.\<close>

definition db_call :: "(meta_db \<Rightarrow> (dberr + 'a) \<times> meta_db) \<Rightarrow> meta_db \<Rightarrow> (dberr + 'a) \<times> meta_db" where
  "db_call stmt db =
     (case next_fault (db_faults db) of (f, fs) \<Rightarrow>
        (let db0 = db\<lparr>db_faults := fs\<rparr> in
         case f of
           Fails e \<Rightarrow> (Inl (DbErr False (Err e)), db0)
         | LostReply e \<Rightarrow> (Inl (DbErr False (Err e)), snd (stmt db0))
         | _ \<Rightarrow> stmt db0))"

definition db_read :: "(meta_db \<Rightarrow> goerr + 'a) \<Rightarrow> meta_db \<Rightarrow> (goerr + 'a) \<times> meta_db" where
  "db_read query db =
     (case db_call (\<lambda>d. (case query d of Inl e \<Rightarrow> Inl (DbErr False e) | Inr x \<Rightarrow> Inr x, d)) db of
        (Inl (DbErr u e), db') \<Rightarrow> (Inl e, db')
      | (Inr x, db') \<Rightarrow> (Inr x, db'))"

text \<open>The error of an insertion: a text of its own for a unique constraint.\<close>

definition insert_error :: "string \<Rightarrow> string \<Rightarrow> dberr \<Rightarrow> goerr" where
  "insert_error duplicate prefix e = (case e of DbErr u t \<Rightarrow> if u then Err duplicate else wrap prefix t)"

text \<open>\<^verbatim>\<open>ORDER BY created_at DESC\<close> names no second key: among rows of one creation time PostgreSQL may choose any order,
  and another one in the next query. Here the later insertion comes first; \<open>newest_first_unique\<close> says when no other
  order is possible.\<close>

definition newest_first :: "('a \<Rightarrow> int) \<Rightarrow> 'a list \<Rightarrow> 'a list" where
  "newest_first created rows = rev (sort_key created rows)"

text \<open>PostgreSQL evaluates the offset first.\<close>

definition limit_offset :: "pg_env \<Rightarrow> int \<Rightarrow> int \<Rightarrow> 'a list \<Rightarrow> goerr + 'a list" where
  "limit_offset env limit offset rows =
     (if offset < 0 then Inl (pg_violation env ''offset'')
      else if limit < 0 then Inl (pg_violation env ''limit'')
      else Inr (take (nat limit) (drop (nat offset) rows)))"

section \<open>Audit events\<close>

definition insert_audit :: "pg_env \<Rightarrow> event \<Rightarrow> meta_db \<Rightarrow> (dberr + unit) \<times> meta_db" where
  "insert_audit env ev db =
     (case pg_cast env (ev_id ev) of
        Inl e \<Rightarrow> (Inl (DbErr False e), db)
      | Inr i \<Rightarrow>
          (if \<exists>x\<in>set (db_audit db). ev_id x = i then (Inr (), db)
           else (Inr (), db\<lparr>db_audit := db_audit db @ [ev\<lparr>ev_id := i\<rparr>]\<rparr>)))"

definition SaveAuditEvent :: "pg_env \<Rightarrow> event \<Rightarrow> meta_db \<Rightarrow> goerr option \<times> meta_db" where
  "SaveAuditEvent env ev db =
     (case marshal_error [JObj (ev_metadata ev)] of
        Some e \<Rightarrow> (Some (wrap ''marshal audit metadata'' e), db)
      | None \<Rightarrow>
          (case db_call (insert_audit env ev) db of
             (Inl (DbErr u e), db') \<Rightarrow> (Some (wrap ''insert audit event'' e), db')
           | (Inr x, db') \<Rightarrow> (None, db')))"

section \<open>Workspaces\<close>

definition repo_ListWorkspaces :: "pg_env \<Rightarrow> string \<Rightarrow> int \<Rightarrow> int \<Rightarrow> meta_db \<Rightarrow> (goerr + workspace list) \<times> meta_db" where
  "repo_ListWorkspaces env userID limit offset db =
     (case db_read (\<lambda>d.
         case pg_cast env userID of
           Inl e \<Rightarrow> Inl e
         | Inr u \<Rightarrow> limit_offset env limit offset
             (newest_first ws_created (filter (\<lambda>r. wr_user r = u) (db_workspaces d)))) db of
        (Inl e, db') \<Rightarrow> (Inl (wrap ''query workspaces'' e), db')
      | (Inr rows, db') \<Rightarrow> (Inr (map workspace.truncate rows), db'))"

definition insert_workspace :: "pg_env \<Rightarrow> string \<Rightarrow> uuid \<Rightarrow> string \<Rightarrow> meta_db \<Rightarrow> (dberr + uuid) \<times> meta_db" where
  "insert_workspace env tenantID u name db =
     (if \<exists>r\<in>set (db_workspaces db). ws_tenant r = tenantID \<and> ws_name r = name
      then (Inl (DbErr True (pg_violation env ''idx_workspaces_tenant_name'')), db)
      else if \<forall>r\<in>set (db_users db). us_id r \<noteq> u
      then (Inl (DbErr False (pg_violation env ''workspaces_user_id_fkey'')), db)
      else (let i = pg_id env (db_next db) in
        (Inr i, db\<lparr>db_next := db_next db + 1, db_workspaces := db_workspaces db @
           [\<lparr>ws_id = i, ws_tenant = tenantID, ws_name = name, ws_created = db_now db, wr_user = u\<rparr>]\<rparr>)))"

definition repo_CreateWorkspace :: "pg_env \<Rightarrow> string \<Rightarrow> string \<Rightarrow> string \<Rightarrow> meta_db \<Rightarrow> (goerr + uuid) \<times> meta_db" where
  "repo_CreateWorkspace env userID tenantID name db =
     (case pg_parse env userID of
        Inl e \<Rightarrow> (Inl (wrap ''parse user_id'' e), db)
      | Inr uid \<Rightarrow>
          (case db_call (insert_workspace env tenantID uid name) db of
             (Inl e, db') \<Rightarrow> (Inl (insert_error ''workspace already exists'' ''insert workspace'' e), db')
           | (Inr i, db') \<Rightarrow> (Inr i, db')))"

section \<open>Schema snapshots\<close>

definition repo_GetSchemaSnapshot ::
  "pg_env \<Rightarrow> string \<Rightarrow> string \<Rightarrow> meta_db \<Rightarrow> (goerr + schema_snapshot option) \<times> meta_db" where
  "repo_GetSchemaSnapshot env connectionID tenantID db =
     (case db_read (\<lambda>d.
         case pg_cast env connectionID of
           Inl e \<Rightarrow> Inl e
         | Inr i \<Rightarrow>
             Inr (if \<exists>c\<in>set (db_connections d). mc_id c = i \<and> mc_tenant c = tenantID
                  then newest_first ss_captured (filter (\<lambda>s. ss_conn s = i) (db_snapshots d)) else [])) db of
        (Inl e, db') \<Rightarrow> (Inl (wrap ''query schema snapshot'' e), db')
      | (Inr [], db') \<Rightarrow> (Inr None, db')
      | (Inr (s # ss), db') \<Rightarrow> (Inr (Some (s\<lparr>ss_conn := connectionID\<rparr>)), db'))"

definition insert_snapshot :: "pg_env \<Rightarrow> string \<Rightarrow> table_info list \<Rightarrow> meta_db \<Rightarrow> (dberr + unit) \<times> meta_db" where
  "insert_snapshot env connectionID tables db =
     (case pg_cast env connectionID of
        Inl e \<Rightarrow> (Inl (DbErr False e), db)
      | Inr i \<Rightarrow>
          (if \<forall>c\<in>set (db_connections db). mc_id c \<noteq> i
           then (Inl (DbErr False (pg_violation env ''schema_snapshots_connection_id_fkey'')), db)
           else (Inr (), db\<lparr>db_snapshots := db_snapshots db
             @ [\<lparr>ss_conn = i, ss_tables = tables, ss_captured = db_now db\<rparr>]\<rparr>)))"

definition repo_SaveSchemaSnapshot :: "pg_env \<Rightarrow> string \<Rightarrow> table_info list \<Rightarrow> meta_db \<Rightarrow> goerr option \<times> meta_db" where
  "repo_SaveSchemaSnapshot env connectionID tables db =
     (case db_call (insert_snapshot env connectionID tables) db of
        (Inl (DbErr u e), db') \<Rightarrow> (Some (wrap ''insert schema snapshot'' e), db')
      | (Inr x, db') \<Rightarrow> (None, db'))"

section \<open>Connections\<close>

definition insert_connection :: "pg_env \<Rightarrow> meta_connection \<Rightarrow> meta_db \<Rightarrow> (dberr + uuid) \<times> meta_db" where
  "insert_connection env c db =
     (if \<forall>r\<in>set (db_workspaces db). ws_id r \<noteq> mc_workspace c
      then (Inl (DbErr False (pg_violation env ''connections_workspace_id_fkey'')), db)
      else if \<forall>r\<in>set (db_users db). us_id r \<noteq> mc_user c
      then (Inl (DbErr False (pg_violation env ''connections_user_id_fkey'')), db)
      else (let i = pg_id env (db_next db) in
        (Inr i, db\<lparr>db_next := db_next db + 1,
           db_connections := db_connections db @ [c\<lparr>mc_id := i, mc_created := db_now db\<rparr>]\<rparr>)))"

definition repo_CreateConnection :: "pg_env \<Rightarrow> meta_connection \<Rightarrow> meta_db \<Rightarrow> (goerr + uuid) \<times> meta_db" where
  "repo_CreateConnection env c db =
     (case marshal_error [JObj (mc_params c)] of
        Some e \<Rightarrow> (Inl (wrap ''marshal config'' e), db)
      | None \<Rightarrow>
          (case pg_parse env (mc_workspace c) of
             Inl e \<Rightarrow> (Inl (wrap ''parse workspace_id'' e), db)
           | Inr wsID \<Rightarrow>
               (case pg_parse env (mc_user c) of
                  Inl e \<Rightarrow> (Inl (wrap ''parse user_id'' e), db)
                | Inr userID \<Rightarrow>
                    (case db_call (insert_connection env (c\<lparr>mc_workspace := wsID, mc_user := userID\<rparr>)) db of
                       (Inl e, db') \<Rightarrow> (Inl (insert_error ''connection already exists'' ''insert connection'' e), db')
                     | (Inr i, db') \<Rightarrow> (Inr i, db')))))"

text \<open>A connection as it is read: the user is not among the selected columns.\<close>

definition scan_connection :: "meta_connection \<Rightarrow> meta_connection" where
  "scan_connection c = c\<lparr>mc_user := []\<rparr>"

definition repo_GetConnection ::
  "pg_env \<Rightarrow> string \<Rightarrow> string \<Rightarrow> meta_db \<Rightarrow> (goerr + meta_connection option) \<times> meta_db" where
  "repo_GetConnection env connectionID tenantID db =
     (case db_read (\<lambda>d.
         case pg_cast env connectionID of
           Inl e \<Rightarrow> Inl e
         | Inr i \<Rightarrow> Inr (find (\<lambda>c. mc_id c = i \<and> mc_tenant c = tenantID) (db_connections d))) db of
        (Inl e, db') \<Rightarrow> (Inl (wrap ''query connection'' e), db')
      | (Inr None, db') \<Rightarrow> (Inr None, db')
      | (Inr (Some c), db') \<Rightarrow> (Inr (Some (scan_connection c)), db'))"

definition repo_ListConnections ::
  "pg_env \<Rightarrow> string \<Rightarrow> string \<Rightarrow> int \<Rightarrow> int \<Rightarrow> meta_db \<Rightarrow> (goerr + meta_connection list) \<times> meta_db" where
  "repo_ListConnections env userID workspaceID limit offset db =
     (case (if workspaceID = [] then Inr None
            else (case pg_parse env workspaceID of Inl e \<Rightarrow> Inl e | Inr w \<Rightarrow> Inr (Some w))) of
        Inl e \<Rightarrow> (Inl (wrap ''parse workspace_id'' e), db)
      | Inr wsID \<Rightarrow>
          (case db_read (\<lambda>d.
              case pg_cast env userID of
                Inl e \<Rightarrow> Inl e
              | Inr u \<Rightarrow> limit_offset env limit offset (newest_first mc_created
                  (filter (\<lambda>c. mc_user c = u \<and> (wsID = None \<or> wsID = Some (mc_workspace c))) (db_connections d)))) db of
             (Inl e, db') \<Rightarrow> (Inl (wrap ''query connections'' e), db')
           | (Inr rows, db') \<Rightarrow> (Inr (map scan_connection rows), db')))"

definition delete_connection :: "pg_env \<Rightarrow> string \<Rightarrow> string \<Rightarrow> meta_db \<Rightarrow> (dberr + nat) \<times> meta_db" where
  "delete_connection env connectionID tenantID db =
     (case pg_cast env connectionID of
        Inl e \<Rightarrow> (Inl (DbErr False e), db)
      | Inr i \<Rightarrow>
          (let gone = filter (\<lambda>c. mc_id c = i \<and> mc_tenant c = tenantID) (db_connections db) in
           (Inr (length gone),
            db\<lparr>db_connections := filter (\<lambda>c. \<not> (mc_id c = i \<and> mc_tenant c = tenantID)) (db_connections db),
               db_snapshots := (if gone = [] then db_snapshots db else filter (\<lambda>s. ss_conn s \<noteq> i) (db_snapshots db))\<rparr>)))"

definition repo_DeleteConnection :: "pg_env \<Rightarrow> string \<Rightarrow> string \<Rightarrow> meta_db \<Rightarrow> goerr option \<times> meta_db" where
  "repo_DeleteConnection env connectionID tenantID db =
     (case db_call (delete_connection env connectionID tenantID) db of
        (Inl (DbErr u e), db') \<Rightarrow> (Some (wrap ''delete connection'' e), db')
      | (Inr n, db') \<Rightarrow> (if n = 0 then Some (Err ''connection not found'') else None, db'))"

section \<open>Plugins\<close>

definition plugin_states :: "string list" where
  "plugin_states = [''registered'', ''validated'', ''active'', ''degraded'', ''disabled'']"

definition insert_plugin :: "pg_env \<Rightarrow> plugin_definition \<Rightarrow> meta_db \<Rightarrow> (dberr + uuid) \<times> meta_db" where
  "insert_plugin env p db =
     (if \<exists>r\<in>set (db_plugins db). pd_name r = pd_name p \<and> pd_version r = pd_version p
      then (Inl (DbErr True (pg_violation env ''idx_plugin_definitions_name_version'')), db)
      else if pd_status p \<notin> set plugin_states
      then (Inl (DbErr False (pg_violation env ''plugin_status_check'')), db)
      else (let i = pg_id env (db_next db) in
        (Inr i, db\<lparr>db_next := db_next db + 1, db_plugins := db_plugins db @
           [plugin_definition.extend (p\<lparr>pd_id := i, pd_heartbeat := None, pd_error := [], pd_created := db_now db\<rparr>)
             (plugin_row.fields 0)]\<rparr>)))"

definition insert_tenant_plugin :: "string \<Rightarrow> uuid \<Rightarrow> meta_db \<Rightarrow> (dberr + unit) \<times> meta_db" where
  "insert_tenant_plugin t i db =
     (Inr (), if (t, i) \<in> set (db_tenant_plugins db) then db
              else db\<lparr>db_tenant_plugins := db_tenant_plugins db @ [(t, i)]\<rparr>)"

definition repo_RegisterPlugin :: "pg_env \<Rightarrow> plugin_definition \<Rightarrow> meta_db \<Rightarrow> (goerr + uuid) \<times> meta_db" where
  "repo_RegisterPlugin env p db =
     (case db_call (insert_plugin env p) db of
        (Inl e, db') \<Rightarrow> (Inl (insert_error ''plugin already exists'' ''insert plugin'' e), db')
      | (Inr i, db') \<Rightarrow>
          (if pd_global p then (Inr i, db')
           else (case db_call (insert_tenant_plugin (pd_tenant p) i) db' of
               (Inl (DbErr u e), db'') \<Rightarrow> (Inl (wrap ''enable tenant plugin'' e), db'')
             | (Inr x, db'') \<Rightarrow> (Inr i, db''))))"

definition ListPluginsForHealth :: "meta_db \<Rightarrow> (goerr + plugin_definition list) \<times> meta_db" where
  "ListPluginsForHealth db =
     (case db_read (\<lambda>d. Inr (sort_key pd_created (filter (\<lambda>p. pd_status p \<noteq> ''disabled'') (db_plugins d)))) db of
        (Inl e, db') \<Rightarrow> (Inl (wrap ''query plugins for health'' e), db')
      | (Inr rows, db') \<Rightarrow> (Inr (map plugin_definition.truncate rows), db'))"

text \<open>The next state of the lifecycle, and the number of failures in a row.\<close>

definition next_health :: "bool \<Rightarrow> string \<Rightarrow> int \<Rightarrow> string \<times> int" where
  "next_health healthy oldStatus failures =
     (if healthy then (''active'', 0)
      else if failures + 1 < 3 then (oldStatus, failures + 1)
      else (''degraded'', failures + 1))"

definition update_plugin :: "uuid \<Rightarrow> (plugin_row \<Rightarrow> plugin_row) \<Rightarrow> meta_db \<Rightarrow> meta_db" where
  "update_plugin i f db = db\<lparr>db_plugins := map (\<lambda>r. if pd_id r = i then f r else r) (db_plugins db)\<rparr>"

definition health_row :: "int \<Rightarrow> bool \<Rightarrow> string \<Rightarrow> string \<times> int \<Rightarrow> plugin_row \<Rightarrow> plugin_row" where
  "health_row now healthy message st r =
     r\<lparr>pd_status := fst st, pr_failures := snd st,
       pd_heartbeat := (if healthy then Some now else pd_heartbeat r), pd_error := message\<rparr>"

text \<open>\<^verbatim>\<open>Duration.Milliseconds\<close>: whole milliseconds, towards zero.\<close>

definition Milliseconds :: "int \<Rightarrow> int" where
  "Milliseconds d = sgn d * (\<bar>d\<bar> div 1000000)"

text \<open>The transaction: the tables it leaves are those it found unless the commit took effect.\<close>

definition health_body ::
  "uuid \<Rightarrow> bool \<Rightarrow> int \<Rightarrow> string \<Rightarrow> meta_db \<Rightarrow> (goerr + string \<times> bool) \<times> meta_db" where
  "health_body i healthy latency message db =
     (case db_read (\<lambda>d. case find (\<lambda>r. pd_id r = i) (db_plugins d) of
           None \<Rightarrow> Inl (Err ''no rows in result set'') | Some r \<Rightarrow> Inr r) db of
        (Inl e, db1) \<Rightarrow> (Inl e, db1)
      | (Inr r, db1) \<Rightarrow>
          (let st = next_health healthy (pd_status r) (pr_failures r) in
           case db_call (\<lambda>d. (Inr (), d\<lparr>db_health := db_health d @
                  [\<lparr>hc_plugin = i, hc_healthy = healthy, hc_latency = Milliseconds latency, hc_error = message\<rparr>]\<rparr>)) db1 of
             (Inl (DbErr u e), db2) \<Rightarrow> (Inl e, db2)
           | (Inr x, db2) \<Rightarrow>
               (case db_call (\<lambda>d. (Inr (), update_plugin i (health_row (db_now d) healthy message st) d)) db2 of
                  (Inl (DbErr u e), db3) \<Rightarrow> (Inl e, db3)
                | (Inr x, db3) \<Rightarrow> (Inr (fst st, fst st \<noteq> pd_status r), db3))))"

definition RecordPluginHealth ::
  "uuid \<Rightarrow> bool \<Rightarrow> int \<Rightarrow> string \<Rightarrow> meta_db \<Rightarrow> (goerr + string \<times> bool) \<times> meta_db" where
  "RecordPluginHealth i healthy latency message db =
     (case db_call (\<lambda>d. (Inr (), d)) db of
        (Inl (DbErr u e), db0) \<Rightarrow> (Inl e, db0)
      | (Inr x, db0) \<Rightarrow>
          (case health_body i healthy latency message db0 of
             (Inl e, db1) \<Rightarrow> (Inl e, db0\<lparr>db_faults := db_faults db1\<rparr>)
           | (Inr answer, db1) \<Rightarrow>
               (case next_fault (db_faults db1) of
                  (Fails e, fs) \<Rightarrow> (Inl (Err e), db0\<lparr>db_faults := fs\<rparr>)
                | (LostReply e, fs) \<Rightarrow> (Inl (Err e), db1\<lparr>db_faults := fs\<rparr>)
                | (_, fs) \<Rightarrow> (Inr answer, db1\<lparr>db_faults := fs\<rparr>))))"

section \<open>Users\<close>

definition insert_user :: "pg_env \<Rightarrow> string \<Rightarrow> string \<Rightarrow> string \<Rightarrow> string \<Rightarrow> meta_db \<Rightarrow> (dberr + uuid) \<times> meta_db" where
  "insert_user env email hash salt role db =
     (if \<exists>u\<in>set (db_users db). us_email u = email
      then (Inl (DbErr True (pg_violation env ''users_email_key'')), db)
      else (let i = pg_id env (db_next db) in
        (Inr i, db\<lparr>db_next := db_next db + 1, db_users := db_users db @
           [\<lparr>us_id = i, us_email = email, us_hash = hash, us_salt = salt, us_role = role, us_created = db_now db\<rparr>]\<rparr>)))"

definition repo_CreateUser ::
  "pg_env \<Rightarrow> string \<Rightarrow> string \<Rightarrow> string \<Rightarrow> string \<Rightarrow> meta_db \<Rightarrow> (goerr + uuid) \<times> meta_db" where
  "repo_CreateUser env email passwordHash passwordSalt role db =
     (case db_call (insert_user env email passwordHash passwordSalt role) db of
        (Inl e, db') \<Rightarrow> (Inl (insert_error ''user already exists'' ''insert user'' e), db')
      | (Inr i, db') \<Rightarrow> (Inr i, db'))"

definition repo_GetUserByEmail :: "string \<Rightarrow> meta_db \<Rightarrow> (goerr + user option) \<times> meta_db" where
  "repo_GetUserByEmail email db =
     (case db_read (\<lambda>d. Inr (find (\<lambda>u. us_email u = email) (db_users d))) db of
        (Inl e, db') \<Rightarrow> (Inl (wrap ''query user'' e), db')
      | (Inr u, db') \<Rightarrow> (Inr u, db'))"

definition repo_GetUserByID :: "pg_env \<Rightarrow> string \<Rightarrow> meta_db \<Rightarrow> (goerr + user option) \<times> meta_db" where
  "repo_GetUserByID env i db =
     (case db_read (\<lambda>d.
         case pg_cast env i of
           Inl e \<Rightarrow> Inl e
         | Inr k \<Rightarrow> Inr (find (\<lambda>u. us_id u = k) (db_users d))) db of
        (Inl e, db') \<Rightarrow> (Inl (wrap ''query user'' e), db')
      | (Inr u, db') \<Rightarrow> (Inr u, db'))"

section \<open>Agents\<close>

definition insert_agent :: "pg_env \<Rightarrow> uuid \<Rightarrow> string \<Rightarrow> meta_db \<Rightarrow> (dberr + uuid) \<times> meta_db" where
  "insert_agent env u name db =
     (if \<forall>r\<in>set (db_users db). us_id r \<noteq> u
      then (Inl (DbErr False (pg_violation env ''agents_user_id_fkey'')), db)
      else (let i = pg_id env (db_next db) in
        (Inr i, db\<lparr>db_next := db_next db + 1, db_agents := db_agents db @
           [\<lparr>ag_id = i, ag_user = u, ag_name = name, ag_jti = None, ag_status = ''active'', ag_created = db_now db\<rparr>]\<rparr>)))"

definition repo_CreateAgent :: "pg_env \<Rightarrow> uuid \<Rightarrow> string \<Rightarrow> meta_db \<Rightarrow> (goerr + uuid) \<times> meta_db" where
  "repo_CreateAgent env userID name db =
     (case db_call (insert_agent env userID name) db of
        (Inl (DbErr u e), db') \<Rightarrow> (Inl (wrap ''insert agent'' e), db')
      | (Inr i, db') \<Rightarrow> (Inr i, db'))"

definition repo_ListAgentsByUser :: "pg_env \<Rightarrow> string \<Rightarrow> meta_db \<Rightarrow> (goerr + agent list) \<times> meta_db" where
  "repo_ListAgentsByUser env userID db =
     (case db_read (\<lambda>d.
         case pg_cast env userID of
           Inl e \<Rightarrow> Inl e
         | Inr u \<Rightarrow> Inr (newest_first ag_created (filter (\<lambda>a. ag_user a = u) (db_agents d)))) db of
        (Inl e, db') \<Rightarrow> (Inl (wrap ''query agents'' e), db')
      | (Inr rows, db') \<Rightarrow> (Inr rows, db'))"

definition repo_GetAgent :: "pg_env \<Rightarrow> string \<Rightarrow> meta_db \<Rightarrow> (goerr + agent option) \<times> meta_db" where
  "repo_GetAgent env i db =
     (case db_read (\<lambda>d.
         case pg_cast env i of
           Inl e \<Rightarrow> Inl e
         | Inr k \<Rightarrow> Inr (find (\<lambda>a. ag_id a = k) (db_agents d))) db of
        (Inl e, db') \<Rightarrow> (Inl (wrap ''query agent'' e), db')
      | (Inr a, db') \<Rightarrow> (Inr a, db'))"

definition update_jti :: "pg_env \<Rightarrow> string \<Rightarrow> string \<Rightarrow> meta_db \<Rightarrow> (dberr + unit) \<times> meta_db" where
  "update_jti env i jti db =
     (case pg_cast env i of
        Inl e \<Rightarrow> (Inl (DbErr False e), db)
      | Inr k \<Rightarrow> (Inr (), db\<lparr>db_agents := map (\<lambda>a. if ag_id a = k then a\<lparr>ag_jti := Some jti\<rparr> else a) (db_agents db)\<rparr>))"

definition repo_UpdateAgentTokenJTI :: "pg_env \<Rightarrow> string \<Rightarrow> string \<Rightarrow> meta_db \<Rightarrow> goerr option \<times> meta_db" where
  "repo_UpdateAgentTokenJTI env i jti db =
     (case db_call (update_jti env i jti) db of
        (Inl (DbErr u e), db') \<Rightarrow> (Some (wrap ''update agent jti'' e), db')
      | (Inr x, db') \<Rightarrow> (None, db'))"

end
