(* ===== verification/MetaStore_Facts.thy ===== *)
theory MetaStore_Facts
  imports MetaStore "HOL-Library.Multiset"
begin

text \<open>
  Facts about the repository of Meta Service: the constraints its tables keep under every sequence of
  operations, what a tenant can observe and change, listings, and the lifecycle of a plugin under probes.
\<close>

section \<open>Sequences of operations\<close>

text \<open>The operations that change the tables; time passes and faults occur between them.\<close>

datatype meta_op =
    OpAudit event
  | OpWorkspace string string string
  | OpSnapshot string "table_info list"
  | OpConnect meta_connection
  | OpDisconnect string string
  | OpPlugin plugin_definition
  | OpHealth uuid bool int string
  | OpUser string string string string
  | OpAgent uuid string
  | OpToken string string
  | OpTime int
  | OpFaults "fault list"

fun meta_step :: "pg_env \<Rightarrow> meta_op \<Rightarrow> meta_db \<Rightarrow> meta_db" where
  "meta_step env (OpAudit ev) db = snd (SaveAuditEvent env ev db)"
| "meta_step env (OpWorkspace u t n) db = snd (repo_CreateWorkspace env u t n db)"
| "meta_step env (OpSnapshot c ts) db = snd (repo_SaveSchemaSnapshot env c ts db)"
| "meta_step env (OpConnect c) db = snd (repo_CreateConnection env c db)"
| "meta_step env (OpDisconnect c t) db = snd (repo_DeleteConnection env c t db)"
| "meta_step env (OpPlugin p) db = snd (repo_RegisterPlugin env p db)"
| "meta_step env (OpHealth i h l m) db = snd (RecordPluginHealth i h l m db)"
| "meta_step env (OpUser e h s r) db = snd (repo_CreateUser env e h s r db)"
| "meta_step env (OpAgent u n) db = snd (repo_CreateAgent env u n db)"
| "meta_step env (OpToken i j) db = snd (repo_UpdateAgentTokenJTI env i j db)"
| "meta_step env (OpTime n) db = db\<lparr>db_now := n\<rparr>"
| "meta_step env (OpFaults fs) db = db\<lparr>db_faults := fs\<rparr>"

text \<open>A property of the tables: it does not look at the faults or the clock.\<close>

definition table_property :: "(meta_db \<Rightarrow> bool) \<Rightarrow> bool" where
  "table_property P \<longleftrightarrow> (\<forall>db fs n. P (db\<lparr>db_faults := fs\<rparr>) = P db \<and> P (db\<lparr>db_now := n\<rparr>) = P db)"

lemma db_call_keeps:
  assumes "table_property P" and "\<And>d. P d \<Longrightarrow> P (snd (stmt d))" and "P db"
  shows "P (snd (db_call stmt db))"
  using assms by (auto simp: db_call_def table_property_def Let_def split: prod.split fault.split)

lemma db_read_keeps: "table_property P \<Longrightarrow> P (snd (db_read q db)) = P db"
  by (auto simp: db_read_def db_call_def table_property_def Let_def split: prod.splits fault.splits sum.splits dberr.splits)

text \<open>A property of the tables is kept by all operations when it is kept by the statements.\<close>

locale table_invariant =
  fixes env :: pg_env and P :: "meta_db \<Rightarrow> bool"
  assumes tables: "table_property P"
    and audit: "P d \<Longrightarrow> P (snd (insert_audit env ev d))"
    and workspaces: "P d \<Longrightarrow> P (snd (insert_workspace env t u n d))"
    and snapshots: "P d \<Longrightarrow> P (snd (insert_snapshot env c ts d))"
    and connections: "P d \<Longrightarrow> P (snd (insert_connection env cn d))"
    and disconnections: "P d \<Longrightarrow> P (snd (delete_connection env c t d))"
    and plugins: "P d \<Longrightarrow> P (snd (insert_plugin env p d))"
    and enablings: "P d \<Longrightarrow> P (snd (insert_tenant_plugin t i d))"
    and probes: "P d \<Longrightarrow> P (d\<lparr>db_health := hs\<rparr>)"
    and health: "P d \<Longrightarrow> find (\<lambda>r. pd_id r = i) (db_plugins d) = Some r
      \<Longrightarrow> P (update_plugin i (health_row now h m (next_health h (pd_status r) (pr_failures r))) d)"
    and users: "P d \<Longrightarrow> P (snd (insert_user env e hsh s r' d))"
    and agents: "P d \<Longrightarrow> P (snd (insert_agent env u n d))"
    and tokens: "P d \<Longrightarrow> P (snd (update_jti env i j d))"
begin

lemma faults [simp]: "P (d\<lparr>db_faults := fs\<rparr>) = P d" and clock [simp]: "P (d\<lparr>db_now := n\<rparr>) = P d"
  using tables by (simp_all add: table_property_def)

lemmas call = db_call_keeps [OF tables]

lemma kept_call: "db_call stmt db = (x, db') \<Longrightarrow> P db \<Longrightarrow> (\<And>d. P d \<Longrightarrow> P (snd (stmt d))) \<Longrightarrow> P db'"
  using call [of stmt db] by simp

lemma health_body_keeps:
  assumes "P db" and "health_body i h l m db = (x, db')"
  shows "P db'"
proof -
  have r: "db_read q db = (y, d1) \<Longrightarrow> P d1" for q and y :: "goerr + plugin_row" and d1
    using db_read_keeps [OF tables, of q db] assms(1) by simp
  have plugins_of: "db_read q db = (y, d1) \<Longrightarrow> db_plugins d1 = db_plugins db" for q and y :: "goerr + plugin_row" and d1
    by (auto simp: db_read_def db_call_def Let_def split: prod.splits fault.splits sum.splits dberr.splits)
  have probe: "db_call (\<lambda>d. (Inr (), d\<lparr>db_health := db_health d @ hc\<rparr>)) d1 = (y, d2) \<Longrightarrow>
      db_plugins d2 = db_plugins d1" for hc and y :: "dberr + unit" and d1 d2
    by (auto simp: db_call_def Let_def split: prod.splits fault.splits)
  show ?thesis
  proof (cases "find (\<lambda>r. pd_id r = i) (db_plugins db)")
    case None
    then show ?thesis using assms r
      by (auto simp: health_body_def db_read_def db_call_def Let_def split: prod.splits fault.splits)
  next
    case (Some pr)
    obtain y d1 where d1: "db_read (\<lambda>d. case find (\<lambda>r. pd_id r = i) (db_plugins d) of
           None \<Rightarrow> Inl (Err ''no rows in result set'') | Some r \<Rightarrow> Inr r) db = (y, d1)" by fastforce
    show ?thesis
    proof (cases y)
      case (Inl e)
      with assms(2) d1 r [OF d1] show ?thesis by (simp add: health_body_def)
    next
      case (Inr row)
      then have row: "row = pr" using d1 Some
        by (auto simp: db_read_def db_call_def Let_def split: prod.splits fault.splits)
      let ?st = "next_health h (pd_status pr) (pr_failures pr)"
      obtain z d2 where d2: "db_call (\<lambda>d. (Inr () :: dberr + unit, d\<lparr>db_health := db_health d @
          [\<lparr>hc_plugin = i, hc_healthy = h, hc_latency = Milliseconds l, hc_error = m\<rparr>]\<rparr>)) d1 = (z, d2)" by fastforce
      have P2: "P d2" by (rule kept_call [OF d2 r [OF d1]]) (simp add: probes)
      have f2: "find (\<lambda>r. pd_id r = i) (db_plugins d2) = Some pr" using Some plugins_of [OF d1] probe [OF d2] by simp
      obtain v d3 where d3: "db_call (\<lambda>d. (Inr () :: dberr + unit, update_plugin i (health_row (db_now d) h m ?st) d)) d2
          = (v, d3)" by fastforce
      have "P (update_plugin i (health_row now h m ?st) (d2\<lparr>db_faults := fs\<rparr>))" for now fs
        by (rule health) (use P2 f2 in simp_all)
      then have "P d3" using d3 P2 by (auto simp: db_call_def Let_def split: prod.splits fault.splits)
      then show ?thesis
        using assms(2) d1 d2 d3 P2 Inr row
        by (auto simp: health_body_def Let_def split: sum.splits dberr.splits prod.splits)
    qed
  qed
qed

lemma step_keeps: "P db \<Longrightarrow> P (meta_step env op db)"
proof (cases op)
  case (OpHealth i h l m)
  assume "P db"
  then show ?thesis using OpHealth
    by (auto simp: RecordPluginHealth_def health_body_keeps dest: health_body_keeps
        dest!: kept_call split: prod.split sum.split dberr.split fault.split)
qed (auto simp: SaveAuditEvent_def repo_CreateWorkspace_def repo_SaveSchemaSnapshot_def repo_CreateConnection_def
    repo_DeleteConnection_def repo_RegisterPlugin_def repo_CreateUser_def repo_CreateAgent_def
    repo_UpdateAgentTokenJTI_def audit workspaces snapshots connections disconnections plugins enablings users agents tokens
    dest!: kept_call split: option.split sum.split prod.split dberr.split)

lemma run_keeps: "P db \<Longrightarrow> P (fold (meta_step env) ops db)"
  by (induction ops arbitrary: db) (simp_all add: step_keeps)

end

section \<open>The constraints of the migrations\<close>

definition references_hold :: "meta_db \<Rightarrow> bool" where
  "references_hold db \<longleftrightarrow>
     wr_user ` set (db_workspaces db) \<subseteq> us_id ` set (db_users db)
     \<and> mc_user ` set (db_connections db) \<subseteq> us_id ` set (db_users db)
     \<and> mc_workspace ` set (db_connections db) \<subseteq> ws_id ` set (db_workspaces db)
     \<and> ss_conn ` set (db_snapshots db) \<subseteq> mc_id ` set (db_connections db)
     \<and> ag_user ` set (db_agents db) \<subseteq> us_id ` set (db_users db)"

definition unique_keys :: "meta_db \<Rightarrow> bool" where
  "unique_keys db \<longleftrightarrow>
     distinct (map us_email (db_users db))
     \<and> distinct (map (\<lambda>r. (ws_tenant r, ws_name r)) (db_workspaces db))
     \<and> distinct (map (\<lambda>p. (pd_name p, pd_version p)) (db_plugins db))
     \<and> distinct (map ev_id (db_audit db))
     \<and> distinct (db_tenant_plugins db)"

definition lifecycle_states :: "meta_db \<Rightarrow> bool" where
  "lifecycle_states db \<longleftrightarrow>
     (\<forall>p\<in>set (db_plugins db). pd_status p \<in> set plugin_states \<and> 0 \<le> pr_failures p
        \<and> (3 \<le> pr_failures p \<longrightarrow> pd_status p = ''degraded''))"

text \<open>Identifiers of a table that were all generated, each once, before the next one.\<close>

definition generated :: "pg_env \<Rightarrow> nat \<Rightarrow> uuid list \<Rightarrow> bool" where
  "generated env n ids \<longleftrightarrow> distinct ids \<and> set ids \<subseteq> pg_id env ` {..<n}"

definition fresh_ids :: "pg_env \<Rightarrow> meta_db \<Rightarrow> bool" where
  "fresh_ids env db \<longleftrightarrow>
     generated env (db_next db) (map us_id (db_users db)) \<and> generated env (db_next db) (map ws_id (db_workspaces db))
     \<and> generated env (db_next db) (map mc_id (db_connections db)) \<and> generated env (db_next db) (map pd_id (db_plugins db))
     \<and> generated env (db_next db) (map ag_id (db_agents db))"

lemma generated_Nil [simp]: "generated env n []"
  by (simp add: generated_def)

lemma generated_later: "generated env n ids \<Longrightarrow> generated env (Suc n) ids"
  by (auto simp: generated_def lessThan_Suc)

lemma generated_next: "inj (pg_id env) \<Longrightarrow> generated env n ids \<Longrightarrow> generated env (Suc n) (ids @ [pg_id env n])"
  by (auto simp: generated_def lessThan_Suc dest: injD)

lemma generated_filter: "generated env n (map f xs) \<Longrightarrow> generated env n (map f (filter P xs))"
  by (auto simp: generated_def distinct_map_filter)

lemma map_update_plugin [simp]:
  "map (\<lambda>p. (pd_name p, pd_version p)) (db_plugins (update_plugin i (health_row now h m st) d))
     = map (\<lambda>p. (pd_name p, pd_version p)) (db_plugins d)"
  "map pd_id (db_plugins (update_plugin i (health_row now h m st) d)) = map pd_id (db_plugins d)"
  by (simp_all add: update_plugin_def health_row_def)

lemma update_plugin_simps [simp]:
  "db_users (update_plugin i f d) = db_users d" "db_workspaces (update_plugin i f d) = db_workspaces d"
  "db_connections (update_plugin i f d) = db_connections d" "db_snapshots (update_plugin i f d) = db_snapshots d"
  "db_agents (update_plugin i f d) = db_agents d" "db_audit (update_plugin i f d) = db_audit d"
  "db_tenant_plugins (update_plugin i f d) = db_tenant_plugins d" "db_next (update_plugin i f d) = db_next d"
  by (simp_all add: update_plugin_def)

lemmas statement_defs = insert_audit_def insert_workspace_def insert_snapshot_def insert_connection_def
  delete_connection_def insert_plugin_def insert_tenant_plugin_def insert_user_def insert_agent_def update_jti_def

interpretation references: table_invariant env references_hold for env
proof unfold_locales
  show "table_property references_hold" by (simp add: table_property_def references_hold_def)
next
  fix d c t
  assume r: "references_hold d"
  show "references_hold (snd (delete_connection env c t d))"
    using r by (auto simp: references_hold_def delete_connection_def Let_def filter_empty_conv split: sum.split)
next
  fix d i j
  assume "references_hold d"
  then show "references_hold (snd (update_jti env i j d))"
    by (auto simp: references_hold_def update_jti_def image_image split: sum.split)
qed (auto simp: references_hold_def statement_defs Let_def intro: rev_image_eqI split: sum.split)

interpretation uniqueness: table_invariant env unique_keys for env
proof unfold_locales
  show "table_property unique_keys" by (simp add: table_property_def unique_keys_def)
next
  fix d and p :: plugin_definition
  assume "unique_keys d"
  then show "unique_keys (snd (insert_plugin env p d))"
    by (auto simp: unique_keys_def insert_plugin_def Let_def plugin_definition.defs plugin_row.defs)
qed (auto simp: unique_keys_def statement_defs Let_def split: sum.split)

interpretation lifecycle: table_invariant env lifecycle_states for env
proof unfold_locales
  show "table_property lifecycle_states" by (simp add: table_property_def lifecycle_states_def)
next
  fix d and p :: plugin_definition
  assume "lifecycle_states d"
  then show "lifecycle_states (snd (insert_plugin env p d))"
    by (auto simp: lifecycle_states_def insert_plugin_def Let_def plugin_definition.defs plugin_row.defs)
next
  fix d i r now h m
  assume d: "lifecycle_states d" and r: "find (\<lambda>r. pd_id r = i) (db_plugins d) = Some r"
  then have "r \<in> set (db_plugins d)" by (auto simp: find_Some_iff)
  with d show "lifecycle_states (update_plugin i (health_row now h m (next_health h (pd_status r) (pr_failures r))) d)"
    by (auto simp: lifecycle_states_def update_plugin_def health_row_def next_health_def plugin_states_def)
qed (auto simp: lifecycle_states_def statement_defs Let_def split: sum.split)

lemma update_jti_ids: "ag_id \<circ> (\<lambda>a :: agent. if ag_id a = k then a\<lparr>ag_jti := x\<rparr> else a) = ag_id"
  by (rule ext) simp

lemma fresh_update_plugin: "fresh_ids env (update_plugin i (health_row now h m st) d) = fresh_ids env d"
  by (simp add: fresh_ids_def)

lemma fresh_statements:
  assumes "inj (pg_id env)" and "fresh_ids env d"
  shows "fresh_ids env (snd (insert_workspace env t u n d))" "fresh_ids env (snd (insert_connection env cn d))"
    "fresh_ids env (snd (insert_plugin env p d))" "fresh_ids env (snd (insert_user env e hsh s r d))"
    "fresh_ids env (snd (insert_agent env u n d))"
  using assms generated_later [of env "db_next d"] generated_next [OF assms(1), of "db_next d"]
  by (simp_all add: fresh_ids_def statement_defs Let_def plugin_definition.defs plugin_row.defs)

lemma fresh_delete: "fresh_ids env d \<Longrightarrow> fresh_ids env (snd (delete_connection env c t d))"
  by (simp add: fresh_ids_def delete_connection_def Let_def generated_filter split: sum.split)

lemma fresh_jti: "fresh_ids env d \<Longrightarrow> fresh_ids env (snd (update_jti env i j d))"
  by (simp add: fresh_ids_def update_jti_def update_jti_ids split: sum.split)

interpretation identities: table_invariant env "\<lambda>db. inj (pg_id env) \<longrightarrow> fresh_ids env db" for env
proof unfold_locales
  show "table_property (\<lambda>db. inj (pg_id env) \<longrightarrow> fresh_ids env db)" by (simp add: table_property_def fresh_ids_def)
qed (simp_all add: fresh_statements fresh_delete fresh_jti fresh_update_plugin,
    simp_all add: fresh_ids_def insert_audit_def insert_snapshot_def insert_tenant_plugin_def Let_def split: sum.split)

text \<open>C16. Whatever operations run on an empty database, in whatever order and with whatever faults, the tables
  keep their constraints: references lead to existing rows, natural keys and identifiers are unique, and
  a plugin is in one of the five states, degraded when its last three probes failed.\<close>

theorem tables_consistent:
  assumes "inj (pg_id env)"
  shows "references_hold (fold (meta_step env) ops empty_db) \<and> unique_keys (fold (meta_step env) ops empty_db)
    \<and> lifecycle_states (fold (meta_step env) ops empty_db) \<and> fresh_ids env (fold (meta_step env) ops empty_db)"
  using assms references.run_keeps [of empty_db env ops] uniqueness.run_keeps [of empty_db env ops]
    lifecycle.run_keeps [of empty_db env ops] identities.run_keeps [of env empty_db ops]
  by (simp add: references_hold_def unique_keys_def lifecycle_states_def fresh_ids_def empty_db_def)

definition sample_pg :: pg_env where
  "sample_pg = \<lparr>pg_parse = \<lambda>s. if s = [] then Inl (Err ''invalid UUID length: 0'') else Inr (to_lower s),
     pg_cast = \<lambda>s. if s = [] then Inl (Err ''invalid input syntax for type uuid'') else Inr (to_lower s),
     pg_id = \<lambda>n. replicate (Suc n) (CHR ''u''), pg_violation = \<lambda>c. Err (''violates '' @ c)\<rparr>"

lemma sample_pg_inj: "inj (pg_id sample_pg)"
  by (auto simp: sample_pg_def inj_def replicate_eq_replicate)

lemma tables_consistent_witness:
  "unique_keys (fold (meta_step sample_pg) [OpUser ''a@b'' ''h'' ''s'' ''user'', OpUser ''a@b'' ''h'' ''s'' ''user'']
      empty_db)"
  using tables_consistent [OF sample_pg_inj] by blast

section \<open>What a tenant observes\<close>

definition tenant_view :: "string \<Rightarrow> meta_db \<Rightarrow> meta_connection list \<times> schema_snapshot list" where
  "tenant_view t db =
     (filter (\<lambda>c. mc_tenant c = t) (db_connections db),
      filter (\<lambda>s. \<exists>c\<in>set (db_connections db). mc_id c = ss_conn s \<and> mc_tenant c = t) (db_snapshots db))"

lemma find_filter: "find (\<lambda>x. P x \<and> Q x) xs = find P (filter Q xs)"
  by (induction xs) auto

lemma db_call_result:
  "db_faults a = db_faults b \<Longrightarrow> (\<And>fs. fst (stmt (a\<lparr>db_faults := fs\<rparr>)) = fst (stmt' (b\<lparr>db_faults := fs\<rparr>))) \<Longrightarrow>
   fst (db_call stmt a) = fst (db_call stmt' b)"
  by (auto simp: db_call_def Let_def split: prod.splits fault.splits)

lemma db_read_result:
  assumes "db_faults a = db_faults b" and "\<And>fs. q (a\<lparr>db_faults := fs\<rparr>) = q (b\<lparr>db_faults := fs\<rparr>)"
  shows "fst (db_read q a) = fst (db_read q b)"
proof -
  have "fst (db_call (\<lambda>d. (case q d of Inl e \<Rightarrow> Inl (DbErr False e) | Inr x \<Rightarrow> Inr x, d)) a)
      = fst (db_call (\<lambda>d. (case q d of Inl e \<Rightarrow> Inl (DbErr False e) | Inr x \<Rightarrow> Inr x, d)) b)"
    by (rule db_call_result) (simp_all add: assms)
  then show ?thesis by (auto simp: db_read_def split: prod.splits sum.splits dberr.splits)
qed

lemma view_find:
  "tenant_view t a = tenant_view t b \<Longrightarrow>
   find (\<lambda>c. mc_id c = i \<and> mc_tenant c = t) (db_connections a) = find (\<lambda>c. mc_id c = i \<and> mc_tenant c = t) (db_connections b)"
  by (simp add: tenant_view_def find_filter)

lemma view_owns:
  assumes "tenant_view t a = tenant_view t b"
  shows "(\<exists>c\<in>set (db_connections a). mc_id c = i \<and> mc_tenant c = t)
    \<longleftrightarrow> (\<exists>c\<in>set (db_connections b). mc_id c = i \<and> mc_tenant c = t)"
proof -
  have "set (filter (\<lambda>c. mc_tenant c = t) (db_connections a)) = set (filter (\<lambda>c. mc_tenant c = t) (db_connections b))"
    using assms by (simp add: tenant_view_def)
  then show ?thesis by auto
qed

lemma view_snapshots:
  "\<exists>c\<in>set (db_connections a). mc_id c = i \<and> mc_tenant c = t \<Longrightarrow>
   filter (\<lambda>s. ss_conn s = i) (db_snapshots a) = filter (\<lambda>s. ss_conn s = i) (snd (tenant_view t a))"
  by (auto simp: tenant_view_def intro!: filter_cong)

lemma view_gone:
  assumes "tenant_view t a = tenant_view t b"
  shows "length (filter (\<lambda>c. mc_id c = i \<and> mc_tenant c = t) (db_connections a))
    = length (filter (\<lambda>c. mc_id c = i \<and> mc_tenant c = t) (db_connections b))"
proof -
  have e: "filter (\<lambda>c. mc_id c = i \<and> mc_tenant c = t) xs = filter (\<lambda>c. mc_id c = i) (filter (\<lambda>c. mc_tenant c = t) xs)"
    for xs by (simp add: conj_commute)
  have "filter (\<lambda>c. mc_tenant c = t) (db_connections a) = filter (\<lambda>c. mc_tenant c = t) (db_connections b)"
    using assms by (simp add: tenant_view_def)
  then show ?thesis unfolding e by (rule arg_cong)
qed

lemma GetConnection_view:
  assumes "tenant_view t a = tenant_view t b" and "db_faults a = db_faults b"
  shows "fst (repo_GetConnection env c t a) = fst (repo_GetConnection env c t b)"
proof -
  let ?q = "\<lambda>d :: meta_db. case pg_cast env c of Inl e \<Rightarrow> Inl e
    | Inr i \<Rightarrow> Inr (find (\<lambda>c. mc_id c = i \<and> mc_tenant c = t) (db_connections d))"
  have "fst (db_read ?q a) = fst (db_read ?q b)"
    by (rule db_read_result [OF assms(2)]) (simp add: view_find [OF assms(1)] split: sum.split)
  then show ?thesis by (auto simp: repo_GetConnection_def split: prod.splits sum.splits option.splits)
qed

lemma GetSchemaSnapshot_view:
  assumes "tenant_view t a = tenant_view t b" and "db_faults a = db_faults b"
  shows "fst (repo_GetSchemaSnapshot env c t a) = fst (repo_GetSchemaSnapshot env c t b)"
proof -
  let ?q = "\<lambda>d :: meta_db. case pg_cast env c of Inl e \<Rightarrow> Inl e
    | Inr i \<Rightarrow> Inr (if \<exists>c\<in>set (db_connections d). mc_id c = i \<and> mc_tenant c = t
        then newest_first ss_captured (filter (\<lambda>s. ss_conn s = i) (db_snapshots d)) else [])"
  have "fst (db_read ?q a) = fst (db_read ?q b)"
  proof (rule db_read_result [OF assms(2)])
    fix fs
    show "?q (a\<lparr>db_faults := fs\<rparr>) = ?q (b\<lparr>db_faults := fs\<rparr>)"
      using view_owns [OF assms(1)] view_snapshots [of a _ t] view_snapshots [of b _ t] assms(1)
      by (auto split: sum.split)
  qed
  then show ?thesis by (auto simp: repo_GetSchemaSnapshot_def split: prod.splits sum.splits list.splits)
qed

lemma DeleteConnection_view:
  assumes "tenant_view t a = tenant_view t b" and "db_faults a = db_faults b"
  shows "fst (repo_DeleteConnection env c t a) = fst (repo_DeleteConnection env c t b)"
proof -
  have "fst (db_call (delete_connection env c t) a) = fst (db_call (delete_connection env c t) b)"
    by (rule db_call_result [OF assms(2)])
      (simp add: delete_connection_def Let_def view_gone [OF assms(1)] split: sum.split)
  then show ?thesis by (auto simp: repo_DeleteConnection_def split: prod.splits sum.splits dberr.splits if_splits)
qed

lemma distinct_map_same: "distinct (map f xs) \<Longrightarrow> x \<in> set xs \<Longrightarrow> y \<in> set xs \<Longrightarrow> f x = f y \<Longrightarrow> x = y"
  by (auto simp: distinct_map dest: inj_onD)

lemma delete_statement_view:
  assumes "distinct (map mc_id (db_connections d))" and "t' \<noteq> t"
  shows "tenant_view t' (snd (delete_connection env c t d)) = tenant_view t' d"
proof (cases "pg_cast env c")
  case (Inr i)
  have "filter (\<lambda>c. \<not> (mc_id c = i \<and> mc_tenant c = t) \<and> mc_tenant c = t') (db_connections d)
      = filter (\<lambda>c. mc_tenant c = t') (db_connections d)"
    using assms(2) by (auto intro!: filter_cong)
  moreover have "\<exists>x\<in>set (db_connections d). mc_id x = i \<and> mc_tenant x = t \<Longrightarrow>
      y \<in> set (db_connections d) \<Longrightarrow> mc_tenant y = t' \<Longrightarrow> mc_id y \<noteq> i" for y
    using assms distinct_map_same [OF assms(1)] by blast
  ultimately show ?thesis using Inr assms(2)
    by (fastforce simp: tenant_view_def delete_connection_def Let_def filter_empty_conv intro!: filter_cong)
qed (simp add: delete_connection_def)

text \<open>A connection of another tenant cannot be told from a missing one and cannot be changed: what the
  reads and the deletion of a tenant answer depends on the tenant's own connections and snapshots alone, and
  a deletion leaves those of every other tenant as they are.\<close>

theorem tenant_noninterference:
  assumes "tenant_view t a = tenant_view t b" and "db_faults a = db_faults b" and "fresh_ids env a"
  shows "fst (repo_GetConnection env c t a) = fst (repo_GetConnection env c t b)
    \<and> fst (repo_GetSchemaSnapshot env c t a) = fst (repo_GetSchemaSnapshot env c t b)
    \<and> fst (repo_DeleteConnection env c t a) = fst (repo_DeleteConnection env c t b)
    \<and> (\<forall>t'. t' \<noteq> t \<longrightarrow> tenant_view t' (snd (repo_DeleteConnection env c t a)) = tenant_view t' a)"
proof -
  have "tenant_view t' (snd (repo_DeleteConnection env c t a)) = tenant_view t' a" if "t' \<noteq> t" for t'
  proof -
    define P where "P d \<longleftrightarrow> distinct (map mc_id (db_connections d)) \<and> tenant_view t' d = tenant_view t' a" for d
    have "table_property P" by (simp add: table_property_def P_def tenant_view_def)
    moreover have "P (snd (delete_connection env c t d))" if "P d" for d
    proof -
      from that have "tenant_view t' (snd (delete_connection env c t d)) = tenant_view t' a"
        using delete_statement_view [OF _ \<open>t' \<noteq> t\<close>] by (simp add: P_def)
      moreover have "distinct (map mc_id (db_connections (snd (delete_connection env c t d))))"
        using that by (simp add: P_def delete_connection_def Let_def distinct_map_filter split: sum.split)
      ultimately show ?thesis by (simp add: P_def)
    qed
    moreover have "P a" using assms(3) by (simp add: P_def fresh_ids_def generated_def)
    ultimately have "P (snd (db_call (delete_connection env c t) a))" by (rule db_call_keeps)
    moreover have "snd (repo_DeleteConnection env c t a) = snd (db_call (delete_connection env c t) a)"
      by (simp add: repo_DeleteConnection_def split: prod.split sum.split dberr.split)
    ultimately show ?thesis by (simp add: P_def)
  qed
  then show ?thesis
    using GetConnection_view [OF assms(1,2)] GetSchemaSnapshot_view [OF assms(1,2)] DeleteConnection_view [OF assms(1,2)]
    by blast
qed

definition sample_connection :: meta_connection where
  "sample_connection = \<lparr>mc_id = ''u'', mc_workspace = ''w'', mc_user = ''t1'', mc_tenant = ''t1'', mc_name = ''main'',
     mc_adapter = ''postgres'', mc_params = [], mc_created = 0\<rparr>"

definition sample_meta :: meta_db where
  "sample_meta = empty_db\<lparr>db_connections := [sample_connection], db_next := 1\<rparr>"

lemma tenant_noninterference_witness:
  "fst (repo_GetConnection sample_pg ''u'' ''t2'' sample_meta) = fst (repo_GetConnection sample_pg ''u'' ''t2'' empty_db)
   \<and> tenant_view ''t1'' (snd (repo_DeleteConnection sample_pg ''u'' ''t2'' sample_meta)) = tenant_view ''t1'' sample_meta"
proof -
  have "tenant_view ''t2'' sample_meta = tenant_view ''t2'' empty_db" "db_faults sample_meta = db_faults empty_db"
    by (simp_all add: tenant_view_def sample_meta_def sample_connection_def empty_db_def)
  moreover have "fresh_ids sample_pg sample_meta"
    by (simp add: fresh_ids_def generated_def sample_meta_def sample_connection_def empty_db_def sample_pg_def)
  ultimately show ?thesis using tenant_noninterference [of "''t2''" sample_meta empty_db sample_pg "''u''"] by simp
qed

section \<open>Listings\<close>

lemma sorted_newest_first: "sorted (rev (map f (newest_first f xs)))"
  by (simp add: newest_first_def rev_map)

lemma set_newest_first [simp]: "set (newest_first f xs) = set xs"
  by (simp add: newest_first_def)

lemma mset_newest_first: "mset (newest_first f xs) = mset xs"
  by (simp add: newest_first_def)

lemma newest_first_unique:
  fixes f :: "'a \<Rightarrow> int"
  assumes "distinct (map f xs)" and "mset ys = mset xs" and "sorted (rev (map f ys))"
  shows "ys = newest_first f xs"
proof -
  have "map f (rev ys) = map f (sort_key f xs)"
  proof (rule properties_for_sort [symmetric, THEN trans])
    show "sorted (map f (rev ys))" using assms(3) by (simp add: rev_map)
    show "mset (map f (rev ys)) = mset (map f xs)" using assms(2) by simp
    show "sort (map f xs) = map f (sort_key f xs)" by (rule properties_for_sort) simp_all
  qed
  moreover have "set ys = set xs" using assms(2) by (rule mset_eq_setD)
  then have "inj_on f (set (rev ys) \<union> set (sort_key f xs))" using assms(1) by (simp add: distinct_map)
  ultimately have "rev ys = sort_key f xs" by (rule map_inj_on)
  then show ?thesis unfolding newest_first_def by (metis rev_rev_ident)
qed

lemma pages_take: "0 < n \<Longrightarrow> concat (map (\<lambda>k. take n (drop (k * n) xs)) [0..<m]) = take (m * n) xs" for n :: nat
  by (induction m) (simp_all add: add.commute [of n] flip: take_add)

lemma same_faults: "db_faults db = fs \<Longrightarrow> db\<lparr>db_faults := fs\<rparr> = db" for db :: meta_db
  by (cases db) simp

lemma db_read_ok: "db_faults db = [] \<Longrightarrow> db_read q db = (q db, db)"
  by (simp add: db_read_def db_call_def Let_def same_faults split: sum.split)

lemma db_call_ok: "db_faults db = [] \<Longrightarrow> db_call stmt db = stmt db"
  by (simp add: db_call_def Let_def same_faults)

definition page_of :: "(goerr + 'a list) \<times> meta_db \<Rightarrow> 'a list" where
  "page_of r = (case fst r of Inl e \<Rightarrow> [] | Inr xs \<Rightarrow> xs)"

text \<open>C33. On a database that answers, and when no two connections of the user were created at the same instant:
  fetching page after page of a fixed size lists every connection of the user exactly once, the newest first, and
  no connection of anyone else. The order is then the only one that \<^verbatim>\<open>ORDER BY created_at DESC\<close> allows, so no
  choice of PostgreSQL can break the pages. (Among equal creation times it could, as the query has no second key.)\<close>

theorem connection_pages_complete:
  assumes "db_faults db = []" and "pg_cast env userID = Inr u" and "0 < n"
    and "length (filter (\<lambda>c. mc_user c = u) (db_connections db)) \<le> m * n"
    and "distinct (map mc_created (filter (\<lambda>c. mc_user c = u) (db_connections db)))"
  defines "pages \<equiv> concat (map (\<lambda>k. page_of (repo_ListConnections env userID [] (int n) (int (k * n)) db)) [0..<m])"
  shows "mset pages = mset (map scan_connection (filter (\<lambda>c. mc_user c = u) (db_connections db)))
    \<and> sorted (rev (map mc_created pages))
    \<and> (\<forall>order. mset order = mset (filter (\<lambda>c. mc_user c = u) (db_connections db)) \<and> sorted (rev (map mc_created order))
         \<longrightarrow> pages = map scan_connection order)"
proof -
  let ?own = "filter (\<lambda>c. mc_user c = u) (db_connections db)"
  have page: "page_of (repo_ListConnections env userID [] (int n) (int k) db)
      = map scan_connection (take n (drop k (newest_first mc_created ?own)))" for k
    using assms(1,2) by (simp add: repo_ListConnections_def db_read_ok limit_offset_def page_of_def)
  have len: "length (newest_first mc_created ?own) \<le> m * n"
    using assms(4) by (simp add: newest_first_def)
  have "pages = map scan_connection (concat (map (\<lambda>k. take n (drop (k * n) (newest_first mc_created ?own))) [0..<m]))"
    unfolding pages_def page by (simp add: map_concat comp_def)
  also have "\<dots> = map scan_connection (newest_first mc_created ?own)"
    using len by (simp add: pages_take [OF assms(3)])
  finally have p: "pages = map scan_connection (newest_first mc_created ?own)" .
  have "mc_created \<circ> scan_connection = mc_created" by (rule ext) (simp add: scan_connection_def)
  then have "mset pages = mset (map scan_connection ?own) \<and> sorted (rev (map mc_created pages))"
    using sorted_newest_first [of mc_created ?own] unfolding p map_map
    by (simp only: mset_map mset_newest_first simp_thms)
  moreover have "pages = map scan_connection order" if "mset order = mset ?own \<and> sorted (rev (map mc_created order))" for order
    using newest_first_unique [OF assms(5)] that unfolding p by blast
  ultimately show ?thesis by blast
qed

definition two_connections :: meta_db where
  "two_connections = empty_db\<lparr>db_connections :=
     [sample_connection, sample_connection\<lparr>mc_id := ''v'', mc_created := mc_created sample_connection + 1\<rparr>]\<rparr>"

lemma connection_pages_complete_witness:
  "concat (map (\<lambda>k. page_of (repo_ListConnections sample_pg ''t1'' [] (int 1) (int (k * 1)) two_connections)) [0..<2])
   = map scan_connection [sample_connection\<lparr>mc_id := ''v'', mc_created := mc_created sample_connection + 1\<rparr>, sample_connection]"
proof -
  have "db_faults two_connections = []" "pg_cast sample_pg ''t1'' = Inr ''t1''"
    "length (filter (\<lambda>c. mc_user c = ''t1'') (db_connections two_connections)) \<le> 2 * 1"
    "distinct (map mc_created (filter (\<lambda>c. mc_user c = ''t1'') (db_connections two_connections)))"
    by (simp_all add: two_connections_def empty_db_def sample_pg_def to_lower_def sample_connection_def)
  note pages = connection_pages_complete [OF this(1,2) zero_less_one this(3,4), THEN conjunct2, THEN conjunct2, rule_format]
  show ?thesis
    by (rule pages) (simp add: two_connections_def empty_db_def sample_connection_def)
qed

section \<open>The lifecycle of a plugin\<close>

text \<open>The reference: with \<open>k\<close> failed probes at the end of a history, a plugin is degraded when \<open>k\<close> reaches
  three, else active when a probe ever succeeded, else as it was registered.\<close>

definition trailing_failures :: "bool list \<Rightarrow> nat" where
  "trailing_failures hs = length (takeWhile Not (rev hs))"

definition lifecycle_spec :: "string \<Rightarrow> bool list \<Rightarrow> string \<times> int" where
  "lifecycle_spec registered hs =
     (if 3 \<le> trailing_failures hs then ''degraded'' else if True \<in> set hs then ''active'' else registered,
      int (trailing_failures hs))"

definition probed :: "uuid \<Rightarrow> bool \<times> int \<times> string \<Rightarrow> meta_db \<Rightarrow> meta_db" where
  "probed i p db = (case p of (healthy, latency, message) \<Rightarrow> snd (RecordPluginHealth i healthy latency message db))"

lemma trailing_snoc: "trailing_failures (hs @ [h]) = (if h then 0 else Suc (trailing_failures hs))"
  by (simp add: trailing_failures_def)

lemma spec_snoc:
  "lifecycle_spec st (hs @ [h]) = next_health h (fst (lifecycle_spec st hs)) (snd (lifecycle_spec st hs))"
  by (auto simp: lifecycle_spec_def next_health_def trailing_snoc)

lemma probe_ok:
  assumes "db_faults db = []" and "find (\<lambda>r. pd_id r = i) (db_plugins db) = Some r"
  shows "RecordPluginHealth i h l m db =
    (let st = next_health h (pd_status r) (pr_failures r) in
     (Inr (fst st, fst st \<noteq> pd_status r),
      update_plugin i (health_row (db_now db) h m st) (db\<lparr>db_health := db_health db
        @ [\<lparr>hc_plugin = i, hc_healthy = h, hc_latency = Milliseconds l, hc_error = m\<rparr>]\<rparr>)))"
  using assms by (simp add: RecordPluginHealth_def health_body_def db_call_ok db_read_ok Let_def update_plugin_def)

lemma find_update:
  "find (\<lambda>r. pd_id r = i) (map (\<lambda>r. if pd_id r = i then health_row n h m st r else r) rs)
   = map_option (health_row n h m st) (find (\<lambda>r. pd_id r = i) rs)"
  by (induction rs) (auto simp: health_row_def)

text \<open>C17. After any history of probes a registered plugin has the status and the number of failures in a row
  that the history prescribes: three failures in a row degrade it, a success makes it active again, and
  a plugin that was never reached stays as it was registered for two probes.\<close>

theorem lifecycle_follows_probes:
  assumes "db_faults db = []" and "find (\<lambda>r. pd_id r = i) (db_plugins db) = Some r" and "pr_failures r = 0"
  shows "map_option (\<lambda>r. (pd_status r, pr_failures r)) (find (\<lambda>r. pd_id r = i) (db_plugins (fold (probed i) ps db)))
    = Some (lifecycle_spec (pd_status r) (map fst ps))"
proof -
  have "db_faults (fold (probed i) ps db) = [] \<and>
    (\<exists>r'. find (\<lambda>r. pd_id r = i) (db_plugins (fold (probed i) ps db)) = Some r'
       \<and> (pd_status r', pr_failures r') = lifecycle_spec (pd_status r) (map fst ps))"
  proof (induction ps rule: rev_induct)
    case Nil
    show ?case using assms by (simp add: lifecycle_spec_def trailing_failures_def)
  next
    case (snoc p ps)
    let ?db = "fold (probed i) ps db"
    obtain h l m where p: "p = (h, l, m)" by (cases p)
    obtain r' where r': "db_faults ?db = []" "find (\<lambda>r. pd_id r = i) (db_plugins ?db) = Some r'"
      "(pd_status r', pr_failures r') = lifecycle_spec (pd_status r) (map fst ps)"
      using snoc by blast
    from r'(3) have "lifecycle_spec (pd_status r) (map fst (ps @ [p])) = next_health h (pd_status r') (pr_failures r')"
      by (simp add: p spec_snoc flip: r'(3))
    moreover have "fold (probed i) (ps @ [p]) db = snd (RecordPluginHealth i h l m ?db)" by (simp add: p probed_def)
    ultimately show ?case using probe_ok [OF r'(1,2), of h l m] r'(1,2)
      by (simp add: Let_def update_plugin_def find_update health_row_def)
  qed
  then show ?thesis by auto
qed

definition sample_plugin :: plugin_row where
  "sample_plugin = \<lparr>pd_id = ''p'', pd_type = ''DB_ADAPTER'', pd_name = ''duck'', pd_version = ''1'', pd_author = [],
     pd_endpoint = ''duck:9000'', pd_protocol = ''grpc'', pd_status = ''validated'', pd_tenant = ''t1'', pd_global = False,
     pd_heartbeat = None, pd_error = [], pd_created = 0, pr_failures = 0\<rparr>"

lemma lifecycle_follows_probes_witness:
  "map_option pd_status (find (\<lambda>r. pd_id r = ''p'') (db_plugins
     (fold (probed ''p'') [(True, 1, []), (False, 1, ''x''), (False, 1, ''x''), (False, 1, ''x'')]
       (empty_db\<lparr>db_plugins := [sample_plugin]\<rparr>)))) = Some ''degraded''"
proof -
  let ?db = "empty_db\<lparr>db_plugins := [sample_plugin]\<rparr>" and ?ps = "[(True, 1, []), (False, 1, ''x''), (False, 1, ''x''), (False, 1, ''x'')]"
  have "db_faults ?db = []" "find (\<lambda>r. pd_id r = ''p'') (db_plugins ?db) = Some sample_plugin" "pr_failures sample_plugin = 0"
    by (simp_all add: empty_db_def sample_plugin_def)
  from lifecycle_follows_probes [OF this, of ?ps] show ?thesis
    by (auto simp: lifecycle_spec_def trailing_failures_def)
qed

end
