(* ===== verification/AuditSink.thy ===== *)
theory AuditSink
  imports MetaStore_Facts
begin

text \<open>
  The audit sink of Meta Service (\<^verbatim>\<open>services/meta-service/internal/auditsink/sink.go\<close>): the loop that
  persists the audit events of the stream. A delivery is a decoded event or the decoding error; a round is
  a failed fetch or a batch. That an acknowledgement may be lost is a redelivery in a later round.
\<close>

type_synonym delivery = "goerr + event"

definition sink_message :: "pg_env \<Rightarrow> delivery \<Rightarrow> meta_db \<Rightarrow> disposition \<times> meta_db" where
  "sink_message env msg db =
     (case msg of
        Inl e \<Rightarrow> (TermWithReason ''invalid audit event'', db)
      | Inr ev \<Rightarrow>
          (case SaveAuditEvent env ev db of
             (Some e, db') \<Rightarrow> (NakWithDelay 5000000000, db')
           | (None, db') \<Rightarrow> (Ack, db')))"

fun sink_batch :: "pg_env \<Rightarrow> delivery list \<Rightarrow> meta_db \<Rightarrow> disposition list \<times> meta_db" where
  "sink_batch env [] db = ([], db)"
| "sink_batch env (m # ms) db =
     (case sink_message env m db of (d, db') \<Rightarrow>
        (case sink_batch env ms db' of (ds, db'') \<Rightarrow> (d # ds, db'')))"

datatype sink_round = FetchFailed | Fetched "delivery list"

fun sink_run :: "pg_env \<Rightarrow> sink_round list \<Rightarrow> meta_db \<Rightarrow> disposition list \<times> meta_db" where
  "sink_run env [] db = ([], db)"
| "sink_run env (FetchFailed # rs) db = sink_run env rs db"
| "sink_run env (Fetched ms # rs) db =
     (case sink_batch env ms db of (ds, db') \<Rightarrow>
        (case sink_run env rs db' of (es, db'') \<Rightarrow> (ds @ es, db'')))"

fun delivered :: "sink_round list \<Rightarrow> delivery list" where
  "delivered [] = []"
| "delivered (FetchFailed # rs) = delivered rs"
| "delivered (Fetched ms # rs) = ms @ delivered rs"

section \<open>Facts\<close>

text \<open>The loop over rounds is the loop over all deliveries.\<close>

lemma sink_batch_append:
  "sink_batch env (xs @ ys) db =
    (case sink_batch env xs db of (ds, db') \<Rightarrow> (case sink_batch env ys db' of (es, db'') \<Rightarrow> (ds @ es, db'')))"
  by (induction xs arbitrary: db) (simp_all split: prod.split)

lemma sink_run_batch: "sink_run env rs db = sink_batch env (delivered rs) db"
  by (induction rs arbitrary: db rule: delivered.induct) (simp_all add: sink_batch_append split: prod.split)

text \<open>What one save does to the table.\<close>

definition persists :: "pg_env \<Rightarrow> event \<Rightarrow> event list \<Rightarrow> event list \<Rightarrow> bool" where
  "persists env ev old new \<longleftrightarrow>
     new = old \<or> (\<exists>i. pg_cast env (ev_id ev) = Inr i \<and> i \<notin> ev_id ` set old \<and> new = old @ [ev\<lparr>ev_id := i\<rparr>])"

lemma insert_audit_persists: "persists env ev (db_audit db) (db_audit (snd (insert_audit env ev db)))"
  by (auto simp: persists_def insert_audit_def split: sum.split)

lemma SaveAuditEvent_persists:
  assumes "SaveAuditEvent env ev db = (e, db')"
  shows "persists env ev (db_audit db) (db_audit db')"
    and "e = None \<Longrightarrow> \<exists>x\<in>set (db_audit db'). pg_cast env (ev_id ev) = Inr (ev_id x)"
proof -
  have p: "persists env ev (db_audit db) (db_audit (snd (insert_audit env ev (db\<lparr>db_faults := fs\<rparr>))))" for fs
    using insert_audit_persists [of env ev "db\<lparr>db_faults := fs\<rparr>"] by simp
  have same: "persists env ev (db_audit db) (db_audit db)" by (simp add: persists_def)
  have "persists env ev (db_audit db) (db_audit (snd (db_call (insert_audit env ev) db)))"
    using p same by (simp add: db_call_def Let_def split: prod.split fault.split)
  then show "persists env ev (db_audit db) (db_audit db')"
    using assms same by (auto simp: SaveAuditEvent_def split: option.splits prod.splits sum.splits dberr.splits)
  assume "e = None"
  then obtain u where "db_call (insert_audit env ev) db = (Inr u, db')"
    using assms by (auto simp: SaveAuditEvent_def split: option.splits prod.splits sum.splits dberr.splits)
  then obtain fs where f: "insert_audit env ev (db\<lparr>db_faults := fs\<rparr>) = (Inr u, db')"
    by (auto simp: db_call_def Let_def split: prod.splits fault.splits)
  then obtain i where i: "pg_cast env (ev_id ev) = Inr i"
    by (cases "pg_cast env (ev_id ev)") (auto simp: insert_audit_def)
  then have "\<exists>x\<in>set (db_audit (snd (insert_audit env ev (db\<lparr>db_faults := fs\<rparr>)))). ev_id x = i"
    by (simp add: insert_audit_def)
  then show "\<exists>x\<in>set (db_audit db'). pg_cast env (ev_id ev) = Inr (ev_id x)"
    using f i by auto
qed

text \<open>C14. However the stream delivers and redelivers its events and whatever the database answers, the audit table
  only grows, by rows that are delivered events under new identifiers, so none is counted twice; and once a delivery
  is acknowledged the table has a row under the identifier of its event: one it had before, or this very event, or
  one that was delivered earlier under the same identifier. (The second of two different events under one
  identifier is acknowledged and dropped, see \<open>audit_contradicts_outcome\<close>.)\<close>

theorem audit_persisted_once:
  assumes "sink_run env rs db = (ds, db')" and "distinct (map ev_id (db_audit db))"
  shows "\<exists>new. db_audit db' = db_audit db @ new \<and> distinct (map ev_id (db_audit db')) \<and> length ds = length (delivered rs)
    \<and> (\<forall>x\<in>set new. \<exists>ev. Inr ev \<in> set (delivered rs) \<and> pg_cast env (ev_id ev) = Inr (ev_id x) \<and> x = ev\<lparr>ev_id := ev_id x\<rparr>)
    \<and> (\<forall>k ev. k < length ds \<and> delivered rs ! k = Inr ev \<and> ds ! k = Ack \<longrightarrow>
         (\<exists>x\<in>set (db_audit db'). pg_cast env (ev_id ev) = Inr (ev_id x) \<and> (x \<in> set (db_audit db)
            \<or> (\<exists>j ev'. j \<le> k \<and> delivered rs ! j = Inr ev' \<and> pg_cast env (ev_id ev') = Inr (ev_id x) \<and> x = ev'\<lparr>ev_id := ev_id x\<rparr>))))"
  using assms unfolding sink_run_batch
proof (induction "delivered rs" arbitrary: db ds db' rs)
  case Nil
  then show ?case by simp
next
  case (Cons m ms)
  let ?of = "\<lambda>ev x. pg_cast env (ev_id ev) = Inr (ev_id x) \<and> x = ev\<lparr>ev_id := ev_id x\<rparr>"
  let ?acked = "\<lambda>ms ds db db'. \<forall>k ev. k < length ds \<and> ms ! k = Inr ev \<and> ds ! k = Ack \<longrightarrow> (\<exists>x\<in>set (db_audit db').
      pg_cast env (ev_id ev) = Inr (ev_id x) \<and> (x \<in> set (db_audit db) \<or> (\<exists>j ev'. j \<le> k \<and> ms ! j = Inr ev' \<and> ?of ev' x)))"
  obtain d db1 where m: "sink_message env m db = (d, db1)" by fastforce
  obtain es where es: "sink_batch env ms db1 = (es, db')" "ds = d # es"
    using Cons.prems(1) m unfolding Cons.hyps(2) [symmetric] by (auto split: prod.splits)
  have one: "\<exists>n1. db_audit db1 = db_audit db @ n1 \<and> distinct (map ev_id (db_audit db1))
      \<and> (\<forall>x\<in>set n1. \<exists>ev. m = Inr ev \<and> ?of ev x)
      \<and> (\<forall>ev. m = Inr ev \<and> d = Ack \<longrightarrow> (\<exists>x\<in>set (db_audit db1). pg_cast env (ev_id ev) = Inr (ev_id x)))"
  proof (cases m)
    case (Inl e)
    then show ?thesis using m Cons.prems(2) by (simp add: sink_message_def)
  next
    case (Inr ev)
    obtain e where e: "SaveAuditEvent env ev db = (e, db1)"
      using m Inr by (auto simp: sink_message_def split: prod.splits option.splits)
    have a: "d = Ack \<longrightarrow> e = None" using m Inr e by (auto simp: sink_message_def split: option.splits)
    from SaveAuditEvent_persists(1) [OF e] SaveAuditEvent_persists(2) [OF e] a Cons.prems(2)
    show ?thesis by (auto simp: persists_def Inr)
  qed
  then obtain n1 where n1: "db_audit db1 = db_audit db @ n1" "distinct (map ev_id (db_audit db1))"
    "\<forall>x\<in>set n1. \<exists>ev. m = Inr ev \<and> ?of ev x"
    "\<forall>ev. m = Inr ev \<and> d = Ack \<longrightarrow> (\<exists>x\<in>set (db_audit db1). pg_cast env (ev_id ev) = Inr (ev_id x))" by blast
  have rs': "delivered [Fetched ms] = ms" by simp
  obtain n2 where n2: "db_audit db' = db_audit db1 @ n2" "distinct (map ev_id (db_audit db'))" "length es = length ms"
    "\<forall>x\<in>set n2. \<exists>ev. Inr ev \<in> set ms \<and> ?of ev x" "?acked ms es db1 db'"
    using Cons.hyps(1) [of "[Fetched ms]" db1 es db', unfolded rs', OF refl es(1) n1(2)] by blast
  have old: "x \<in> set (db_audit db) \<or> (\<exists>j ev'. j \<le> k \<and> (m # ms) ! j = Inr ev' \<and> ?of ev' x)" if "x \<in> set (db_audit db1)" for x k
    using that n1(1,3) by (auto intro!: exI [of _ "0::nat"])
  have acked: "?acked (m # ms) (d # es) db db'"
  proof (intro allI impI)
    fix k ev
    assume k: "k < length (d # es) \<and> (m # ms) ! k = Inr ev \<and> (d # es) ! k = Ack"
    show "\<exists>x\<in>set (db_audit db'). pg_cast env (ev_id ev) = Inr (ev_id x)
        \<and> (x \<in> set (db_audit db) \<or> (\<exists>j ev'. j \<le> k \<and> (m # ms) ! j = Inr ev' \<and> ?of ev' x))"
    proof (cases k)
      case 0
      with k n1(4) obtain x where "x \<in> set (db_audit db1)" "pg_cast env (ev_id ev) = Inr (ev_id x)" by auto
      with old [of x k] n2(1) show ?thesis by auto
    next
      case (Suc l)
      with k have "l < length es \<and> ms ! l = Inr ev \<and> es ! l = Ack" by simp
      with n2(5) obtain x where x: "x \<in> set (db_audit db')" "pg_cast env (ev_id ev) = Inr (ev_id x)"
        "x \<in> set (db_audit db1) \<or> (\<exists>j ev'. j \<le> l \<and> ms ! j = Inr ev' \<and> ?of ev' x)" by blast
      have "x \<in> set (db_audit db) \<or> (\<exists>j ev'. j \<le> k \<and> (m # ms) ! j = Inr ev' \<and> ?of ev' x)"
        using x(3) old [of x k] Suc by (metis Suc_le_mono nth_Cons_Suc)
      with x(1,2) show ?thesis by blast
    qed
  qed
  show ?case
    unfolding Cons.hyps(2) [symmetric] es(2)
  proof (intro exI [of _ "n1 @ n2"] conjI)
    show "db_audit db' = db_audit db @ n1 @ n2" using n1(1) n2(1) by simp
    show "distinct (map ev_id (db_audit db'))" by (rule n2(2))
    show "length (d # es) = length (m # ms)" using n2(3) by simp
    show "\<forall>x\<in>set (n1 @ n2). \<exists>ev. Inr ev \<in> set (m # ms) \<and> ?of ev x"
      using n1(3) n2(4) by (metis Un_iff list.set_intros(1,2) set_append)
  qed (rule acked)
qed

definition sample_event :: event where
  "sample_event = \<lparr>ev_id = ''E1'', ev_tenant = ''t1'', ev_actor = ''t1'', ev_action = ''query.execute'',
     ev_resource_type = ''query_job'', ev_resource = ''j1'', ev_success = True, ev_error = [], ev_metadata = [], ev_occurred = 1\<rparr>"

lemma audit_persisted_once_witness:
  "\<exists>x. db_audit (snd (sink_run sample_pg [Fetched [Inr sample_event], FetchFailed, Fetched [Inr sample_event]]
      (empty_db\<lparr>db_faults := [LostReply ''timeout'']\<rparr>))) = [x] \<and> x = sample_event\<lparr>ev_id := ev_id x\<rparr>"
proof -
  let ?rs = "[Fetched [Inr sample_event], FetchFailed, Fetched [Inr sample_event]]"
    and ?db = "empty_db\<lparr>db_faults := [LostReply ''timeout'']\<rparr>"
  have "distinct (map ev_id (db_audit ?db))" by (simp add: empty_db_def)
  from audit_persisted_once [OF prod.collapse [symmetric] this, of sample_pg ?rs]
  have "\<forall>x\<in>set (db_audit (snd (sink_run sample_pg ?rs ?db))). x = sample_event\<lparr>ev_id := ev_id x\<rparr>"
    by (fastforce simp: empty_db_def)
  moreover have "length (db_audit (snd (sink_run sample_pg ?rs ?db))) = 1" by code_simp
  ultimately show ?thesis by (auto simp: length_Suc_conv)
qed

end
