(* ===== verification/Audit_Trail.thy ===== *)
theory Audit_Trail
  imports Worker_Facts AuditSink
begin

text \<open>
  From a query job to its row in the audit table: the events two deliveries of one job publish, and what the sink
  keeps of them. The identifier of the event is a function of the job, so a transient failure of the first
  delivery is what the table says about the job for ever, although its second delivery succeeded.
\<close>

definition redelivered_job :: world where
  "redelivered_job =
     (let once = snd (Process sample_env sample_query
        (sample_world\<lparr>w_store := (w_store sample_world)\<lparr>st_faults := [NoFault, Fails ''i/o timeout'']\<rparr>,
           w_audit := Some \<lparr>pub_log = [], pub_faults = []\<rparr>\<rparr>))
      in snd (Process sample_env sample_query once))"

lemma audit_contradicts_outcome:
  "map_option job_status (peek (w_store redelivered_job) ''j1'') = Some StatusSuccess
   \<and> map ev_success (db_audit (snd (sink_run sample_pg
        [Fetched (map (\<lambda>m. Inr (snd m)) (pub_log (the (w_audit redelivered_job))))] empty_db))) = [False]"
  by code_simp

end
