(* ===== verification/PluginLifecycle.thy ===== *)
theory PluginLifecycle
  imports MetaStore
begin

text \<open>
  The plugin lifecycle manager of Meta Service (\<^verbatim>\<open>services/meta-service/internal/pluginlifecycle/manager.go\<close>):
  one round probes every plugin that is not disabled, records the result and publishes routes. The health
  service of a plugin and the clock are the record \<open>life_env\<close>; the bus is the log of the published routes
  with the faults of the publish calls to come.
\<close>

record life_env =
  le_dial :: "string \<Rightarrow> goerr option"
  le_check :: "string \<Rightarrow> goerr + string"
  le_latency :: "string \<Rightarrow> int"

record route =
  rt_plugin :: uuid
  rt_adapter :: string
  rt_endpoint :: string
  rt_status :: string

record bus =
  bus_log :: "(string \<times> route) list"
  bus_faults :: "fault list"

text \<open>The interval between rounds, in nanoseconds.\<close>

definition NewManager :: "int \<Rightarrow> int" where
  "NewManager interval = (if interval \<le> 0 then 15000000000 else interval)"

definition probe :: "life_env \<Rightarrow> string \<Rightarrow> goerr option" where
  "probe env endpoint =
     (case le_dial env endpoint of
        Some e \<Rightarrow> Some e
      | None \<Rightarrow>
          (case le_check env endpoint of
             Inl e \<Rightarrow> Some e
           | Inr status \<Rightarrow> if status \<noteq> ''SERVING'' then Some (Err (''health status '' @ status)) else None))"

definition errorString :: "goerr option \<Rightarrow> string" where
  "errorString e = (case e of None \<Rightarrow> [] | Some x \<Rightarrow> error_text x)"

definition bus_publish :: "string \<Rightarrow> route \<Rightarrow> bus \<Rightarrow> bus" where
  "bus_publish subject r b =
     (case next_fault (bus_faults b) of
        (Fails e, fs) \<Rightarrow> b\<lparr>bus_faults := fs\<rparr>
      | (_, fs) \<Rightarrow> b\<lparr>bus_faults := fs, bus_log := bus_log b @ [(subject, r)]\<rparr>)"

text \<open>A failed publish call is logged only.\<close>

definition publishRoute :: "plugin_definition \<Rightarrow> string \<Rightarrow> bus \<Rightarrow> bus" where
  "publishRoute p status b =
     (if \<not> equal_fold (pd_type p) ''DB_ADAPTER'' then b
      else bus_publish ''events.plugin.route''
        \<lparr>rt_plugin = pd_id p, rt_adapter = pd_name p, rt_endpoint = pd_endpoint p, rt_status = status\<rparr> b)"

definition check_plugin :: "life_env \<Rightarrow> plugin_definition \<Rightarrow> meta_db \<times> bus \<Rightarrow> meta_db \<times> bus" where
  "check_plugin env p w =
     (let err = probe env (pd_endpoint p) in
      case RecordPluginHealth (pd_id p) (err = None) (le_latency env (pd_endpoint p)) (errorString err) (fst w) of
        (Inl e, db) \<Rightarrow> (db, snd w)
      | (Inr (status, changed), db) \<Rightarrow>
          (db, if changed \<or> status = ''active'' then publishRoute p status (snd w) else snd w))"

definition check :: "life_env \<Rightarrow> meta_db \<times> bus \<Rightarrow> meta_db \<times> bus" where
  "check env w =
     (case ListPluginsForHealth (fst w) of
        (Inl e, db) \<Rightarrow> (db, snd w)
      | (Inr ps, db) \<Rightarrow> fold (check_plugin env) ps (db, snd w))"

text \<open>\<^verbatim>\<open>Run\<close> checks at once and at every tick until it is cancelled: one environment for each round.\<close>

definition run_manager :: "life_env list \<Rightarrow> meta_db \<times> bus \<Rightarrow> meta_db \<times> bus" where
  "run_manager envs w = fold check envs w"

end
