(* ===== verification/Plugin_Routes.thy ===== *)
theory Plugin_Routes
  imports PluginLifecycle MetaStore_Facts ConnServer
begin

text \<open>
  From a probe to a route: the messages one round of the lifecycle manager publishes, and what Connection
  Manager has routed after it received them.
\<close>

text \<open>The fields of a message that Connection Manager decodes, and the messages applied in order.\<close>

definition decode_route :: "route \<Rightarrow> plugin_route" where
  "decode_route r = \<lparr>pr_adapter = rt_adapter r, pr_endpoint = rt_endpoint r, pr_status = rt_status r\<rparr>"

definition deliver :: "(string \<Rightarrow> goerr + plugin_client) \<Rightarrow> route list \<Rightarrow> registry \<Rightarrow> registry" where
  "deliver dial rs reg = fold (\<lambda>r. on_plugin_route dial (Inr (decode_route r))) rs reg"

text \<open>What one round publishes for a plugin.\<close>

definition round_route :: "life_env \<Rightarrow> plugin_row \<Rightarrow> route option" where
  "round_route env r =
     (let st = fst (next_health (probe env (pd_endpoint r) = None) (pd_status r) (pr_failures r)) in
      if equal_fold (pd_type r) ''DB_ADAPTER'' \<and> (st \<noteq> pd_status r \<or> st = ''active'')
      then Some \<lparr>rt_plugin = pd_id r, rt_adapter = pd_name r, rt_endpoint = pd_endpoint r, rt_status = st\<rparr> else None)"

lemma truncate_fields [simp]:
  "pd_id (plugin_definition.truncate r) = pd_id r" "pd_type (plugin_definition.truncate r) = pd_type r"
  "pd_name (plugin_definition.truncate r) = pd_name r" "pd_endpoint (plugin_definition.truncate r) = pd_endpoint r"
  by (simp_all add: plugin_definition.truncate_def)

lemma find_other:
  "j \<noteq> i \<Longrightarrow> find (\<lambda>r. pd_id r = j) (map (\<lambda>r. if pd_id r = i then health_row n h m st r else r) rs) = find (\<lambda>r. pd_id r = j) rs"
  by (induction rs) (auto simp: health_row_def)

lemma check_plugin_publishes:
  assumes "db_faults db = []" and "bus_faults b = []" and "find (\<lambda>x. pd_id x = pd_id r) (db_plugins db) = Some r"
  obtains db' b' where "check_plugin env (plugin_definition.truncate r) (db, b) = (db', b')" "db_faults db' = []" "bus_faults b' = []"
    "bus_log b' = bus_log b @ (case round_route env r of None \<Rightarrow> [] | Some m \<Rightarrow> [(''events.plugin.route'', m)])"
    "\<And>j. j \<noteq> pd_id r \<Longrightarrow> find (\<lambda>x. pd_id x = j) (db_plugins db') = find (\<lambda>x. pd_id x = j) (db_plugins db)"
proof -
  let ?e = "probe env (pd_endpoint r)"
  let ?st = "next_health (?e = None) (pd_status r) (pr_failures r)"
  obtain db' where db': "RecordPluginHealth (pd_id r) (?e = None) (le_latency env (pd_endpoint r)) (errorString ?e) db
      = (Inr (fst ?st, fst ?st \<noteq> pd_status r), db')" "db_faults db' = []"
    "\<And>j. j \<noteq> pd_id r \<Longrightarrow> find (\<lambda>x. pd_id x = j) (db_plugins db') = find (\<lambda>x. pd_id x = j) (db_plugins db)"
    using probe_ok [OF assms(1,3)] assms(1) by (simp add: Let_def update_plugin_def find_other)
  show thesis
    using db' assms(2)
    by (intro that [of "fst (check_plugin env (plugin_definition.truncate r) (db, b))" "snd (check_plugin env (plugin_definition.truncate r) (db, b))"])
      (auto simp: check_plugin_def Let_def publishRoute_def bus_publish_def round_route_def)
qed

lemma fold_publishes:
  assumes "db_faults db = []" and "bus_faults b = []" and "distinct (map pd_id rs)"
    and "\<And>r. r \<in> set rs \<Longrightarrow> find (\<lambda>x. pd_id x = pd_id r) (db_plugins db) = Some r"
  shows "bus_log (snd (fold (check_plugin env) (map plugin_definition.truncate rs) (db, b)))
    = bus_log b @ map (Pair ''events.plugin.route'') (List.map_filter (round_route env) rs)"
  using assms
proof (induction rs arbitrary: db b)
  case Nil
  then show ?case by (simp add: List.map_filter_def)
next
  case (Cons r rs)
  have r: "find (\<lambda>x. pd_id x = pd_id r) (db_plugins db) = Some r" by (rule Cons.prems(4)) simp
  obtain db' b' where s: "check_plugin env (plugin_definition.truncate r) (db, b) = (db', b')" "db_faults db' = []" "bus_faults b' = []"
    "bus_log b' = bus_log b @ (case round_route env r of None \<Rightarrow> [] | Some m \<Rightarrow> [(''events.plugin.route'', m)])"
    "\<And>j. j \<noteq> pd_id r \<Longrightarrow> find (\<lambda>x. pd_id x = j) (db_plugins db') = find (\<lambda>x. pd_id x = j) (db_plugins db)"
    by (rule check_plugin_publishes [OF Cons.prems(1,2) r, of env]) (rule that)
  have "find (\<lambda>x. pd_id x = pd_id q) (db_plugins db') = Some q" if "q \<in> set rs" for q
  proof -
    have "pd_id q \<noteq> pd_id r" using that Cons.prems(3) by (metis distinct.simps(2) imageI list.set_map list.simps(9))
    then show ?thesis using s(5) Cons.prems(4) [of q] that by simp
  qed
  then have "bus_log (snd (fold (check_plugin env) (map plugin_definition.truncate rs) (db', b')))
      = bus_log b' @ map (Pair ''events.plugin.route'') (List.map_filter (round_route env) rs)"
    using Cons.prems(3) by (intro Cons.IH s(2,3)) auto
  then show ?case using s(1,4) by (simp add: List.map_filter_def split: option.split)
qed

lemma find_distinct: "distinct (map pd_id rs) \<Longrightarrow> r \<in> set rs \<Longrightarrow> find (\<lambda>x. pd_id x = pd_id r) rs = Some r"
  by (induction rs) auto

text \<open>The effect of a message on the route of a name.\<close>

definition route_effect :: "(string \<Rightarrow> goerr + plugin_client) \<Rightarrow> string \<Rightarrow> route \<Rightarrow> plugin_client option \<Rightarrow> plugin_client option" where
  "route_effect dial n r x =
     (if rt_adapter r \<noteq> n then x else if rt_status r \<noteq> ''active'' then None
      else (case dial (rt_endpoint r) of Inl e \<Rightarrow> x | Inr c \<Rightarrow> Some c))"

lemma close_conn_fields [simp]: "rg_external (close_conn k r) = rg_external r" "rg_builtins (close_conn k r) = rg_builtins r"
  by (simp_all add: close_conn_def split: option.split)

lemma deliver_external:
  "rg_external (deliver dial rs reg) n = fold (route_effect dial n) rs (rg_external reg n)
   \<and> rg_builtins (deliver dial rs reg) = rg_builtins reg"
proof (induction rs arbitrary: reg)
  case (Cons r rs)
  let ?reg = "on_plugin_route dial (Inr (decode_route r)) reg"
  have "rg_external ?reg n = route_effect dial n r (rg_external reg n)" "rg_builtins ?reg = rg_builtins reg"
    by (auto simp: on_plugin_route_def decode_route_def RouteExternal_def RemoveExternal_def route_effect_def split: sum.split)
  with Cons [of ?reg] show ?case by (simp add: deliver_def)
qed (simp add: deliver_def)

lemma route_effect_other: "(\<And>r. r \<in> set rs \<Longrightarrow> rt_adapter r \<noteq> n) \<Longrightarrow> fold (route_effect dial n) rs x = x"
  by (induction rs) (auto simp: route_effect_def)

text \<open>C22. A plugin that answers is routed: after one undisturbed round of the manager and the delivery of its messages,
  Connection Manager serves the adapter type with the plugin's client, whatever was routed before. The plugin
  must be the one created last under its name: of several plugins of one name, of whatever tenants, the last
  one gets the route and with it the connections of all.\<close>

theorem answering_plugin_is_routed:
  assumes "db_faults db = []" and "bus_faults b = []" and "distinct (map pd_id (db_plugins db))"
    and "p \<in> set (db_plugins db)" and "pd_status p \<noteq> ''disabled''" and "equal_fold (pd_type p) ''DB_ADAPTER''"
    and "probe env (pd_endpoint p) = None" and "dial (pd_endpoint p) = Inr client"
    and "\<And>q. q \<in> set (db_plugins db) \<Longrightarrow> q \<noteq> p \<Longrightarrow> pd_name q = pd_name p \<Longrightarrow> pd_created q < pd_created p"
    and "rg_builtins reg (pd_name p) = None"
  shows "\<exists>msgs. bus_log (snd (check env (db, b))) = bus_log b @ map (Pair ''events.plugin.route'') msgs
    \<and> GetAdapter co (pd_name p) (deliver dial msgs reg) = Inr (externalAdapter co client, no_pools)"
proof -
  define rs where "rs = sort_key pd_created (filter (\<lambda>p. pd_status p \<noteq> ''disabled'') (db_plugins db))"
  have rs: "set rs = {q \<in> set (db_plugins db). pd_status q \<noteq> ''disabled''}" "sorted (map pd_created rs)" "distinct (map pd_id rs)"
    using assms(3) by (auto simp: rs_def distinct_map distinct_filter inj_on_def)
  have find: "find (\<lambda>x. pd_id x = pd_id r) (db_plugins db) = Some r" if "r \<in> set rs" for r
    using that rs(1) assms(3) by (auto intro: find_distinct)
  let ?msgs = "List.map_filter (round_route env) rs"
  have log: "bus_log (snd (check env (db, b))) = bus_log b @ map (Pair ''events.plugin.route'') ?msgs"
    using fold_publishes [OF assms(1,2) rs(3) find] assms(1)
    by (simp add: check_def ListPluginsForHealth_def db_read_ok rs_def)
  have "p \<in> set rs" using assms(4,5) rs(1) by simp
  then obtain xs ys where split: "rs = xs @ p # ys" by (meson split_list)
  have "rt_adapter m \<noteq> pd_name p" if "m \<in> set (List.map_filter (round_route env) ys)" for m
  proof -
    from that obtain q where q: "q \<in> set ys" "round_route env q = Some m" by (auto simp: List.map_filter_def)
    have "q \<noteq> p" using q(1) rs(3) by (auto simp: split)
    moreover have "pd_created p \<le> pd_created q" using rs(2) q(1) by (auto simp: split sorted_append)
    moreover have "q \<in> set (db_plugins db)" using q(1) rs(1) by (auto simp: split)
    ultimately have "pd_name q \<noteq> pd_name p" using assms(9) [of q] by linarith
    then show ?thesis using q(2) by (auto simp: round_route_def Let_def split: if_splits)
  qed
  then have tail: "fold (route_effect dial (pd_name p)) (List.map_filter (round_route env) ys) x = x" for x
    by (rule route_effect_other)
  have "round_route env p = Some \<lparr>rt_plugin = pd_id p, rt_adapter = pd_name p, rt_endpoint = pd_endpoint p, rt_status = ''active''\<rparr>"
    using assms(6,7) by (simp add: round_route_def next_health_def)
  with tail have "rg_external (deliver dial ?msgs reg) (pd_name p) = Some client"
    using assms(8) by (simp add: deliver_external split List.map_filter_def route_effect_def)
  then have "GetAdapter co (pd_name p) (deliver dial ?msgs reg) = Inr (externalAdapter co client, no_pools)"
    using assms(10) by (simp add: GetAdapter_def deliver_external)
  with log show ?thesis by blast
qed

section \<open>A concrete round\<close>

text \<open>Two plugins named alike, the second registered later by another tenant.\<close>

definition rival_plugin :: plugin_row where
  "rival_plugin = sample_plugin\<lparr>pd_id := ''q'', pd_version := ''2'', pd_endpoint := ''rival:9000'', pd_tenant := ''t2'', pd_created := 5\<rparr>"

definition sample_life :: life_env where
  "sample_life = \<lparr>le_dial = \<lambda>e. None, le_check = \<lambda>e. Inr ''SERVING'', le_latency = \<lambda>e. 1\<rparr>"

definition rival_client :: plugin_client where
  "rival_client = sample_client\<lparr>pc_schema := \<lambda>m. Inl (Err ''rival'')\<rparr>"

lemma answering_plugin_is_routed_witness:
  "\<exists>msgs. bus_log (snd (check sample_life (empty_db\<lparr>db_plugins := [sample_plugin, rival_plugin]\<rparr>, \<lparr>bus_log = [], bus_faults = []\<rparr>)))
      = [] @ map (Pair ''events.plugin.route'') msgs
    \<and> GetAdapter sample_codec ''duck'' (deliver (\<lambda>e. if e = ''rival:9000'' then Inr rival_client else Inr sample_client) msgs
        (NewRegistry sample_drivers)) = Inr (externalAdapter sample_codec rival_client, no_pools)"
proof -
  have "equal_fold ''DB_ADAPTER'' ''DB_ADAPTER''" by (simp add: equal_fold_def)
  then show ?thesis
    using answering_plugin_is_routed [of "empty_db\<lparr>db_plugins := [sample_plugin, rival_plugin]\<rparr>" "\<lparr>bus_log = [], bus_faults = []\<rparr>"
        rival_plugin sample_life "\<lambda>e. if e = ''rival:9000'' then Inr rival_client else Inr sample_client" rival_client
        "NewRegistry sample_drivers" sample_codec]
    by (simp add: empty_db_def rival_plugin_def sample_plugin_def sample_life_def probe_def NewRegistry_def registerBuiltins_def)
qed

end
