(* ===== verification/Go_Encoding.thy ===== *)
theory Go_Encoding
  imports Go_Prelude
begin

text \<open>
  What the services use of \<^verbatim>\<open>encoding/base64\<close> and of the address functions of package \<^verbatim>\<open>net\<close>, written
  out: encoding with and without padding, decoding with its error positions, and the splitting and
  joining of host and port.
\<close>

section \<open>base64\<close>

text \<open>The standard alphabet, and the one for URLs.\<close>

definition b64_char :: "bool \<Rightarrow> int \<Rightarrow> char" where
  "b64_char url n =
     (if n < 26 then char_of (65 + n) else if n < 52 then char_of (71 + n) else if n < 62 then char_of (n - 4)
      else if n = 62 then (if url then CHR ''-'' else CHR ''+'') else if url then CHR ''_'' else CHR ''/'')"

definition b64_value :: "char \<Rightarrow> int option" where
  "b64_value c =
     (let n = char_code c in
      if 65 \<le> n \<and> n \<le> 90 then Some (n - 65)
      else if 97 \<le> n \<and> n \<le> 122 then Some (n - 71)
      else if 48 \<le> n \<and> n \<le> 57 then Some (n + 4)
      else if n = 43 then Some 62 else if n = 47 then Some 63 else None)"

text \<open>\<open>b64_encode False True\<close> is \<^verbatim>\<open>StdEncoding\<close>, \<open>b64_encode True False\<close> is \<^verbatim>\<open>RawURLEncoding\<close>.\<close>

fun b64_encode :: "bool \<Rightarrow> bool \<Rightarrow> string \<Rightarrow> string" where
  "b64_encode url pad [] = []"
| "b64_encode url pad [a] =
     (let x = char_code a in
      [b64_char url (x div 4), b64_char url (x mod 4 * 16)] @ (if pad then ''=='' else []))"
| "b64_encode url pad [a, b] =
     (let x = char_code a; y = char_code b in
      [b64_char url (x div 4), b64_char url (x mod 4 * 16 + y div 16), b64_char url (y mod 16 * 4)] @ (if pad then ''='' else []))"
| "b64_encode url pad (a # b # c # cs) =
     (let x = char_code a; y = char_code b; z = char_code c in
      [b64_char url (x div 4), b64_char url (x mod 4 * 16 + y div 16), b64_char url (y mod 16 * 4 + z div 64), b64_char url (z mod 64)]
      @ b64_encode url pad cs)"

definition newline :: "char \<Rightarrow> bool" where
  "newline c \<longleftrightarrow> c = CHR 0x0A \<or> c = CHR 0x0D"

text \<open>One quantum from position \<open>p\<close> on: the error position, or the sextets, the rest and its position.\<close>

definition b64_padding :: "int \<Rightarrow> int list \<Rightarrow> string \<Rightarrow> int + int list" where
  "b64_padding p acc cs =
     (if length acc < 2 then Inl p
      else if length acc = 2 then
        (case dropWhile newline cs of
           [] \<Rightarrow> Inl (p + 1 + int (length cs))
         | d # ds \<Rightarrow>
             (let q = p + 1 + int (length (takeWhile newline cs)) in
              if d \<noteq> CHR ''='' then Inl (q - 1)
              else if dropWhile newline ds \<noteq> [] then Inl (q + 1 + int (length (takeWhile newline ds)))
              else Inr acc))
      else if dropWhile newline cs \<noteq> [] then Inl (p + 1 + int (length (takeWhile newline cs)))
      else Inr acc)"

fun b64_quantum :: "int \<Rightarrow> int list \<Rightarrow> string \<Rightarrow> int + int list \<times> string \<times> int" where
  "b64_quantum p acc [] = (if acc = [] then Inr ([], [], p) else Inl (p - int (length acc)))"
| "b64_quantum p acc (c # cs) =
     (case b64_value c of
        Some v \<Rightarrow>
          if length acc = 3 then Inr (acc @ [v], cs, p + 1) else b64_quantum (p + 1) (acc @ [v]) cs
      | None \<Rightarrow>
          if newline c then b64_quantum (p + 1) acc cs
          else if c \<noteq> CHR ''='' then Inl p
          else (case b64_padding p acc cs of Inl q \<Rightarrow> Inl q | Inr vs \<Rightarrow> Inr (vs, [], p)))"

fun sextets_bytes :: "int list \<Rightarrow> string" where
  "sextets_bytes [a, b] = [char_of ((a * 4 + b div 16) mod 256)]"
| "sextets_bytes [a, b, c] = [char_of ((a * 4 + b div 16) mod 256), char_of ((b * 16 + c div 4) mod 256)]"
| "sextets_bytes [a, b, c, d] =
     [char_of ((a * 4 + b div 16) mod 256), char_of ((b * 16 + c div 4) mod 256), char_of ((c * 64 + d) mod 256)]"
| "sextets_bytes _ = []"

lemma b64_quantum_shorter:
  "b64_quantum p acc s = Inr (vs, rest, q) \<Longrightarrow> vs = [] \<or> length rest < length s + length acc"
  by (induction p acc s rule: b64_quantum.induct) (force split: if_splits option.splits sum.splits)+

lemma b64_quantum_rest: "b64_quantum p acc s = Inr (vs, rest, q) \<Longrightarrow> s \<noteq> [] \<Longrightarrow> length rest < length s"
proof (induction p acc s rule: b64_quantum.induct)
  case (2 p acc c cs)
  show ?case
  proof (cases "cs = []")
    case True
    with 2(3) show ?thesis by (auto split: if_splits option.splits sum.splits)
  next
    case False
    with 2 show ?thesis by (auto split: if_splits option.splits sum.splits)
  qed
qed simp

function b64_decode_at :: "int \<Rightarrow> string \<Rightarrow> int + string" where
  "b64_decode_at p s =
     (if s = [] then Inr []
      else (case b64_quantum p [] s of
          Inl e \<Rightarrow> Inl e
        | Inr (vs, rest, q) \<Rightarrow>
            (case b64_decode_at q rest of Inl e \<Rightarrow> Inl e | Inr bs \<Rightarrow> Inr (sextets_bytes vs @ bs))))"
  by pat_completeness auto
termination
  by (relation "measure (\<lambda>(p, s). length s)") (auto dest: b64_quantum_rest)

declare b64_decode_at.simps [simp del]

definition b64_decode :: "string \<Rightarrow> goerr + string" where
  "b64_decode s =
     (case b64_decode_at 0 s of
        Inl p \<Rightarrow> Inl (Err (''illegal base64 data at input byte '' @ itoa p))
      | Inr bs \<Rightarrow> Inr bs)"

lemma b64_char_value:
  assumes "0 \<le> n" and "n < 64"
  shows "b64_value (b64_char False n) = Some n"
proof -
  have "\<forall>n\<in>set [0..63]. b64_value (b64_char False n) = Some n" by code_simp
  with assms show ?thesis by auto
qed

lemma b64_quantum_full:
  assumes "0 \<le> i" "i < 64" "0 \<le> j" "j < 64" "0 \<le> k" "k < 64" "0 \<le> l" "l < 64"
  shows "b64_quantum p [] (b64_char False i # b64_char False j # b64_char False k # b64_char False l # rest)
    = Inr ([i, j, k, l], rest, p + 4)"
  using assms by (simp add: b64_char_value)

lemma b64_value_pad: "b64_value (CHR ''='') = None" "\<not> newline (CHR ''='')"
  by (simp_all add: b64_value_def char_code_def newline_def)

lemma b64_quantum_pad2:
  assumes "0 \<le> i" "i < 64" "0 \<le> j" "j < 64"
  shows "b64_quantum p [] [b64_char False i, b64_char False j, CHR ''='', CHR ''=''] = Inr ([i, j], [], p + 2)"
  using assms by (simp add: b64_char_value b64_value_pad b64_padding_def Let_def)

lemma b64_quantum_pad1:
  assumes "0 \<le> i" "i < 64" "0 \<le> j" "j < 64" "0 \<le> k" "k < 64"
  shows "b64_quantum p [] [b64_char False i, b64_char False j, b64_char False k, CHR ''=''] = Inr ([i, j, k], [], p + 3)"
  using assms by (simp add: b64_char_value b64_value_pad b64_padding_def Let_def)

lemma join_div: "0 \<le> s \<Longrightarrow> s < m \<Longrightarrow> (r * m + s) div m = r" for r s m :: int
  by (simp add: div_add1_eq)

lemma sextet_bounds:
  fixes x y m k :: int
  assumes "0 \<le> x" "0 \<le> y" "0 < m" "0 < k" "y < k"
  shows "0 \<le> x mod m * k + y" "x mod m * k + y < m * k"
proof -
  have "0 \<le> x mod m" "x mod m \<le> m - 1" using assms by simp_all
  then have "x mod m * k \<le> (m - 1) * k" "0 \<le> x mod m * k" using assms by (simp_all add: mult_right_mono)
  with assms show "0 \<le> x mod m * k + y" "x mod m * k + y < m * k" by (simp_all add: left_diff_distrib)
qed

lemma sextet_arith:
  fixes x y z :: int
  assumes "0 \<le> x" "x < 256" "0 \<le> y" "y < 256" "0 \<le> z" "z < 256"
  shows "x div 4 * 4 + (x mod 4 * 16 + y div 16) div 16 = x"
    and "((x mod 4 * 16 + y div 16) * 16 + (y mod 16 * 4 + z div 64) div 4) mod 256 = y"
    and "((y mod 16 * 4 + z div 64) * 64 + z mod 64) mod 256 = z"
    and "0 \<le> x mod 4 * 16 + y div 16" "x mod 4 * 16 + y div 16 < 64"
    and "0 \<le> y mod 16 * 4 + z div 64" "y mod 16 * 4 + z div 64 < 64"
proof -
  have y: "0 \<le> y div 16" "y div 16 < 16" and z: "0 \<le> z div 64" "z div 64 < 4" using assms by auto
  show "x div 4 * 4 + (x mod 4 * 16 + y div 16) div 16 = x" using y by (simp add: join_div)
  have "(x mod 4 * 16 + y div 16) * 16 + y mod 16 = x mod 4 * 256 + y" by (simp add: distrib_right)
  then show "((x mod 4 * 16 + y div 16) * 16 + (y mod 16 * 4 + z div 64) div 4) mod 256 = y"
    using z assms by (simp add: join_div)
  have "(y mod 16 * 4 + z div 64) * 64 + z mod 64 = y mod 16 * 256 + z" by (simp add: distrib_right)
  then show "((y mod 16 * 4 + z div 64) * 64 + z mod 64) mod 256 = z" using assms by simp
  show "0 \<le> x mod 4 * 16 + y div 16" "x mod 4 * 16 + y div 16 < 64"
    using sextet_bounds [of x "y div 16" 4 16] assms(1) y by simp_all
  show "0 \<le> y mod 16 * 4 + z div 64" "y mod 16 * 4 + z div 64 < 64"
    using sextet_bounds [of y "z div 64" 16 4] assms(3) z by simp_all
qed

lemma b64_roundtrip_at: "b64_decode_at p (b64_encode False True bs) = Inr bs"
proof (induction False True bs arbitrary: p rule: b64_encode.induct)
  case 1
  show ?case by (simp add: b64_decode_at.simps)
next
  case (2 a)
  define x where "x = char_code a"
  have x: "0 \<le> x" "x < 256" "char_of x = a" by (simp_all add: x_def char_code_range)
  with sextet_arith [of x 0 0] show ?case
    by (simp add: b64_decode_at.simps b64_quantum_pad2 x_def [symmetric] del: b64_quantum.simps)
next
  case (3 a b)
  define x y where "x = char_code a" and "y = char_code b"
  have x: "0 \<le> x" "x < 256" "char_of x = a" "0 \<le> y" "y < 256" "char_of y = b"
    by (simp_all add: x_def y_def char_code_range)
  with sextet_arith [of x y 0] show ?case
    by (simp add: b64_decode_at.simps b64_quantum_pad1 x_def [symmetric] y_def [symmetric] del: b64_quantum.simps)
next
  case (4 a b c cs)
  define x y z where "x = char_code a" and "y = char_code b" and "z = char_code c"
  have x: "0 \<le> x" "x < 256" "char_of x = a" "0 \<le> y" "y < 256" "char_of y = b" "0 \<le> z" "z < 256" "char_of z = c"
    by (simp_all add: x_def y_def z_def char_code_range)
  with sextet_arith [of x y z] 4 show ?case
    by (simp add: b64_decode_at.simps [of p] b64_quantum_full x_def [symmetric] y_def [symmetric] z_def [symmetric]
        del: b64_quantum.simps)
qed

text \<open>What is encoded with the standard alphabet and padding is decoded to the same bytes.\<close>

lemma b64_roundtrip: "b64_decode (b64_encode False True bs) = Inr bs"
  by (simp add: b64_decode_def b64_roundtrip_at)

lemma b64_raw_length: "length (b64_encode url False bs) = (4 * length bs + 2) div 3"
  by (induction url False bs rule: b64_encode.induct) (simp_all add: Let_def)

section \<open>Host and port\<close>

definition addr_error :: "string \<Rightarrow> string \<Rightarrow> goerr" where
  "addr_error addr why = Err (if addr = [] then why else ''address '' @ addr @ '': '' @ why)"

definition LBr :: char where "LBr = CHR ''[''"
definition RBr :: char where "RBr = CHR '']''"

text \<open>The split at the last colon: what is before it and what is behind it.\<close>

definition last_colon :: "string \<Rightarrow> (string \<times> string) option" where
  "last_colon s =
     (if CHR '':'' \<notin> set s then None
      else (let port = takeWhile (\<lambda>c. c \<noteq> CHR '':'') (rev s)
            in Some (take (length s - length port - 1) s, rev port)))"

text \<open>The brackets of the remaining text are checked behind the ones that delimit an IPv6 host.\<close>

definition check_brackets :: "string \<Rightarrow> string \<Rightarrow> string \<Rightarrow> string \<times> string \<Rightarrow> goerr + string \<times> string" where
  "check_brackets s left right hp =
     (if LBr \<in> set left then Inl (addr_error s (''unexpected '' @ [CHR 0x27, LBr, CHR 0x27] @ '' in address''))
      else if RBr \<in> set right then Inl (addr_error s (''unexpected '' @ [CHR 0x27, RBr, CHR 0x27] @ '' in address''))
      else Inr hp)"

definition SplitHostPort :: "string \<Rightarrow> goerr + string \<times> string" where
  "SplitHostPort s =
     (case last_colon s of
        None \<Rightarrow> Inl (addr_error s ''missing port in address'')
      | Some (before, port) \<Rightarrow>
          if hd s = LBr then
            (if RBr \<notin> set s then Inl (addr_error s (''missing '' @ [CHR 0x27, RBr, CHR 0x27] @ '' in address''))
             else (let e = length (takeWhile (\<lambda>c. c \<noteq> RBr) s) in
               if e + 1 = length s then Inl (addr_error s ''missing port in address'')
               else if e + 1 = length before then check_brackets s (tl s) (drop (e + 1) s) (take (e - 1) (tl s), port)
               else if s ! (e + 1) = CHR '':'' then Inl (addr_error s ''too many colons in address'')
               else Inl (addr_error s ''missing port in address'')))
          else if CHR '':'' \<in> set before then Inl (addr_error s ''too many colons in address'')
          else check_brackets s s s (before, port))"

definition JoinHostPort :: "string \<Rightarrow> string \<Rightarrow> string" where
  "JoinHostPort host port =
     (if CHR '':'' \<in> set host then [LBr] @ host @ [RBr] @ '':'' @ port else host @ '':'' @ port)"

lemma last_colon_join:
  assumes "CHR '':'' \<notin> set port"
  shows "last_colon (before @ CHR '':'' # port) = Some (before, port)"
proof -
  have "takeWhile (\<lambda>c. c \<noteq> CHR '':'') (rev port @ CHR '':'' # rev before) = rev port"
    using assms by (subst takeWhile_append2) auto
  then show ?thesis by (simp add: last_colon_def Let_def)
qed

text \<open>A host and a port without brackets, and a port without colons, are split as they were joined.\<close>

lemma split_join:
  assumes "CHR '':'' \<notin> set port" and "LBr \<notin> set host" "RBr \<notin> set host" "LBr \<notin> set port" "RBr \<notin> set port"
  shows "SplitHostPort (JoinHostPort host port) = Inr (host, port)"
proof (cases "CHR '':'' \<in> set host")
  case True
  have lc: "last_colon (LBr # host @ RBr # CHR '':'' # port) = Some (LBr # host @ [RBr], port)"
    using last_colon_join [OF assms(1), of "LBr # host @ [RBr]"] by simp
  have b: "LBr \<noteq> RBr" "RBr \<noteq> CHR '':''" "LBr \<noteq> CHR '':''" by (simp_all add: LBr_def RBr_def)
  have tw: "takeWhile (\<lambda>c. c \<noteq> RBr) (LBr # host @ RBr # CHR '':'' # port) = LBr # host"
  proof -
    have "takeWhile (\<lambda>c. c \<noteq> RBr) (host @ RBr # CHR '':'' # port) = host"
      using assms(3) by (subst takeWhile_append2) auto
    then show ?thesis using b by simp
  qed
  show ?thesis
    using True assms b lc tw by (simp add: JoinHostPort_def SplitHostPort_def check_brackets_def Let_def)
next
  case False
  have lc: "last_colon (host @ CHR '':'' # port) = Some (host, port)" by (rule last_colon_join [OF assms(1)])
  have "hd (host @ CHR '':'' # port) \<noteq> LBr"
    using assms(2) by (cases host) (auto simp: LBr_def)
  then show ?thesis
    using False assms lc by (simp add: JoinHostPort_def SplitHostPort_def check_brackets_def LBr_def RBr_def)
qed

end
