(* ===== verification/Crypto.thy ===== *)
theory Crypto
  imports Go_Encoding Messages "HOL-Library.List_Lexorder" "HOL-Library.Char_ord"
begin

text \<open>
  The encryption of connection parameters (\<^verbatim>\<open>pkg/shared/crypto/aes.go\<close>). AES-GCM is the argument \<open>aead\<close>:
  sealing and opening under a key and a nonce. JSON text is made and read by a \<open>codec\<close>. A nil encrypter is
  \<open>None\<close>; the other encrypters are their keys.
\<close>

record aead =
  ae_seal :: "string \<Rightarrow> string \<Rightarrow> string \<Rightarrow> string"
  ae_open :: "string \<Rightarrow> string \<Rightarrow> string \<Rightarrow> goerr + string"

type_synonym encrypter = string

definition NewEncrypter :: "string \<Rightarrow> goerr + encrypter" where
  "NewEncrypter key =
     (if length key \<noteq> 32
      then Inl (Err (''key must be exactly 32 bytes for AES-256, got '' @ itoa (int (length key))))
      else Inr key)"

definition NewEncrypterFromBase64 :: "string \<Rightarrow> goerr + encrypter" where
  "NewEncrypterFromBase64 keyB64 =
     (case b64_decode keyB64 of
        Inl e \<Rightarrow> Inl (wrap ''decode base64 key'' e)
      | Inr key \<Rightarrow> NewEncrypter key)"

text \<open>\<^verbatim>\<open>aes.NewCipher\<close> accepts three key sizes; \<^verbatim>\<open>cipher.NewGCM\<close> of such a cipher does not fail.\<close>

definition new_cipher :: "string \<Rightarrow> goerr option" where
  "new_cipher key =
     (if length key \<in> {16, 24, 32} then None
      else Some (wrap ''new cipher'' (Err (''crypto/aes: invalid key size '' @ itoa (int (length key))))))"

abbreviation NonceSize :: nat where "NonceSize \<equiv> 12"

definition EncryptJSON :: "codec \<Rightarrow> aead \<Rightarrow> goerr + string \<Rightarrow> encrypter option \<Rightarrow> gomap \<Rightarrow> goerr + gomap" where
  "EncryptJSON co ae random e data =
     (case e of
        None \<Rightarrow> Inr data
      | Some key \<Rightarrow>
          (case co_marshal co data of
             Inl err \<Rightarrow> Inl (wrap ''marshal json'' err)
           | Inr plaintext \<Rightarrow>
               (case new_cipher key of
                  Some err \<Rightarrow> Inl err
                | None \<Rightarrow>
                    (case random of
                       Inl err \<Rightarrow> Inl (wrap ''read nonce'' err)
                     | Inr nonce \<Rightarrow>
                         Inr [(''_enc'', JStr (b64_encode False True (nonce @ ae_seal ae key nonce plaintext)))]))))"

definition DecryptJSON :: "codec \<Rightarrow> aead \<Rightarrow> encrypter option \<Rightarrow> gomap \<Rightarrow> goerr + gomap" where
  "DecryptJSON co ae e data =
     (case e of
        None \<Rightarrow> Inr data
      | Some key \<Rightarrow>
          (case map_of data ''_enc'' of
             Some (JStr encVal) \<Rightarrow>
               (case b64_decode encVal of
                  Inl err \<Rightarrow> Inl (wrap ''decode base64'' err)
                | Inr ciphertext \<Rightarrow>
                    (case new_cipher key of
                       Some err \<Rightarrow> Inl err
                     | None \<Rightarrow>
                         if length ciphertext < NonceSize then Inl (Err ''ciphertext too short'')
                         else (case ae_open ae key (take NonceSize ciphertext) (drop NonceSize ciphertext) of
                             Inl err \<Rightarrow> Inl (wrap ''decrypt'' err)
                           | Inr plaintext \<Rightarrow>
                               (case co_unmarshal co plaintext of
                                  Inl err \<Rightarrow> Inl (wrap ''unmarshal json'' err)
                                | Inr result \<Rightarrow> Inr result))))
           | _ \<Rightarrow> Inr data))"

section \<open>Facts\<close>

text \<open>What is relied on of AES-GCM: what was sealed under a key and a nonce is opened with them.\<close>

definition aead_ok :: "aead \<Rightarrow> bool" where
  "aead_ok ae \<longleftrightarrow> (\<forall>key nonce plain. ae_open ae key nonce (ae_seal ae key nonce plain) = Inr plain)"

text \<open>What is relied on of \<^verbatim>\<open>encoding/json\<close>: a map that was encoded is decoded to the same map. A Go map has
  no order; as an association list it is taken in the order of its keys, at every depth. The encoder replaces
  bytes that are not UTF-8, so the assumption is about strings that are (all ASCII text, in particular).\<close>

fun key_ordered :: "jval \<Rightarrow> bool" where
  "key_ordered (JObj kvs) \<longleftrightarrow> sorted_wrt (<) (map fst kvs) \<and> list_all (\<lambda>kv. key_ordered (snd kv)) kvs"
| "key_ordered (JArr vs) \<longleftrightarrow> list_all key_ordered vs"
| "key_ordered _ \<longleftrightarrow> True"

definition codec_ok :: "codec \<Rightarrow> bool" where
  "codec_ok co \<longleftrightarrow>
     (\<forall>m s. key_ordered (JObj m) \<longrightarrow> co_marshal co m = Inr s \<longrightarrow> co_unmarshal co s = Inr m)"

text \<open>C30. Encrypted parameters decrypt to what was encrypted, with or without a key; with a key the result
  that is stored is a single text under the key \<^verbatim>\<open>_enc\<close>, so no parameter name or value is stored beside it.\<close>

theorem encrypt_roundtrip:
  assumes "aead_ok ae" and "codec_ok co" and "key_ordered (JObj data)"
    and "\<And>nonce. random = Inr nonce \<Longrightarrow> length nonce = NonceSize"
    and "EncryptJSON co ae random e data = Inr stored"
  shows "DecryptJSON co ae e stored = Inr data \<and> (e \<noteq> None \<longrightarrow> (\<exists>s. stored = [(''_enc'', JStr s)]))"
proof (cases e)
  case None
  with assms(5) show ?thesis by (simp add: EncryptJSON_def DecryptJSON_def)
next
  case (Some key)
  from assms(5) obtain plain nonce where p: "co_marshal co data = Inr plain" "new_cipher key = None" "random = Inr nonce"
    and s: "stored = [(''_enc'', JStr (b64_encode False True (nonce @ ae_seal ae key nonce plain)))]"
    by (auto simp: EncryptJSON_def Some split: sum.splits option.splits)
  have "length nonce = NonceSize" using assms(4) p(3) by blast
  moreover have "co_unmarshal co plain = Inr data" using assms(2,3) p(1) by (auto simp: codec_ok_def)
  moreover have "ae_open ae key nonce (ae_seal ae key nonce plain) = Inr plain" using assms(1) by (simp add: aead_ok_def)
  ultimately show ?thesis using p(2) by (simp add: s DecryptJSON_def Some b64_roundtrip)
qed

text \<open>Parameters stored before a key was configured are read as they are.\<close>

lemma decrypt_plain: "map_of data ''_enc'' = None \<Longrightarrow> DecryptJSON co ae e data = Inr data"
  by (simp add: DecryptJSON_def split: option.split)

definition sample_aead :: aead where
  "sample_aead = \<lparr>ae_seal = \<lambda>key nonce p. rev p, ae_open = \<lambda>key nonce c. Inr (rev c)\<rparr>"

definition sample_json :: codec where
  "sample_json =
     \<lparr>co_marshal = \<lambda>m. if m = [] then Inr ''{}''
        else if m = [(''host'', JStr ''db'')] then Inr (''{'' @ go_quote ''host'' @ '':'' @ go_quote ''db'' @ ''}'')
        else Inl (Err ''not encodable''),
      co_unmarshal = \<lambda>s. if s = ''{}'' then Inr []
        else if s = ''{'' @ go_quote ''host'' @ '':'' @ go_quote ''db'' @ ''}'' then Inr [(''host'', JStr ''db'')]
        else Inl (Err ''unexpected end of JSON input''),
      co_struct = Inr\<rparr>"

lemma sample_aead_ok: "aead_ok sample_aead"
  by (simp add: aead_ok_def sample_aead_def)

lemma sample_json_ok: "codec_ok sample_json"
  by (auto simp: codec_ok_def sample_json_def go_quote_def split: if_splits)

lemma encrypt_roundtrip_witness:
  "\<exists>stored. EncryptJSON sample_json sample_aead (Inr (replicate 12 CHR ''n'')) (Some (replicate 32 CHR ''k''))
      [(''host'', JStr ''db'')] = Inr stored
    \<and> DecryptJSON sample_json sample_aead (Some (replicate 32 CHR ''k'')) stored = Inr [(''host'', JStr ''db'')]"
proof -
  let ?key = "replicate 32 (CHR ''k'')" and ?n = "replicate 12 (CHR ''n'')"
  obtain stored where s: "EncryptJSON sample_json sample_aead (Inr ?n) (Some ?key) [(''host'', JStr ''db'')] = Inr stored"
    by (simp add: EncryptJSON_def sample_json_def new_cipher_def)
  have "key_ordered (JObj [(''host'', JStr ''db'')])" by simp
  from encrypt_roundtrip [OF sample_aead_ok sample_json_ok this _ s] s show ?thesis by auto
qed

end
