(* ===== verification/MetaService.thy ===== *)
theory MetaService
  imports MetaStore Crypto
begin

text \<open>
  The core of Meta Service (\<^verbatim>\<open>services/meta-service/internal/app/app.go\<close>) and its gRPC handlers
  (\<^verbatim>\<open>internal/server/grpc.go\<close>) over the repository. What the service calls outside the repository is the
  record \<open>meta_env\<close>: the identifiers of the database, the codec and the cipher with the encrypter (\<open>None\<close> for a
  nil one), the random bytes, bcrypt, the address parser of \<^verbatim>\<open>net/mail\<close> and the schema call of Connection
  Manager. An identifier is printed as its canonical text.
\<close>

record meta_env =
  me_pg :: pg_env
  me_codec :: codec
  me_aead :: aead
  me_key :: "encrypter option"
  me_nonce :: "goerr + string"
  me_salt :: "goerr + string"
  me_bcrypt :: "string \<Rightarrow> goerr + string"
  me_compare :: "string \<Rightarrow> string \<Rightarrow> goerr option"
  me_address :: "string \<Rightarrow> goerr + string"
  me_schema :: "string \<Rightarrow> string \<Rightarrow> gomap \<Rightarrow> goerr + table_info list"
  me_now :: int

abbreviation encrypt :: "meta_env \<Rightarrow> gomap \<Rightarrow> goerr + gomap" where
  "encrypt env \<equiv> EncryptJSON (me_codec env) (me_aead env) (me_nonce env) (me_key env)"

abbreviation decrypt :: "meta_env \<Rightarrow> gomap \<Rightarrow> goerr + gomap" where
  "decrypt env \<equiv> DecryptJSON (me_codec env) (me_aead env) (me_key env)"

section \<open>Schemas\<close>

definition fetch_schema ::
  "meta_env \<Rightarrow> string \<Rightarrow> meta_connection \<Rightarrow> meta_db \<Rightarrow> (goerr + schema_snapshot) \<times> meta_db" where
  "fetch_schema env connectionID conn db =
     (case decrypt env (mc_params conn) of
        Inl e \<Rightarrow> (Inl (wrap ''decrypt params'' e), db)
      | Inr plain \<Rightarrow>
          (case co_struct (me_codec env) plain of
             Inl e \<Rightarrow> (Inl (wrap ''marshal params'' e), db)
           | Inr params \<Rightarrow>
               (case me_schema env connectionID (mc_adapter conn) params of
                  Inl e \<Rightarrow> (Inl (wrap ''fetch schema from cm'' e), db)
                | Inr tables \<Rightarrow>
                    (case repo_SaveSchemaSnapshot (me_pg env) connectionID tables db of
                       (Some e, db') \<Rightarrow> (Inl (wrap ''save schema snapshot'' e), db')
                     | (None, db') \<Rightarrow>
                         (Inr \<lparr>ss_conn = connectionID, ss_tables = tables, ss_captured = me_now env\<rparr>, db')))))"

definition svc_GetSchema :: "meta_env \<Rightarrow> string \<Rightarrow> string \<Rightarrow> meta_db \<Rightarrow> (goerr + schema_snapshot) \<times> meta_db" where
  "svc_GetSchema env connectionID tenantID db =
     (case repo_GetSchemaSnapshot (me_pg env) connectionID tenantID db of
        (Inl e, db1) \<Rightarrow> (Inl (wrap ''get schema snapshot'' e), db1)
      | (Inr (Some snap), db1) \<Rightarrow> (Inr snap, db1)
      | (Inr None, db1) \<Rightarrow>
          (case repo_GetConnection (me_pg env) connectionID tenantID db1 of
             (Inl e, db2) \<Rightarrow> (Inl (wrap ''get connection'' e), db2)
           | (Inr None, db2) \<Rightarrow> (Inl (Err (''connection not found: '' @ connectionID)), db2)
           | (Inr (Some conn), db2) \<Rightarrow> fetch_schema env connectionID conn db2))"

section \<open>Workspaces and connections\<close>

definition default_limit :: "int \<Rightarrow> int" where
  "default_limit limit = (if limit \<le> 0 then 20 else limit)"

definition svc_ListWorkspaces :: "meta_env \<Rightarrow> string \<Rightarrow> int \<Rightarrow> int \<Rightarrow> meta_db \<Rightarrow> (goerr + workspace list) \<times> meta_db" where
  "svc_ListWorkspaces env userID limit offset db =
     repo_ListWorkspaces (me_pg env) userID (default_limit limit) offset db"

text \<open>The creation time set here is not written: the database has its own.\<close>

definition svc_CreateConnection :: "meta_env \<Rightarrow> meta_connection \<Rightarrow> meta_db \<Rightarrow> (goerr + uuid) \<times> meta_db" where
  "svc_CreateConnection env c db =
     (let c1 = (if mc_created c = 0 then c\<lparr>mc_created := me_now env\<rparr> else c) in
      case encrypt env (mc_params c1) of
        Inl e \<Rightarrow> (Inl (wrap ''encrypt params'' e), db)
      | Inr enc \<Rightarrow>
          (case repo_CreateConnection (me_pg env) (c1\<lparr>mc_params := enc\<rparr>) db of
             (Inl e, db') \<Rightarrow> (Inl (wrap ''create connection'' e), db')
           | (Inr i, db') \<Rightarrow> (Inr i, db')))"

definition svc_GetConnection ::
  "meta_env \<Rightarrow> string \<Rightarrow> string \<Rightarrow> meta_db \<Rightarrow> (goerr + meta_connection option) \<times> meta_db" where
  "svc_GetConnection env connectionID tenantID db =
     (case repo_GetConnection (me_pg env) connectionID tenantID db of
        (Inl e, db') \<Rightarrow> (Inl (wrap ''get connection'' e), db')
      | (Inr None, db') \<Rightarrow> (Inr None, db')
      | (Inr (Some c), db') \<Rightarrow>
          (case decrypt env (mc_params c) of
             Inl e \<Rightarrow> (Inl (wrap ''decrypt params'' e), db')
           | Inr params \<Rightarrow> (Inr (Some (c\<lparr>mc_params := params\<rparr>)), db')))"

fun decrypt_all :: "meta_env \<Rightarrow> meta_connection list \<Rightarrow> goerr + meta_connection list" where
  "decrypt_all env [] = Inr []"
| "decrypt_all env (c # cs) =
     (case decrypt env (mc_params c) of
        Inl e \<Rightarrow> Inl (wrap (''decrypt params for connection '' @ mc_id c) e)
      | Inr params \<Rightarrow>
          (case decrypt_all env cs of
             Inl e \<Rightarrow> Inl e
           | Inr ds \<Rightarrow> Inr (c\<lparr>mc_params := params\<rparr> # ds)))"

definition svc_ListConnections ::
  "meta_env \<Rightarrow> string \<Rightarrow> string \<Rightarrow> int \<Rightarrow> int \<Rightarrow> meta_db \<Rightarrow> (goerr + meta_connection list) \<times> meta_db" where
  "svc_ListConnections env userID workspaceID limit offset db =
     (case repo_ListConnections (me_pg env) userID workspaceID (default_limit limit) offset db of
        (Inl e, db') \<Rightarrow> (Inl e, db')
      | (Inr cs, db') \<Rightarrow> (decrypt_all env cs, db'))"

definition svc_DeleteConnection :: "meta_env \<Rightarrow> string \<Rightarrow> string \<Rightarrow> meta_db \<Rightarrow> goerr option \<times> meta_db" where
  "svc_DeleteConnection env connectionID tenantID db =
     (case repo_DeleteConnection (me_pg env) connectionID tenantID db of
        (Some e, db') \<Rightarrow> (Some (wrap ''delete connection'' e), db')
      | (None, db') \<Rightarrow> (None, db'))"

section \<open>Plugins\<close>

definition svc_RegisterPlugin :: "meta_env \<Rightarrow> plugin_definition \<Rightarrow> meta_db \<Rightarrow> (goerr + uuid) \<times> meta_db" where
  "svc_RegisterPlugin env p db =
     (if pd_type p = [] \<or> pd_name p = [] \<or> pd_version p = []
      then (Inl (Err ''plugin_type, name, and version are required''), db)
      else (let p1 = (if pd_protocol p = [] then p\<lparr>pd_protocol := ''grpc''\<rparr> else p) in
        if pd_protocol p1 \<noteq> ''grpc'' then (Inl (Err (''unsupported plugin protocol '' @ go_quote (pd_protocol p1))), db)
        else (case SplitHostPort (pd_endpoint p1) of
            Inl e \<Rightarrow> (Inl (wrap ''plugin endpoint must be host:port'' e), db)
          | Inr hp \<Rightarrow>
              if \<not> pd_global p1 \<and> trim_space (pd_tenant p1) = []
              then (Inl (Err ''tenant_id is required for a non-global plugin''), db)
              else (case repo_RegisterPlugin (me_pg env) (p1\<lparr>pd_status := ''validated'', pd_created := me_now env\<rparr>) db of
                  (Inl e, db') \<Rightarrow> (Inl (wrap ''register plugin'' e), db')
                | (Inr i, db') \<Rightarrow> (Inr i, db')))))"

section \<open>Users\<close>

definition normalizeEmail :: "meta_env \<Rightarrow> string \<Rightarrow> goerr + string" where
  "normalizeEmail env raw =
     (let value = to_lower (trim_space raw) in
      case me_address env value of
        Inl e \<Rightarrow> Inl (Err ''invalid email address'')
      | Inr address \<Rightarrow> if address \<noteq> value then Inl (Err ''invalid email address'') else Inr value)"

definition generatePasswordSalt :: "meta_env \<Rightarrow> goerr + string" where
  "generatePasswordSalt env =
     (case me_salt env of Inl e \<Rightarrow> Inl e | Inr buf \<Rightarrow> Inr (b64_encode True False buf))"

definition hashPasswordInput :: "string \<Rightarrow> string \<Rightarrow> string" where
  "hashPasswordInput password salt = (if salt = [] then password else password @ '':'' @ salt)"

text \<open>The role asked for is replaced by \<^verbatim>\<open>user\<close>.\<close>

definition svc_RegisterUser ::
  "meta_env \<Rightarrow> string \<Rightarrow> string \<Rightarrow> string \<Rightarrow> meta_db \<Rightarrow> (goerr + uuid) \<times> meta_db" where
  "svc_RegisterUser env email password role db =
     (case normalizeEmail env email of
        Inl e \<Rightarrow> (Inl e, db)
      | Inr mail \<Rightarrow>
          if length password < 12 \<or> 64 < length password
          then (Inl (Err ''password must be between 12 and 64 characters''), db)
          else (case generatePasswordSalt env of
              Inl e \<Rightarrow> (Inl (wrap ''generate password salt'' e), db)
            | Inr salt \<Rightarrow>
                (case me_bcrypt env (hashPasswordInput password salt) of
                   Inl e \<Rightarrow> (Inl (wrap ''hash password'' e), db)
                 | Inr hash \<Rightarrow>
                     (case repo_CreateUser (me_pg env) mail hash salt ''user'' db of
                        (Inl e, db1) \<Rightarrow> (Inl e, db1)
                      | (Inr i, db1) \<Rightarrow>
                          (case repo_CreateWorkspace (me_pg env) i i ''Default Workspace'' db1 of
                             (Inl e, db2) \<Rightarrow> (Inl (wrap ''create default workspace'' e), db2)
                           | (Inr w, db2) \<Rightarrow> (Inr i, db2))))))"

definition svc_LoginUser :: "meta_env \<Rightarrow> string \<Rightarrow> string \<Rightarrow> meta_db \<Rightarrow> (goerr + user) \<times> meta_db" where
  "svc_LoginUser env email password db =
     (case normalizeEmail env email of
        Inl e \<Rightarrow> (Inl (Err ''invalid credentials''), db)
      | Inr mail \<Rightarrow>
          (case repo_GetUserByEmail mail db of
             (Inl e, db') \<Rightarrow> (Inl (wrap ''find user'' e), db')
           | (Inr None, db') \<Rightarrow> (Inl (Err ''invalid credentials''), db')
           | (Inr (Some u), db') \<Rightarrow>
               (case me_compare env (us_hash u) (hashPasswordInput password (us_salt u)) of
                  Some e \<Rightarrow> (Inl (Err ''invalid credentials''), db')
                | None \<Rightarrow> (Inr u, db'))))"

section \<open>Agents\<close>

definition svc_CreateAgent :: "meta_env \<Rightarrow> uuid \<Rightarrow> string \<Rightarrow> meta_db \<Rightarrow> (goerr + agent option) \<times> meta_db" where
  "svc_CreateAgent env userID name db =
     (case repo_CreateAgent (me_pg env) userID name db of
        (Inl e, db') \<Rightarrow> (Inl (wrap ''create agent'' e), db')
      | (Inr i, db') \<Rightarrow> repo_GetAgent (me_pg env) i db')"

definition svc_ListAgents :: "meta_env \<Rightarrow> string \<Rightarrow> meta_db \<Rightarrow> (goerr + agent list) \<times> meta_db" where
  "svc_ListAgents env = repo_ListAgentsByUser (me_pg env)"

definition svc_GetUserByID :: "meta_env \<Rightarrow> string \<Rightarrow> meta_db \<Rightarrow> (goerr + user option) \<times> meta_db" where
  "svc_GetUserByID env = repo_GetUserByID (me_pg env)"

definition svc_UpdateAgentTokenJTI :: "meta_env \<Rightarrow> string \<Rightarrow> string \<Rightarrow> meta_db \<Rightarrow> goerr option \<times> meta_db" where
  "svc_UpdateAgentTokenJTI env = repo_UpdateAgentTokenJTI (me_pg env)"

section \<open>gRPC handlers\<close>

record proto_connection =
  pn_id :: uuid
  pn_workspace :: string
  pn_tenant :: string
  pn_name :: string
  pn_adapter :: string
  pn_params :: "gomap option"
  pn_created :: int

record list_meta =
  lm_total :: "32 word"
  lm_limit :: "32 word"
  lm_offset :: "32 word"

definition toProtoConnection :: "meta_env \<Rightarrow> meta_connection option \<Rightarrow> proto_connection option" where
  "toProtoConnection env c =
     map_option (\<lambda>c. \<lparr>pn_id = mc_id c, pn_workspace = mc_workspace c, pn_tenant = mc_tenant c, pn_name = mc_name c,
       pn_adapter = mc_adapter c,
       pn_params = (case co_struct (me_codec env) (mc_params c) of Inl e \<Rightarrow> None | Inr m \<Rightarrow> Some m),
       pn_created = mc_created c\<rparr>) c"

definition required :: "string \<Rightarrow> string \<Rightarrow> bool" where
  "required connectionID tenantID \<longleftrightarrow> trim_space connectionID \<noteq> [] \<and> trim_space tenantID \<noteq> []"

abbreviation missing_ids :: rpc_error where
  "missing_ids \<equiv> Status InvalidArgument ''connection_id and tenant_id are required''"

definition grpc_GetSchema ::
  "meta_env \<Rightarrow> string \<Rightarrow> string \<Rightarrow> meta_db \<Rightarrow> (rpc_error + string \<times> table_info list) \<times> meta_db" where
  "grpc_GetSchema env connectionID tenantID db =
     (if \<not> required connectionID tenantID then (Inl missing_ids, db)
      else (case svc_GetSchema env connectionID tenantID db of
          (Inl e, db') \<Rightarrow> (Inl (Plain e), db')
        | (Inr snap, db') \<Rightarrow> (Inr (ss_conn snap, ss_tables snap), db')))"

definition pagination :: "(32 word \<times> 32 word) option \<Rightarrow> 32 word \<times> 32 word" where
  "pagination p = (case p of None \<Rightarrow> (20, 0) | Some lo \<Rightarrow> lo)"

definition grpc_ListWorkspaces ::
  "meta_env \<Rightarrow> string \<Rightarrow> (32 word \<times> 32 word) option \<Rightarrow> meta_db \<Rightarrow> (rpc_error + workspace list \<times> list_meta) \<times> meta_db" where
  "grpc_ListWorkspaces env tenantID page db =
     (case pagination page of (limit, offset) \<Rightarrow>
        (case svc_ListWorkspaces env tenantID (sint limit) (sint offset) db of
           (Inl e, db') \<Rightarrow> (Inl (Plain e), db')
         | (Inr ws, db') \<Rightarrow>
             (Inr (ws, \<lparr>lm_total = to_int32 (int (length ws)), lm_limit = limit, lm_offset = offset\<rparr>), db')))"

record create_request =
  cr_workspace :: string
  cr_tenant :: string
  cr_name :: string
  cr_adapter :: string
  cr_params :: gomap

definition grpc_CreateConnection ::
  "meta_env \<Rightarrow> create_request \<Rightarrow> meta_db \<Rightarrow> (rpc_error + proto_connection option) \<times> meta_db" where
  "grpc_CreateConnection env req db =
     (case svc_CreateConnection env \<lparr>mc_id = [], mc_workspace = cr_workspace req, mc_user = cr_tenant req,
          mc_tenant = cr_tenant req, mc_name = cr_name req, mc_adapter = cr_adapter req, mc_params = cr_params req,
          mc_created = 0\<rparr> db of
        (Inl e, db') \<Rightarrow> (Inl (Plain e), db')
      | (Inr i, db') \<Rightarrow>
          (case svc_GetConnection env i (cr_tenant req) db' of
             (Inl e, db'') \<Rightarrow> (Inl (Plain e), db'')
           | (Inr c, db'') \<Rightarrow> (Inr (toProtoConnection env c), db'')))"

definition grpc_GetConnection ::
  "meta_env \<Rightarrow> string \<Rightarrow> string \<Rightarrow> meta_db \<Rightarrow> (rpc_error + proto_connection option) \<times> meta_db" where
  "grpc_GetConnection env connectionID tenantID db =
     (if \<not> required connectionID tenantID then (Inl missing_ids, db)
      else (case svc_GetConnection env connectionID tenantID db of
          (Inl e, db') \<Rightarrow> (Inl (Plain e), db')
        | (Inr c, db') \<Rightarrow> (Inr (toProtoConnection env c), db')))"

definition grpc_ListConnections ::
  "meta_env \<Rightarrow> string \<Rightarrow> string \<Rightarrow> (32 word \<times> 32 word) option \<Rightarrow> meta_db \<Rightarrow>
   (rpc_error + proto_connection option list \<times> list_meta) \<times> meta_db" where
  "grpc_ListConnections env tenantID workspaceID page db =
     (case pagination page of (limit, offset) \<Rightarrow>
        (case svc_ListConnections env tenantID workspaceID (sint limit) (sint offset) db of
           (Inl e, db') \<Rightarrow> (Inl (Plain e), db')
         | (Inr cs, db') \<Rightarrow>
             (Inr (map (\<lambda>c. toProtoConnection env (Some c)) cs,
                \<lparr>lm_total = to_int32 (int (length cs)), lm_limit = limit, lm_offset = offset\<rparr>), db')))"

definition grpc_DeleteConnection :: "meta_env \<Rightarrow> string \<Rightarrow> string \<Rightarrow> meta_db \<Rightarrow> (rpc_error + bool) \<times> meta_db" where
  "grpc_DeleteConnection env connectionID tenantID db =
     (if \<not> required connectionID tenantID then (Inl missing_ids, db)
      else (case svc_DeleteConnection env connectionID tenantID db of
          (Some e, db') \<Rightarrow> (Inl (Plain e), db')
        | (None, db') \<Rightarrow> (Inr True, db')))"

record plugin_request =
  pq_type :: string
  pq_name :: string
  pq_version :: string
  pq_endpoint :: string
  pq_protocol :: string
  pq_tenant :: string
  pq_global :: bool

definition grpc_RegisterPlugin ::
  "meta_env \<Rightarrow> plugin_request \<Rightarrow> meta_db \<Rightarrow> (rpc_error + uuid \<times> string) \<times> meta_db" where
  "grpc_RegisterPlugin env req db =
     (case svc_RegisterPlugin env \<lparr>pd_id = [], pd_type = pq_type req, pd_name = pq_name req, pd_version = pq_version req,
          pd_author = [], pd_endpoint = pq_endpoint req, pd_protocol = pq_protocol req, pd_status = [],
          pd_tenant = pq_tenant req, pd_global = pq_global req, pd_heartbeat = None, pd_error = [], pd_created = 0\<rparr> db of
        (Inl e, db') \<Rightarrow> (Inl (Plain e), db')
      | (Inr i, db') \<Rightarrow> (Inr (i, ''validated''), db'))"

end
