(* ===== verification/MetaHttp.thy ===== *)
theory MetaHttp
  imports MetaService
begin

text \<open>
  The REST interface of Meta Service (\<^verbatim>\<open>services/meta-service/internal/server/http.go\<close>). A request is its
  route, with the path parameter and the decoded body or the decoding error, and the pairs of its query.
\<close>

type_synonym query = "(string \<times> string) list"

text \<open>\<^verbatim>\<open>Values.Get\<close> and \<^verbatim>\<open>Values.Set\<close>.\<close>

definition q_get :: "query \<Rightarrow> string \<Rightarrow> string" where
  "q_get q k = (case map_of q k of Some v \<Rightarrow> v | None \<Rightarrow> [])"

definition q_set :: "string \<Rightarrow> string \<Rightarrow> query \<Rightarrow> query" where
  "q_set k v q = (k, v) # filter (\<lambda>kv. fst kv \<noteq> k) q"

datatype meta_route =
    RHealthz
  | RSchema
  | RWorkspaces
  | RCreateConnection "goerr + create_request"
  | RListConnections
  | RGetConnection string
  | RDeleteConnection string
  | RRegisterPlugin "goerr + plugin_request"
  | RRegister "goerr + string \<times> string"
  | RLogin "goerr + string \<times> string"
  | RMe
  | RCreateAgent "goerr + string \<times> string"
  | RListAgents

record meta_request =
  mr_route :: meta_route
  mr_query :: query

datatype meta_body =
    MbOk
  | MbNothing
  | MbSchema "string \<times> table_info list"
  | MbWorkspaces "workspace list \<times> list_meta"
  | MbConnection "proto_connection option"
  | MbConnections "proto_connection option list \<times> list_meta"
  | MbDeleted bool
  | MbPlugin "uuid \<times> string"
  | MbUserId uuid
  | MbUser "uuid \<times> string \<times> string"
  | MbAgent "uuid \<times> uuid \<times> string \<times> string"
  | MbAgents "(uuid \<times> uuid \<times> string \<times> string) list"

type_synonym meta_reply = "(rpc_error, meta_body) reply"

definition answer :: "int \<Rightarrow> ('a \<Rightarrow> meta_body) \<Rightarrow> (rpc_error + 'a) \<times> meta_db \<Rightarrow> meta_reply \<times> meta_db" where
  "answer code body r =
     (case r of
        (Inl e, db) \<Rightarrow> (HttpError 500 e, db)
      | (Inr x, db) \<Rightarrow> (HttpJson code (body x), db))"

definition page_params :: "query \<Rightarrow> (32 word \<times> 32 word) option" where
  "page_params q =
     (let limit = fst (atoi (q_get q ''limit'')); offset = fst (atoi (q_get q ''offset'')) in
      Some (to_int32 (default_limit limit), to_int32 offset))"

definition user_param :: "query \<Rightarrow> string" where
  "user_param q = (if q_get q ''user_id'' = [] then q_get q ''tenant_id'' else q_get q ''user_id'')"

definition user_fields :: "user \<Rightarrow> uuid \<times> string \<times> string" where
  "user_fields u = (us_id u, us_email u, us_role u)"

definition agent_fields :: "agent \<Rightarrow> uuid \<times> uuid \<times> string \<times> string" where
  "agent_fields a = (ag_id a, ag_user a, ag_name a, ag_status a)"

text \<open>The owner of a new agent: the one named in the body, or else in the query.\<close>

definition agent_owner :: "string \<Rightarrow> query \<Rightarrow> string" where
  "agent_owner body_user q = (if body_user = [] then q_get q ''user_id'' else body_user)"

text \<open>Without an agent behind the new identifier the handler dereferences nil; the recoverer answers 500.\<close>

definition serve_create_agent :: "meta_env \<Rightarrow> string \<Rightarrow> string \<Rightarrow> query \<Rightarrow> meta_db \<Rightarrow> meta_reply \<times> meta_db" where
  "serve_create_agent env name body_user q db =
     (case pg_parse (me_pg env) (agent_owner body_user q) of
        Inl e \<Rightarrow> (HttpError 400 (Plain e), db)
      | Inr uid \<Rightarrow>
          (case svc_CreateAgent env uid name db of
             (Inl e, db') \<Rightarrow> (HttpError 500 (Plain e), db')
           | (Inr None, db') \<Rightarrow> (HttpJson 500 MbNothing, db')
           | (Inr (Some a), db') \<Rightarrow> (HttpJson 201 (MbAgent (agent_fields a)), db')))"

definition serve_get_connection :: "meta_env \<Rightarrow> string \<Rightarrow> query \<Rightarrow> meta_db \<Rightarrow> meta_reply \<times> meta_db" where
  "serve_get_connection env i q db =
     (case grpc_GetConnection env i (q_get q ''tenant_id'') db of
        (Inl e, db') \<Rightarrow> (HttpError 500 e, db')
      | (Inr None, db') \<Rightarrow> (HttpError 404 (Plain (Err ''not found'')), db')
      | (Inr (Some c), db') \<Rightarrow> (HttpJson 200 (MbConnection (Some c)), db'))"

definition serve_me :: "meta_env \<Rightarrow> query \<Rightarrow> meta_db \<Rightarrow> meta_reply \<times> meta_db" where
  "serve_me env q db =
     (let i = q_get q ''user_id'' in
      if i = [] then (HttpError 400 (Plain (Err ''missing user_id'')), db)
      else (case svc_GetUserByID env i db of
          (Inl e, db') \<Rightarrow> (HttpError 500 (Plain e), db')
        | (Inr None, db') \<Rightarrow> (HttpError 404 (Plain (Err ''not found'')), db')
        | (Inr (Some u), db') \<Rightarrow> (HttpJson 200 (MbUser (user_fields u)), db')))"

definition serve_list_agents :: "meta_env \<Rightarrow> query \<Rightarrow> meta_db \<Rightarrow> meta_reply \<times> meta_db" where
  "serve_list_agents env q db =
     (let u = q_get q ''user_id'' in
      if u = [] then (HttpError 400 (Plain (Err ''missing user_id'')), db)
      else (case svc_ListAgents env u db of
          (Inl e, db') \<Rightarrow> (HttpError 500 (Plain e), db')
        | (Inr as, db') \<Rightarrow> (HttpJson 200 (MbAgents (map agent_fields as)), db')))"

definition meta_serve :: "meta_env \<Rightarrow> meta_request \<Rightarrow> meta_db \<Rightarrow> meta_reply \<times> meta_db" where
  "meta_serve env req db =
     (let q = mr_query req in
      case mr_route req of
        RHealthz \<Rightarrow> (HttpJson 200 MbOk, db)
      | RSchema \<Rightarrow> answer 200 MbSchema (grpc_GetSchema env (q_get q ''connection_id'') (q_get q ''tenant_id'') db)
      | RWorkspaces \<Rightarrow> answer 200 MbWorkspaces (grpc_ListWorkspaces env (user_param q) (page_params q) db)
      | RCreateConnection (Inl e) \<Rightarrow> (HttpError 400 (Plain e), db)
      | RCreateConnection (Inr c) \<Rightarrow> answer 201 MbConnection (grpc_CreateConnection env c db)
      | RListConnections \<Rightarrow>
          answer 200 MbConnections (grpc_ListConnections env (user_param q) (q_get q ''workspace_id'') (page_params q) db)
      | RGetConnection i \<Rightarrow> serve_get_connection env i q db
      | RDeleteConnection i \<Rightarrow> answer 200 MbDeleted (grpc_DeleteConnection env i (q_get q ''tenant_id'') db)
      | RRegisterPlugin (Inl e) \<Rightarrow> (HttpError 400 (Plain e), db)
      | RRegisterPlugin (Inr p) \<Rightarrow> answer 200 MbPlugin (grpc_RegisterPlugin env p db)
      | RRegister (Inl e) \<Rightarrow> (HttpError 400 (Plain e), db)
      | RRegister (Inr (email, password)) \<Rightarrow>
          (case svc_RegisterUser env email password ''user'' db of
             (Inl e, db') \<Rightarrow> (HttpError 500 (Plain e), db')
           | (Inr i, db') \<Rightarrow> (HttpJson 201 (MbUserId i), db'))
      | RLogin (Inl e) \<Rightarrow> (HttpError 400 (Plain e), db)
      | RLogin (Inr (email, password)) \<Rightarrow>
          (case svc_LoginUser env email password db of
             (Inl e, db') \<Rightarrow> (HttpError 401 (Plain e), db')
           | (Inr u, db') \<Rightarrow> (HttpJson 200 (MbUser (user_fields u)), db'))
      | RMe \<Rightarrow> serve_me env q db
      | RCreateAgent (Inl e) \<Rightarrow> (HttpError 400 (Plain e), db)
      | RCreateAgent (Inr (name, body_user)) \<Rightarrow> serve_create_agent env name body_user q db
      | RListAgents \<Rightarrow> serve_list_agents env q db)"

lemma map_of_other: "k' \<noteq> k \<Longrightarrow> map_of (filter (\<lambda>kv. fst kv \<noteq> k) q) k' = map_of q k'"
  by (induction q) auto

lemma q_get_set [simp]: "q_get (q_set k v q) k' = (if k' = k then v else q_get q k')"
  by (simp add: q_get_def q_set_def map_of_other)

end
