(* ===== verification/Jwt.thy ===== *)
theory Jwt
  imports Go_Encoding
begin

text \<open>
  The token manager (\<^verbatim>\<open>pkg/shared/jwt/jwt.go\<close>). Signing and parsing are the library's: the record \<open>jwt_lib\<close>. A
  parser is given its options, the key function and the time. Times are nanoseconds; a numeric date of a
  token counts seconds. \<open>uuid.NewRandom\<close> gives the argument \<open>fresh\<close>.
\<close>

record claims =
  cl_subject :: string
  cl_issuer :: string
  cl_audience :: "string list"
  cl_expires :: "int option"
  cl_issued :: "int option"
  cl_id :: string
  cl_user :: string
  cl_email :: string
  cl_type :: string

datatype signing_method = HMAC string | OtherMethod string

record parser_options =
  po_methods :: "string list"
  po_issuer :: string
  po_audience :: string
  po_expiration_required :: bool
  po_issued_at :: bool

record jwt_lib =
  jl_sign :: "signing_method \<Rightarrow> string \<Rightarrow> claims \<Rightarrow> goerr + string"
  jl_parse :: "parser_options \<Rightarrow> (signing_method \<Rightarrow> goerr + string) \<Rightarrow> int \<Rightarrow> string \<Rightarrow> goerr + claims \<times> bool"

record jwt_manager =
  jm_secret :: string
  jm_issuer :: string
  jm_expiry :: int

definition NewNumericDate :: "int \<Rightarrow> int" where
  "NewNumericDate t = t div 1000000000"

definition user_claims :: "jwt_manager \<Rightarrow> int \<Rightarrow> string \<Rightarrow> string \<Rightarrow> string \<Rightarrow> claims" where
  "user_claims m now fresh userID email =
     \<lparr>cl_subject = userID, cl_issuer = jm_issuer m, cl_audience = [''n0-platform''],
      cl_expires = Some (NewNumericDate (now + jm_expiry m)), cl_issued = Some (NewNumericDate now), cl_id = fresh,
      cl_user = userID, cl_email = email, cl_type = ''user''\<rparr>"

definition agent_claims :: "jwt_manager \<Rightarrow> int \<Rightarrow> string \<Rightarrow> string \<Rightarrow> string \<Rightarrow> claims" where
  "agent_claims m now fresh agentID userID =
     \<lparr>cl_subject = agentID, cl_issuer = jm_issuer m, cl_audience = [''n0-platform''],
      cl_expires = Some (NewNumericDate (now + jm_expiry m)), cl_issued = Some (NewNumericDate now), cl_id = fresh,
      cl_user = userID, cl_email = [], cl_type = ''agent''\<rparr>"

definition GenerateUserToken :: "jwt_lib \<Rightarrow> jwt_manager \<Rightarrow> int \<Rightarrow> string \<Rightarrow> string \<Rightarrow> string \<Rightarrow> goerr + string" where
  "GenerateUserToken lib m now fresh userID email =
     jl_sign lib (HMAC ''HS256'') (jm_secret m) (user_claims m now fresh userID email)"

definition GenerateAgentToken :: "jwt_lib \<Rightarrow> jwt_manager \<Rightarrow> int \<Rightarrow> string \<Rightarrow> string \<Rightarrow> string \<Rightarrow> goerr + string" where
  "GenerateAgentToken lib m now fresh agentID userID =
     jl_sign lib (HMAC ''HS256'') (jm_secret m) (agent_claims m now fresh agentID userID)"

fun keyfunc :: "jwt_manager \<Rightarrow> signing_method \<Rightarrow> goerr + string" where
  "keyfunc m (HMAC alg) = Inr (jm_secret m)"
| "keyfunc m (OtherMethod alg) = Inl (Err (''unexpected signing method: '' @ alg))"

definition verify_options :: "jwt_manager \<Rightarrow> parser_options" where
  "verify_options m = \<lparr>po_methods = [''HS256''], po_issuer = jm_issuer m, po_audience = ''n0-platform'',
     po_expiration_required = True, po_issued_at = True\<rparr>"

definition Verify :: "jwt_lib \<Rightarrow> jwt_manager \<Rightarrow> int \<Rightarrow> string \<Rightarrow> goerr + claims" where
  "Verify lib m now tok =
     (case jl_parse lib (verify_options m) (keyfunc m) now tok of
        Inl e \<Rightarrow> Inl (wrap ''parse token'' e)
      | Inr (c, valid) \<Rightarrow>
          if \<not> valid then Inl (Err ''invalid token'')
          else if cl_user c = [] \<or> cl_type c \<noteq> ''user'' \<and> cl_type c \<noteq> ''agent'' then Inl (Err ''invalid token claims'')
          else Inr c)"

definition ConstantTimeCompare :: "string \<Rightarrow> string \<Rightarrow> bool" where
  "ConstantTimeCompare a b \<longleftrightarrow> a = b"

section \<open>Facts\<close>

text \<open>What is relied on of the library: the validators it documents for the options, and that it accepts what it
  signed under the same method and key while the validators do.\<close>

definition claims_valid :: "parser_options \<Rightarrow> int \<Rightarrow> claims \<Rightarrow> bool" where
  "claims_valid po now c \<longleftrightarrow>
     cl_issuer c = po_issuer po \<and> po_audience po \<in> set (cl_audience c)
     \<and> (case cl_expires c of None \<Rightarrow> \<not> po_expiration_required po | Some t \<Rightarrow> now < t * 1000000000)
     \<and> (po_issued_at po \<longrightarrow> (case cl_issued c of None \<Rightarrow> True | Some t \<Rightarrow> t * 1000000000 \<le> now))"

definition jwt_ok :: "jwt_lib \<Rightarrow> bool" where
  "jwt_ok lib \<longleftrightarrow>
     (\<forall>po key now tok c. jl_parse lib po key now tok = Inr (c, True) \<longrightarrow> claims_valid po now c)
     \<and> (\<forall>po key now tok alg secret c. jl_sign lib (HMAC alg) secret c = Inr tok \<longrightarrow> alg \<in> set (po_methods po) \<longrightarrow>
          key (HMAC alg) = Inr secret \<longrightarrow> claims_valid po now c \<longrightarrow> jl_parse lib po key now tok = Inr (c, True))"

lemma accepts_signed:
  assumes "jwt_ok lib"
  shows "jl_sign lib (HMAC alg) secret c = Inr tok \<Longrightarrow> alg \<in> set (po_methods po) \<Longrightarrow> key (HMAC alg) = Inr secret
    \<Longrightarrow> claims_valid po now c \<Longrightarrow> jl_parse lib po key now tok = Inr (c, True)"
  using assms unfolding jwt_ok_def by blast

text \<open>C31. A token the manager issued to a user is accepted with the user's claims from the time it was issued to its
  expiry; and whatever token is accepted names a user, is of one of the two types, comes from this issuer
  for this platform, and has not expired.\<close>

theorem token_roundtrip:
  assumes "jwt_ok lib"
  shows "(GenerateUserToken lib m now fresh userID email = Inr tok \<and> userID \<noteq> [] \<and> now \<le> t
        \<and> t < NewNumericDate (now + jm_expiry m) * 1000000000
      \<longrightarrow> Verify lib m t tok = Inr (user_claims m now fresh userID email))
    \<and> (Verify lib m t tok = Inr c \<longrightarrow> cl_user c \<noteq> [] \<and> cl_type c \<in> {''user'', ''agent''} \<and> cl_issuer c = jm_issuer m
        \<and> ''n0-platform'' \<in> set (cl_audience c) \<and> (\<exists>e. cl_expires c = Some e \<and> t < e * 1000000000))"
proof (intro conjI impI; (elim conjE)?)
  assume g: "GenerateUserToken lib m now fresh userID email = Inr tok" "userID \<noteq> []" "now \<le> t"
    "t < NewNumericDate (now + jm_expiry m) * 1000000000"
  have "NewNumericDate now * 1000000000 \<le> now" by (simp add: NewNumericDate_def)
  then have "claims_valid (verify_options m) t (user_claims m now fresh userID email)"
    using g(3,4) by (simp add: claims_valid_def verify_options_def user_claims_def)
  with g(1) have "jl_parse lib (verify_options m) (keyfunc m) t tok = Inr (user_claims m now fresh userID email, True)"
    unfolding GenerateUserToken_def
    by (intro accepts_signed [OF assms, of "''HS256''" "jm_secret m"]) (simp_all add: verify_options_def)
  then show "Verify lib m t tok = Inr (user_claims m now fresh userID email)"
    using g(2) by (simp add: Verify_def user_claims_def)
next
  assume v: "Verify lib m t tok = Inr c"
  then have "jl_parse lib (verify_options m) (keyfunc m) t tok = Inr (c, True)" "cl_user c \<noteq> []" "cl_type c \<in> {''user'', ''agent''}"
    by (auto simp: Verify_def split: sum.splits if_splits)
  moreover from this(1) have "claims_valid (verify_options m) t c" using assms unfolding jwt_ok_def by blast
  ultimately show "cl_user c \<noteq> []" "cl_type c \<in> {''user'', ''agent''}" "cl_issuer c = jm_issuer m"
    "''n0-platform'' \<in> set (cl_audience c)" "\<exists>e. cl_expires c = Some e \<and> t < e * 1000000000"
    by (auto simp: claims_valid_def verify_options_def split: option.splits)
qed

text \<open>A concrete library that signs for one user.\<close>

definition sample_manager :: jwt_manager where
  "sample_manager = \<lparr>jm_secret = ''secret'', jm_issuer = ''n0-gateway'', jm_expiry = 86400000000000\<rparr>"

abbreviation sample_claims :: claims where
  "sample_claims \<equiv> user_claims sample_manager 0 ''jti'' ''u1'' ''u@x''"

definition sample_jwt :: jwt_lib where
  "sample_jwt = \<lparr>jl_sign = \<lambda>alg secret c.
       if alg = HMAC ''HS256'' \<and> secret = ''secret'' \<and> c = sample_claims then Inr ''token'' else Inl (Err ''no key''),
     jl_parse = \<lambda>po key now tok.
       if tok = ''token'' \<and> key (HMAC ''HS256'') = Inr ''secret'' \<and> claims_valid po now sample_claims
       then Inr (sample_claims, True) else Inl (Err ''token is malformed'')\<rparr>"

lemma sample_jwt_ok: "jwt_ok sample_jwt"
  by (auto simp: jwt_ok_def sample_jwt_def split: if_splits)

lemma sample_token: "GenerateUserToken sample_jwt sample_manager 0 ''jti'' ''u1'' ''u@x'' = Inr ''token''"
  by (simp add: GenerateUserToken_def sample_jwt_def sample_manager_def)

lemma token_roundtrip_witness: "Verify sample_jwt sample_manager 5 ''token'' = Inr sample_claims"
  using token_roundtrip [OF sample_jwt_ok, of sample_manager 0 "''jti''" "''u1''" "''u@x''" "''token''" 5 undefined] sample_token
  by (simp add: NewNumericDate_def sample_manager_def)

end
