(* ===== verification/Gateway.thy ===== *)
theory Gateway
  imports MetaHttp Jwt QueryServer ConnServer
begin

text \<open>
  The Agent Gateway (\<^verbatim>\<open>services/agent-gateway/internal/gateway/gateway.go\<close>): the public HTTP routes with
  their middleware, and the clients behind them. The clients are functions on an arbitrary state \<^typ>\<open>'s\<close> of
  the services; a response can be nil (\<open>None\<close>), and a nil pointer the handler follows is a panic, which the
  recoverer answers with status 500 and no body. A request is what the router hands over: its method, the
  route with path parameter and decoded body (for the proxied routes: as Meta Service decodes the forwarded
  bytes), the pairs of its query and two headers, empty when absent.
\<close>

section \<open>Clients\<close>

record conn_ref =
  rf_conn :: string
  rf_tenant :: string

record list_request =
  lq_tenant :: string
  lq_workspace :: string
  lq_page :: "(32 word \<times> 32 word) option"

record workspaces_request =
  wq_tenant :: string
  wq_page :: "(32 word \<times> 32 word) option"

record job_ref =
  jf_job :: string
  jf_tenant :: string

record result_request =
  rq_job :: string
  rq_tenant :: string
  rq_page :: "32 word"
  rq_size :: "32 word"

type_synonym ('req, 'resp, 's) rpc = "'req \<Rightarrow> 's \<Rightarrow> (rpc_error + 'resp option) \<times> 's"

type_synonym snapshot = "string \<times> table_info list"
type_synonym connection_list = "proto_connection option list \<times> list_meta"
type_synonym workspace_list = "workspace option list \<times> list_meta"

record 's clients =
  gc_GetSchema :: "(conn_ref, snapshot option, 's) rpc"
  gc_ListWorkspaces :: "(workspaces_request, workspace_list, 's) rpc"
  gc_CreateConnection :: "(create_request, proto_connection option, 's) rpc"
  gc_GetConnection :: "(conn_ref, proto_connection option, 's) rpc"
  gc_ListConnections :: "(list_request, connection_list, 's) rpc"
  gc_DeleteConnection :: "(conn_ref, bool, 's) rpc"
  gc_RegisterPlugin :: "(plugin_request, uuid \<times> string, 's) rpc"
  gc_SubmitQuery :: "(submit_request, submit_response, 's) rpc"
  gc_GetJobStatus :: "(job_ref, status_response, 's) rpc"
  gc_GetJobResult :: "(result_request, result_response, 's) rpc"
  gc_TestConnection :: "(string \<times> gomap, test_response, 's) rpc"
  gc_meta_http :: "meta_request \<Rightarrow> 's \<Rightarrow> (goerr + meta_reply) \<times> 's"

section \<open>The server and its requests\<close>

record gateway =
  gw_jwt :: "jwt_manager option"
  gw_base :: string
  gw_origins :: "string set"

text \<open>What the handlers use of the world: the token library, the clock, \<^verbatim>\<open>uuid.NewRandom\<close>, the conversion of
  a map to a protobuf struct, and whether an HTTP request to the Meta Service base can be built.\<close>

record gw_env =
  ge_jwt :: jwt_lib
  ge_now :: int
  ge_fresh :: string
  ge_struct :: "gomap \<Rightarrow> goerr + gomap"
  ge_request :: "string \<Rightarrow> goerr option"

definition gateway_NewServer :: "jwt_manager option \<Rightarrow> string list \<Rightarrow> gateway" where
  "gateway_NewServer jwt allowed =
     \<lparr>gw_jwt = jwt, gw_base = ''http://meta-service:8081'',
      gw_origins = set (filter (\<lambda>origin. origin \<noteq> []) (map trim_space allowed))\<rparr>"

definition trim_right :: "char \<Rightarrow> string \<Rightarrow> string" where
  "trim_right c s = rev (dropWhile (\<lambda>x. x = c) (rev s))"

definition SetMetaHTTPBase :: "string \<Rightarrow> gateway \<Rightarrow> gateway" where
  "SetMetaHTTPBase url g =
     (let base = trim_right (CHR ''/'') (trim_space url) in if base \<noteq> [] then g\<lparr>gw_base := base\<rparr> else g)"

datatype mcp_call =
    McpGetSchema string
  | McpSubmitQuery string string
  | McpGetJobStatus string
  | McpGetJobResult string int int
  | McpListConnections string int int
  | McpListWorkspaces int int

datatype gw_route =
    GHealth
  | GRegister "goerr + string \<times> string"
  | GLogin "goerr + string \<times> string"
  | GMcp mcp_call
  | GMe
  | GListAgents
  | GCreateAgent "goerr + string \<times> string"
  | GAgentToken string
  | GGetSchema
  | GSubmitQuery "goerr + string \<times> string"
  | GGetJobStatus
  | GGetJobResult
  | GTestConnection "goerr + string \<times> gomap"
  | GCreateConnection "goerr + create_request"
  | GListConnections
  | GGetConnection string
  | GDeleteConnection string
  | GRegisterPlugin "goerr + plugin_request"
  | GListWorkspaces

record gw_request =
  gr_method :: string
  gr_route :: gw_route
  gr_query :: query
  gr_origin :: string
  gr_auth :: string

text \<open>The values the middleware adds to the context of a request.\<close>

record gw_context =
  cx_user :: "string option"
  cx_agent :: "string option"
  cx_type :: "string option"

definition no_context :: gw_context where
  "no_context = \<lparr>cx_user = None, cx_agent = None, cx_type = None\<rparr>"

definition getUserID :: "gw_context \<Rightarrow> string" where
  "getUserID ctx = (case cx_user ctx of None \<Rightarrow> [] | Some u \<Rightarrow> u)"

record mcp_connection =
  mo_id :: string
  mo_workspace :: string
  mo_name :: string
  mo_adapter :: string

datatype mcp_output =
    MoSchema gomap
  | MoSubmitted string string
  | MoStatus string string string
  | MoResult string "gomap list" string bool
  | MoConnections "mcp_connection list"
  | MoWorkspaces "(string \<times> string) list"

datatype gw_body =
    GbOk
  | GbNothing
  | GbMeta meta_body
  | GbLogin string string string string
  | GbAgentToken string string
  | GbSchema "snapshot option option"
  | GbSubmitted "submit_response option"
  | GbJobStatus "status_response option"
  | GbJobResult "result_response option"
  | GbTested "test_response option"
  | GbConnection "proto_connection option"
  | GbConnections connection_list
  | GbDeleted "bool option"
  | GbPlugin "(uuid \<times> string) option"
  | GbWorkspaces "workspace_list option"
  | GbMcp "rpc_error + mcp_output"

type_synonym gw_reply = "(rpc_error, gw_body) reply"

definition panic_reply :: gw_reply where
  "panic_reply = HttpJson 500 GbNothing"

section \<open>Middleware\<close>

text \<open>The reply when the chain stops here, the allowed origin written to the headers, or both absent.\<close>

definition gw_corsMiddleware :: "gateway \<Rightarrow> string \<Rightarrow> string \<Rightarrow> gw_reply option \<times> string option" where
  "gw_corsMiddleware g origin http_method =
     (if origin \<noteq> [] \<and> origin \<notin> gw_origins g then (Some (HttpError 403 (Plain (Err ''origin not allowed''))), None)
      else (if http_method = ''OPTIONS'' then Some (HttpJson 200 GbNothing) else None,
            if origin \<noteq> [] then Some origin else None))"

text \<open>\<^verbatim>\<open>strings.SplitN(s, " ", 2)\<close>: at the first space, when there is one.\<close>

fun split_space :: "string \<Rightarrow> (string \<times> string) option" where
  "split_space [] = None"
| "split_space (c # cs) =
     (if c = CHR '' '' then Some ([], cs)
      else (case split_space cs of None \<Rightarrow> None | Some (a, b) \<Rightarrow> Some (c # a, b)))"

definition unauthorized :: "string \<Rightarrow> gw_reply" where
  "unauthorized e = HttpError 401 (Plain (Err e))"

definition jwtMiddleware :: "gw_env \<Rightarrow> gateway \<Rightarrow> string \<Rightarrow> gw_reply + gw_context" where
  "jwtMiddleware env g auth =
     (case gw_jwt g of
        None \<Rightarrow> Inr no_context
      | Some m \<Rightarrow>
          if auth = [] then Inl (unauthorized ''missing authorization header'')
          else (case split_space auth of
              None \<Rightarrow> Inl (unauthorized ''invalid authorization header'')
            | Some (scheme, token) \<Rightarrow>
                if to_lower scheme \<noteq> ''bearer'' then Inl (unauthorized ''invalid authorization header'')
                else (case Verify (ge_jwt env) m (ge_now env) token of
                    Inl e \<Rightarrow> Inl (unauthorized ''invalid token'')
                  | Inr c \<Rightarrow> Inr \<lparr>cx_user = Some (cl_user c), cx_agent = Some (cl_subject c), cx_type = Some (cl_type c)\<rparr>)))"

section \<open>Proxied routes\<close>

definition proxyToMetaHTTP ::
  "gw_env \<Rightarrow> gateway \<Rightarrow> 's clients \<Rightarrow> gw_context \<Rightarrow> meta_route \<Rightarrow> query \<Rightarrow> 's \<Rightarrow> gw_reply \<times> 's" where
  "proxyToMetaHTTP env g cl ctx r q s =
     (case ge_request env (gw_base g) of
        Some e \<Rightarrow> (HttpError 500 (Plain e), s)
      | None \<Rightarrow>
          (case gc_meta_http cl \<lparr>mr_route = r,
              mr_query = (if getUserID ctx \<noteq> [] then q_set ''user_id'' (getUserID ctx) q else q)\<rparr> s of
             (Inl e, s') \<Rightarrow> (HttpError 500 (Plain e), s')
           | (Inr (HttpError c e), s') \<Rightarrow> (HttpError c e, s')
           | (Inr (HttpJson c b), s') \<Rightarrow> (HttpJson c (GbMeta b), s')))"

text \<open>The fields \<^verbatim>\<open>user_id\<close>, \<^verbatim>\<open>email\<close> and \<^verbatim>\<open>role\<close> of a JSON body of Meta Service; a missing one is empty.\<close>

fun login_user :: "meta_body \<Rightarrow> goerr + string \<times> string \<times> string" where
  "login_user MbOk = Inl (Err ''invalid character 'o' looking for beginning of value'')"
| "login_user MbNothing = Inl (Err ''unexpected end of JSON input'')"
| "login_user (MbUser u) = Inr u"
| "login_user (MbUserId i) = Inr (i, [], [])"
| "login_user (MbAgent (a, u, n, st)) = Inr (u, [], [])"
| "login_user _ = Inr ([], [], [])"

text \<open>Meta Service calls \<^verbatim>\<open>http.Error\<close> with error statuses only, so a textual error is never status 200.\<close>

definition handleLogin ::
  "gw_env \<Rightarrow> gateway \<Rightarrow> 's clients \<Rightarrow> goerr + string \<times> string \<Rightarrow> 's \<Rightarrow> gw_reply \<times> 's" where
  "handleLogin env g cl body s =
     (case ge_request env (gw_base g) of
        Some e \<Rightarrow> (HttpError 500 (Plain e), s)
      | None \<Rightarrow>
          (case gc_meta_http cl \<lparr>mr_route = RLogin body, mr_query = []\<rparr> s of
             (Inl e, s') \<Rightarrow> (HttpError 500 (Plain e), s')
           | (Inr (HttpError c e), s') \<Rightarrow> (HttpError c e, s')
           | (Inr (HttpJson c b), s') \<Rightarrow>
               if c \<noteq> 200 then (HttpJson c (GbMeta b), s')
               else (case login_user b of
                   Inl e \<Rightarrow> (HttpError 500 (Plain e), s')
                 | Inr (uid, email, role) \<Rightarrow>
                     (case gw_jwt g of
                        None \<Rightarrow> (HttpJson 200 (GbMeta b), s')
                      | Some m \<Rightarrow>
                          (case GenerateUserToken (ge_jwt env) m (ge_now env) (ge_fresh env) uid email of
                             Inl e \<Rightarrow> (HttpError 500 (Plain e), s')
                           | Inr token \<Rightarrow> (HttpJson 200 (GbLogin uid email role token), s'))))))"

definition handleGenerateAgentToken :: "gw_env \<Rightarrow> gateway \<Rightarrow> gw_context \<Rightarrow> string \<Rightarrow> gw_reply" where
  "handleGenerateAgentToken env g ctx agentID =
     (if getUserID ctx = [] then unauthorized ''unauthorized''
      else (case gw_jwt g of
          None \<Rightarrow> HttpError 500 (Plain (Err ''jwt not configured''))
        | Some m \<Rightarrow>
            (case GenerateAgentToken (ge_jwt env) m (ge_now env) (ge_fresh env) agentID (getUserID ctx) of
               Inl e \<Rightarrow> HttpError 500 (Plain e)
             | Inr token \<Rightarrow> HttpJson 200 (GbAgentToken agentID token))))"

section \<open>Handlers\<close>

text \<open>The common end of the handlers: an error of the client is status 500, a response is encoded.\<close>

definition rpc_answer :: "int \<Rightarrow> ('a option \<Rightarrow> gw_body) \<Rightarrow> (rpc_error + 'a option) \<times> 's \<Rightarrow> gw_reply \<times> 's" where
  "rpc_answer c body r =
     (case r of
        (Inl e, s) \<Rightarrow> (HttpError 500 e, s)
      | (Inr x, s) \<Rightarrow> (HttpJson c (body x), s))"

definition handleGetSchema :: "'s clients \<Rightarrow> gw_context \<Rightarrow> query \<Rightarrow> 's \<Rightarrow> gw_reply \<times> 's" where
  "handleGetSchema cl ctx q s =
     rpc_answer 200 GbSchema
       (gc_GetSchema cl \<lparr>rf_conn = q_get q ''connection_id'', rf_tenant = getUserID ctx\<rparr> s)"

definition handleSubmitQuery :: "'s clients \<Rightarrow> gw_context \<Rightarrow> goerr + string \<times> string \<Rightarrow> 's \<Rightarrow> gw_reply \<times> 's" where
  "handleSubmitQuery cl ctx body s =
     (case body of
        Inl e \<Rightarrow> (HttpError 400 (Plain (Err ''invalid request body'')), s)
      | Inr (conn, sql) \<Rightarrow>
          rpc_answer 200 GbSubmitted
            (gc_SubmitQuery cl \<lparr>sq_tenant = getUserID ctx, sq_conn = conn, sq_sql = sql\<rparr> s))"

definition handleGetJobStatus :: "'s clients \<Rightarrow> gw_context \<Rightarrow> query \<Rightarrow> 's \<Rightarrow> gw_reply \<times> 's" where
  "handleGetJobStatus cl ctx q s =
     rpc_answer 200 GbJobStatus
       (gc_GetJobStatus cl \<lparr>jf_job = q_get q ''job_id'', jf_tenant = getUserID ctx\<rparr> s)"

definition handleGetJobResult :: "'s clients \<Rightarrow> gw_context \<Rightarrow> query \<Rightarrow> 's \<Rightarrow> gw_reply \<times> 's" where
  "handleGetJobResult cl ctx q s =
     (let page = fst (atoi (q_get q ''page'')); pageSize = fst (atoi (q_get q ''page_size'')) in
      rpc_answer 200 GbJobResult
        (gc_GetJobResult cl \<lparr>rq_job = q_get q ''job_id'', rq_tenant = getUserID ctx, rq_page = to_int32 page,
           rq_size = to_int32 pageSize\<rparr> s))"

definition handleTestConnection :: "gw_env \<Rightarrow> 's clients \<Rightarrow> goerr + string \<times> gomap \<Rightarrow> 's \<Rightarrow> gw_reply \<times> 's" where
  "handleTestConnection env cl body s =
     (case body of
        Inl e \<Rightarrow> (HttpError 400 (Plain e), s)
      | Inr (adapter, params) \<Rightarrow>
          (case ge_struct env params of
             Inl e \<Rightarrow> (HttpError 400 (Plain e), s)
           | Inr pb \<Rightarrow> rpc_answer 200 GbTested (gc_TestConnection cl (adapter, pb) s)))"

definition redactConnectionParams :: "proto_connection option \<Rightarrow> proto_connection option" where
  "redactConnectionParams c = map_option (\<lambda>c. c\<lparr>pn_params := None\<rparr>) c"

text \<open>A nil response is dereferenced here and in the two handlers for listing and reading.\<close>

definition handleCreateConnection :: "'s clients \<Rightarrow> gw_context \<Rightarrow> goerr + create_request \<Rightarrow> 's \<Rightarrow> gw_reply \<times> 's" where
  "handleCreateConnection cl ctx body s =
     (case body of
        Inl e \<Rightarrow> (HttpError 400 (Plain e), s)
      | Inr req \<Rightarrow>
          (case gc_CreateConnection cl (req\<lparr>cr_tenant := getUserID ctx\<rparr>) s of
             (Inl e, s') \<Rightarrow> (HttpError 500 e, s')
           | (Inr None, s') \<Rightarrow> (panic_reply, s')
           | (Inr (Some c), s') \<Rightarrow> (HttpJson 201 (GbConnection (redactConnectionParams c)), s')))"

definition handleListConnections :: "'s clients \<Rightarrow> gw_context \<Rightarrow> query \<Rightarrow> 's \<Rightarrow> gw_reply \<times> 's" where
  "handleListConnections cl ctx q s =
     (let limit = fst (atoi (q_get q ''limit'')); offset = fst (atoi (q_get q ''offset''));
          limit' = (if limit \<le> 0 then 20 else limit) in
      case gc_ListConnections cl \<lparr>lq_tenant = getUserID ctx, lq_workspace = q_get q ''workspace_id'',
          lq_page = Some (to_int32 limit', to_int32 offset)\<rparr> s of
        (Inl e, s') \<Rightarrow> (HttpError 500 e, s')
      | (Inr None, s') \<Rightarrow> (panic_reply, s')
      | (Inr (Some (cs, lm)), s') \<Rightarrow> (HttpJson 200 (GbConnections (map redactConnectionParams cs, lm)), s'))"

definition handleGetConnection :: "'s clients \<Rightarrow> gw_context \<Rightarrow> string \<Rightarrow> 's \<Rightarrow> gw_reply \<times> 's" where
  "handleGetConnection cl ctx i s =
     (case gc_GetConnection cl \<lparr>rf_conn = i, rf_tenant = getUserID ctx\<rparr> s of
        (Inl e, s') \<Rightarrow> (HttpError 500 e, s')
      | (Inr None, s') \<Rightarrow> (panic_reply, s')
      | (Inr (Some None), s') \<Rightarrow> (HttpError 404 (Plain (Err ''not found'')), s')
      | (Inr (Some (Some c)), s') \<Rightarrow> (HttpJson 200 (GbConnection (redactConnectionParams (Some c))), s'))"

definition handleDeleteConnection :: "'s clients \<Rightarrow> gw_context \<Rightarrow> string \<Rightarrow> 's \<Rightarrow> gw_reply \<times> 's" where
  "handleDeleteConnection cl ctx i s =
     rpc_answer 200 GbDeleted (gc_DeleteConnection cl \<lparr>rf_conn = i, rf_tenant = getUserID ctx\<rparr> s)"

definition handleRegisterPlugin :: "'s clients \<Rightarrow> gw_context \<Rightarrow> goerr + plugin_request \<Rightarrow> 's \<Rightarrow> gw_reply \<times> 's" where
  "handleRegisterPlugin cl ctx body s =
     (case body of
        Inl e \<Rightarrow> (HttpError 400 (Plain e), s)
      | Inr req \<Rightarrow>
          rpc_answer 200 GbPlugin (gc_RegisterPlugin cl (req\<lparr>pq_tenant := getUserID ctx, pq_global := False\<rparr>) s))"

definition handleListWorkspaces :: "'s clients \<Rightarrow> gw_context \<Rightarrow> query \<Rightarrow> 's \<Rightarrow> gw_reply \<times> 's" where
  "handleListWorkspaces cl ctx q s =
     (let limit = fst (atoi (q_get q ''limit'')); offset = fst (atoi (q_get q ''offset''));
          limit' = (if limit \<le> 0 then 20 else limit) in
      rpc_answer 200 GbWorkspaces
        (gc_ListWorkspaces cl \<lparr>wq_tenant = getUserID ctx, wq_page = Some (to_int32 limit', to_int32 offset)\<rparr> s))"

end
