(* ===== verification/Gateway_Mcp.thy ===== *)
theory Gateway_Mcp
  imports Gateway
begin

text \<open>
  The MCP tools of the gateway (\<^verbatim>\<open>services/agent-gateway/internal/gateway/mcp.go\<close>) and the router in front
  of tools and handlers. The MCP library parses a call and encodes the result of its tool, an error
  included, into a reply with status 200. A row of a result is the map of its struct.
\<close>

section \<open>Tools\<close>

definition mcpTenantID :: "gw_context \<Rightarrow> string" where
  "mcpTenantID ctx = (case cx_user ctx of None \<Rightarrow> [] | Some u \<Rightarrow> u)"

definition requiredMCPValue :: "string \<Rightarrow> string \<Rightarrow> goerr + string" where
  "requiredMCPValue name raw =
     (let v = trim_space raw in if v = [] then Inl (Err (name @ '' is required'')) else Inr v)"

text \<open>JSON of a message: its non-empty fields under the names of their tags.\<close>

definition text_field :: "string \<Rightarrow> string \<Rightarrow> gomap" where
  "text_field k v = (if v = [] then [] else [(k, JStr v)])"

definition column_map :: "column_info \<Rightarrow> gomap" where
  "column_map c = text_field ''name'' (ci_name c) @ text_field ''data_type'' (ci_type c)
     @ (if ci_nullable c then [(''nullable'', JBool True)] else [])"

definition table_map :: "table_info \<Rightarrow> gomap" where
  "table_map t = text_field ''name'' (ti_name t)
     @ (if ti_columns t = [] then [] else [(''columns'', JArr (map (\<lambda>c. JObj (column_map c)) (ti_columns t)))])"

text \<open>Meta Service leaves \<^verbatim>\<open>captured_at\<close> of a snapshot unset; such a message always encodes and decodes.\<close>

definition protoJSONMap :: "snapshot \<Rightarrow> gomap" where
  "protoJSONMap snap = text_field ''connection_id'' (fst snap)
     @ (if snd snap = [] then [] else [(''tables'', JArr (map (\<lambda>t. JObj (table_map t)) (snd snap)))])"

definition mcpGetSchema :: "'s clients \<Rightarrow> gw_context \<Rightarrow> string \<Rightarrow> 's \<Rightarrow> (rpc_error + mcp_output) \<times> 's" where
  "mcpGetSchema cl ctx conn s =
     (case requiredMCPValue ''connection_id'' conn of
        Inl e \<Rightarrow> (Inl (Plain e), s)
      | Inr connectionID \<Rightarrow>
          (case gc_GetSchema cl \<lparr>rf_conn = connectionID, rf_tenant = mcpTenantID ctx\<rparr> s of
             (Inl e, s') \<Rightarrow> (Inl e, s')
           | (Inr (Some (Some snap)), s') \<Rightarrow> (Inr (MoSchema (protoJSONMap snap)), s')
           | (Inr _, s') \<Rightarrow> (Inl (Plain (Err (''schema not found for connection '' @ go_quote connectionID))), s')))"

definition empty_response :: rpc_error where
  "empty_response = Plain (Err ''query service returned an empty response'')"

definition mcpSubmitQuery :: "'s clients \<Rightarrow> gw_context \<Rightarrow> string \<Rightarrow> string \<Rightarrow> 's \<Rightarrow> (rpc_error + mcp_output) \<times> 's" where
  "mcpSubmitQuery cl ctx conn sql s =
     (case requiredMCPValue ''connection_id'' conn of
        Inl e \<Rightarrow> (Inl (Plain e), s)
      | Inr connectionID \<Rightarrow>
          (case requiredMCPValue ''sql'' sql of
             Inl e \<Rightarrow> (Inl (Plain e), s)
           | Inr sql' \<Rightarrow>
               (case gc_SubmitQuery cl \<lparr>sq_tenant = mcpTenantID ctx, sq_conn = connectionID, sq_sql = sql'\<rparr> s of
                  (Inl e, s') \<Rightarrow> (Inl e, s')
                | (Inr None, s') \<Rightarrow> (Inl empty_response, s')
                | (Inr (Some r), s') \<Rightarrow> (Inr (MoSubmitted (sr_job r) (sr_status r)), s'))))"

definition mcpGetJobStatus :: "'s clients \<Rightarrow> gw_context \<Rightarrow> string \<Rightarrow> 's \<Rightarrow> (rpc_error + mcp_output) \<times> 's" where
  "mcpGetJobStatus cl ctx job s =
     (case requiredMCPValue ''job_id'' job of
        Inl e \<Rightarrow> (Inl (Plain e), s)
      | Inr jobID \<Rightarrow>
          (case gc_GetJobStatus cl \<lparr>jf_job = jobID, jf_tenant = mcpTenantID ctx\<rparr> s of
             (Inl e, s') \<Rightarrow> (Inl e, s')
           | (Inr None, s') \<Rightarrow> (Inl empty_response, s')
           | (Inr (Some r), s') \<Rightarrow> (Inr (MoStatus (tr_job r) (tr_status r) (tr_error r)), s')))"

definition mcpGetJobResult ::
  "'s clients \<Rightarrow> gw_context \<Rightarrow> string \<Rightarrow> int \<Rightarrow> int \<Rightarrow> 's \<Rightarrow> (rpc_error + mcp_output) \<times> 's" where
  "mcpGetJobResult cl ctx job page pageSize s =
     (case requiredMCPValue ''job_id'' job of
        Inl e \<Rightarrow> (Inl (Plain e), s)
      | Inr jobID \<Rightarrow>
          (case gc_GetJobResult cl \<lparr>rq_job = jobID, rq_tenant = mcpTenantID ctx, rq_page = to_int32 page,
              rq_size = to_int32 pageSize\<rparr> s of
             (Inl e, s') \<Rightarrow> (Inl e, s')
           | (Inr None, s') \<Rightarrow> (Inl empty_response, s')
           | (Inr (Some r), s') \<Rightarrow> (Inr (MoResult (rr_job r) (rr_rows r) (rr_next r) (rr_truncated r)), s')))"

definition connection_output :: "proto_connection \<Rightarrow> mcp_connection" where
  "connection_output c =
     \<lparr>mo_id = pn_id c, mo_workspace = pn_workspace c, mo_name = pn_name c, mo_adapter = pn_adapter c\<rparr>"

definition mcpListConnections ::
  "'s clients \<Rightarrow> gw_context \<Rightarrow> string \<Rightarrow> int \<Rightarrow> int \<Rightarrow> 's \<Rightarrow> (rpc_error + mcp_output) \<times> 's" where
  "mcpListConnections cl ctx workspace limit offset s =
     (let limit' = (if limit \<le> 0 then 20 else limit) in
      case gc_ListConnections cl \<lparr>lq_tenant = mcpTenantID ctx, lq_workspace = workspace,
          lq_page = Some (to_int32 limit', to_int32 (max offset 0))\<rparr> s of
        (Inl e, s') \<Rightarrow> (Inl e, s')
      | (Inr None, s') \<Rightarrow> (Inr (MoConnections []), s')
      | (Inr (Some (cs, lm)), s') \<Rightarrow> (Inr (MoConnections (map connection_output (List.map_filter id cs))), s'))"

definition mcpListWorkspaces ::
  "'s clients \<Rightarrow> gw_context \<Rightarrow> int \<Rightarrow> int \<Rightarrow> 's \<Rightarrow> (rpc_error + mcp_output) \<times> 's" where
  "mcpListWorkspaces cl ctx limit offset s =
     (let limit' = (if limit \<le> 0 then 20 else limit) in
      case gc_ListWorkspaces cl \<lparr>wq_tenant = mcpTenantID ctx,
          wq_page = Some (to_int32 limit', to_int32 (max offset 0))\<rparr> s of
        (Inl e, s') \<Rightarrow> (Inl e, s')
      | (Inr None, s') \<Rightarrow> (Inr (MoWorkspaces []), s')
      | (Inr (Some (ws, lm)), s') \<Rightarrow>
          (Inr (MoWorkspaces (map (\<lambda>w. (ws_id w, ws_name w)) (List.map_filter id ws))), s'))"

fun mcp_tool :: "'s clients \<Rightarrow> gw_context \<Rightarrow> mcp_call \<Rightarrow> 's \<Rightarrow> (rpc_error + mcp_output) \<times> 's" where
  "mcp_tool cl ctx (McpGetSchema conn) = mcpGetSchema cl ctx conn"
| "mcp_tool cl ctx (McpSubmitQuery conn sql) = mcpSubmitQuery cl ctx conn sql"
| "mcp_tool cl ctx (McpGetJobStatus job) = mcpGetJobStatus cl ctx job"
| "mcp_tool cl ctx (McpGetJobResult job page pageSize) = mcpGetJobResult cl ctx job page pageSize"
| "mcp_tool cl ctx (McpListConnections workspace limit offset) = mcpListConnections cl ctx workspace limit offset"
| "mcp_tool cl ctx (McpListWorkspaces limit offset) = mcpListWorkspaces cl ctx limit offset"

section \<open>The router\<close>

fun protected :: "gw_route \<Rightarrow> bool" where
  "protected GHealth = False"
| "protected (GRegister b) = False"
| "protected (GLogin b) = False"
| "protected _ = True"

fun dispatch :: "gw_env \<Rightarrow> gateway \<Rightarrow> 's clients \<Rightarrow> gw_context \<Rightarrow> query \<Rightarrow> gw_route \<Rightarrow> 's \<Rightarrow> gw_reply \<times> 's" where
  "dispatch env g cl ctx q GHealth s = (HttpJson 200 GbOk, s)"
| "dispatch env g cl ctx q (GRegister b) s = proxyToMetaHTTP env g cl ctx (RRegister b) q s"
| "dispatch env g cl ctx q (GLogin b) s = handleLogin env g cl b s"
| "dispatch env g cl ctx q (GMcp c) s = (case mcp_tool cl ctx c s of (r, s') \<Rightarrow> (HttpJson 200 (GbMcp r), s'))"
| "dispatch env g cl ctx q GMe s = proxyToMetaHTTP env g cl ctx RMe q s"
| "dispatch env g cl ctx q GListAgents s = proxyToMetaHTTP env g cl ctx RListAgents q s"
| "dispatch env g cl ctx q (GCreateAgent b) s = proxyToMetaHTTP env g cl ctx (RCreateAgent b) q s"
| "dispatch env g cl ctx q (GAgentToken i) s = (handleGenerateAgentToken env g ctx i, s)"
| "dispatch env g cl ctx q GGetSchema s = handleGetSchema cl ctx q s"
| "dispatch env g cl ctx q (GSubmitQuery b) s = handleSubmitQuery cl ctx b s"
| "dispatch env g cl ctx q GGetJobStatus s = handleGetJobStatus cl ctx q s"
| "dispatch env g cl ctx q GGetJobResult s = handleGetJobResult cl ctx q s"
| "dispatch env g cl ctx q (GTestConnection b) s = handleTestConnection env cl b s"
| "dispatch env g cl ctx q (GCreateConnection b) s = handleCreateConnection cl ctx b s"
| "dispatch env g cl ctx q GListConnections s = handleListConnections cl ctx q s"
| "dispatch env g cl ctx q (GGetConnection i) s = handleGetConnection cl ctx i s"
| "dispatch env g cl ctx q (GDeleteConnection i) s = handleDeleteConnection cl ctx i s"
| "dispatch env g cl ctx q (GRegisterPlugin b) s = handleRegisterPlugin cl ctx b s"
| "dispatch env g cl ctx q GListWorkspaces s = handleListWorkspaces cl ctx q s"

definition gateway_handler ::
  "gw_env \<Rightarrow> gateway \<Rightarrow> 's clients \<Rightarrow> gw_request \<Rightarrow> 's \<Rightarrow> (gw_reply \<times> string option) \<times> 's" where
  "gateway_handler env g cl req s =
     (case gw_corsMiddleware g (gr_origin req) (gr_method req) of
        (Some stop, origin) \<Rightarrow> ((stop, origin), s)
      | (None, origin) \<Rightarrow>
          (case (if protected (gr_route req) then jwtMiddleware env g (gr_auth req) else Inr no_context) of
             Inl stop \<Rightarrow> ((stop, origin), s)
           | Inr ctx \<Rightarrow>
               (case dispatch env g cl ctx (gr_query req) (gr_route req) s of (r, s') \<Rightarrow> ((r, origin), s'))))"

end
