(* ===== verification/Gateway_Facts.thy ===== *)
theory Gateway_Facts
  imports Gateway_Mcp
begin

text \<open>
  What the gateway lets through. The calls a request makes are recorded by clients that log every call
  before passing it on; logging changes neither the reply nor the services.
\<close>

section \<open>Calls\<close>

datatype gw_call =
    CGetSchema conn_ref
  | CListWorkspaces workspaces_request
  | CCreateConnection create_request
  | CGetConnection conn_ref
  | CListConnections list_request
  | CDeleteConnection conn_ref
  | CRegisterPlugin plugin_request
  | CSubmitQuery submit_request
  | CGetJobStatus job_ref
  | CGetJobResult result_request
  | CTestConnection "string \<times> gomap"
  | CMetaHttp meta_request

definition log_call :: "('req \<Rightarrow> gw_call) \<Rightarrow> ('req \<Rightarrow> 's \<Rightarrow> 'r \<times> 's) \<Rightarrow> 'req \<Rightarrow> gw_call list \<times> 's \<Rightarrow> 'r \<times> gw_call list \<times> 's" where
  "log_call c f req ls = (case f req (snd ls) of (r, s') \<Rightarrow> (r, fst ls @ [c req], s'))"

definition logged :: "'s clients \<Rightarrow> (gw_call list \<times> 's) clients" where
  "logged cl = \<lparr>gc_GetSchema = log_call CGetSchema (gc_GetSchema cl),
     gc_ListWorkspaces = log_call CListWorkspaces (gc_ListWorkspaces cl),
     gc_CreateConnection = log_call CCreateConnection (gc_CreateConnection cl),
     gc_GetConnection = log_call CGetConnection (gc_GetConnection cl),
     gc_ListConnections = log_call CListConnections (gc_ListConnections cl),
     gc_DeleteConnection = log_call CDeleteConnection (gc_DeleteConnection cl),
     gc_RegisterPlugin = log_call CRegisterPlugin (gc_RegisterPlugin cl),
     gc_SubmitQuery = log_call CSubmitQuery (gc_SubmitQuery cl),
     gc_GetJobStatus = log_call CGetJobStatus (gc_GetJobStatus cl),
     gc_GetJobResult = log_call CGetJobResult (gc_GetJobResult cl),
     gc_TestConnection = log_call CTestConnection (gc_TestConnection cl),
     gc_meta_http = log_call CMetaHttp (gc_meta_http cl)\<rparr>"

text \<open>The account a request to the HTTP interface of Meta Service acts for, as its handlers read it: registration, login
  and a body that cannot be read act for none, and a new agent belongs to the user its body names, or else to the
  one in the query.\<close>

fun meta_account :: "meta_route \<Rightarrow> query \<Rightarrow> string option" where
  "meta_account RHealthz q = None"
| "meta_account (RRegister b) q = None"
| "meta_account (RLogin b) q = None"
| "meta_account RWorkspaces q = Some (user_param q)"
| "meta_account RListConnections q = Some (user_param q)"
| "meta_account RSchema q = Some (q_get q ''tenant_id'')"
| "meta_account (RGetConnection i) q = Some (q_get q ''tenant_id'')"
| "meta_account (RDeleteConnection i) q = Some (q_get q ''tenant_id'')"
| "meta_account (RCreateConnection b) q = (case b of Inl e \<Rightarrow> None | Inr c \<Rightarrow> Some (cr_tenant c))"
| "meta_account (RRegisterPlugin b) q = (case b of Inl e \<Rightarrow> None | Inr p \<Rightarrow> Some (pq_tenant p))"
| "meta_account (RCreateAgent b) q = (case b of Inl e \<Rightarrow> None | Inr (name, owner) \<Rightarrow> Some (agent_owner owner q))"
| "meta_account RMe q = Some (q_get q ''user_id'')"
| "meta_account RListAgents q = Some (q_get q ''user_id'')"

text \<open>The tenant a call acts for. The test of a connection acts for none.\<close>

fun call_tenant :: "gw_call \<Rightarrow> string option" where
  "call_tenant (CGetSchema r) = Some (rf_tenant r)"
| "call_tenant (CListWorkspaces r) = Some (wq_tenant r)"
| "call_tenant (CCreateConnection r) = Some (cr_tenant r)"
| "call_tenant (CGetConnection r) = Some (rf_tenant r)"
| "call_tenant (CListConnections r) = Some (lq_tenant r)"
| "call_tenant (CDeleteConnection r) = Some (rf_tenant r)"
| "call_tenant (CRegisterPlugin r) = Some (pq_tenant r)"
| "call_tenant (CSubmitQuery r) = Some (sq_tenant r)"
| "call_tenant (CGetJobStatus r) = Some (jf_tenant r)"
| "call_tenant (CGetJobResult r) = Some (rq_tenant r)"
| "call_tenant (CTestConnection r) = None"
| "call_tenant (CMetaHttp r) = meta_account (mr_route r) (mr_query r)"

text \<open>The one route on which the body decides: a new agent whose owner it names.\<close>

definition names_owner :: "gw_route \<Rightarrow> string option \<Rightarrow> bool" where
  "names_owner r t \<longleftrightarrow> (\<exists>name owner. r = GCreateAgent (Inr (name, owner)) \<and> owner \<noteq> [] \<and> t = Some owner)"

text \<open>One step of a handler: the reply and the state of the bare clients, with at most one call logged that
  satisfies \<open>P\<close>.\<close>

definition simulates :: "(gw_call \<Rightarrow> bool) \<Rightarrow> ('s \<Rightarrow> 'r \<times> 's) \<Rightarrow> (gw_call list \<times> 's \<Rightarrow> 'r \<times> gw_call list \<times> 's) \<Rightarrow> bool" where
  "simulates P f f' \<longleftrightarrow> (\<forall>l s. \<exists>cs. f' (l, s) = (fst (f s), l @ cs, snd (f s)) \<and> length cs \<le> 1 \<and> (\<forall>c\<in>set cs. P c))"

named_theorems gateway_handlers

lemmas handler_definitions [gateway_handlers] =
  proxyToMetaHTTP_def handleLogin_def handleGetSchema_def handleSubmitQuery_def handleGetJobStatus_def
  handleGetJobResult_def handleTestConnection_def handleCreateConnection_def handleListConnections_def
  handleGetConnection_def handleDeleteConnection_def handleRegisterPlugin_def handleListWorkspaces_def

lemmas tool_definitions [gateway_handlers] =
  mcpGetSchema_def mcpSubmitQuery_def mcpGetJobStatus_def mcpGetJobResult_def mcpListConnections_def mcpListWorkspaces_def

lemmas logging = logged_def log_call_def

lemma simulates_const: "simulates P (\<lambda>s. (r, s)) (\<lambda>s. (r, s))"
  by (simp add: simulates_def)

lemma simulates_call:
  "P (c req) \<Longrightarrow> simulates P (\<lambda>s. case f req s of (r, s') \<Rightarrow> (k r, s')) (\<lambda>ls. case log_call c f req ls of (r, s') \<Rightarrow> (k r, s'))"
  by (auto simp: simulates_def log_call_def split: prod.splits)

lemma simulates_result:
  "simulates P f f' \<Longrightarrow> f' ([], s) = (r, cs, s') \<Longrightarrow> f s = (r, s') \<and> length cs \<le> 1 \<and> (\<forall>c\<in>set cs. P c)"
  unfolding simulates_def by (metis append_Nil fst_conv snd_conv surjective_pairing)

lemma tenant_is_user: "mcpTenantID ctx = getUserID ctx"
  by (simp add: mcpTenantID_def getUserID_def)

definition acts_for :: "gw_context \<Rightarrow> gw_route \<Rightarrow> gw_call \<Rightarrow> bool" where
  "acts_for ctx r c \<longleftrightarrow> call_tenant c = None \<or> call_tenant c = Some (getUserID ctx) \<or> names_owner r (call_tenant c)"

lemma tool_simulates: "simulates (acts_for ctx r) (mcp_tool cl ctx c) (mcp_tool (logged cl) ctx c)"
  by (cases c) (auto simp: simulates_def gateway_handlers logging Let_def tenant_is_user acts_for_def
    split: prod.splits sum.splits option.splits)

lemma dispatch_simulates:
  assumes "getUserID ctx \<noteq> [] \<or> \<not> protected r"
  shows "simulates (acts_for ctx r) (dispatch env g cl ctx q r) (dispatch env g (logged cl) ctx q r)"
proof (cases r)
  case (GMcp c)
  with tool_simulates [of ctx r cl c] show ?thesis by (simp add: simulates_def split: prod.split) (metis fst_conv snd_conv)
qed (use assms in \<open>auto simp: simulates_def gateway_handlers logging Let_def rpc_answer_def acts_for_def
       names_owner_def agent_owner_def split: prod.splits sum.splits option.splits reply.splits\<close>)

lemma dispatch_public: "\<not> protected r \<Longrightarrow> simulates (\<lambda>c. call_tenant c = None) (dispatch env g cl ctx q r) (dispatch env g (logged cl) ctx q r)"
  by (cases r) (auto simp: simulates_def gateway_handlers logging split: prod.splits sum.splits option.splits reply.splits)

text \<open>The user a bearer header stands for.\<close>

definition bearer_user :: "gw_env \<Rightarrow> jwt_manager \<Rightarrow> string \<Rightarrow> string option" where
  "bearer_user env m auth =
     (case split_space auth of
        Some (scheme, token) \<Rightarrow>
          (case Verify (ge_jwt env) m (ge_now env) token of
             Inr c \<Rightarrow> if to_lower scheme = ''bearer'' then Some (cl_user c) else None
           | Inl e \<Rightarrow> None)
      | None \<Rightarrow> None)"

text \<open>The context the middleware lets a request have.\<close>

lemma jwt_context:
  "jwtMiddleware env g auth = Inr ctx \<Longrightarrow> gw_jwt g = Some m \<Longrightarrow>
   getUserID ctx \<noteq> [] \<and> bearer_user env m auth = Some (getUserID ctx)"
  by (auto simp: jwtMiddleware_def bearer_user_def getUserID_def Verify_def split: if_splits option.splits sum.splits prod.splits)

lemma jwt_refusal:
  "jwtMiddleware env g auth = Inl stop \<Longrightarrow> \<exists>e. stop = unauthorized e"
  by (auto simp: jwtMiddleware_def split: if_splits option.splits sum.splits prod.splits)


section \<open>Tools and routes\<close>

text \<open>The HTTP request with the arguments of a tool call; what a tool makes of its arguments before it uses them; the
  calls a tool refuses for a blank argument; and the numbers in a call, which the MCP library reads as 64-bit
  integers.\<close>

fun http_of :: "mcp_call \<Rightarrow> gw_route \<times> query" where
  "http_of (McpGetSchema conn) = (GGetSchema, [(''connection_id'', conn)])"
| "http_of (McpSubmitQuery conn sql) = (GSubmitQuery (Inr (conn, sql)), [])"
| "http_of (McpGetJobStatus job) = (GGetJobStatus, [(''job_id'', job)])"
| "http_of (McpGetJobResult job page n) =
     (GGetJobResult, [(''job_id'', job), (''page'', itoa page), (''page_size'', itoa n)])"
| "http_of (McpListConnections ws limit offset) =
     (GListConnections, [(''workspace_id'', ws), (''limit'', itoa limit), (''offset'', itoa offset)])"
| "http_of (McpListWorkspaces limit offset) = (GListWorkspaces, [(''limit'', itoa limit), (''offset'', itoa offset)])"

fun cleaned :: "mcp_call \<Rightarrow> mcp_call" where
  "cleaned (McpGetSchema conn) = McpGetSchema (trim_space conn)"
| "cleaned (McpSubmitQuery conn sql) = McpSubmitQuery (trim_space conn) (trim_space sql)"
| "cleaned (McpGetJobStatus job) = McpGetJobStatus (trim_space job)"
| "cleaned (McpGetJobResult job page n) = McpGetJobResult (trim_space job) page n"
| "cleaned (McpListConnections ws limit offset) = McpListConnections ws limit (max offset 0)"
| "cleaned (McpListWorkspaces limit offset) = McpListWorkspaces limit (max offset 0)"

definition int64_range :: "int \<Rightarrow> bool" where
  "int64_range i \<longleftrightarrow> min_int64 \<le> i \<and> i \<le> max_int64"

fun refused :: "mcp_call \<Rightarrow> bool" where
  "refused (McpGetSchema conn) \<longleftrightarrow> trim_space conn = []"
| "refused (McpSubmitQuery conn sql) \<longleftrightarrow> trim_space conn = [] \<or> trim_space sql = []"
| "refused (McpGetJobStatus job) \<longleftrightarrow> trim_space job = []"
| "refused (McpGetJobResult job page n) \<longleftrightarrow> trim_space job = []"
| "refused _ \<longleftrightarrow> False"

fun numbers :: "mcp_call \<Rightarrow> int list" where
  "numbers (McpGetJobResult job page n) = [page, n]"
| "numbers (McpListConnections ws limit offset) = [limit, offset]"
| "numbers (McpListWorkspaces limit offset) = [limit, offset]"
| "numbers _ = []"

lemma atoi_range [simp]: "int64_range i \<Longrightarrow> atoi (itoa i) = (i, True)" "int64_range i \<Longrightarrow> int64_range (max i 0)"
  by (simp_all add: int64_range_def atoi_itoa max_int64_def min_int64_def)

text \<open>C34. A tool is its route on cleaned arguments: unless a required argument is blank, when nothing is called, it makes
  the very call that the HTTP request makes whose identifiers and statement are trimmed and whose negative offset
  is 0, and leaves the services in the same state. So tool and route agree on the same arguments where these are
  clean already. (They need not agree elsewhere, as the routes neither trim nor clamp: \<open>negative_offset\<close>.)\<close>

theorem tools_call_as_routes:
  assumes "\<forall>i\<in>set (numbers c). int64_range i"
  shows "snd (dispatch env g (logged cl) ctx q (GMcp c) ([], s)) = (if refused c then ([], s)
      else snd (dispatch env g (logged cl) ctx (snd (http_of (cleaned c))) (fst (http_of (cleaned c))) ([], s)))
    \<and> (cleaned c = c \<and> \<not> refused c \<longrightarrow> snd (dispatch env g (logged cl) ctx q (GMcp c) ([], s))
        = snd (dispatch env g (logged cl) ctx (snd (http_of c)) (fst (http_of c)) ([], s)))"
proof -
  have "snd (dispatch env g (logged cl) ctx q (GMcp c) ([], s)) = (if refused c then ([], s)
      else snd (dispatch env g (logged cl) ctx (snd (http_of (cleaned c))) (fst (http_of (cleaned c))) ([], s)))"
    using assms
    by (cases c) (auto simp: gateway_handlers requiredMCPValue_def logging Let_def rpc_answer_def tenant_is_user q_get_def
      split: prod.splits sum.splits option.splits)
  then show ?thesis by auto
qed

text \<open>Services that count their calls, behind a gateway with the sample token.\<close>

definition counting_clients :: "nat clients" where
  "counting_clients = \<lparr>gc_GetSchema = \<lambda>r n. (Inr None, Suc n), gc_ListWorkspaces = \<lambda>r n. (Inr None, Suc n),
     gc_CreateConnection = \<lambda>r n. (Inr None, Suc n), gc_GetConnection = \<lambda>r n. (Inr None, Suc n),
     gc_ListConnections = \<lambda>r n. (Inr None, Suc n), gc_DeleteConnection = \<lambda>r n. (Inr None, Suc n),
     gc_RegisterPlugin = \<lambda>r n. (Inr None, Suc n), gc_SubmitQuery = \<lambda>r n. (Inr None, Suc n),
     gc_GetJobStatus = \<lambda>r n. (Inr None, Suc n), gc_GetJobResult = \<lambda>r n. (Inr None, Suc n),
     gc_TestConnection = \<lambda>r n. (Inr None, Suc n), gc_meta_http = \<lambda>r n. (Inr (HttpJson 200 MbOk), Suc n)\<rparr>"

definition sample_gw_env :: gw_env where
  "sample_gw_env = \<lparr>ge_jwt = sample_jwt, ge_now = 5, ge_fresh = ''jti'', ge_struct = Inr, ge_request = \<lambda>base. None\<rparr>"

definition sample_gateway :: gateway where
  "sample_gateway = gateway_NewServer (Some sample_manager) ['' http://localhost:3000'', []]"

definition sample_gw_request :: "gw_route \<Rightarrow> query \<Rightarrow> gw_request" where
  "sample_gw_request r q =
     \<lparr>gr_method = ''GET'', gr_route = r, gr_query = q, gr_origin = [], gr_auth = ''Bearer token''\<rparr>"

lemma tools_call_as_routes_witness:
  "snd (dispatch sample_gw_env sample_gateway (logged counting_clients) no_context [] (GMcp (McpGetJobResult '' j1 '' 2 50)) ([], 0))
   = ([CGetJobResult \<lparr>rq_job = ''j1'', rq_tenant = [], rq_page = 2, rq_size = 50\<rparr>], 1)"
  using tools_call_as_routes [of "McpGetJobResult '' j1 '' 2 50" sample_gw_env sample_gateway counting_clients no_context "[]" 0]
  by code_simp

text \<open>For the same negative offset the tool asks for the first page and the route passes the offset on.\<close>

lemma negative_offset:
  "fst (snd (dispatch sample_gw_env sample_gateway (logged counting_clients) no_context [] (GMcp (McpListWorkspaces 10 (-1))) ([], 0)))
     = [CListWorkspaces \<lparr>wq_tenant = [], wq_page = Some (10, 0)\<rparr>]"
  "fst (snd (dispatch sample_gw_env sample_gateway (logged counting_clients) no_context [(''limit'', ''10''), (''offset'', ''-1'')]
      GListWorkspaces ([], 0))) = [CListWorkspaces \<lparr>wq_tenant = [], wq_page = Some (10, -1)\<rparr>]"
  by code_simp+

text \<open>With a token of \<^verbatim>\<open>u1\<close> an agent is created for the user the body names.\<close>

lemma agent_owner_exception:
  "map call_tenant (fst (snd (gateway_handler sample_gw_env sample_gateway (logged counting_clients)
      (sample_gw_request (GCreateAgent (Inr (''bot'', ''u2''))) []) ([], 0)))) = [Some ''u2'']"
  by code_simp


end
