(* ===== verification/MetaService_Facts.thy ===== *)
theory MetaService_Facts
  imports MetaService MetaStore_Facts
begin

text \<open>
  Facts about the core of Meta Service: accounts, stored connections, cached schemas, plugin registration,
  and what a failure between two statements leaves behind.
\<close>

text \<open>What is relied on of identifiers: PostgreSQL generates distinct ones, whose text both sides read as
  themselves.\<close>

definition pg_ok :: "pg_env \<Rightarrow> bool" where
  "pg_ok env \<longleftrightarrow> inj (pg_id env) \<and> (\<forall>n. pg_cast env (pg_id env n) = Inr (pg_id env n) \<and> pg_parse env (pg_id env n) = Inr (pg_id env n))"

text \<open>What is relied on of bcrypt: it refuses more than 72 bytes, and a hash matches the text it was made of.\<close>

definition bcrypt_ok :: "meta_env \<Rightarrow> bool" where
  "bcrypt_ok env \<longleftrightarrow>
     (\<forall>p. 72 < length p \<longrightarrow> (\<exists>e. me_bcrypt env p = Inl e)) \<and> (\<forall>p h. me_bcrypt env p = Inr h \<longrightarrow> me_compare env h p = None)"

lemma sample_pg_ok: "pg_ok sample_pg"
proof -
  have "to_lower (replicate n CHR ''u'') = replicate n CHR ''u''" for n by (simp add: to_lower_def)
  then show ?thesis using sample_pg_inj by (simp add: pg_ok_def) (simp add: sample_pg_def to_lower_def)
qed

section \<open>Accounts\<close>

lemma RegisterUser_steps:
  assumes "svc_RegisterUser env email password role db = (Inr i, db')"
  obtains mail salt hash db1 w where "normalizeEmail env email = Inr mail" "12 \<le> length password" "length password \<le> 64"
    "generatePasswordSalt env = Inr salt" "me_bcrypt env (hashPasswordInput password salt) = Inr hash"
    "repo_CreateUser (me_pg env) mail hash salt ''user'' db = (Inr i, db1)"
    "repo_CreateWorkspace (me_pg env) i i ''Default Workspace'' db1 = (Inr w, db')"
  using assms unfolding svc_RegisterUser_def by (auto split: sum.splits if_splits prod.splits)

lemma CreateUser_row:
  assumes "repo_CreateUser env mail hash salt role db = (Inr i, db1)"
  shows "find (\<lambda>u. us_email u = mail) (db_users db1)
    = Some \<lparr>us_id = i, us_email = mail, us_hash = hash, us_salt = salt, us_role = role, us_created = db_now db\<rparr>"
proof -
  obtain fs where "insert_user env mail hash salt role (db\<lparr>db_faults := fs\<rparr>) = (Inr i, db1)"
    using assms by (auto simp: repo_CreateUser_def db_call_def Let_def split: prod.splits fault.splits sum.splits)
  then have e: "\<forall>u\<in>set (db_users db). us_email u \<noteq> mail"
    and u: "db_users db1 = db_users db @ [\<lparr>us_id = i, us_email = mail, us_hash = hash, us_salt = salt, us_role = role, us_created = db_now db\<rparr>]"
    by (auto simp: insert_user_def Let_def split: if_splits)
  have "find (\<lambda>u. us_email u = mail) (db_users db) = None" using e by (auto simp: find_None_iff)
  moreover have "find P xs = None \<Longrightarrow> find P (xs @ [y]) = (if P y then Some y else None)" for P :: "user \<Rightarrow> bool" and xs y
    by (induction xs) (auto split: if_splits)
  ultimately show ?thesis by (simp add: u)
qed

lemma CreateWorkspace_users:
  "repo_CreateWorkspace env u t n db = (x, db') \<Longrightarrow> db_users db' = db_users db"
  by (auto simp: repo_CreateWorkspace_def db_call_def insert_workspace_def Let_def
      split: sum.splits prod.splits fault.splits if_splits)

text \<open>C32. A registered user can log in with the same address, in any spelling that normalises to it, and the
  same password, and is a plain user whatever role was asked for.\<close>

theorem register_then_login:
  assumes "svc_RegisterUser env email password role db = (Inr i, db')" and "bcrypt_ok env"
    and "db_faults later = []" and "db_users later = db_users db'" and "normalizeEmail env email' = normalizeEmail env email"
  shows "\<exists>u. svc_LoginUser env email' password later = (Inr u, later) \<and> us_id u = i \<and> us_role u = ''user''"
proof -
  obtain mail salt hash db1 w where s: "normalizeEmail env email = Inr mail" "generatePasswordSalt env = Inr salt"
    "me_bcrypt env (hashPasswordInput password salt) = Inr hash"
    "repo_CreateUser (me_pg env) mail hash salt ''user'' db = (Inr i, db1)"
    "repo_CreateWorkspace (me_pg env) i i ''Default Workspace'' db1 = (Inr w, db')"
    using assms(1) by (rule RegisterUser_steps)
  have "find (\<lambda>u. us_email u = mail) (db_users later)
      = Some \<lparr>us_id = i, us_email = mail, us_hash = hash, us_salt = salt, us_role = ''user'', us_created = db_now db\<rparr>"
    using CreateUser_row [OF s(4)] CreateWorkspace_users [OF s(5)] assms(4) by simp
  moreover have "me_compare env hash (hashPasswordInput password salt) = None" using assms(2) s(3) by (simp add: bcrypt_ok_def)
  ultimately show ?thesis
    using s(1) assms(3,5) by (simp add: svc_LoginUser_def repo_GetUserByEmail_def db_read_ok)
qed

text \<open>Passwords of 50 to 64 bytes pass the length check and are refused all the same: behind the password
  stand a colon and the 22 characters of the salt, and bcrypt takes 72 bytes.\<close>

theorem registered_password_length:
  assumes "svc_RegisterUser env email password role db = (Inr i, db')" and "bcrypt_ok env"
    and "\<And>buf. me_salt env = Inr buf \<Longrightarrow> length buf = 16"
  shows "12 \<le> length password \<and> length password \<le> 49"
proof -
  obtain salt hash where s: "generatePasswordSalt env = Inr salt" "me_bcrypt env (hashPasswordInput password salt) = Inr hash"
    "12 \<le> length password"
    using assms(1) by (rule RegisterUser_steps)
  have "length salt = 22"
    using s(1) assms(3) by (auto simp: generatePasswordSalt_def b64_raw_length split: sum.splits)
  then have "length (hashPasswordInput password salt) = length password + 23"
    by (auto simp: hashPasswordInput_def)
  moreover have "\<not> 72 < length (hashPasswordInput password salt)"
    using assms(2) s(2) by (auto simp: bcrypt_ok_def)
  ultimately show ?thesis using s(3) by simp
qed

definition sample_meta_env :: meta_env where
  "sample_meta_env = \<lparr>me_pg = sample_pg, me_codec = sample_json, me_aead = sample_aead,
     me_key = Some (replicate 32 CHR ''k''), me_nonce = Inr (replicate 12 CHR ''n''), me_salt = Inr (replicate 16 CHR ''s''),
     me_bcrypt = \<lambda>p. if 72 < length p then Inl (Err ''bcrypt: password length exceeds 72 bytes'') else Inr (''$2a$'' @ p),
     me_compare = \<lambda>h p. if h = ''$2a$'' @ p then None else Some (Err ''mismatch''),
     me_address = Inr, me_schema = \<lambda>c a m. Inr [], me_now = 7\<rparr>"

lemma sample_bcrypt_ok: "bcrypt_ok sample_meta_env"
  by (auto simp: bcrypt_ok_def sample_meta_env_def split: if_splits)

lemma sample_register:
  "\<exists>db'. svc_RegisterUser sample_meta_env '' Ann@Example.com'' ''correct horse'' ''admin'' empty_db = (Inr ''u'', db') \<and> db_faults db' = []"
proof -
  have "map_prod id db_faults (svc_RegisterUser sample_meta_env '' Ann@Example.com'' ''correct horse'' ''admin'' empty_db) = (Inr ''u'', [])"
    by (simp add: svc_RegisterUser_def normalizeEmail_def generatePasswordSalt_def sample_meta_env_def repo_CreateUser_def
        db_call_def insert_user_def empty_db_def Let_def hashPasswordInput_def b64_raw_length repo_CreateWorkspace_def
        insert_workspace_def sample_pg_def to_lower_def)
  then show ?thesis by (cases "svc_RegisterUser sample_meta_env '' Ann@Example.com'' ''correct horse'' ''admin'' empty_db") auto
qed

lemma register_then_login_witness:
  "\<exists>db' u. svc_LoginUser sample_meta_env ''ann@example.com'' ''correct horse'' db' = (Inr u, db') \<and> us_role u = ''user''"
proof -
  obtain db' where db': "svc_RegisterUser sample_meta_env '' Ann@Example.com'' ''correct horse'' ''admin'' empty_db = (Inr ''u'', db')"
    "db_faults db' = []"
    using sample_register by blast
  have "normalizeEmail sample_meta_env ''ann@example.com'' = normalizeEmail sample_meta_env '' Ann@Example.com''"
    by (simp add: normalizeEmail_def sample_meta_env_def) code_simp
  from register_then_login [OF db'(1) sample_bcrypt_ok db'(2) refl this] show ?thesis by blast
qed

lemma registered_password_length_witness: "length ''correct horse'' \<le> 49"
proof -
  obtain db' where db': "svc_RegisterUser sample_meta_env '' Ann@Example.com'' ''correct horse'' ''admin'' empty_db = (Inr ''u'', db')"
    using sample_register by blast
  have "\<And>buf. me_salt sample_meta_env = Inr buf \<Longrightarrow> length buf = 16" by (auto simp: sample_meta_env_def)
  from registered_password_length [OF db' sample_bcrypt_ok this] show ?thesis by simp
qed

section \<open>Stored connections\<close>

lemma find_last:
  "(\<And>y. y \<in> set xs \<Longrightarrow> \<not> P y) \<Longrightarrow> P x \<Longrightarrow> find P (xs @ [x]) = Some x"
  by (induction xs) auto

lemma CreateConnection_row:
  assumes "svc_CreateConnection env c db = (Inr i, db')"
  obtains enc c' where "encrypt env (mc_params c) = Inr enc" "db_connections db' = db_connections db @ [c']"
    "c' = c\<lparr>mc_id := i, mc_workspace := mc_workspace c', mc_user := mc_user c', mc_params := enc, mc_created := db_now db\<rparr>"
    "i = pg_id (me_pg env) (db_next db)"
proof -
  define c1 where "c1 = (if mc_created c = 0 then c\<lparr>mc_created := me_now env\<rparr> else c)"
  have p1: "mc_params c1 = mc_params c" by (simp add: c1_def)
  obtain enc where enc: "encrypt env (mc_params c) = Inr enc" "repo_CreateConnection (me_pg env) (c1\<lparr>mc_params := enc\<rparr>) db = (Inr i, db')"
    using assms unfolding svc_CreateConnection_def c1_def [symmetric] Let_def p1 by (auto split: sum.splits prod.splits)
  then obtain w u where wu: "db_call (insert_connection (me_pg env)
      (c1\<lparr>mc_params := enc, mc_workspace := w, mc_user := u\<rparr>)) db = (Inr i, db')"
    by (auto simp: repo_CreateConnection_def split: option.splits sum.splits prod.splits)
  then obtain fs where "insert_connection (me_pg env) (c1\<lparr>mc_params := enc, mc_workspace := w, mc_user := u\<rparr>) (db\<lparr>db_faults := fs\<rparr>) = (Inr i, db')"
    by (auto simp: db_call_def Let_def split: prod.splits fault.splits)
  then have row: "i = pg_id (me_pg env) (db_next db)" "db_connections db' = db_connections db
      @ [c1\<lparr>mc_params := enc, mc_workspace := w, mc_user := u, mc_id := i, mc_created := db_now db\<rparr>]"
    by (auto simp: insert_connection_def Let_def split: if_splits)
  show thesis by (rule that [OF enc(1) row(2) _ row(1)]) (simp add: c1_def)
qed


section \<open>Cached schemas\<close>

lemma newest_first_Nil: "newest_first f xs = [] \<longleftrightarrow> xs = []"
proof -
  have "length (newest_first f xs) = length xs" by (simp add: newest_first_def)
  then show ?thesis by (metis length_0_conv)
qed

lemma newest_first_single: "newest_first f [x] = [x]"
  by (simp add: newest_first_def)

text \<open>A schema is fetched once: after a first answer, whatever the database of the connection has become and
  whatever Connection Manager would report, the same tables are returned until the connection is deleted.\<close>

theorem schema_never_refreshed:
  assumes "svc_GetSchema env c t db = (Inr snap, db')" and "db_faults db = []"
    and "db_snapshots later = db_snapshots db'" and "db_connections later = db_connections db'"
    and "db_faults later = []" and "me_pg env' = me_pg env"
  shows "\<exists>snap'. svc_GetSchema env' c t later = (Inr snap', later) \<and> ss_tables snap' = ss_tables snap"
proof -
  obtain i where i: "pg_cast (me_pg env) c = Inr i"
    using assms(1,2) by (cases "pg_cast (me_pg env) c")
      (auto simp: svc_GetSchema_def repo_GetSchemaSnapshot_def db_read_ok)
  let ?own = "\<lambda>d :: meta_db. \<exists>c\<in>set (db_connections d). mc_id c = i \<and> mc_tenant c = t"
  let ?snaps = "\<lambda>d :: meta_db. newest_first ss_captured (filter (\<lambda>s. ss_conn s = i) (db_snapshots d))"
  have read: "db_faults d = [] \<Longrightarrow> repo_GetSchemaSnapshot (me_pg env) c t d
      = (Inr (case (if ?own d then ?snaps d else []) of [] \<Rightarrow> None | s # ss \<Rightarrow> Some (s\<lparr>ss_conn := c\<rparr>)), d)" for d
    by (simp add: repo_GetSchemaSnapshot_def db_read_ok i split: list.split)
  show ?thesis
  proof (cases "if ?own db then ?snaps db else []")
    case (Cons s ss)
    then have "svc_GetSchema env c t db = (Inr (s\<lparr>ss_conn := c\<rparr>), db)" using read [OF assms(2)] by (simp add: svc_GetSchema_def)
    then have "snap = s\<lparr>ss_conn := c\<rparr>" "db' = db" using assms(1) by simp_all
    moreover have "(if ?own later then ?snaps later else []) = s # ss" using Cons by (simp only: assms(3,4) \<open>db' = db\<close>)
    ultimately show ?thesis using read [OF assms(5)] assms(6) by (simp add: svc_GetSchema_def)
  next
    case Nil
    then have "repo_GetSchemaSnapshot (me_pg env) c t db = (Inr None, db)" using read [OF assms(2)] by simp
    then obtain conn where conn: "find (\<lambda>x. mc_id x = i \<and> mc_tenant x = t) (db_connections db) = Some conn"
      "fetch_schema env c (scan_connection conn) db = (Inr snap, db')"
      using assms(1,2) by (auto simp: svc_GetSchema_def repo_GetConnection_def db_read_ok i split: option.splits)
    then have own: "?own db" by (auto simp: find_Some_iff)
    then have "?snaps db = []" using Nil by simp
    then have none: "filter (\<lambda>s. ss_conn s = i) (db_snapshots db) = []" by (simp only: newest_first_Nil)
    obtain tables where "db_snapshots db' = db_snapshots db @ [\<lparr>ss_conn = i, ss_tables = tables, ss_captured = db_now db\<rparr>]"
      "db_connections db' = db_connections db" "ss_tables snap = tables"
      using conn(2) assms(2)
      by (auto simp: fetch_schema_def repo_SaveSchemaSnapshot_def db_call_ok insert_snapshot_def i
          split: sum.splits option.splits prod.splits if_splits)
    with own none have "(if ?own later then ?snaps later else []) = [\<lparr>ss_conn = i, ss_tables = ss_tables snap, ss_captured = db_now db\<rparr>]"
      using assms(3,4) by (simp add: newest_first_single)
    then show ?thesis using read [OF assms(5)] assms(6) by (simp add: svc_GetSchema_def)
  qed
qed

section \<open>Registration of plugins\<close>

text \<open>A registered plugin names a type, a name and a version, speaks gRPC at a host and a port, and belongs to a
  tenant or to all; it starts validated with no failure, and is enabled for its tenant.\<close>

theorem registered_plugin_valid:
  assumes "svc_RegisterPlugin env p db = (Inr i, db')"
  shows "pd_type p \<noteq> [] \<and> pd_name p \<noteq> [] \<and> pd_version p \<noteq> [] \<and> pd_protocol p \<in> {[], ''grpc''}
    \<and> (\<exists>hp. SplitHostPort (pd_endpoint p) = Inr hp) \<and> (pd_global p \<or> trim_space (pd_tenant p) \<noteq> [])
    \<and> (pd_global p \<or> (pd_tenant p, i) \<in> set (db_tenant_plugins db'))
    \<and> (\<exists>r. db_plugins db' = db_plugins db @ [r] \<and> pd_id r = i \<and> pd_name r = pd_name p \<and> pd_endpoint r = pd_endpoint p
        \<and> pd_protocol r = ''grpc'' \<and> pd_status r = ''validated'' \<and> pr_failures r = 0)"
proof -
  define q where "q = (if pd_protocol p = [] then p\<lparr>pd_protocol := ''grpc''\<rparr> else p)"
  have q: "pd_endpoint q = pd_endpoint p" "pd_global q = pd_global p" "pd_tenant q = pd_tenant p" "pd_name q = pd_name p"
    by (simp_all add: q_def)
  from assms have v: "pd_type p \<noteq> []" "pd_name p \<noteq> []" "pd_version p \<noteq> []" "pd_protocol q = ''grpc''"
    "\<exists>hp. SplitHostPort (pd_endpoint p) = Inr hp" "pd_global p \<or> trim_space (pd_tenant p) \<noteq> []"
    "repo_RegisterPlugin (me_pg env) (q\<lparr>pd_status := ''validated'', pd_created := me_now env\<rparr>) db = (Inr i, db')"
    unfolding svc_RegisterPlugin_def q_def [symmetric] Let_def q by (auto split: if_splits sum.splits prod.splits)
  have proto: "pd_protocol p \<in> {[], ''grpc''}" using v(4) by (auto simp: q_def split: if_splits)
  let ?q = "q\<lparr>pd_status := ''validated'', pd_created := me_now env\<rparr>"
  obtain db1 where d1: "db_call (insert_plugin (me_pg env) ?q) db = (Inr i, db1)"
    "if pd_global p then db' = db1 else (\<exists>u. db_call (insert_tenant_plugin (pd_tenant p) i) db1 = (Inr u, db'))"
    using v(7) q by (auto simp: repo_RegisterPlugin_def split: prod.splits sum.splits if_splits dberr.splits)
  obtain r where r: "db_plugins db1 = db_plugins db @ [r]" "pd_id r = i" "pd_name r = pd_name p" "pd_endpoint r = pd_endpoint p"
    "pd_protocol r = ''grpc''" "pd_status r = ''validated''" "pr_failures r = 0"
    using d1(1) v(4) q
    by (auto simp: db_call_def insert_plugin_def Let_def plugin_definition.defs plugin_row.defs
        split: prod.splits fault.splits if_splits)
  have "db_plugins db' = db_plugins db1 \<and> (pd_global p \<or> (pd_tenant p, i) \<in> set (db_tenant_plugins db'))"
    using d1(2) by (auto simp: db_call_def insert_tenant_plugin_def Let_def split: prod.splits fault.splits if_splits)
  with r v proto show ?thesis by auto
qed

section \<open>Concrete requests\<close>

definition sample_tenant_db :: meta_db where
  "sample_tenant_db = empty_db\<lparr>
     db_users := [\<lparr>us_id = ''u'', us_email = ''a@b'', us_hash = [], us_salt = [], us_role = ''user'', us_created = 0\<rparr>],
     db_workspaces := [\<lparr>ws_id = ''uu'', ws_tenant = ''u'', ws_name = ''Default Workspace'', ws_created = 0, wr_user = ''u''\<rparr>],
     db_next := 2\<rparr>"

definition sample_new_connection :: meta_connection where
  "sample_new_connection = \<lparr>mc_id = [], mc_workspace = ''uu'', mc_user = ''u'', mc_tenant = ''u'', mc_name = ''main'',
     mc_adapter = ''postgres'', mc_params = [(''host'', JStr ''db'')], mc_created = 0\<rparr>"

lemma sample_create:
  "fst (svc_CreateConnection sample_meta_env sample_new_connection sample_tenant_db) = Inr ''uuu''"
  by (simp add: svc_CreateConnection_def sample_new_connection_def sample_meta_env_def EncryptJSON_def sample_json_def
      new_cipher_def repo_CreateConnection_def marshal_error_def sample_pg_def db_call_def insert_connection_def
      sample_tenant_db_def empty_db_def Let_def to_lower_def numeral_2_eq_2 numeral_3_eq_3)


lemma schema_never_refreshed_witness:
  "\<exists>snap db'. svc_GetSchema (sample_meta_env\<lparr>me_schema := \<lambda>c a m. Inr [\<lparr>ti_name = ''new'', ti_columns = []\<rparr>]\<rparr>) ''u'' ''t1'' db'
     = (Inr snap, db') \<and> ss_tables snap = []"
proof -
  have "map_prod (map_sum id ss_tables) db_faults (svc_GetSchema sample_meta_env ''u'' ''t1'' sample_meta) = (Inr [], [])"
    by (simp add: svc_GetSchema_def repo_GetSchemaSnapshot_def repo_GetConnection_def db_read_def db_call_def sample_meta_def
        empty_db_def sample_meta_env_def sample_pg_def sample_connection_def Let_def newest_first_def scan_connection_def
        fetch_schema_def DecryptJSON_def sample_json_def repo_SaveSchemaSnapshot_def insert_snapshot_def to_lower_def)
  then obtain snap db' where d: "svc_GetSchema sample_meta_env ''u'' ''t1'' sample_meta = (Inr snap, db')" "ss_tables snap = []"
    "db_faults db' = []"
    by (cases "svc_GetSchema sample_meta_env ''u'' ''t1'' sample_meta"; cases "fst (svc_GetSchema sample_meta_env ''u'' ''t1'' sample_meta)") auto
  have "db_faults sample_meta = []" by (simp add: sample_meta_def empty_db_def)
  from schema_never_refreshed [OF d(1) this refl refl d(3),
      of "sample_meta_env\<lparr>me_schema := \<lambda>c a m. Inr [\<lparr>ti_name = ''new'', ti_columns = []\<rparr>]\<rparr>"] d(2)
  show ?thesis by auto
qed

definition sample_new_plugin :: plugin_definition where
  "sample_new_plugin = \<lparr>pd_id = [], pd_type = ''DB_ADAPTER'', pd_name = ''duck'', pd_version = ''1'', pd_author = [],
     pd_endpoint = ''duck:9000'', pd_protocol = [], pd_status = [], pd_tenant = ''u'', pd_global = False,
     pd_heartbeat = None, pd_error = [], pd_created = 0\<rparr>"

lemma sample_register_plugin: "fst (svc_RegisterPlugin sample_meta_env sample_new_plugin sample_tenant_db) = Inr ''uuu''"
proof -
  have "SplitHostPort ''duck:9000'' = Inr (''duck'', ''9000'')" by code_simp
  moreover have "trim_space ''u'' \<noteq> []" by code_simp
  ultimately show ?thesis
    by (simp add: svc_RegisterPlugin_def sample_new_plugin_def sample_meta_env_def repo_RegisterPlugin_def db_call_def
        insert_plugin_def plugin_states_def sample_tenant_db_def empty_db_def Let_def sample_pg_def insert_tenant_plugin_def
        numeral_2_eq_2)
qed

lemma registered_plugin_valid_witness:
  "\<exists>db'. svc_RegisterPlugin sample_meta_env sample_new_plugin sample_tenant_db = (Inr ''uuu'', db')
    \<and> (''u'', ''uuu'') \<in> set (db_tenant_plugins db')"
proof -
  obtain db' where "svc_RegisterPlugin sample_meta_env sample_new_plugin sample_tenant_db = (Inr ''uuu'', db')"
    using sample_register_plugin by (metis prod.collapse)
  with registered_plugin_valid [OF this] show ?thesis by (auto simp: sample_new_plugin_def)
qed

text \<open>The two insertions of a registration are not one transaction: when the second fails the plugin stays, not
  enabled for its tenant, and a second attempt is refused.\<close>

lemma half_registered_plugin:
  assumes "db_faults db = [NoFault, Fails ''timeout'']" and "pd_global p = False"
    and "insert_plugin env p (db\<lparr>db_faults := [Fails ''timeout'']\<rparr>) = (Inr i, db1)"
  shows "fst (repo_RegisterPlugin env p db) = Inl (Err ''enable tenant plugin: timeout'')
    \<and> fst (repo_RegisterPlugin env p (snd (repo_RegisterPlugin env p db))) = Inl (Err ''plugin already exists'')"
proof -
  have f: "db_faults db1 = [Fails ''timeout'']" and pl: "db_plugins db1 = db_plugins db
      @ [plugin_definition.extend (p\<lparr>pd_id := i, pd_heartbeat := None, pd_error := [], pd_created := db_now db\<rparr>) (plugin_row.fields 0)]"
    using assms(3) by (auto simp: insert_plugin_def Let_def split: if_splits)
  have first: "repo_RegisterPlugin env p db = (Inl (Err ''enable tenant plugin: timeout''), db1\<lparr>db_faults := []\<rparr>)"
    using assms f by (simp add: repo_RegisterPlugin_def db_call_def Let_def wrap_def)
  have "\<exists>r\<in>set (db_plugins db1). pd_name r = pd_name p \<and> pd_version r = pd_version p"
    by (simp add: pl plugin_definition.defs plugin_row.defs)
  then show ?thesis
    unfolding first by (auto simp: repo_RegisterPlugin_def db_call_def insert_plugin_def insert_error_def Let_def)
qed

text \<open>The same with a user whose default workspace could not be created.\<close>

lemma half_registered_user:
  "fst (svc_RegisterUser sample_meta_env ''a@b'' ''correct horse'' ''user'' (empty_db\<lparr>db_faults := [NoFault, Fails ''timeout'']\<rparr>))
     = Inl (Err ''create default workspace: insert workspace: timeout'')
   \<and> fst (svc_RegisterUser sample_meta_env ''a@b'' ''correct horse'' ''user''
       (snd (svc_RegisterUser sample_meta_env ''a@b'' ''correct horse'' ''user'' (empty_db\<lparr>db_faults := [NoFault, Fails ''timeout'']\<rparr>))))
     = Inl (Err ''user already exists'')"
proof -
  have "normalizeEmail sample_meta_env ''a@b'' = Inr ''a@b''"
    by (simp add: normalizeEmail_def sample_meta_env_def) code_simp
  then show ?thesis
    by (simp add: svc_RegisterUser_def generatePasswordSalt_def sample_meta_env_def repo_CreateUser_def db_call_def insert_user_def
        empty_db_def Let_def hashPasswordInput_def b64_raw_length repo_CreateWorkspace_def insert_workspace_def sample_pg_def
        insert_error_def wrap_def to_lower_def)
qed

end
