(* ===== verification/Platform.thy ===== *)
theory Platform
  imports Gateway_Facts MetaService_Facts
begin

text \<open>
  The services composed: the gateway over the gRPC clients of \<^verbatim>\<open>services/agent-gateway/internal/client\<close>, which
  pass a call on to Meta Service, Query Engine and Connection Manager, and over the HTTP interface of Meta
  Service. A plain error of a handler crosses the wire as status \<^verbatim>\<open>Unknown\<close>. A panic in the gRPC server of
  Query Engine, which no interceptor recovers, ends the process: the caller sees a broken stream and what a
  restart leaves of the service is the field \<open>pe_restart\<close>.
\<close>

record platform =
  pf_meta :: meta_db
  pf_query :: query_server
  pf_registry :: registry

record platform_env =
  pe_meta :: meta_env
  pe_codec :: codec
  pe_struct :: "gomap \<Rightarrow> goerr + gomap"
  pe_nuid :: string
  pe_latency :: "64 word"
  pe_restart :: "query_server \<Rightarrow> query_server"

fun over_wire :: "rpc_error \<Rightarrow> rpc_error" where
  "over_wire (Status c m) = Status c m"
| "over_wire (Plain e) = Plain (Err (''rpc error: code = Unknown desc = '' @ error_text e))"

definition wire :: "('a \<Rightarrow> 'b) \<Rightarrow> rpc_error + 'a \<Rightarrow> rpc_error + 'b option" where
  "wire k x = (case x of Inl e \<Rightarrow> Inl (over_wire e) | Inr a \<Rightarrow> Inr (Some (k a)))"

definition on_meta :: "('a \<Rightarrow> 'b) \<Rightarrow> (meta_db \<Rightarrow> (rpc_error + 'a) \<times> meta_db) \<Rightarrow> platform \<Rightarrow> (rpc_error + 'b option) \<times> platform" where
  "on_meta k f p = (case f (pf_meta p) of (x, db) \<Rightarrow> (wire k x, p\<lparr>pf_meta := db\<rparr>))"

definition on_query ::
  "(query_server \<Rightarrow> (rpc_error + 'a) \<times> query_server) \<Rightarrow> platform \<Rightarrow> (rpc_error + 'a option) \<times> platform" where
  "on_query f p = (case f (pf_query p) of (x, qs) \<Rightarrow> (wire id x, p\<lparr>pf_query := qs\<rparr>))"

definition survive :: "platform_env \<Rightarrow> (rpc_error + 'a) outcome \<times> query_server \<Rightarrow> (rpc_error + 'a) \<times> query_server" where
  "survive pe r =
     (case r of
        (Returns x, qs) \<Rightarrow> (x, qs)
      | (Panics, qs) \<Rightarrow> (Inl (Status Unavailable ''error reading from server: EOF''), pe_restart pe qs))"

section \<open>The clients of the gateway\<close>

definition MetaClient :: "platform_env \<Rightarrow> platform clients \<Rightarrow> platform clients" where
  "MetaClient pe cl = (let env = pe_meta pe in cl\<lparr>
     gc_GetSchema := \<lambda>r. on_meta Some (grpc_GetSchema env (rf_conn r) (rf_tenant r)),
     gc_ListWorkspaces := \<lambda>r. on_meta (map_prod (map Some) id) (grpc_ListWorkspaces env (wq_tenant r) (wq_page r)),
     gc_CreateConnection := \<lambda>r. on_meta id (grpc_CreateConnection env r),
     gc_GetConnection := \<lambda>r. on_meta id (grpc_GetConnection env (rf_conn r) (rf_tenant r)),
     gc_ListConnections := \<lambda>r. on_meta id (grpc_ListConnections env (lq_tenant r) (lq_workspace r) (lq_page r)),
     gc_DeleteConnection := \<lambda>r. on_meta id (grpc_DeleteConnection env (rf_conn r) (rf_tenant r)),
     gc_RegisterPlugin := \<lambda>r. on_meta id (grpc_RegisterPlugin env r)\<rparr>)"

definition QueryEngineClient :: "platform_env \<Rightarrow> platform clients \<Rightarrow> platform clients" where
  "QueryEngineClient pe cl = cl\<lparr>
     gc_SubmitQuery := \<lambda>r. on_query (SubmitQuery (pe_nuid pe) r),
     gc_GetJobStatus := \<lambda>r. on_query (GetJobStatus (jf_job r) (jf_tenant r)),
     gc_GetJobResult := \<lambda>r. on_query (\<lambda>qs.
       survive pe (GetJobResult (pe_struct pe) (rq_job r) (rq_tenant r) (rq_page r) (rq_size r) qs))\<rparr>"

definition ConnectionManagerClient :: "platform_env \<Rightarrow> platform clients \<Rightarrow> platform clients" where
  "ConnectionManagerClient pe cl = cl\<lparr>
     gc_TestConnection := \<lambda>r p. (Inr (Some (TestConnection (pe_codec pe) (pe_latency pe) (fst r) (snd r) (pf_registry p))), p)\<rparr>"

definition no_clients :: "platform clients" where
  "no_clients = \<lparr>gc_GetSchema = \<lambda>r p. (Inr None, p), gc_ListWorkspaces = \<lambda>r p. (Inr None, p),
     gc_CreateConnection = \<lambda>r p. (Inr None, p), gc_GetConnection = \<lambda>r p. (Inr None, p),
     gc_ListConnections = \<lambda>r p. (Inr None, p), gc_DeleteConnection = \<lambda>r p. (Inr None, p),
     gc_RegisterPlugin = \<lambda>r p. (Inr None, p), gc_SubmitQuery = \<lambda>r p. (Inr None, p),
     gc_GetJobStatus = \<lambda>r p. (Inr None, p), gc_GetJobResult = \<lambda>r p. (Inr None, p),
     gc_TestConnection = \<lambda>r p. (Inr None, p), gc_meta_http = \<lambda>r p. (Inl (Err []), p)\<rparr>"

definition meta_http :: "platform_env \<Rightarrow> meta_request \<Rightarrow> platform \<Rightarrow> (goerr + meta_reply) \<times> platform" where
  "meta_http pe r p = (case meta_serve (pe_meta pe) r (pf_meta p) of (reply, db) \<Rightarrow> (Inr reply, p\<lparr>pf_meta := db\<rparr>))"

definition platform_clients :: "platform_env \<Rightarrow> platform clients" where
  "platform_clients pe =
     MetaClient pe (QueryEngineClient pe (ConnectionManagerClient pe (no_clients\<lparr>gc_meta_http := meta_http pe\<rparr>)))"

lemma platform_simps [simp]:
  "gc_GetSchema (platform_clients pe) r = on_meta Some (grpc_GetSchema (pe_meta pe) (rf_conn r) (rf_tenant r))"
  "gc_ListWorkspaces (platform_clients pe) w = on_meta (map_prod (map Some) id) (grpc_ListWorkspaces (pe_meta pe) (wq_tenant w) (wq_page w))"
  "gc_CreateConnection (platform_clients pe) c = on_meta id (grpc_CreateConnection (pe_meta pe) c)"
  "gc_GetConnection (platform_clients pe) r = on_meta id (grpc_GetConnection (pe_meta pe) (rf_conn r) (rf_tenant r))"
  "gc_ListConnections (platform_clients pe) l = on_meta id (grpc_ListConnections (pe_meta pe) (lq_tenant l) (lq_workspace l) (lq_page l))"
  "gc_DeleteConnection (platform_clients pe) r = on_meta id (grpc_DeleteConnection (pe_meta pe) (rf_conn r) (rf_tenant r))"
  "gc_RegisterPlugin (platform_clients pe) g = on_meta id (grpc_RegisterPlugin (pe_meta pe) g)"
  "gc_meta_http (platform_clients pe) = meta_http pe"
  by (simp_all add: platform_clients_def MetaClient_def QueryEngineClient_def ConnectionManagerClient_def Let_def)

section \<open>What replies say about connections\<close>

text \<open>The connections in a body, and what may be seen of a row: everything but its parameters.\<close>

fun shown :: "gw_body \<Rightarrow> proto_connection list" where
  "shown (GbConnection c) = (case c of None \<Rightarrow> [] | Some c \<Rightarrow> [c])"
| "shown (GbConnections l) = List.map_filter id (fst l)"
| "shown (GbMeta (MbConnection c)) = (case c of None \<Rightarrow> [] | Some c \<Rightarrow> [c])"
| "shown (GbMeta (MbConnections l)) = List.map_filter id (fst l)"
| "shown _ = []"

definition public_view :: "meta_connection \<Rightarrow> proto_connection" where
  "public_view r = \<lparr>pn_id = mc_id r, pn_workspace = mc_workspace r, pn_tenant = mc_tenant r, pn_name = mc_name r,
     pn_adapter = mc_adapter r, pn_params = None, pn_created = mc_created r\<rparr>"

definition owned :: "meta_env \<Rightarrow> string \<Rightarrow> meta_connection \<Rightarrow> bool" where
  "owned env u r \<longleftrightarrow> mc_tenant r = u \<or> pg_cast (me_pg env) u = Inr (mc_user r)"

definition shows_owned :: "meta_env \<Rightarrow> string \<Rightarrow> gw_reply \<times> platform \<Rightarrow> bool" where
  "shows_owned env u rp \<longleftrightarrow> (case fst rp of HttpError c e \<Rightarrow> True
     | HttpJson c b \<Rightarrow> (\<forall>conn\<in>set (shown b). \<exists>row\<in>set (db_connections (pf_meta (snd rp))). owned env u row \<and> conn = public_view row))"

lemma shows_owned_simps [simp]:
  "shows_owned env u (HttpError c e, p)" "shown b = [] \<Longrightarrow> shows_owned env u (HttpJson c b, p)"
  by (simp_all add: shows_owned_def)

definition silent :: "gw_reply \<times> platform \<Rightarrow> bool" where
  "silent rp \<longleftrightarrow> (case fst rp of HttpError c e \<Rightarrow> True | HttpJson c b \<Rightarrow> shown b = [])"

lemma silent_simps [simp]: "silent (HttpError c e, p)" "silent (HttpJson c b, p) = (shown b = [])"
  by (simp_all add: silent_def)

lemma silent_owned: "silent rp \<Longrightarrow> shows_owned env u rp"
  by (simp add: silent_def shows_owned_def split: reply.splits)

lemma shown_redacted:
  "redactConnectionParams (toProtoConnection env (Some (scan_connection r\<lparr>mc_params := ps\<rparr>))) = Some (public_view r)"
  by (simp add: redactConnectionParams_def toProtoConnection_def public_view_def scan_connection_def)

lemma db_read_connections:
  "db_read q db = (Inr y, db') \<Longrightarrow>
   \<exists>d. q d = Inr y \<and> db_connections d = db_connections db \<and> db_connections db' = db_connections db"
  by (auto simp: db_read_def db_call_def Let_def split: prod.splits fault.splits sum.splits dberr.splits)

lemma read_connection:
  assumes "svc_GetConnection env i t db = (Inr (Some c), db')"
  shows "\<exists>row\<in>set (db_connections db'). mc_tenant row = t \<and> (\<exists>ps. c = scan_connection row\<lparr>mc_params := ps\<rparr>)"
proof -
  let ?q = "\<lambda>d :: meta_db. case pg_cast (me_pg env) i of Inl e \<Rightarrow> Inl e
      | Inr i \<Rightarrow> Inr (find (\<lambda>c. mc_id c = i \<and> mc_tenant c = t) (db_connections d))"
  obtain x db1 where q: "db_read ?q db = (x, db1)" by fastforce
  with assms obtain row ps where x: "x = Inr (Some row)" "c = scan_connection row\<lparr>mc_params := ps\<rparr>" "db' = db1"
    by (auto simp: svc_GetConnection_def repo_GetConnection_def split: sum.splits option.splits prod.splits)
  from db_read_connections [OF q [unfolded x(1)]]
  obtain d :: meta_db where d: "?q d = Inr (Some row)" "db_connections d = db_connections db" "db_connections db1 = db_connections db"
    by (elim exE conjE) (rule that)
  then obtain k where "find (\<lambda>c. mc_id c = k \<and> mc_tenant c = t) (db_connections db) = Some row" by (auto split: sum.splits)
  then have "row \<in> set (db_connections db) \<and> mc_tenant row = t" by (auto simp: find_Some_iff)
  with d(3) x(2,3) show ?thesis by auto
qed

lemma decrypt_all_views:
  "decrypt_all env (map scan_connection rows) = Inr cs \<Longrightarrow>
   map (\<lambda>c. redactConnectionParams (toProtoConnection env (Some c))) cs = map (\<lambda>r. Some (public_view r)) rows"
  by (induction rows arbitrary: cs) (auto simp: shown_redacted split: sum.splits)

lemma list_connections:
  assumes "svc_ListConnections env u w limit offset db = (Inr cs, db')"
  shows "\<exists>rows. set rows \<subseteq> {r \<in> set (db_connections db'). pg_cast (me_pg env) u = Inr (mc_user r)}
    \<and> map (\<lambda>c. redactConnectionParams (toProtoConnection env (Some c))) cs = map (\<lambda>r. Some (public_view r)) rows"
proof -
  obtain ws where ws: "(if w = [] then Inr None else (case pg_parse (me_pg env) w of Inl e \<Rightarrow> Inl e | Inr w \<Rightarrow> Inr (Some w))) = Inr ws"
    using assms by (auto simp: svc_ListConnections_def repo_ListConnections_def split: if_splits sum.splits)
  let ?own = "\<lambda>k d. newest_first mc_created (filter (\<lambda>c. mc_user c = k \<and> (ws = None \<or> ws = Some (mc_workspace c))) (db_connections d))"
  let ?q = "\<lambda>d :: meta_db. case pg_cast (me_pg env) u of Inl e \<Rightarrow> Inl e
      | Inr k \<Rightarrow> limit_offset (me_pg env) (default_limit limit) offset (?own k d)"
  obtain x db1 where q: "db_read ?q db = (x, db1)" by fastforce
  with assms ws obtain rows where x: "x = Inr rows" "decrypt_all env (map scan_connection rows) = Inr cs" "db' = db1"
    by (cases x) (auto simp: svc_ListConnections_def repo_ListConnections_def split: prod.splits)
  from db_read_connections [OF q [unfolded x(1)]]
  obtain d :: meta_db where d: "?q d = Inr rows" "db_connections d = db_connections db" "db_connections db1 = db_connections db"
    by (elim exE conjE) (rule that)
  then obtain k where k: "pg_cast (me_pg env) u = Inr k" "limit_offset (me_pg env) (default_limit limit) offset (?own k db) = Inr rows"
    by (auto split: sum.splits)
  then have "set rows \<subseteq> set (?own k db)"
    by (auto simp: limit_offset_def split: if_splits dest!: in_set_takeD in_set_dropD)
  with k(1) d(3) x(3) have "set rows \<subseteq> {r \<in> set (db_connections db'). pg_cast (me_pg env) u = Inr (mc_user r)}" by auto
  with decrypt_all_views [OF x(2)] show ?thesis by blast
qed

lemma get_shows: "shows_owned (pe_meta pe) (getUserID ctx) (handleGetConnection (platform_clients pe) ctx i p)"
proof -
  obtain x db where g: "grpc_GetConnection (pe_meta pe) i (getUserID ctx) (pf_meta p) = (x, db)" by fastforce
  show ?thesis
  proof (cases "\<exists>c. x = Inr (Some c)")
    case True
    then obtain c where c: "x = Inr (Some c)" by blast
    with g obtain mo where "svc_GetConnection (pe_meta pe) i (getUserID ctx) (pf_meta p) = (Inr mo, db)"
      "toProtoConnection (pe_meta pe) mo = Some c"
      by (auto simp: grpc_GetConnection_def split: if_splits prod.splits sum.splits)
    then obtain mc where mc: "svc_GetConnection (pe_meta pe) i (getUserID ctx) (pf_meta p) = (Inr (Some mc), db)"
      "toProtoConnection (pe_meta pe) (Some mc) = Some c" by (cases mo) (simp_all add: toProtoConnection_def)
    from read_connection [OF mc(1)] obtain row ps where row: "row \<in> set (db_connections db)" "mc_tenant row = getUserID ctx"
      "mc = scan_connection row\<lparr>mc_params := ps\<rparr>" by blast
    with mc(2) shown_redacted [of "pe_meta pe" ps row] have "redactConnectionParams (Some c) = Some (public_view row)" by simp
    with g c row show ?thesis
      by (auto simp: handleGetConnection_def on_meta_def wire_def shows_owned_def owned_def)
  next
    case False
    with g show ?thesis
      by (cases x) (auto simp: handleGetConnection_def on_meta_def wire_def panic_reply_def split: option.split)
  qed
qed

lemma create_shows: "shows_owned (pe_meta pe) (getUserID ctx) (handleCreateConnection (platform_clients pe) ctx b p)"
proof (cases b)
  case (Inr req)
  obtain x db where g: "grpc_CreateConnection (pe_meta pe) (req\<lparr>cr_tenant := getUserID ctx\<rparr>) (pf_meta p) = (x, db)" by fastforce
  show ?thesis
  proof (cases "\<exists>c. x = Inr (Some c)")
    case True
    then obtain c where c: "x = Inr (Some c)" by blast
    with g obtain i db1 mo where "svc_GetConnection (pe_meta pe) i (getUserID ctx) db1 = (Inr mo, db)"
      "toProtoConnection (pe_meta pe) mo = Some c"
      by (auto simp: grpc_CreateConnection_def split: prod.splits sum.splits)
    then obtain mc where mc: "svc_GetConnection (pe_meta pe) i (getUserID ctx) db1 = (Inr (Some mc), db)"
      "toProtoConnection (pe_meta pe) (Some mc) = Some c" by (cases mo) (simp_all add: toProtoConnection_def)
    from read_connection [OF mc(1)] obtain row ps where row: "row \<in> set (db_connections db)" "mc_tenant row = getUserID ctx"
      "mc = scan_connection row\<lparr>mc_params := ps\<rparr>" by blast
    with mc(2) shown_redacted [of "pe_meta pe" ps row] have "redactConnectionParams (Some c) = Some (public_view row)" by simp
    with g c row Inr show ?thesis
      by (auto simp: handleCreateConnection_def on_meta_def wire_def shows_owned_def owned_def)
  next
    case False
    with g Inr show ?thesis
      by (cases x) (auto simp: handleCreateConnection_def on_meta_def wire_def redactConnectionParams_def split: option.split)
  qed
qed (simp add: handleCreateConnection_def)

lemma list_shows: "shows_owned (pe_meta pe) (getUserID ctx) (handleListConnections (platform_clients pe) ctx q p)"
proof -
  let ?limit = "if fst (atoi (q_get q ''limit'')) \<le> 0 then 20 else fst (atoi (q_get q ''limit''))"
  let ?page = "Some (to_int32 ?limit, to_int32 (fst (atoi (q_get q ''offset''))))"
  obtain x db where g: "grpc_ListConnections (pe_meta pe) (getUserID ctx) (q_get q ''workspace_id'') ?page (pf_meta p) = (x, db)"
    by fastforce
  show ?thesis
  proof (cases x)
    case (Inr y)
    obtain l lm where y: "y = (l, lm)" by fastforce
    from g Inr y obtain cs limit offset where cs: "l = map (\<lambda>c. toProtoConnection (pe_meta pe) (Some c)) cs"
      "svc_ListConnections (pe_meta pe) (getUserID ctx) (q_get q ''workspace_id'') limit offset (pf_meta p) = (Inr cs, db)"
      by (auto simp: grpc_ListConnections_def pagination_def split: prod.splits sum.splits)
    from list_connections [OF cs(2)] obtain rows where
      rows: "set rows \<subseteq> {r \<in> set (db_connections db). pg_cast (me_pg (pe_meta pe)) (getUserID ctx) = Inr (mc_user r)}"
      "map redactConnectionParams l = map (\<lambda>r. Some (public_view r)) rows" by (auto simp: cs(1) o_def)
    have "shown (GbConnections (map redactConnectionParams l, lm)) = map public_view rows"
      unfolding shown.simps fst_conv rows(2) by (simp add: map_filter_def o_def)
    with rows(1) g Inr y show ?thesis
      by (auto simp: handleListConnections_def Let_def on_meta_def wire_def shows_owned_def owned_def simp del: shown.simps)
  qed (use g in \<open>simp add: handleListConnections_def Let_def on_meta_def wire_def\<close>)
qed

text \<open>No other route answers with a connection.\<close>

fun account_route :: "meta_route \<Rightarrow> bool" where
  "account_route (RRegister b) = True"
| "account_route (RLogin b) = True"
| "account_route (RCreateAgent b) = True"
| "account_route RMe = True"
| "account_route RListAgents = True"
| "account_route _ = False"

lemma meta_shows_none:
  "meta_serve env \<lparr>mr_route = r, mr_query = q\<rparr> db = (reply, db') \<Longrightarrow> account_route r \<Longrightarrow>
   (case reply of HttpError c e \<Rightarrow> True | HttpJson c b \<Rightarrow> shown (GbMeta b) = [])"
  by (cases r)
     (auto simp: meta_serve_def serve_me_def serve_create_agent_def serve_list_agents_def Let_def
       split: sum.splits prod.splits if_splits option.splits)

lemma proxy_silent:
  assumes "account_route r"
  shows "silent (proxyToMetaHTTP ge g (platform_clients pe) ctx r q p)"
proof -
  obtain q' reply db where q': "q' = (if getUserID ctx \<noteq> [] then q_set ''user_id'' (getUserID ctx) q else q)"
    and reply: "meta_serve (pe_meta pe) \<lparr>mr_route = r, mr_query = q'\<rparr> (pf_meta p) = (reply, db)"
    by (metis surj_pair)
  show ?thesis
    using meta_shows_none [OF reply [unfolded q'] assms] reply [unfolded q']
    by (cases reply; cases "getUserID ctx = []") (simp_all add: proxyToMetaHTTP_def meta_http_def split: option.split)
qed

lemma login_silent: "silent (handleLogin ge g (platform_clients pe) b p)"
proof -
  obtain reply db where reply: "meta_serve (pe_meta pe) \<lparr>mr_route = RLogin b, mr_query = []\<rparr> (pf_meta p) = (reply, db)"
    by (metis surj_pair)
  then show ?thesis
    using meta_shows_none [OF reply] by (cases reply)
      (auto simp: handleLogin_def meta_http_def split: option.split sum.split)
qed

lemma dispatch_shows: "shows_owned (pe_meta pe) (getUserID ctx) (dispatch env g (platform_clients pe) ctx q r p)"
proof (cases r)
  case (GMcp c)
  then show ?thesis by (simp split: prod.split)
qed (auto simp: silent_owned proxy_silent login_silent get_shows create_shows list_shows handleGenerateAgentToken_def handleGetSchema_def
  handleSubmitQuery_def handleGetJobStatus_def handleGetJobResult_def handleTestConnection_def handleDeleteConnection_def
  handleRegisterPlugin_def handleListWorkspaces_def rpc_answer_def unauthorized_def Let_def split: prod.split sum.split option.split)

end
