(* ===== verification/Platform_Facts.thy ===== *)
theory Platform_Facts
  imports Platform
begin

text \<open>
  What the composed services guarantee: whose account an agent lands in, what replies say about connections, and what one tenant can see and do
  of another's connections through the gateway.
\<close>

section \<open>Agents\<close>

lemma jwt_accepts:
  assumes "gw_jwt g = Some m" and "bearer_user env m auth = Some u"
  obtains ctx where "jwtMiddleware env g auth = Inr ctx" "getUserID ctx = u" "u \<noteq> []"
  using assms by (fastforce simp: bearer_user_def jwtMiddleware_def getUserID_def Verify_def
    split: option.splits prod.splits sum.splits if_splits)

lemma authenticated:
  assumes "gw_jwt g = Some m" and "bearer_user env m (gr_auth req) = Some u" and "protected (gr_route req)"
    and "gw_corsMiddleware g (gr_origin req) (gr_method req) = (None, origin)"
  obtains ctx where "getUserID ctx = u" "u \<noteq> []"
    "\<And>cl s. gateway_handler env g cl req s
      = (case dispatch env g cl ctx (gr_query req) (gr_route req) s of (r, s') \<Rightarrow> ((r, origin), s'))"
proof -
  from jwt_accepts [OF assms(1,2)] obtain ctx where c: "jwtMiddleware env g (gr_auth req) = Inr ctx" "getUserID ctx = u" "u \<noteq> []"
    by blast
  show thesis by (rule that [OF c(2,3)]) (simp add: gateway_handler_def assms c(1))
qed

lemma CreateAgent_row:
  assumes "pg_ok (me_pg env)" and "db_faults db = []" and "fresh_ids (me_pg env) db" and "owner \<in> us_id ` set (db_users db)"
  shows "svc_CreateAgent env owner name db
    = (let a = \<lparr>ag_id = pg_id (me_pg env) (db_next db), ag_user = owner, ag_name = name, ag_jti = None, ag_status = ''active'',
                ag_created = db_now db\<rparr> in
       (Inr (Some a), db\<lparr>db_next := db_next db + 1, db_agents := db_agents db @ [a]\<rparr>))"
proof -
  let ?i = "pg_id (me_pg env) (db_next db)"
  have "ag_id x \<noteq> ?i" if "x \<in> set (db_agents db)" for x
  proof
    assume "ag_id x = ?i"
    moreover from that have "ag_id x \<in> pg_id (me_pg env) ` {..<db_next db}"
      using assms(3) by (auto simp: fresh_ids_def generated_def)
    ultimately show False using assms(1) by (auto simp: pg_ok_def dest: injD)
  qed
  then have f: "find (\<lambda>a. ag_id a = ?i) (db_agents db @ [a]) = Some a" if "ag_id a = ?i" for a
    using that by (intro find_last) auto
  let ?a = "\<lparr>ag_id = ?i, ag_user = owner, ag_name = name, ag_jti = None, ag_status = ''active'', ag_created = db_now db\<rparr>"
  let ?db = "db\<lparr>db_next := db_next db + 1, db_agents := db_agents db @ [?a]\<rparr>"
  have "repo_CreateAgent (me_pg env) owner name db = (Inr ?i, ?db)"
    using assms(2,4) by (auto simp: repo_CreateAgent_def db_call_ok insert_agent_def Let_def)
  moreover have "repo_GetAgent (me_pg env) ?i ?db = (Inr (Some ?a), ?db)"
    using assms(1,2) f [of ?a] by (simp add: repo_GetAgent_def db_read_ok pg_ok_def)
  ultimately show ?thesis by (simp add: svc_CreateAgent_def Let_def)
qed

text \<open>C23. Registering an agent through the gateway works, and the agent belongs to the user the body names, or to the
  user of the token when it names none: any user can create agents in the account of any other.\<close>

theorem agent_created_for_named_user:
  assumes "gw_jwt g = Some m" and "bearer_user env m (gr_auth req) = Some user"
    and "gr_route req = GCreateAgent (Inr (name, body_user))" and "gr_origin req = []" and "gr_method req = ''POST''"
    and "ge_request env (gw_base g) = None" and "pg_ok (me_pg (pe_meta pe))" and "db_faults (pf_meta p) = []"
    and "fresh_ids (me_pg (pe_meta pe)) (pf_meta p)"
    and "pg_parse (me_pg (pe_meta pe)) (if body_user = [] then user else body_user) = Inr owner"
    and "owner \<in> us_id ` set (db_users (pf_meta p))"
  shows "\<exists>a p'. gateway_handler env g (platform_clients pe) req p
      = ((HttpJson 201 (GbMeta (MbAgent (ag_id a, owner, name, ''active''))), None), p')
    \<and> db_agents (pf_meta p') = db_agents (pf_meta p) @ [a] \<and> ag_user a = owner \<and> ag_name a = name"
proof -
  have "gw_corsMiddleware g (gr_origin req) (gr_method req) = (None, None)" using assms(4,5) by (simp add: gw_corsMiddleware_def)
  with authenticated [OF assms(1,2)] assms(3) obtain ctx where ctx: "getUserID ctx = user" "user \<noteq> []"
    "gateway_handler env g (platform_clients pe) req p
      = (case dispatch env g (platform_clients pe) ctx (gr_query req) (gr_route req) p of (r, s') \<Rightarrow> ((r, None), s'))"
    by (metis protected.simps(7))
  have "agent_owner body_user (q_set ''user_id'' user (gr_query req)) = (if body_user = [] then user else body_user)"
    by (simp add: agent_owner_def)
  with ctx assms(3,6,10) CreateAgent_row [OF assms(7,8,9,11), of name] show ?thesis
    by (simp add: proxyToMetaHTTP_def meta_http_def meta_serve_def serve_create_agent_def Let_def agent_fields_def)
qed

section \<open>Tenants\<close>

lemma db_read_faults: "snd (db_read q db) = db\<lparr>db_faults := snd (next_fault (db_faults db))\<rparr>"
  by (simp add: db_read_def db_call_def Let_def split: prod.split fault.split sum.split dberr.split)

lemma db_read_state: "db_read q db = (x, db') \<Longrightarrow> db' = db\<lparr>db_faults := snd (next_fault (db_faults db))\<rparr>"
  using db_read_faults [of q db] by simp

lemma GetConnection_reply:
  "fst (repo_GetConnection (me_pg env) c t a) = fst (repo_GetConnection (me_pg env) c t b) \<Longrightarrow>
   fst (grpc_GetConnection env c t a) = fst (grpc_GetConnection env c t b)"
  by (auto simp: grpc_GetConnection_def svc_GetConnection_def split: prod.splits sum.splits option.splits)

lemma DeleteConnection_reply:
  "fst (repo_DeleteConnection (me_pg env) c t a) = fst (repo_DeleteConnection (me_pg env) c t b) \<Longrightarrow>
   fst (grpc_DeleteConnection env c t a) = fst (grpc_DeleteConnection env c t b)"
  by (auto simp: grpc_DeleteConnection_def svc_DeleteConnection_def split: prod.splits sum.splits option.splits)

lemma GetConnection_view_kept: "tenant_view t (snd (grpc_GetConnection env c u db)) = tenant_view t db"
proof -
  have "snd (repo_GetConnection (me_pg env) c u db) = db\<lparr>db_faults := snd (next_fault (db_faults db))\<rparr>"
    by (auto simp: repo_GetConnection_def split: prod.splits sum.splits option.splits dest: db_read_state)
  then have "tenant_view t (snd (repo_GetConnection (me_pg env) c u db)) = tenant_view t db"
    by (simp add: tenant_view_def)
  moreover have "snd (grpc_GetConnection env c u db) = (if required c u then snd (repo_GetConnection (me_pg env) c u db) else db)"
    by (simp add: grpc_GetConnection_def svc_GetConnection_def split: prod.split sum.split option.split)
  ultimately show ?thesis by simp
qed

lemma DeleteConnection_state:
  "snd (grpc_DeleteConnection env c u db) = (if required c u then snd (repo_DeleteConnection (me_pg env) c u db) else db)"
  by (simp add: grpc_DeleteConnection_def svc_DeleteConnection_def split: prod.split option.split)

lemma on_meta_reply: "fst (f (pf_meta p)) = fst (f (pf_meta q)) \<Longrightarrow> fst (on_meta k f p) = fst (on_meta k f q)"
  by (simp add: on_meta_def split_beta)

lemma on_meta_state: "pf_meta (snd (on_meta k f p)) = snd (f (pf_meta p))"
  by (simp add: on_meta_def split_beta)

lemma handleGetConnection_parts:
  "fst (gc_GetConnection cl \<lparr>rf_conn = i, rf_tenant = getUserID ctx\<rparr> a) = fst (gc_GetConnection cl \<lparr>rf_conn = i, rf_tenant = getUserID ctx\<rparr> b)
   \<Longrightarrow> fst (handleGetConnection cl ctx i a) = fst (handleGetConnection cl ctx i b)"
  "snd (handleGetConnection cl ctx i a) = snd (gc_GetConnection cl \<lparr>rf_conn = i, rf_tenant = getUserID ctx\<rparr> a)"
  by (auto simp: handleGetConnection_def split: prod.splits sum.splits option.splits)

lemma handleDeleteConnection_parts:
  "fst (gc_DeleteConnection cl \<lparr>rf_conn = i, rf_tenant = getUserID ctx\<rparr> a) = fst (gc_DeleteConnection cl \<lparr>rf_conn = i, rf_tenant = getUserID ctx\<rparr> b)
   \<Longrightarrow> fst (handleDeleteConnection cl ctx i a) = fst (handleDeleteConnection cl ctx i b)"
  "snd (handleDeleteConnection cl ctx i a) = snd (gc_DeleteConnection cl \<lparr>rf_conn = i, rf_tenant = getUserID ctx\<rparr> a)"
  by (auto simp: handleDeleteConnection_def rpc_answer_def split: prod.splits sum.splits option.splits)

text \<open>C20. Through the gateway a user reads and deletes connections as if no one else had any: on platforms that agree on
  the connections of the token's user the replies are the same, whatever identifier is asked for and whatever
  the query claims, and those of every other tenant stay as they are.\<close>

theorem gateway_noninterference:
  assumes "gw_jwt g = Some m" and "bearer_user env m (gr_auth req) = Some user"
    and "gr_route req \<in> {GGetConnection i, GDeleteConnection i}"
    and "tenant_view user (pf_meta p) = tenant_view user (pf_meta q)" and "db_faults (pf_meta p) = db_faults (pf_meta q)"
    and "fresh_ids (me_pg (pe_meta pe)) (pf_meta p)"
  shows "fst (gateway_handler env g (platform_clients pe) req p) = fst (gateway_handler env g (platform_clients pe) req q)
    \<and> (\<forall>t. t \<noteq> user \<longrightarrow>
        tenant_view t (pf_meta (snd (gateway_handler env g (platform_clients pe) req p))) = tenant_view t (pf_meta p))"
proof (cases "gw_corsMiddleware g (gr_origin req) (gr_method req)")
  case (Pair stop origin)
  show ?thesis
  proof (cases stop)
    case (Some r)
    with Pair show ?thesis by (simp add: gateway_handler_def)
  next
    case None
    with Pair have cors: "gw_corsMiddleware g (gr_origin req) (gr_method req) = (None, origin)" by simp
    have "protected (gr_route req)" using assms(3) by auto
    from authenticated [OF assms(1,2) this cors] obtain ctx where ctx: "getUserID ctx = user"
      "\<And>cl s :: platform. gateway_handler env g cl req s
        = (case dispatch env g cl ctx (gr_query req) (gr_route req) s of (r, s') \<Rightarrow> ((r, origin), s'))" by metis
    note same = tenant_noninterference [OF assms(4-6)]
    let ?out = "\<lambda>s. dispatch env g (platform_clients pe) ctx (gr_query req) (gr_route req) s"
    have "fst (?out p) = fst (?out q) \<and> (\<forall>t. t \<noteq> user \<longrightarrow> tenant_view t (pf_meta (snd (?out p))) = tenant_view t (pf_meta p))"
    proof (cases "gr_route req = GGetConnection i")
      case True
      have "fst (grpc_GetConnection (pe_meta pe) i user (pf_meta p)) = fst (grpc_GetConnection (pe_meta pe) i user (pf_meta q))"
        using same by (intro GetConnection_reply) blast
      with True ctx(1) show ?thesis
        by (auto simp: handleGetConnection_parts(2) on_meta_state GetConnection_view_kept intro!: handleGetConnection_parts(1) on_meta_reply)
    next
      case False
      then have r: "gr_route req = GDeleteConnection i" using assms(3) by simp
      have "fst (grpc_DeleteConnection (pe_meta pe) i user (pf_meta p)) = fst (grpc_DeleteConnection (pe_meta pe) i user (pf_meta q))"
        using same by (intro DeleteConnection_reply) blast
      with r ctx(1) same show ?thesis
        by (auto simp: handleDeleteConnection_parts(2) on_meta_state DeleteConnection_state intro!: handleDeleteConnection_parts(1) on_meta_reply)
    qed
    then show ?thesis by (simp add: ctx(2) split_beta)
  qed
qed

section \<open>Connections in replies\<close>

text \<open>C19. Every connection in a reply of the gateway is a row of the table as the request left it, a row of the user of
  the token (its tenant, or its user in a list), with all its fields but the parameters: these never leave with a
  connection, whatever is asked for and whatever is stored. (The texts of errors, tests and query results come from
  the drivers and are not spoken of.)\<close>

theorem connections_shown_are_own_and_redacted:
  assumes "gw_jwt g = Some m"
    and "gateway_handler env g (platform_clients pe) req p = ((HttpJson c b, origin), p')" and "conn \<in> set (shown b)"
  shows "\<exists>u row. bearer_user env m (gr_auth req) = Some u \<and> row \<in> set (db_connections (pf_meta p'))
    \<and> (mc_tenant row = u \<or> pg_cast (me_pg (pe_meta pe)) u = Inr (mc_user row)) \<and> pn_params conn = None
    \<and> conn = \<lparr>pn_id = mc_id row, pn_workspace = mc_workspace row, pn_tenant = mc_tenant row, pn_name = mc_name row,
        pn_adapter = mc_adapter row, pn_params = None, pn_created = mc_created row\<rparr>"
proof -
  obtain orig where cors: "gw_corsMiddleware g (gr_origin req) (gr_method req) = (None, orig)"
    using assms(2,3) by (cases "gw_corsMiddleware g (gr_origin req) (gr_method req)")
      (auto simp: gateway_handler_def gw_corsMiddleware_def split: option.splits if_splits)
  have prot: "protected (gr_route req)"
  proof (rule ccontr)
    assume np: "\<not> ?thesis"
    then have d: "dispatch env g (platform_clients pe) no_context (gr_query req) (gr_route req) p = (HttpJson c b, p')"
      using assms(2) cors by (simp add: gateway_handler_def split: prod.splits)
    have "silent (dispatch env g (platform_clients pe) no_context (gr_query req) (gr_route req) p)"
      using np by (cases "gr_route req") (simp_all add: proxy_silent login_silent)
    with assms(3) show False unfolding d by simp
  qed
  with assms(2) cors obtain ctx where ctx: "jwtMiddleware env g (gr_auth req) = Inr ctx"
    "dispatch env g (platform_clients pe) ctx (gr_query req) (gr_route req) p = (HttpJson c b, p')"
    using jwt_refusal [of env g "gr_auth req"]
    by (cases "jwtMiddleware env g (gr_auth req)") (auto simp: gateway_handler_def unauthorized_def split: prod.splits)
  from dispatch_shows [of pe ctx env g "gr_query req" "gr_route req" p] assms(3) obtain row where
    "row \<in> set (db_connections (pf_meta p'))" "owned (pe_meta pe) (getUserID ctx) row" "conn = public_view row"
    unfolding ctx(2) shows_owned_def by auto
  with jwt_context [OF ctx(1) assms(1)] show ?thesis
    by (intro exI [of _ "getUserID ctx"] exI [of _ row]) (simp add: owned_def public_view_def)
qed

section \<open>A concrete platform\<close>

definition sample_platform :: "meta_db \<Rightarrow> platform" where
  "sample_platform db = \<lparr>pf_meta = db, pf_query = NewGRPCServer 5 None None, pf_registry = NewRegistry sample_drivers\<rparr>"

definition sample_platform_env :: platform_env where
  "sample_platform_env = \<lparr>pe_meta = sample_meta_env, pe_codec = sample_codec, pe_struct = Inr, pe_nuid = ''N'', pe_latency = 1,
     pe_restart = id\<rparr>"

definition sample_agent_request :: gw_request where
  "sample_agent_request = \<lparr>gr_method = ''POST'', gr_route = GCreateAgent (Inr (''bot'', ''u'')), gr_query = [], gr_origin = [],
     gr_auth = ''Bearer token''\<rparr>"

lemma sample_bearer: "bearer_user sample_gw_env sample_manager ''Bearer token'' = Some ''u1''"
  by code_simp

lemma sample_gateway_simps [simp]:
  "gw_jwt sample_gateway = Some sample_manager" "ge_request sample_gw_env base = None"
  "me_pg (pe_meta sample_platform_env) = sample_pg" "pf_meta (sample_platform db) = db"
  by (simp_all add: sample_gateway_def gateway_NewServer_def sample_gw_env_def sample_platform_env_def sample_meta_env_def sample_platform_def)

lemma sample_tenant_fresh: "fresh_ids sample_pg sample_tenant_db"
proof -
  have "''u'' = pg_id sample_pg 0" "''uu'' = pg_id sample_pg 1" by (simp_all add: sample_pg_def)
  then show ?thesis by (auto simp: fresh_ids_def generated_def sample_tenant_db_def empty_db_def)
qed

lemma agent_created_for_named_user_witness:
  "\<exists>a p'. gateway_handler sample_gw_env sample_gateway (platform_clients sample_platform_env) sample_agent_request
      (sample_platform sample_tenant_db)
    = ((HttpJson 201 (GbMeta (MbAgent (ag_id a, ''u'', ''bot'', ''active''))), None), p')
    \<and> db_agents (pf_meta p') = db_agents sample_tenant_db @ [a] \<and> ag_user a = ''u'' \<and> ag_name a = ''bot''"
proof -
  have req: "gr_route sample_agent_request = GCreateAgent (Inr (''bot'', ''u''))" "gr_origin sample_agent_request = []"
    "gr_method sample_agent_request = ''POST''" "gr_auth sample_agent_request = ''Bearer token''"
    by (simp_all add: sample_agent_request_def)
  have db: "db_faults sample_tenant_db = []" "''u'' \<in> us_id ` set (db_users sample_tenant_db)"
    by (simp_all add: sample_tenant_db_def empty_db_def)
  have "pg_parse sample_pg ''u'' = Inr ''u''" by code_simp
  then show ?thesis
    using agent_created_for_named_user [OF _ _ req(1-3), of sample_gateway sample_manager sample_gw_env "''u1''"
        sample_platform_env "sample_platform sample_tenant_db" "''u''"] sample_bearer sample_pg_ok sample_tenant_fresh db
    unfolding req(4) by simp
qed

lemma gateway_noninterference_witness:
  "fst (gateway_handler sample_gw_env sample_gateway (platform_clients sample_platform_env)
      (sample_gw_request (GGetConnection ''u'') []) (sample_platform sample_meta))
   = fst (gateway_handler sample_gw_env sample_gateway (platform_clients sample_platform_env)
      (sample_gw_request (GGetConnection ''u'') []) (sample_platform empty_db))"
proof -
  have "tenant_view ''u1'' sample_meta = tenant_view ''u1'' empty_db" "db_faults sample_meta = db_faults empty_db"
    by (simp_all add: tenant_view_def sample_meta_def sample_connection_def empty_db_def)
  moreover have "fresh_ids sample_pg sample_meta"
    by (simp add: fresh_ids_def generated_def sample_meta_def sample_connection_def empty_db_def sample_pg_def)
  ultimately show ?thesis
    using gateway_noninterference [of sample_gateway sample_manager sample_gw_env "sample_gw_request (GGetConnection ''u'') []" "''u1''"
        "''u''" "sample_platform sample_meta" "sample_platform empty_db" sample_platform_env] sample_bearer
    by (simp add: sample_gw_request_def)
qed

definition shown_db :: meta_db where
  "shown_db = empty_db\<lparr>db_connections := [\<lparr>mc_id = ''c1'', mc_workspace = ''w'', mc_user = ''u1'', mc_tenant = ''u1'', mc_name = ''main'',
     mc_adapter = ''mysql'', mc_params = [(''password'', JStr ''secret'')], mc_created = 0\<rparr>]\<rparr>"

definition plain_platform_env :: platform_env where
  "plain_platform_env = sample_platform_env\<lparr>pe_meta := sample_meta_env\<lparr>me_codec := sample_codec, me_key := None\<rparr>\<rparr>"

lemma connections_shown_are_own_and_redacted_witness:
  "\<exists>conn b origin p'. gateway_handler sample_gw_env sample_gateway (platform_clients plain_platform_env)
      (sample_gw_request (GGetConnection ''c1'') []) (sample_platform shown_db) = ((HttpJson 200 b, origin), p')
    \<and> shown b = [conn] \<and> pn_params conn = None"
proof -
  let ?r = "gateway_handler sample_gw_env sample_gateway (platform_clients plain_platform_env)
      (sample_gw_request (GGetConnection ''c1'') []) (sample_platform shown_db)"
  have "(case fst (fst ?r) of HttpJson c b \<Rightarrow> c = 200 \<and> length (shown b) = 1 | _ \<Rightarrow> False)" by code_simp
  then obtain b conn where b: "fst (fst ?r) = HttpJson 200 b" "shown b = [conn]"
    by (auto simp: length_Suc_conv split: reply.splits)
  then have "?r = ((HttpJson 200 b, snd (fst ?r)), snd ?r)" by (metis prod.collapse)
  moreover have "gw_jwt sample_gateway = Some sample_manager" by simp
  ultimately have "pn_params conn = None"
    using connections_shown_are_own_and_redacted [of sample_gateway sample_manager] b(2) by (metis list.set_intros(1))
  with b \<open>?r = _\<close> show ?thesis by blast
qed

end
