(* ===== verification/Bootstrap.thy ===== *)
theory Bootstrap
  imports Go_Encoding Crypto Jwt JobStore
begin

text \<open>
  What the services decide when they start: the configuration taken from the environment
  (\<^verbatim>\<open>pkg/shared/config/config.go\<close>), the addresses announced and looked up over NATS
  (\<^verbatim>\<open>pkg/shared/discovery/discovery.go\<close>), and the choices of the main programs under \<^verbatim>\<open>services/*/cmd\<close>: token
  manager, encrypter, job store and life time of stored results. \<^verbatim>\<open>log.Fatal\<close> is an error.
\<close>

section \<open>Configuration\<close>

text \<open>A field of a configuration struct with its tag and its value: a string, a signed integer of some width, a
  boolean, or a value of another kind; an anonymous struct is embedded.\<close>

datatype cfg_value = CString string | CInt nat int | CBool bool | COther string

datatype cfg_field = CField string cfg_value | CEmbedded "cfg_field list"

fun upper_char :: "char \<Rightarrow> char" where
  "upper_char (Char b0 b1 b2 b3 b4 b5 b6 b7) =
     (let n = of_char (Char b0 b1 b2 b3 b4 b5 b6 b7) :: int
      in Char b0 b1 b2 b3 b4 (b5 \<and> \<not> (97 \<le> n \<and> n \<le> 122)) b6 b7)"

definition ParseInt :: "nat \<Rightarrow> string \<Rightarrow> goerr + int" where
  "ParseInt bits s =
     (let neg = (s \<noteq> [] \<and> hd s = CHR ''-'');
          body = (if s \<noteq> [] \<and> (hd s = CHR ''-'' \<or> hd s = CHR ''+'') then tl s else s);
          failed = (\<lambda>e. Inl (Err (''strconv.ParseInt: parsing '' @ go_quote s @ '': '' @ e))) in
      if body = [] then failed ''invalid syntax''
      else (case parse_digits (2 ^ bits - 1) 0 body of
          Inl too_long \<Rightarrow> failed (if too_long then ''value out of range'' else ''invalid syntax'')
        | Inr n \<Rightarrow>
            (let v = (if neg then - n else n) in
             if v < - (2 ^ (bits - 1)) \<or> 2 ^ (bits - 1) \<le> v then failed ''value out of range'' else Inr v)))"

definition ParseBool :: "string \<Rightarrow> goerr + bool" where
  "ParseBool s =
     (if s \<in> {''1'', ''t'', ''T'', ''true'', ''TRUE'', ''True''} then Inr True
      else if s \<in> {''0'', ''f'', ''F'', ''false'', ''FALSE'', ''False''} then Inr False
      else Inl (Err (''strconv.ParseBool: parsing '' @ go_quote s @ '': invalid syntax'')))"

definition env_name :: "string \<Rightarrow> string" where
  "env_name tag = map upper_char (replace_char (CHR ''-'') ''_'' (hd (split_on (CHR '','') tag)))"

definition lookup_env :: "(string \<Rightarrow> string option) \<Rightarrow> string \<Rightarrow> string option" where
  "lookup_env env name = (case env (''N0_'' @ name) of Some v \<Rightarrow> Some v | None \<Rightarrow> env name)"

fun set_value :: "string \<Rightarrow> string \<Rightarrow> string \<Rightarrow> cfg_value \<Rightarrow> goerr + cfg_value" where
  "set_value tag name v (CString s) = Inr (CString v)"
| "set_value tag name v (CInt bits n) =
     (case ParseInt bits v of Inl e \<Rightarrow> Inl (wrap (''invalid integer for '' @ name) e) | Inr k \<Rightarrow> Inr (CInt bits k))"
| "set_value tag name v (CBool b) =
     (case ParseBool v of Inl e \<Rightarrow> Inl (wrap (''invalid boolean for '' @ name) e) | Inr k \<Rightarrow> Inr (CBool k))"
| "set_value tag name v (COther kind) =
     Inl (Err (''unsupported field type '' @ kind @ '' for key '' @ hd (split_on (CHR '','') tag)))"

fun loadFromEnv :: "(string \<Rightarrow> string option) \<Rightarrow> cfg_field list \<Rightarrow> goerr + cfg_field list"
  and load_field :: "(string \<Rightarrow> string option) \<Rightarrow> cfg_field \<Rightarrow> goerr + cfg_field" where
  "loadFromEnv env [] = Inr []"
| "loadFromEnv env (f # fs) =
     (case load_field env f of
        Inl e \<Rightarrow> Inl e
      | Inr f' \<Rightarrow> (case loadFromEnv env fs of Inl e \<Rightarrow> Inl e | Inr fs' \<Rightarrow> Inr (f' # fs')))"
| "load_field env (CEmbedded fs) = (case loadFromEnv env fs of Inl e \<Rightarrow> Inl e | Inr fs' \<Rightarrow> Inr (CEmbedded fs'))"
| "load_field env (CField tag v) =
     (if tag = [] \<or> tag = ''-'' then Inr (CField tag v)
      else (case lookup_env env (env_name tag) of
          None \<Rightarrow> Inr (CField tag v)
        | Some s \<Rightarrow> (case set_value tag (env_name tag) s v of Inl e \<Rightarrow> Inl e | Inr v' \<Rightarrow> Inr (CField tag v'))))"

section \<open>Discovery\<close>

definition grpcDiscoverySubject :: "string \<Rightarrow> string" where
  "grpcDiscoverySubject serviceName = ''discovery.grpc.'' @ serviceName"

text \<open>What a request over NATS gives: a reply, decoded, the lack of a responder, or another error.\<close>

datatype discovery_reply = Reply "goerr + string" | NoResponders | RequestFailed goerr

definition ResolveGRPCAddr :: "(string \<Rightarrow> discovery_reply) option \<Rightarrow> string \<Rightarrow> string \<Rightarrow> goerr + string" where
  "ResolveGRPCAddr nc serviceName fallbackAddr =
     (let fallback = (if fallbackAddr = [] then Inl (Err (''no grpc address available for '' @ serviceName)) else Inr fallbackAddr) in
      case nc of
        None \<Rightarrow> fallback
      | Some ask \<Rightarrow>
          (case ask (grpcDiscoverySubject serviceName) of
             Reply (Inl e) \<Rightarrow> Inl (wrap (''decode discovery response for '' @ serviceName) e)
           | Reply (Inr a) \<Rightarrow> if a = [] then Inl (Err (''empty grpc address returned for '' @ serviceName)) else Inr a
           | NoResponders \<Rightarrow> fallback
           | RequestFailed e \<Rightarrow> if fallbackAddr = [] then Inl (wrap (''resolve grpc address for '' @ serviceName) e) else fallback))"

definition effectiveAdvertiseAddr :: "string \<Rightarrow> string \<Rightarrow> string" where
  "effectiveAdvertiseAddr grpcAddr advertiseAddr =
     (let addr = trim_space advertiseAddr in
      if addr \<noteq> [] then addr
      else (case SplitHostPort (trim_space grpcAddr) of
          Inl e \<Rightarrow> trim_space grpcAddr
        | Inr (host, port) \<Rightarrow>
            if host \<in> {[], ''0.0.0.0'', ''::''} then JoinHostPort ''localhost'' port else JoinHostPort host port))"

text \<open>The responders of each subject, with the addresses they answer; \<open>subscribe\<close> is the error of the subscription.
  The reply message holds one string, so encoding it cannot fail.\<close>

definition RegisterGRPCResponder ::
  "goerr option \<Rightarrow> (string \<Rightarrow> string list) option \<Rightarrow> string \<Rightarrow> string \<Rightarrow> string \<Rightarrow> goerr + (string \<Rightarrow> string list)" where
  "RegisterGRPCResponder subscribe nc serviceName grpcAddr advertiseAddr =
     (case nc of
        None \<Rightarrow> Inl (Err ''nats client is required for grpc discovery responder'')
      | Some responders \<Rightarrow>
          (let addr = effectiveAdvertiseAddr grpcAddr advertiseAddr; subject = grpcDiscoverySubject serviceName in
           if addr = [] then Inl (Err (''empty grpc advertise address for '' @ serviceName))
           else (case subscribe of
               Some e \<Rightarrow> Inl (wrap (''subscribe grpc discovery for '' @ serviceName) e)
             | None \<Rightarrow> Inr (responders(subject := responders subject @ [addr])))))"

section \<open>Main programs\<close>

text \<open>\<^verbatim>\<open>agent-gateway\<close>: the token manager; one hour is 3600000000000 ns, computed in int64.\<close>

definition hours :: "int \<Rightarrow> int" where
  "hours h = sint (word_of_int (h * 3600000000000) :: 64 word)"

definition jwt_config :: "string \<Rightarrow> string \<Rightarrow> int \<Rightarrow> goerr + jwt_manager option" where
  "jwt_config environment secret expiryHours =
     (if equal_fold environment ''production'' \<and> secret = [] then Inl (Err ''jwt_secret is required in production'')
      else if secret = [] then Inr None
      else (case b64_decode secret of
          Inl e \<Rightarrow> Inl (wrap ''invalid jwt_secret: must be base64'' e)
        | Inr key \<Rightarrow>
            if length key < 32 then Inl (Err ''invalid jwt_secret: decoded key must be at least 32 bytes'')
            else Inr (Some \<lparr>jm_secret = key, jm_issuer = ''n0-gateway'',
              jm_expiry = (if hours expiryHours \<le> 0 then 86400000000000 else hours expiryHours)\<rparr>)))"

text \<open>\<^verbatim>\<open>meta-service\<close>: the encrypter.\<close>

definition encrypter_config :: "string \<Rightarrow> string \<Rightarrow> goerr + encrypter option" where
  "encrypter_config environment key =
     (if equal_fold environment ''production'' \<and> key = [] then Inl (Err ''encryption_key is required in production'')
      else if key = [] then Inr None
      else (case NewEncrypterFromBase64 key of Inl e \<Rightarrow> Inl (wrap ''invalid encryption key'' e) | Inr k \<Rightarrow> Inr (Some k)))"

text \<open>\<^verbatim>\<open>query-engine\<close>: the store, with the memory store in place of an unavailable one outside production, and the days after
  which the object store drops a result.\<close>

definition choose_store :: "string \<Rightarrow> int \<Rightarrow> goerr + store \<times> int \<Rightarrow> goerr + store" where
  "choose_store environment now durable =
     (case durable of
        Inr (st, ttl) \<Rightarrow> Inr st
      | Inl e \<Rightarrow>
          if equal_fold environment ''production'' then Inl (wrap ''durable job store init failed'' e) else Inr (NewStore now))"

text \<open>Go's division truncates towards zero.\<close>

definition lifecycle_days :: "int \<Rightarrow> int" where
  "lifecycle_days ttlHours =
     (let days = (if ttlHours + 23 < 0 then - ((- (ttlHours + 23)) div 24) else (ttlHours + 23) div 24) in
      if days < 1 then 1 else days)"

text \<open>The time to live a store is given: \<^verbatim>\<open>NewDurableStore\<close> replaces a non-positive one by a day.\<close>

definition job_ttl :: "int \<Rightarrow> int" where
  "job_ttl ttlHours = (let ttl = hours ttlHours in if ttl \<le> 0 then 86400000000000 else ttl)"

section \<open>Servers and logging\<close>

text \<open>Limits of every HTTP listener, in nanoseconds and bytes, and the deadline of a cleanup.\<close>

record http_limits =
  hl_read_header :: int
  hl_read :: int
  hl_write :: int
  hl_idle :: int
  hl_header_bytes :: int

definition httpserver_New :: http_limits where
  "httpserver_New = \<lparr>hl_read_header = 5000000000, hl_read = 30000000000, hl_write = 120000000000, hl_idle = 120000000000,
     hl_header_bytes = 1048576\<rparr>"

definition graceful_WithTimeout :: "int \<Rightarrow> int" where
  "graceful_WithTimeout timeout = (if timeout \<le> 0 then 30000000000 else timeout)"

datatype log_level = DebugLevel | InfoLevel | WarnLevel | ErrorLevel

definition logger_level :: "string \<Rightarrow> log_level" where
  "logger_level level =
     (if level = ''debug'' then DebugLevel else if level = ''warn'' then WarnLevel
      else if level = ''error'' then ErrorLevel else InfoLevel)"

end
