(* ===== verification/Bootstrap_Facts.thy ===== *)
theory Bootstrap_Facts
  imports Bootstrap
begin

text \<open>
  What a started service can rely on: values that have the type of their field, an address that can be called,
  keys of full length in production, and results that live as long as their jobs.
\<close>

section \<open>Configuration\<close>

fun same_kind :: "cfg_value \<Rightarrow> cfg_value \<Rightarrow> bool" where
  "same_kind (CString a) (CString b) = True"
| "same_kind (CInt m a) (CInt n b) = (m = n)"
| "same_kind (CBool a) (CBool b) = True"
| "same_kind (COther a) (COther b) = (a = b)"
| "same_kind _ _ = False"

fun fits :: "cfg_value \<Rightarrow> bool" where
  "fits (CInt bits n) \<longleftrightarrow> - (2 ^ (bits - 1)) \<le> n \<and> n < 2 ^ (bits - 1)"
| "fits _ \<longleftrightarrow> True"

text \<open>A loaded field: the struct has the same shape and types, the value of a variable that is set was taken, with the
  prefixed name first, and any other value was left.\<close>

inductive loaded :: "(string \<Rightarrow> string option) \<Rightarrow> cfg_field \<Rightarrow> cfg_field \<Rightarrow> bool" for env where
  untagged: "tag \<in> {[], ''-''} \<Longrightarrow> loaded env (CField tag v) (CField tag v)"
| unset: "lookup_env env (env_name tag) = None \<Longrightarrow> loaded env (CField tag v) (CField tag v)"
| taken: "lookup_env env (env_name tag) = Some s \<Longrightarrow> set_value tag (env_name tag) s v = Inr v' \<Longrightarrow> same_kind v v' \<Longrightarrow> fits v'
    \<Longrightarrow> loaded env (CField tag v) (CField tag v')"
| embedded: "list_all2 (loaded env) fs fs' \<Longrightarrow> loaded env (CEmbedded fs) (CEmbedded fs')"

inductive_cases loaded_fieldE: "loaded env (CField tag v) f"
inductive_cases loaded_embeddedE: "loaded env (CEmbedded fs) f"

lemma ParseInt_fits: "ParseInt bits s = Inr n \<Longrightarrow> fits (CInt bits n)"
  by (auto simp: ParseInt_def Let_def split: if_splits sum.splits)

lemma set_value_typed: "set_value tag name s v = Inr v' \<Longrightarrow> same_kind v v' \<and> fits v'"
  by (cases v) (auto dest: ParseInt_fits split: sum.splits)

text \<open>C39. The configuration a service starts with is well typed: it has the fields of the struct, a set variable replaced
  the value of its field by one of the same type that fits its width, and nothing else changed.\<close>

theorem loaded_config_typed:
  "(loadFromEnv env fs = Inr fs' \<longrightarrow> list_all2 (loaded env) fs fs')
   \<and> (load_field env f = Inr f' \<longrightarrow> loaded env f f')"
proof -
  have "(\<forall>fs'. loadFromEnv env fs = Inr fs' \<longrightarrow> list_all2 (loaded env) fs fs')"
    and "(\<forall>f'. load_field env f = Inr f' \<longrightarrow> loaded env f f')"
    by (induction env fs and env f rule: loadFromEnv_load_field.induct)
       (auto split: sum.splits if_splits option.splits intro: loaded.intros dest: set_value_typed)
  then show ?thesis by blast
qed

lemma loaded_config_typed_witness:
  "list_all2 (loaded ((\<lambda>x. None)(''N0_REDIS_DB'' := Some ''7'', ''REDIS_DB'' := Some ''x'')))
     [CField ''redis_db'' (CInt 64 0), CField ''log_level'' (CString ''info'')]
     [CField ''redis_db'' (CInt 64 7), CField ''log_level'' (CString ''info'')]"
proof -
  let ?env = "(\<lambda>x. None)(''N0_REDIS_DB'' := Some ''7'', ''REDIS_DB'' := Some ''x'')"
  have "loadFromEnv ?env [CField ''redis_db'' (CInt 64 0), CField ''log_level'' (CString ''info'')]
      = Inr [CField ''redis_db'' (CInt 64 7), CField ''log_level'' (CString ''info'')]" by code_simp
  then show ?thesis using loaded_config_typed by blast
qed

section \<open>Discovery\<close>

text \<open>A responder of the subject answers a request when there is one.\<close>

definition answers :: "(string \<Rightarrow> string list) \<Rightarrow> (string \<Rightarrow> discovery_reply) \<Rightarrow> bool" where
  "answers responders ask \<longleftrightarrow>
     (\<forall>subject. if responders subject = [] then ask subject = NoResponders
        else (\<exists>a\<in>set (responders subject). ask subject = Reply (Inr a)))"

lemma check_brackets_Inr: "check_brackets s l r hp = Inr x \<Longrightarrow> LBr \<notin> set l \<and> RBr \<notin> set r \<and> x = hp"
  by (auto simp: check_brackets_def split: if_splits)

lemma last_colon_parts: "last_colon s = Some (a, b) \<Longrightarrow> s = a @ CHR '':'' # b \<and> CHR '':'' \<notin> set b"
proof -
  assume l: "last_colon s = Some (a, b)"
  then have c: "CHR '':'' \<in> set (rev s)" by (auto simp: last_colon_def split: if_splits)
  let ?p = "takeWhile (\<lambda>c. c \<noteq> CHR '':'') (rev s)"
  have ab: "a = take (length s - length ?p - 1) s" "b = rev ?p" using l by (auto simp: last_colon_def Let_def split: if_splits)
  obtain xs ys where x: "rev s = xs @ CHR '':'' # ys" "CHR '':'' \<notin> set xs" using split_list_first [OF c] by blast
  have p: "?p = xs" unfolding x(1) using x(2) by (subst takeWhile_append2) auto
  have "s = rev (rev s)" by simp
  then have s: "s = rev ys @ CHR '':'' # rev xs" unfolding x(1) by simp
  show ?thesis using ab p s x(2) by simp
qed

lemma split_parts:
  assumes "SplitHostPort s = Inr (h, p)"
  shows "LBr \<notin> set h" "RBr \<notin> set h" "LBr \<notin> set p" "RBr \<notin> set p" "CHR '':'' \<notin> set p"
proof -
  obtain a b where lc: "last_colon s = Some (a, b)" using assms by (auto simp: SplitHostPort_def split: option.splits)
  note parts = last_colon_parts [OF lc]
  have "LBr \<notin> set h \<and> RBr \<notin> set h \<and> LBr \<notin> set p \<and> RBr \<notin> set p \<and> CHR '':'' \<notin> set p"
  proof (cases "hd s = LBr")
    case False
    with assms lc have "LBr \<notin> set s" "RBr \<notin> set s" "h = a" "p = b"
      by (auto simp: SplitHostPort_def split: if_splits dest: check_brackets_Inr)
    with parts show ?thesis by (metis Un_iff list.set_intros(2) set_append)
  next
    case True
    let ?e = "length (takeWhile (\<lambda>c. c \<noteq> RBr) s)"
    have c: "?e + 1 = length a" "LBr \<notin> set (tl s)" "RBr \<notin> set (drop (?e + 1) s)" "h = take (?e - 1) (tl s)" "p = b"
      using assms lc True by (auto simp: SplitHostPort_def Let_def split: if_splits dest: check_brackets_Inr)
    have "s = takeWhile (\<lambda>c. c \<noteq> RBr) s @ dropWhile (\<lambda>c. c \<noteq> RBr) s" by simp
    then have t: "take ?e s = takeWhile (\<lambda>c. c \<noteq> RBr) s" by (metis append_eq_conv_conj)
    have "set h \<subseteq> set (take ?e s)" unfolding c(4) by (cases s; cases ?e) (auto dest: in_set_takeD)
    then have "RBr \<notin> set h" unfolding t by (auto dest: set_takeWhileD)
    moreover have "LBr \<notin> set h" using c(2,4) by (auto dest: in_set_takeD)
    moreover have d: "drop (?e + 1) s = CHR '':'' # b" using parts c(1) by simp
    moreover have "tl s = drop 1 s" by (simp add: drop_Suc)
    then have "set b \<subseteq> set (tl s)" using d by (metis in_set_dropD drop_drop list.set_intros(2) subsetI add.commute)
    ultimately show ?thesis using c(2,3,5) parts by auto
  qed
  then show "LBr \<notin> set h" "RBr \<notin> set h" "LBr \<notin> set p" "RBr \<notin> set p" "CHR '':'' \<notin> set p" by simp_all
qed

text \<open>A registered service is found: clients get a non-empty address that a responder announced, and what a service
  announces of its listen address keeps the port and never is a wildcard host.\<close>

lemma announced_address_resolves:
  assumes "RegisterGRPCResponder sub (Some responders) service grpc advertise = Inr responders'"
    and "\<forall>a\<in>set (responders (grpcDiscoverySubject service)). a \<noteq> []" and "answers responders' ask"
  shows "(\<exists>a\<in>set (responders' (grpcDiscoverySubject service)). a \<noteq> [] \<and> ResolveGRPCAddr (Some ask) service fallback = Inr a)
    \<and> last (responders' (grpcDiscoverySubject service)) = effectiveAdvertiseAddr grpc advertise
    \<and> (trim_space advertise = [] \<and> SplitHostPort (trim_space grpc) = Inr (host, port) \<longrightarrow>
        (\<exists>host'. SplitHostPort (effectiveAdvertiseAddr grpc advertise) = Inr (host', port) \<and> host' \<notin> {[], ''0.0.0.0'', ''::''}))"
proof (intro conjI impI)
  let ?s = "grpcDiscoverySubject service"
  have r: "responders' ?s = responders ?s @ [effectiveAdvertiseAddr grpc advertise]" "effectiveAdvertiseAddr grpc advertise \<noteq> []"
    using assms(1) by (auto simp: RegisterGRPCResponder_def Let_def split: if_splits option.splits)
  then obtain a where "a \<in> set (responders' ?s)" "ask ?s = Reply (Inr a)"
    using assms(3) unfolding answers_def by (metis snoc_eq_iff_butlast)
  moreover from this(1) have "a \<noteq> []" using r assms(2) by auto
  ultimately show "\<exists>a\<in>set (responders' ?s). a \<noteq> [] \<and> ResolveGRPCAddr (Some ask) service fallback = Inr a"
    by (auto simp: ResolveGRPCAddr_def Let_def)
  show "last (responders' ?s) = effectiveAdvertiseAddr grpc advertise" by (simp add: r)
next
  assume a: "trim_space advertise = [] \<and> SplitHostPort (trim_space grpc) = Inr (host, port)"
  let ?h = "if host \<in> {[], ''0.0.0.0'', ''::''} then ''localhost'' else host"
  have "effectiveAdvertiseAddr grpc advertise = JoinHostPort ?h port" using a by (simp add: effectiveAdvertiseAddr_def)
  moreover have "SplitHostPort (JoinHostPort ?h port) = Inr (?h, port)"
    using split_parts [of "trim_space grpc" host port] a by (intro split_join) (auto simp: LBr_def RBr_def)
  ultimately show "\<exists>host'. SplitHostPort (effectiveAdvertiseAddr grpc advertise) = Inr (host', port) \<and> host' \<notin> {[], ''0.0.0.0'', ''::''}"
    by (intro exI [of _ ?h]) auto
qed

section \<open>Keys and life times\<close>

text \<open>In production no service starts without its keys: a gateway that started checks tokens under a key of at least 32
  bytes that expire, and Meta Service encrypts under a key of exactly 32; outside production a configured key
  meets the same bounds.\<close>

lemma production_has_keys:
  assumes "equal_fold environment ''production'' \<or> secret \<noteq> [] \<and> key \<noteq> []"
  shows "(jwt_config environment secret expiry = Inr j \<longrightarrow> (\<exists>m. j = Some m \<and> 32 \<le> length (jm_secret m) \<and> 0 < jm_expiry m))
    \<and> (encrypter_config environment key = Inr k \<longrightarrow> (\<exists>e. k = Some e \<and> length e = 32))"
  using assms
  by (auto simp: jwt_config_def encrypter_config_def NewEncrypterFromBase64_def NewEncrypter_def split: if_splits sum.splits)

lemma sint_of_int64: "- (2 ^ 63) \<le> k \<Longrightarrow> k < 2 ^ 63 \<Longrightarrow> sint (word_of_int k :: 64 word) = k"
  using signed_take_bit_int_eq_self [of 63 k] by (simp add: signed_of_int del: of_int_mult)

lemma hours_exact: "- 2562047 \<le> h \<Longrightarrow> h \<le> 2562047 \<Longrightarrow> hours h = h * 3600000000000"
  using sint_of_int64 [of "h * 3600000000000"] by (simp add: hours_def del: of_int_mult)

lemma hours_bound: "hours h < 2 ^ 63"
  using sint_lt [of "word_of_int (h * 3600000000000) :: 64 word"] by (simp add: hours_def)

text \<open>The object store keeps a result at least as long as its job record lives, whatever number of hours is configured
  down to the least one that an int64 holds in nanoseconds.\<close>

lemma results_outlive_jobs:
  assumes "- 2562047 \<le> h"
  shows "job_ttl h \<le> lifecycle_days h * 86400000000000"
proof (cases "h \<le> 0")
  case True
  then have "hours h \<le> 0" "1 \<le> lifecycle_days h" using assms hours_exact [of h] by (auto simp: lifecycle_days_def Let_def)
  then show ?thesis by (simp add: job_ttl_def)
next
  case False
  then have d: "h \<le> lifecycle_days h * 24" "1 \<le> lifecycle_days h" by (auto simp: lifecycle_days_def Let_def)
  show ?thesis
  proof (cases "h \<le> 2562047")
    case True
    with False hours_exact [of h] d show ?thesis by (simp add: job_ttl_def)
  next
    case False
    then have "2562048 \<le> lifecycle_days h * 24" using d by simp
    with hours_bound [of h] d show ?thesis by (auto simp: job_ttl_def Let_def)
  qed
qed

end
