(* ===== verification/Platform_Run.thy ===== *)
theory Platform_Run
  imports Platform_Facts Plugin_Routes AuditSink
begin

text \<open>
  The platform in operation: requests to the gateway, deliveries of queued jobs to a worker, audit events
  persisted, rounds of the plugin manager and route messages, in any order. A message of a stream may be
  delivered any number of times and in any order. A worker reads connections from Meta Service and sends its
  requests to Connection Manager over the clients of \<^verbatim>\<open>services/query-engine/internal/client\<close>, which pass a
  call on; the faults of these two calls are part of the delivery.
\<close>

section \<open>Inputs\<close>

record system =
  sy_platform :: platform
  sy_audit :: publisher
  sy_sent :: "exec_request list"
  sy_bus :: bus

record delivery_env =
  de_meta :: meta_env
  de_codec :: codec
  de_show :: "jval \<Rightarrow> string"
  de_lookup :: "goerr option"
  de_exec :: fault
  de_new_struct :: "gomap \<Rightarrow> goerr + gomap"
  de_event_id :: "string \<Rightarrow> string"
  de_jlen :: "gomap list \<Rightarrow> int"
  de_elapsed :: "64 word"
  de_now :: int

text \<open>The clock, and the faults the database, the store, the two streams and the bus have to come.\<close>

record conditions =
  cd_now :: int
  cd_db :: "fault list"
  cd_store :: "fault list"
  cd_jobs :: "fault list"
  cd_audit :: "fault list"
  cd_bus :: "fault list"

datatype input =
    HttpRequest platform_env gw_env gw_request
  | DeliverJob delivery_env nat
  | PersistAudit pg_env nat
  | ProbePlugins life_env
  | RouteMessage "string \<Rightarrow> goerr + plugin_client" nat
  | Disturb conditions

section \<open>The worker's view of the platform\<close>

fun code_name :: "code \<Rightarrow> string" where
  "code_name InvalidArgument = ''InvalidArgument''"
| "code_name NotFound = ''NotFound''"
| "code_name AlreadyExists = ''AlreadyExists''"
| "code_name PermissionDenied = ''PermissionDenied''"
| "code_name Unauthenticated = ''Unauthenticated''"
| "code_name FailedPrecondition = ''FailedPrecondition''"
| "code_name Unavailable = ''Unavailable''"
| "code_name Internal = ''Internal''"
| "code_name Unimplemented = ''Unimplemented''"

fun rpc_text :: "rpc_error \<Rightarrow> string" where
  "rpc_text (Status c m) = ''rpc error: code = '' @ code_name c @ '' desc = '' @ m"
| "rpc_text (Plain e) = error_text e"

definition qe_GetConnection :: "delivery_env \<Rightarrow> platform \<Rightarrow> string \<Rightarrow> string \<Rightarrow> goerr + connection option" where
  "qe_GetConnection de p c t =
     (case de_lookup de of
        Some e \<Rightarrow> Inl e
      | None \<Rightarrow>
          (case fst (grpc_GetConnection (de_meta de) c t ((pf_meta p)\<lparr>db_faults := []\<rparr>)) of
             Inl e \<Rightarrow> Inl (Err (rpc_text (over_wire e)))
           | Inr None \<Rightarrow> Inr None
           | Inr (Some pc) \<Rightarrow>
               Inr (Some \<lparr>cn_adapter = pn_adapter pc, cn_params = (case pn_params pc of None \<Rightarrow> [] | Some m \<Rightarrow> m)\<rparr>)))"

definition cm_execute :: "delivery_env \<Rightarrow> exec_request \<Rightarrow> registry \<Rightarrow> (goerr + exec_response) \<times> registry" where
  "cm_execute de req = ExecuteQuery (de_codec de) (de_show de) req"

definition qe_ExecuteQuery :: "delivery_env \<Rightarrow> exec_request \<Rightarrow> registry \<Rightarrow> (goerr + exec_response) \<times> registry" where
  "qe_ExecuteQuery de req r =
     (case de_exec de of
        Fails e \<Rightarrow> (Inl (Err e), r)
      | LostReply e \<Rightarrow> (Inl (Err e), snd (cm_execute de req r))
      | _ \<Rightarrow>
          (case cm_execute de req r of
             (Inl e, r') \<Rightarrow> (Inl (Err (rpc_text (over_wire (Plain e)))), r')
           | (Inr x, r') \<Rightarrow> (Inr x, r')))"

definition worker_env :: "delivery_env \<Rightarrow> platform \<Rightarrow> proc_env" where
  "worker_env de p =
     \<lparr>pe_lookup = qe_GetConnection de p, pe_exec = (\<lambda>req. fst (qe_ExecuteQuery de req (pf_registry p))),
      pe_new_struct = de_new_struct de, pe_event_id = de_event_id de, pe_jlen = de_jlen de,
      pe_elapsed = de_elapsed de, pe_now = de_now de\<rparr>"

definition world_of :: "system \<Rightarrow> world" where
  "world_of s = \<lparr>w_store = qs_store (pf_query (sy_platform s)), w_audit = Some (sy_audit s), w_sent = sy_sent s\<rparr>"

text \<open>What a delivery leaves: the store, the audit stream and the requests of the worker, and the registry of
  Connection Manager after the requests that were sent.\<close>

definition after_delivery :: "delivery_env \<Rightarrow> world \<Rightarrow> system \<Rightarrow> system" where
  "after_delivery de w s =
     (let p = sy_platform s; sent = drop (length (sy_sent s)) (w_sent w) in
      s\<lparr>sy_platform := p\<lparr>pf_query := (pf_query p)\<lparr>qs_store := w_store w\<rparr>,
           pf_registry := fold (\<lambda>req r. snd (qe_ExecuteQuery de req r)) sent (pf_registry p)\<rparr>,
         sy_audit := the (w_audit w), sy_sent := w_sent w\<rparr>)"

definition queued :: "system \<Rightarrow> (string \<times> query_job) list" where
  "queued s = (case qs_stream (pf_query (sy_platform s)) of None \<Rightarrow> [] | Some js \<Rightarrow> js_log js)"

definition deliver_job :: "delivery_env \<Rightarrow> query_job \<Rightarrow> system \<Rightarrow> disposition \<times> system" where
  "deliver_job de job s =
     (case handle_message Process (Inr job, worker_env de (sy_platform s)) (world_of s) of
        (d, w) \<Rightarrow> (d, after_delivery de w s))"

section \<open>Steps and runs\<close>

datatype reaction =
    Answered "gw_reply \<times> string option"
  | Disposed disposition
  | Idle

definition disturb :: "conditions \<Rightarrow> system \<Rightarrow> system" where
  "disturb c s =
     (let p = sy_platform s; q = pf_query p in
      s\<lparr>sy_platform := p\<lparr>pf_meta := (pf_meta p)\<lparr>db_now := cd_now c, db_faults := cd_db c\<rparr>,
           pf_query := q\<lparr>qs_store := (qs_store q)\<lparr>st_now := cd_now c, st_faults := cd_store c\<rparr>,
             qs_stream := map_option (\<lambda>js. js\<lparr>js_faults := cd_jobs c\<rparr>) (qs_stream q)\<rparr>\<rparr>,
         sy_audit := (sy_audit s)\<lparr>pub_faults := cd_audit c\<rparr>, sy_bus := (sy_bus s)\<lparr>bus_faults := cd_bus c\<rparr>\<rparr>)"

text \<open>The audit events and routes of a stream are decoded without error: they were encoded by the services.\<close>

fun system_step :: "gateway \<Rightarrow> input \<Rightarrow> system \<Rightarrow> reaction \<times> system" where
  "system_step g (HttpRequest pe env req) s =
     (case gateway_handler env g (platform_clients pe) req (sy_platform s) of
        (r, p) \<Rightarrow> (Answered r, s\<lparr>sy_platform := p\<rparr>))"
| "system_step g (DeliverJob de k) s =
     (if k < length (queued s)
      then (case deliver_job de (snd (queued s ! k)) s of (d, s') \<Rightarrow> (Disposed d, s')) else (Idle, s))"
| "system_step g (PersistAudit pg k) s =
     (if k < length (pub_log (sy_audit s))
      then (case sink_message pg (Inr (snd (pub_log (sy_audit s) ! k))) (pf_meta (sy_platform s)) of
          (d, db) \<Rightarrow> (Disposed d, s\<lparr>sy_platform := (sy_platform s)\<lparr>pf_meta := db\<rparr>\<rparr>)) else (Idle, s))"
| "system_step g (ProbePlugins le) s =
     (case check le (pf_meta (sy_platform s), sy_bus s) of
        (db, b) \<Rightarrow> (Idle, s\<lparr>sy_platform := (sy_platform s)\<lparr>pf_meta := db\<rparr>, sy_bus := b\<rparr>))"
| "system_step g (RouteMessage dial k) s =
     (if k < length (bus_log (sy_bus s))
      then (Idle, s\<lparr>sy_platform := (sy_platform s)\<lparr>pf_registry :=
          on_plugin_route dial (Inr (decode_route (snd (bus_log (sy_bus s) ! k)))) (pf_registry (sy_platform s))\<rparr>\<rparr>)
      else (Idle, s))"
| "system_step g (Disturb c) s = (Idle, disturb c s)"

definition system_run :: "gateway \<Rightarrow> input list \<Rightarrow> system \<Rightarrow> system" where
  "system_run g is s = fold (\<lambda>i s. snd (system_step g i s)) is s"

text \<open>The platform when it is first started.\<close>

definition first_start :: "drivers \<Rightarrow> store \<Rightarrow> system" where
  "first_start ds st =
     \<lparr>sy_platform = \<lparr>pf_meta = empty_db, pf_query = NewGRPCServer 0 (Some st) (Some \<lparr>js_log = [], js_faults = []\<rparr>),
        pf_registry = NewRegistry ds\<rparr>,
      sy_audit = \<lparr>pub_log = [], pub_faults = []\<rparr>, sy_sent = [], sy_bus = \<lparr>bus_log = [], bus_faults = []\<rparr>\<rparr>"

lemma system_run_simps [simp]:
  "system_run g [] s = s"
  "system_run g (i # is) s = system_run g is (snd (system_step g i s))"
  "system_run g (is @ js) s = system_run g js (system_run g is s)"
  by (simp_all add: system_run_def)

end
