(* ===== verification/Gateway_Effects.thy ===== *)
theory Gateway_Effects
  imports Gateway_Facts
begin

text \<open>
  What a request to the gateway does to the services behind it: nothing, or the one call its route stands for.
  An invariant that every call keeps is kept by every request; the interface of the services is the locale
  \<open>service_invariant\<close>.
\<close>

section \<open>The call of a route\<close>

fun perform :: "'s clients \<Rightarrow> gw_call \<Rightarrow> 's \<Rightarrow> 's" where
  "perform cl (CGetSchema r) s = snd (gc_GetSchema cl r s)"
| "perform cl (CListWorkspaces r) s = snd (gc_ListWorkspaces cl r s)"
| "perform cl (CCreateConnection r) s = snd (gc_CreateConnection cl r s)"
| "perform cl (CGetConnection r) s = snd (gc_GetConnection cl r s)"
| "perform cl (CListConnections r) s = snd (gc_ListConnections cl r s)"
| "perform cl (CDeleteConnection r) s = snd (gc_DeleteConnection cl r s)"
| "perform cl (CRegisterPlugin r) s = snd (gc_RegisterPlugin cl r s)"
| "perform cl (CSubmitQuery r) s = snd (gc_SubmitQuery cl r s)"
| "perform cl (CGetJobStatus r) s = snd (gc_GetJobStatus cl r s)"
| "perform cl (CGetJobResult r) s = snd (gc_GetJobResult cl r s)"
| "perform cl (CTestConnection r) s = snd (gc_TestConnection cl r s)"
| "perform cl (CMetaHttp r) s = snd (gc_meta_http cl r s)"

declare perform.simps [simp del]

text \<open>The statement a route submits, with its connection; a tool trims both.\<close>

fun submission :: "gw_route \<Rightarrow> (string \<times> string) option" where
  "submission (GSubmitQuery (Inr (c, sql))) = Some (c, sql)"
| "submission (GMcp (McpSubmitQuery c sql)) = Some (trim_space c, trim_space sql)"
| "submission _ = None"

text \<open>The calls a route may make: for its user, and a submission only of its own statement.\<close>

definition call_of_route :: "gw_context \<Rightarrow> gw_route \<Rightarrow> gw_call \<Rightarrow> bool" where
  "call_of_route ctx r c \<longleftrightarrow>
     (\<forall>q. c = CSubmitQuery q \<longrightarrow> sq_tenant q = getUserID ctx \<and> submission r = Some (sq_conn q, sq_sql q))"

definition effect :: "(gw_call \<Rightarrow> bool) \<Rightarrow> 's clients \<Rightarrow> 's \<Rightarrow> 's \<Rightarrow> bool" where
  "effect P cl s s' \<longleftrightarrow> s' = s \<or> (\<exists>c. P c \<and> s' = perform cl c s)"

lemma effect_none [simp]: "effect P cl s s"
  by (simp add: effect_def)

lemma call_of_other [simp]: "(\<And>q. c \<noteq> CSubmitQuery q) \<Longrightarrow> call_of_route ctx r c"
  by (auto simp: call_of_route_def)

lemma call_of_submit [simp]:
  "call_of_route ctx r (CSubmitQuery q) \<longleftrightarrow> sq_tenant q = getUserID ctx \<and> submission r = Some (sq_conn q, sq_sql q)"
  by (auto simp: call_of_route_def)

lemma effect_call [simp, intro]: "P c \<Longrightarrow> effect P cl s (perform cl c s)"
  by (auto simp: effect_def)

lemma rpc_answer_state [simp]: "snd (rpc_answer c k x) = snd x"
  by (simp add: rpc_answer_def split: prod.split sum.split)

lemma handler_states:
  "snd (handleGetSchema cl ctx q s) = perform cl (CGetSchema \<lparr>rf_conn = q_get q ''connection_id'', rf_tenant = getUserID ctx\<rparr>) s"
  "snd (handleGetJobStatus cl ctx q s) = perform cl (CGetJobStatus \<lparr>jf_job = q_get q ''job_id'', jf_tenant = getUserID ctx\<rparr>) s"
  "snd (handleDeleteConnection cl ctx i s) = perform cl (CDeleteConnection \<lparr>rf_conn = i, rf_tenant = getUserID ctx\<rparr>) s"
  "snd (handleGetConnection cl ctx i s) = perform cl (CGetConnection \<lparr>rf_conn = i, rf_tenant = getUserID ctx\<rparr>) s"
  by (simp_all add: handleGetSchema_def handleGetJobStatus_def handleDeleteConnection_def handleGetConnection_def perform.simps
    split: prod.split sum.split option.split)

lemma body_effects:
  "P (CMetaHttp \<lparr>mr_route = mr, mr_query = (if getUserID ctx \<noteq> [] then q_set ''user_id'' (getUserID ctx) q else q)\<rparr>) \<Longrightarrow>
   effect P cl s (snd (proxyToMetaHTTP env g cl ctx mr q s))"
  "P (CMetaHttp \<lparr>mr_route = RLogin l, mr_query = []\<rparr>) \<Longrightarrow> effect P cl s (snd (handleLogin env g cl l s))"
  "(\<And>c sql. b = Inr (c, sql) \<Longrightarrow> P (CSubmitQuery \<lparr>sq_tenant = getUserID ctx, sq_conn = c, sq_sql = sql\<rparr>)) \<Longrightarrow>
   effect P cl s (snd (handleSubmitQuery cl ctx b s))"
  "(\<And>p. P (CTestConnection p)) \<Longrightarrow> effect P cl s (snd (handleTestConnection env cl tb s))"
  "(\<And>c. P (CCreateConnection c)) \<Longrightarrow> effect P cl s (snd (handleCreateConnection cl ctx cb s))"
  "(\<And>p. P (CRegisterPlugin p)) \<Longrightarrow> effect P cl s (snd (handleRegisterPlugin cl ctx pb s))"
proof -
  let ?m = "\<lparr>mr_route = mr, mr_query = (if getUserID ctx \<noteq> [] then q_set ''user_id'' (getUserID ctx) q else q)\<rparr>"
  have "snd (proxyToMetaHTTP env g cl ctx mr q s) = (if ge_request env (gw_base g) = None then perform cl (CMetaHttp ?m) s else s)"
    by (simp add: proxyToMetaHTTP_def perform.simps split: option.split prod.split sum.split reply.split)
  then show "P (CMetaHttp ?m) \<Longrightarrow> effect P cl s (snd (proxyToMetaHTTP env g cl ctx mr q s))"
    by (cases "ge_request env (gw_base g)") auto
  have "snd (handleLogin env g cl l s)
      = (if ge_request env (gw_base g) = None then perform cl (CMetaHttp \<lparr>mr_route = RLogin l, mr_query = []\<rparr>) s else s)"
    by (simp add: handleLogin_def perform.simps split: option.split prod.split sum.split reply.split)
  then show "P (CMetaHttp \<lparr>mr_route = RLogin l, mr_query = []\<rparr>) \<Longrightarrow> effect P cl s (snd (handleLogin env g cl l s))"
    by (cases "ge_request env (gw_base g)") auto
  show "(\<And>c sql. b = Inr (c, sql) \<Longrightarrow> P (CSubmitQuery \<lparr>sq_tenant = getUserID ctx, sq_conn = c, sq_sql = sql\<rparr>)) \<Longrightarrow>
      effect P cl s (snd (handleSubmitQuery cl ctx b s))"
    using effect_call [of P "CSubmitQuery \<lparr>sq_tenant = getUserID ctx, sq_conn = c, sq_sql = sql\<rparr>" cl s for c sql]
    by (auto simp: handleSubmitQuery_def perform.simps split: sum.split)
  show "(\<And>p. P (CTestConnection p)) \<Longrightarrow> effect P cl s (snd (handleTestConnection env cl tb s))"
    using effect_call [of P "CTestConnection p" cl s for p] by (auto simp: handleTestConnection_def perform.simps split: sum.split)
  show "(\<And>c. P (CCreateConnection c)) \<Longrightarrow> effect P cl s (snd (handleCreateConnection cl ctx cb s))"
  proof (cases cb)
    case (Inr r)
    then have "snd (handleCreateConnection cl ctx cb s) = perform cl (CCreateConnection (r\<lparr>cr_tenant := getUserID ctx\<rparr>)) s"
      by (simp add: handleCreateConnection_def perform.simps split: prod.split sum.split option.split)
    then show "(\<And>c. P (CCreateConnection c)) \<Longrightarrow> ?thesis" by auto
  qed (simp add: handleCreateConnection_def)
  show "(\<And>p. P (CRegisterPlugin p)) \<Longrightarrow> effect P cl s (snd (handleRegisterPlugin cl ctx pb s))"
    using effect_call [of P "CRegisterPlugin p" cl s for p] by (auto simp: handleRegisterPlugin_def perform.simps split: sum.split)
qed

lemma page_effects:
  "(\<And>r. P (CGetJobResult r)) \<Longrightarrow> effect P cl s (snd (handleGetJobResult cl ctx q s))"
  "(\<And>w. P (CListWorkspaces w)) \<Longrightarrow> effect P cl s (snd (handleListWorkspaces cl ctx q s))"
  "(\<And>l. P (CListConnections l)) \<Longrightarrow> effect P cl s (snd (handleListConnections cl ctx q s))"
proof -
  show "(\<And>r. P (CGetJobResult r)) \<Longrightarrow> effect P cl s (snd (handleGetJobResult cl ctx q s))"
    using effect_call [of P "CGetJobResult r" cl s for r] by (simp add: handleGetJobResult_def Let_def perform.simps)
  show "(\<And>w. P (CListWorkspaces w)) \<Longrightarrow> effect P cl s (snd (handleListWorkspaces cl ctx q s))"
    using effect_call [of P "CListWorkspaces w" cl s for w] by (simp add: handleListWorkspaces_def Let_def perform.simps)
  let ?l = "\<lparr>lq_tenant = getUserID ctx, lq_workspace = q_get q ''workspace_id'',
    lq_page = Some (to_int32 (if fst (atoi (q_get q ''limit'')) \<le> 0 then 20 else fst (atoi (q_get q ''limit''))),
      to_int32 (fst (atoi (q_get q ''offset''))))\<rparr>"
  have "snd (handleListConnections cl ctx q s) = perform cl (CListConnections ?l) s"
    by (simp add: handleListConnections_def Let_def perform.simps split: prod.split sum.split option.split)
  then show "(\<And>l. P (CListConnections l)) \<Longrightarrow> effect P cl s (snd (handleListConnections cl ctx q s))"
    by auto
qed

lemma tool_effect: "effect (call_of_route ctx (GMcp c)) cl s (snd (mcp_tool cl ctx c s))"
proof (cases c)
  case (McpGetSchema conn)
  have "snd (mcpGetSchema cl ctx conn s) = (if trim_space conn = [] then s
      else perform cl (CGetSchema \<lparr>rf_conn = trim_space conn, rf_tenant = getUserID ctx\<rparr>) s)"
    by (simp add: mcpGetSchema_def requiredMCPValue_def Let_def tenant_is_user perform.simps split: prod.split sum.split option.split)
  with McpGetSchema show ?thesis by simp
next
  case (McpSubmitQuery conn sql)
  have "snd (mcpSubmitQuery cl ctx conn sql s) = (if trim_space conn = [] \<or> trim_space sql = [] then s
      else perform cl (CSubmitQuery \<lparr>sq_tenant = getUserID ctx, sq_conn = trim_space conn, sq_sql = trim_space sql\<rparr>) s)"
    by (simp add: mcpSubmitQuery_def requiredMCPValue_def Let_def tenant_is_user perform.simps split: prod.split sum.split option.split)
  with McpSubmitQuery show ?thesis by simp
next
  case (McpGetJobStatus job)
  have "snd (mcpGetJobStatus cl ctx job s) = (if trim_space job = [] then s
      else perform cl (CGetJobStatus \<lparr>jf_job = trim_space job, jf_tenant = getUserID ctx\<rparr>) s)"
    by (simp add: mcpGetJobStatus_def requiredMCPValue_def Let_def tenant_is_user perform.simps split: prod.split sum.split option.split)
  with McpGetJobStatus show ?thesis by simp
next
  case (McpGetJobResult job page n)
  have "snd (mcpGetJobResult cl ctx job page n s) = (if trim_space job = [] then s
      else perform cl (CGetJobResult \<lparr>rq_job = trim_space job, rq_tenant = getUserID ctx, rq_page = to_int32 page,
        rq_size = to_int32 n\<rparr>) s)"
    by (simp add: mcpGetJobResult_def requiredMCPValue_def Let_def tenant_is_user perform.simps split: prod.split sum.split option.split)
  with McpGetJobResult show ?thesis by simp
next
  case (McpListConnections ws limit offset)
  have "snd (mcpListConnections cl ctx ws limit offset s) = perform cl (CListConnections \<lparr>lq_tenant = getUserID ctx,
      lq_workspace = ws, lq_page = Some (to_int32 (if limit \<le> 0 then 20 else limit), to_int32 (max offset 0))\<rparr>) s"
    by (simp add: mcpListConnections_def Let_def tenant_is_user perform.simps split: prod.split sum.split option.split)
  with McpListConnections show ?thesis by simp
next
  case (McpListWorkspaces limit offset)
  have "snd (mcpListWorkspaces cl ctx limit offset s) = perform cl (CListWorkspaces \<lparr>wq_tenant = getUserID ctx,
      wq_page = Some (to_int32 (if limit \<le> 0 then 20 else limit), to_int32 (max offset 0))\<rparr>) s"
    by (simp add: mcpListWorkspaces_def Let_def tenant_is_user perform.simps split: prod.split sum.split option.split)
  with McpListWorkspaces show ?thesis by simp
qed

lemma dispatch_effect: "effect (call_of_route ctx r) cl s (snd (dispatch env g cl ctx q r s))"
proof (cases r)
  case (GMcp c)
  with tool_effect [of ctx c cl s] show ?thesis by (simp add: split_beta)
qed (simp_all add: handler_states body_effects page_effects)

lemma protected_submission: "submission r \<noteq> None \<Longrightarrow> protected r"
  by (cases r) auto

text \<open>A request changes the services by at most one call; a submission is the statement of the request, made for
  the user of its token.\<close>

lemma request_effect:
  assumes "gw_jwt g = Some m"
  shows "effect (\<lambda>c. \<forall>q. c = CSubmitQuery q \<longrightarrow> bearer_user env m (gr_auth req) = Some (sq_tenant q)
        \<and> submission (gr_route req) = Some (sq_conn q, sq_sql q)) cl s (snd (gateway_handler env g cl req s))"
proof (cases "gw_corsMiddleware g (gr_origin req) (gr_method req)")
  case (Pair stop origin)
  show ?thesis
  proof (cases "stop = None \<and> (\<exists>ctx. (if protected (gr_route req) then jwtMiddleware env g (gr_auth req) else Inr no_context) = Inr ctx)")
    case True
    then obtain ctx where ctx: "(if protected (gr_route req) then jwtMiddleware env g (gr_auth req) else Inr no_context) = Inr ctx"
      by blast
    then have "gateway_handler env g cl req s
        = (case dispatch env g cl ctx (gr_query req) (gr_route req) s of (r, s') \<Rightarrow> ((r, origin), s'))"
      using Pair True by (simp add: gateway_handler_def)
    then have s': "snd (gateway_handler env g cl req s) = snd (dispatch env g cl ctx (gr_query req) (gr_route req) s)"
      by (simp add: split_beta)
    have "bearer_user env m (gr_auth req) = Some (getUserID ctx)" if "submission (gr_route req) \<noteq> None"
      using ctx protected_submission [OF that] jwt_context [OF _ assms] by simp
    then show ?thesis
      using dispatch_effect [of ctx "gr_route req" cl s env g "gr_query req"] unfolding s' effect_def call_of_route_def
      by (metis option.distinct(1))
  next
    case False
    then show ?thesis using Pair by (cases stop) (auto simp: gateway_handler_def split: sum.split)
  qed
qed

section \<open>Invariants of the services\<close>

locale service_invariant =
  fixes cl :: "'s clients" and inv :: "'s \<Rightarrow> bool"
  assumes call_keeps: "inv s \<Longrightarrow> inv (perform cl c s)"
begin

lemma effect_keeps: "effect P cl s s' \<Longrightarrow> inv s \<Longrightarrow> inv s'"
  by (auto simp: effect_def call_keeps)

lemma dispatch_keeps: "inv s \<Longrightarrow> inv (snd (dispatch env g cl ctx q r s))"
  by (rule effect_keeps [OF dispatch_effect])

lemma request_keeps: "inv s \<Longrightarrow> inv (snd (gateway_handler env g cl req s))"
  using dispatch_keeps [of s env g] by (auto simp: gateway_handler_def split_beta split: prod.split option.split sum.split)

end

end
