(* ===== verification/MetaService_Effects.thy ===== *)
theory MetaService_Effects
  imports MetaHttp MetaStore_Facts PluginLifecycle
begin

text \<open>
  Everything Meta Service does to its database is a sequence of repository operations: each handler, each
  HTTP route and the plugin manager, none of which touches the audit table. An invariant of the tables is so
  an invariant of the service.
\<close>

fun audits :: "meta_op \<Rightarrow> bool" where
  "audits (OpAudit ev) = True"
| "audits _ = False"

definition reaches :: "pg_env \<Rightarrow> meta_db \<Rightarrow> meta_db \<Rightarrow> bool" where
  "reaches env db db' \<longleftrightarrow> (\<exists>ops. list_all (\<lambda>op. \<not> audits op) ops \<and> db' = fold (meta_step env) ops db)"

lemma reaches_refl [simp]: "reaches env db db"
  unfolding reaches_def by (rule exI [of _ "[]"]) simp

lemma reaches_step: "\<not> audits op \<Longrightarrow> reaches env db (meta_step env op db)"
  unfolding reaches_def by (rule exI [of _ "[op]"]) simp

lemma reaches_trans: "reaches env a b \<Longrightarrow> reaches env b c \<Longrightarrow> reaches env a c"
  unfolding reaches_def by (metis fold_append comp_apply list_all_append)

lemma reaches_faults [simp]: "reaches env db (db\<lparr>db_faults := fs\<rparr>)"
  using reaches_step [of "OpFaults fs" env db] by simp

lemma db_read_reaches: "db_read q db = (x, db') \<Longrightarrow> reaches env db db'"
  using db_read_def [of q db] by (auto simp: db_call_def Let_def split: prod.splits fault.splits sum.splits dberr.splits)

section \<open>Operations of the repository\<close>

lemma repo_reads:
  "repo_ListWorkspaces env u l k db = (x1, db') \<Longrightarrow> reaches env db db'"
  "repo_GetSchemaSnapshot env c t db = (x2, db') \<Longrightarrow> reaches env db db'"
  "repo_GetConnection env c t db = (x3, db') \<Longrightarrow> reaches env db db'"
  "repo_ListConnections env u w l k db = (x4, db') \<Longrightarrow> reaches env db db'"
  "ListPluginsForHealth db = (x5, db') \<Longrightarrow> reaches env db db'"
  "repo_GetUserByEmail e db = (x6, db') \<Longrightarrow> reaches env db db'"
  "repo_GetUserByID env i db = (x7, db') \<Longrightarrow> reaches env db db'"
  "repo_ListAgentsByUser env u db = (x8, db') \<Longrightarrow> reaches env db db'"
  "repo_GetAgent env i db = (x9, db') \<Longrightarrow> reaches env db db'"
  by (auto simp: repo_ListWorkspaces_def repo_GetSchemaSnapshot_def repo_GetConnection_def repo_ListConnections_def
      ListPluginsForHealth_def repo_GetUserByEmail_def repo_GetUserByID_def repo_ListAgentsByUser_def repo_GetAgent_def
      dest: db_read_reaches split: prod.splits sum.splits option.splits list.splits)

lemma repo_writes:
  "repo_CreateWorkspace env u t n db = (x1, db') \<Longrightarrow> reaches env db db'"
  "repo_SaveSchemaSnapshot env c ts db = (e2, db') \<Longrightarrow> reaches env db db'"
  "repo_CreateConnection env cn db = (x2, db') \<Longrightarrow> reaches env db db'"
  "repo_DeleteConnection env c t db = (e3, db') \<Longrightarrow> reaches env db db'"
  "repo_RegisterPlugin env p db = (x3, db') \<Longrightarrow> reaches env db db'"
  "RecordPluginHealth i h l m db = (x4, db') \<Longrightarrow> reaches env db db'"
  "repo_CreateUser env em hs sl r db = (x5, db') \<Longrightarrow> reaches env db db'"
  "repo_CreateAgent env u' n db = (x6, db') \<Longrightarrow> reaches env db db'"
  "repo_UpdateAgentTokenJTI env i j db = (e4, db') \<Longrightarrow> reaches env db db'"
  using reaches_step [of "OpWorkspace u t n" env db] reaches_step [of "OpSnapshot c ts" env db]
    reaches_step [of "OpConnect cn" env db] reaches_step [of "OpDisconnect c t" env db] reaches_step [of "OpPlugin p" env db]
    reaches_step [of "OpHealth i h l m" env db] reaches_step [of "OpUser em hs sl r" env db]
    reaches_step [of "OpAgent u' n" env db] reaches_step [of "OpToken i j" env db]
  by simp_all

lemmas repo_effects = repo_reads repo_writes

section \<open>The service\<close>

lemma fetch_schema_reaches: "fetch_schema env c conn db = (x, db') \<Longrightarrow> reaches (me_pg env) db db'"
  by (auto simp: fetch_schema_def dest: repo_effects split: sum.splits prod.splits option.splits)

lemma svc_GetSchema_reaches: "svc_GetSchema env c t db = (x, db') \<Longrightarrow> reaches (me_pg env) db db'"
  by (auto simp: svc_GetSchema_def intro: reaches_trans dest!: repo_effects(2) repo_effects(3) [where env = "me_pg env"] fetch_schema_reaches
    split: sum.splits prod.splits option.splits)

lemma svc_reads:
  "svc_ListWorkspaces env u l k db = (x1, db') \<Longrightarrow> reaches (me_pg env) db db'"
  "svc_GetConnection env c t db = (x2, db') \<Longrightarrow> reaches (me_pg env) db db'"
  "svc_ListConnections env u w l k db = (x3, db') \<Longrightarrow> reaches (me_pg env) db db'"
  "svc_LoginUser env em pw db = (x4, db') \<Longrightarrow> reaches (me_pg env) db db'"
  "svc_ListAgents env u db = (x5, db') \<Longrightarrow> reaches (me_pg env) db db'"
  "svc_GetUserByID env i db = (x6, db') \<Longrightarrow> reaches (me_pg env) db db'"
  by (auto simp: svc_ListWorkspaces_def svc_GetConnection_def svc_ListConnections_def svc_LoginUser_def svc_ListAgents_def
      svc_GetUserByID_def dest: repo_reads split: sum.splits prod.splits option.splits)

lemma svc_CreateConnection_reaches: "svc_CreateConnection env c db = (x, db') \<Longrightarrow> reaches (me_pg env) db db'"
  by (auto simp: svc_CreateConnection_def Let_def dest: repo_writes split: sum.splits prod.splits)

lemma svc_DeleteConnection_reaches: "svc_DeleteConnection env c t db = (x, db') \<Longrightarrow> reaches (me_pg env) db db'"
  by (auto simp: svc_DeleteConnection_def dest: repo_writes split: option.splits prod.splits)

lemma svc_RegisterPlugin_reaches: "svc_RegisterPlugin env p db = (x, db') \<Longrightarrow> reaches (me_pg env) db db'"
  by (auto simp: svc_RegisterPlugin_def Let_def dest: repo_writes split: sum.splits prod.splits if_splits)

lemma svc_RegisterUser_reaches: "svc_RegisterUser env em pw r db = (x, db') \<Longrightarrow> reaches (me_pg env) db db'"
  by (auto simp: svc_RegisterUser_def intro: reaches_trans dest!: repo_writes(1,7) split: sum.splits prod.splits if_splits)

lemma svc_CreateAgent_reaches: "svc_CreateAgent env u n db = (x, db') \<Longrightarrow> reaches (me_pg env) db db'"
  by (auto simp: svc_CreateAgent_def intro: reaches_trans dest!: repo_writes(8) repo_reads(9) split: sum.splits prod.splits)

lemmas svc_effects = svc_GetSchema_reaches svc_reads svc_CreateConnection_reaches svc_DeleteConnection_reaches
  svc_RegisterPlugin_reaches svc_RegisterUser_reaches svc_CreateAgent_reaches

lemma grpc_effects:
  "grpc_GetSchema env c t db = (x1, db') \<Longrightarrow> reaches (me_pg env) db db'"
  "grpc_ListWorkspaces env t pg db = (x2, db') \<Longrightarrow> reaches (me_pg env) db db'"
  "grpc_GetConnection env c t db = (x3, db') \<Longrightarrow> reaches (me_pg env) db db'"
  "grpc_ListConnections env t w pg db = (x4, db') \<Longrightarrow> reaches (me_pg env) db db'"
  "grpc_DeleteConnection env c t db = (x5, db') \<Longrightarrow> reaches (me_pg env) db db'"
  "grpc_RegisterPlugin env p db = (x6, db') \<Longrightarrow> reaches (me_pg env) db db'"
  by (auto simp: grpc_GetSchema_def grpc_ListWorkspaces_def grpc_GetConnection_def grpc_ListConnections_def
      grpc_DeleteConnection_def grpc_RegisterPlugin_def dest: svc_effects split: sum.splits prod.splits option.splits if_splits)

lemma grpc_CreateConnection_reaches: "grpc_CreateConnection env c db = (x, db') \<Longrightarrow> reaches (me_pg env) db db'"
  by (auto simp: grpc_CreateConnection_def intro: reaches_trans dest!: svc_CreateConnection_reaches svc_reads(2)
    split: sum.splits prod.splits)

lemma answer_state [simp]: "snd (answer c k x) = snd x"
  by (simp add: answer_def split: prod.split sum.split)

lemma serve_effects:
  "serve_me env q db = (y1, db') \<Longrightarrow> reaches (me_pg env) db db'"
  "serve_create_agent env n b q db = (y2, db') \<Longrightarrow> reaches (me_pg env) db db'"
  "serve_list_agents env q db = (y3, db') \<Longrightarrow> reaches (me_pg env) db db'"
  "serve_get_connection env i q db = (y4, db') \<Longrightarrow> reaches (me_pg env) db db'"
  by (auto simp: serve_me_def serve_create_agent_def serve_list_agents_def serve_get_connection_def Let_def
      dest: svc_effects grpc_effects split: sum.splits prod.splits option.splits if_splits)

lemmas state_effects [simp] = grpc_effects [OF surjective_pairing] grpc_CreateConnection_reaches [OF surjective_pairing]
  serve_effects [OF surjective_pairing]

lemma account_effects [simp]:
  "reaches (me_pg env) db (snd (case svc_RegisterUser env em pw r db of
      (Inl e, db') \<Rightarrow> (HttpError 500 (Plain e), db') | (Inr i, db') \<Rightarrow> (HttpJson 201 (MbUserId i), db')))"
  "reaches (me_pg env) db (snd (case svc_LoginUser env em pw db of
      (Inl e, db') \<Rightarrow> (HttpError 401 (Plain e), db') | (Inr u, db') \<Rightarrow> (HttpJson 200 (MbUser (user_fields u)), db')))"
  by (auto dest: svc_effects split: prod.split sum.split)

lemma meta_serve_reaches: "reaches (me_pg env) db (snd (meta_serve env req db))"
  by (simp add: meta_serve_def Let_def split: meta_route.split sum.split)

section \<open>The audit table\<close>

lemma db_call_audit: "(\<And>d. db_audit (snd (stmt d)) = db_audit d) \<Longrightarrow> db_audit (snd (db_call stmt db)) = db_audit db"
  by (simp add: db_call_def Let_def split: prod.split fault.split)

lemma db_read_audit: "db_read q db = (x, db') \<Longrightarrow> db_audit db' = db_audit db"
  by (auto simp: db_read_def db_call_def Let_def split: prod.splits fault.splits sum.splits dberr.splits)

lemma db_call_audit_eq: "db_call stmt db = (x, db') \<Longrightarrow> (\<And>d. db_audit (snd (stmt d)) = db_audit d) \<Longrightarrow> db_audit db' = db_audit db"
  using db_call_audit [of stmt db] by simp

lemma statement_audit [simp]:
  "db_audit (snd (insert_workspace env t u n d)) = db_audit d" "db_audit (snd (insert_snapshot env c ts d)) = db_audit d"
  "db_audit (snd (insert_connection env cn d)) = db_audit d" "db_audit (snd (delete_connection env c t d)) = db_audit d"
  "db_audit (snd (insert_plugin env p d)) = db_audit d" "db_audit (snd (insert_tenant_plugin t i d)) = db_audit d"
  "db_audit (snd (insert_user env e hsh s r d)) = db_audit d" "db_audit (snd (insert_agent env v n d)) = db_audit d"
  "db_audit (snd (update_jti env i j d)) = db_audit d"
  by (simp_all add: statement_defs Let_def split: sum.split)

lemma health_body_audit: "health_body i h l m db = (x, db') \<Longrightarrow> db_audit db' = db_audit db"
  by (auto simp: health_body_def Let_def dest!: db_read_audit db_call_audit_eq split: prod.splits sum.splits dberr.splits)

lemma step_audit: "\<not> audits op \<Longrightarrow> db_audit (meta_step env op db) = db_audit db"
  by (cases op) (auto simp: repo_CreateWorkspace_def repo_SaveSchemaSnapshot_def repo_CreateConnection_def repo_DeleteConnection_def
    repo_RegisterPlugin_def repo_CreateUser_def repo_CreateAgent_def repo_UpdateAgentTokenJTI_def RecordPluginHealth_def
    dest!: db_call_audit_eq health_body_audit split: prod.split sum.split option.split dberr.split fault.split)

lemma reaches_audit: "reaches env db db' \<Longrightarrow> db_audit db' = db_audit db"
proof -
  have "list_all (\<lambda>op. \<not> audits op) ops \<Longrightarrow> db_audit (fold (meta_step env) ops db) = db_audit db" for ops
    by (induction ops arbitrary: db) (simp_all add: step_audit)
  then show "reaches env db db' \<Longrightarrow> ?thesis" by (auto simp: reaches_def)
qed

section \<open>The plugin manager\<close>

lemma check_plugin_reaches: "reaches env (fst w) (fst (check_plugin le p w))"
  by (auto simp: check_plugin_def Let_def dest: repo_writes split: sum.split prod.split)

lemma check_reaches: "reaches env (fst w) (fst (check le w))"
proof -
  have "reaches env (fst v) (fst (fold (check_plugin le) ps v))" for ps v
  proof (induction ps arbitrary: v)
    case (Cons p ps)
    from reaches_trans [OF check_plugin_reaches Cons.IH] show ?case by simp
  qed simp
  from this [of "(_, snd w)"] show ?thesis
    by (auto simp: check_def intro: reaches_trans dest: repo_reads split: sum.split prod.split)
qed

end
