(* ===== verification/Platform_Run_Facts.thy ===== *)
theory Platform_Run_Facts
  imports Platform_Run Gateway_Effects MetaService_Effects QueryServer_Facts
begin

text \<open>
  What holds of the platform however requests, deliveries, probes, route messages and faults are interleaved:
  which jobs are queued, which requests reach a database and for whom, and what is published for the audit.
\<close>

section \<open>The queue of jobs\<close>

definition queue_of :: "platform \<Rightarrow> (string \<times> query_job) list" where
  "queue_of p = (case qs_stream (pf_query p) of None \<Rightarrow> [] | Some js \<Rightarrow> js_log js)"

lemma queued_of: "queued s = queue_of (sy_platform s)"
  by (simp add: queued_def queue_of_def)

text \<open>A restart of Query Engine does not touch the stream, which is a process of its own, and a store that keeps its
  jobs under their identifiers does so after it.\<close>

definition safe_restart :: "platform_env \<Rightarrow> bool" where
  "safe_restart pe \<longleftrightarrow> (\<forall>q. qs_stream (pe_restart pe q) = qs_stream q \<and> (keyed (qs_store q) \<longrightarrow> keyed (qs_store (pe_restart pe q))))"

lemma queue_of_meta [simp]: "queue_of (p\<lparr>pf_meta := db\<rparr>) = queue_of p" "queue_of (p\<lparr>pf_registry := r\<rparr>) = queue_of p"
  by (simp_all add: queue_of_def)

lemma on_meta_platform: "snd (on_meta k f p) = p\<lparr>pf_meta := snd (f (pf_meta p))\<rparr>"
  by (simp add: on_meta_def split_beta)

lemma on_query_platform: "snd (on_query f p) = p\<lparr>pf_query := snd (f (pf_query p))\<rparr>"
  by (simp add: on_query_def split_beta)

lemma more_platform_simps [simp]:
  "gc_SubmitQuery (platform_clients pe) q = on_query (SubmitQuery (pe_nuid pe) q)"
  "gc_GetJobStatus (platform_clients pe) j = on_query (GetJobStatus (jf_job j) (jf_tenant j))"
  "gc_GetJobResult (platform_clients pe) r = on_query (\<lambda>qs.
       survive pe (GetJobResult (pe_struct pe) (rq_job r) (rq_tenant r) (rq_page r) (rq_size r) qs))"
  "snd (gc_TestConnection (platform_clients pe) t p) = p"
  by (simp_all add: platform_clients_def MetaClient_def QueryEngineClient_def ConnectionManagerClient_def Let_def)

lemma GetJobStatus_stream: "qs_stream (snd (GetJobStatus i t s)) = qs_stream s"
  by (simp add: GetJobStatus_def split: prod.split sum.split)

lemma GetJobResult_stream: "qs_stream (snd (GetJobResult f i t p n s)) = qs_stream s"
  by (simp add: GetJobResult_def split_beta)

lemma survive_stream: "safe_restart pe \<Longrightarrow> qs_stream (snd (survive pe r)) = qs_stream (snd r)"
  by (cases r) (auto simp: survive_def safe_restart_def split: outcome.split)

lemma publish_job_queue:
  "publish_job subject job js = (e, js') \<Longrightarrow> js_log js' = js_log js \<or> js_log js' = js_log js @ [(subject, job)]"
  by (auto simp: publish_job_def Let_def split: prod.splits fault.splits)

lemma SubmitQuery_queue:
  assumes "SubmitQuery nuid q s = (x, s')" and "qs_stream s = Some js"
  shows "\<exists>js'. qs_stream s' = Some js' \<and> (js_log js' = js_log js
    \<or> (\<exists>job. js_log js' = js_log js @ [(querySubject, job)] \<and> qj_tenant job = sq_tenant q \<and> qj_conn job = sq_conn q
         \<and> qj_sql job = sq_sql q))"
proof -
  obtain y st where c: "CreateContext (new_record nuid q) (qs_store s) = (y, st)" by fastforce
  show ?thesis
  proof (cases y)
    case (Inl e)
    with assms c show ?thesis by (auto simp: SubmitQuery_def split: if_splits)
  next
    case (Inr r)
    obtain z js' where p: "publish_job querySubject (job_of r) js = (z, js')" by fastforce
    have "qj_tenant (job_of r) = sq_tenant q \<and> qj_conn (job_of r) = sq_conn q \<and> qj_sql (job_of r) = sq_sql q"
      using CreateContext_peek(1) [OF c Inr] by (simp add: job_of_def new_record_def)
    moreover have "s' = s \<or> qs_stream s' = Some js'" using assms c Inr p
      by (auto simp: SubmitQuery_def split: if_splits option.splits)
    ultimately show ?thesis using publish_job_queue [OF p] assms(2) by auto
  qed
qed

lemma perform_queue:
  assumes "safe_restart pe"
  shows "queue_of (perform (platform_clients pe) c p) = queue_of p
    \<or> (\<exists>q job. c = CSubmitQuery q \<and> queue_of (perform (platform_clients pe) c p) = queue_of p @ [(querySubject, job)]
         \<and> qj_tenant job = sq_tenant q \<and> qj_conn job = sq_conn q \<and> qj_sql job = sq_sql q)"
proof (cases c)
  case (CSubmitQuery q)
  show ?thesis
  proof (cases "qs_stream (pf_query p)")
    case None
    then have "snd (SubmitQuery (pe_nuid pe) q (pf_query p)) = pf_query p" by (simp add: SubmitQuery_def)
    with CSubmitQuery show ?thesis by (simp add: perform.simps on_query_platform)
  next
    case (Some js)
    from SubmitQuery_queue [OF surjective_pairing Some, of "pe_nuid pe" q] CSubmitQuery Some show ?thesis
      by (auto simp: perform.simps on_query_platform queue_of_def)
  qed
qed (use assms in \<open>simp_all add: perform.simps on_meta_platform on_query_platform queue_of_def GetJobStatus_stream
       GetJobResult_stream survive_stream meta_http_def split_beta\<close>)

section \<open>Where queued jobs come from\<close>

fun orderly :: "input \<Rightarrow> bool" where
  "orderly (HttpRequest pe env req) = safe_restart pe"
| "orderly _ = True"

text \<open>A request that submits the statement of a job with the token of the job's tenant.\<close>

definition submits :: "jwt_manager \<Rightarrow> input \<Rightarrow> query_job \<Rightarrow> bool" where
  "submits m i job \<longleftrightarrow> (\<exists>pe env req. i = HttpRequest pe env req
     \<and> bearer_user env m (gr_auth req) = Some (qj_tenant job) \<and> submission (gr_route req) = Some (qj_conn job, qj_sql job))"

lemma queued_simps [simp]:
  "queued (s\<lparr>sy_platform := p\<rparr>) = queue_of p" "queued (s\<lparr>sy_bus := b\<rparr>) = queued s"
  "queued (disturb c s) = queued s"
  by (simp_all add: queued_def queue_of_def disturb_def Let_def split: option.split)

lemma queued_after_delivery [simp]: "queued (after_delivery de w s) = queued s"
  by (simp add: after_delivery_def queued_def Let_def)

lemma step_queue:
  assumes "gw_jwt g = Some m" and "orderly i"
  shows "queued (snd (system_step g i s)) = queued s
    \<or> (\<exists>job. submits m i job \<and> queued (snd (system_step g i s)) = queued s @ [(querySubject, job)])"
proof (cases i)
  case (HttpRequest pe env req)
  let ?p = "sy_platform s" and ?p' = "snd (gateway_handler env g (platform_clients pe) req (sy_platform s))"
  have s': "queued (snd (system_step g i s)) = queue_of ?p'" using HttpRequest by (simp add: split_beta)
  from request_effect [OF assms(1), of env req "platform_clients pe" ?p] consider "?p' = ?p"
    | c where "?p' = perform (platform_clients pe) c ?p" "\<And>q. c = CSubmitQuery q \<Longrightarrow>
        bearer_user env m (gr_auth req) = Some (sq_tenant q) \<and> submission (gr_route req) = Some (sq_conn q, sq_sql q)"
    unfolding effect_def by blast
  then show ?thesis
  proof cases
    case 1
    show ?thesis unfolding s' 1 by (simp add: queued_of)
  next
    case 2
    have "safe_restart pe" using assms(2) HttpRequest by simp
    from perform_queue [OF this, of c ?p]
    have "queue_of (perform (platform_clients pe) c ?p) = queued s
      \<or> (\<exists>job. submits m i job \<and> queue_of (perform (platform_clients pe) c ?p) = queued s @ [(querySubject, job)])"
      using 2(2) HttpRequest by (auto simp: submits_def queued_of)
    then show ?thesis unfolding s' 2(1) .
  qed
qed (auto simp: queued_of [symmetric] deliver_job_def split_beta)

text \<open>The step that puts a job in the stream.\<close>

definition enqueues :: "jwt_manager \<Rightarrow> gateway \<Rightarrow> system \<Rightarrow> input \<Rightarrow> query_job \<Rightarrow> bool" where
  "enqueues m g s i job \<longleftrightarrow> submits m i job \<and> queued (snd (system_step g i s)) = queued s @ [(querySubject, job)]"

lemma run_enqueued:
  assumes "gw_jwt g = Some m" and "list_all orderly is" and "queued s0 = []"
    and "(x, job) \<in> set (queued (system_run g is s0))"
  shows "\<exists>xs i ys. is = xs @ i # ys \<and> enqueues m g (system_run g xs s0) i job"
  using assms(2,4)
proof (induction "is" rule: rev_induct)
  case (snoc i "is")
  from step_queue [OF assms(1), of i "system_run g is s0"] snoc.prems
  consider "(x, job) \<in> set (queued (system_run g is s0))" | "enqueues m g (system_run g is s0) i job"
    by (auto simp: enqueues_def)
  then show ?case
  proof cases
    case 1
    with snoc.IH snoc.prems(1) obtain xs i' ys where "is = xs @ i' # ys" "enqueues m g (system_run g xs s0) i' job" by auto
    then show ?thesis by (intro exI [of _ xs] exI [of _ i'] exI [of _ "ys @ [i]"]) simp
  next
    case 2
    then show ?thesis by (intro exI [of _ "is"] exI [of _ i] exI [of _ "[]"]) simp
  qed
qed (simp add: assms(3))

lemma run_queue:
  assumes "gw_jwt g = Some m" and "list_all orderly is" and "queued s0 = []"
    and "(x, job) \<in> set (queued (system_run g is s0))"
  shows "\<exists>xs i ys. is = xs @ i # ys \<and> submits m i job"
  using run_enqueued [OF assms] unfolding enqueues_def by blast

section \<open>Where requests to databases come from\<close>

lemma sent_simps [simp]: "sy_sent (disturb c s) = sy_sent s"
  by (simp add: disturb_def Let_def)

lemma handle_message_sent:
  "w_sent (snd (handle_message Process (Inr job, env) w)) = w_sent w
   \<or> (\<exists>req. sandboxed_request env job req \<and> w_sent (snd (handle_message Process (Inr job, env) w)) = w_sent w @ [req])"
proof -
  have "snd (handle_message Process (Inr job, env) w) = snd (Process env job w)"
    by (simp add: handle_message_def split: prod.split option.split)
  then show ?thesis using process_sends_only_sandboxed [of env job w] by simp
qed

lemma step_sent:
  "sy_sent (snd (system_step g i s)) = sy_sent s
   \<or> (\<exists>de k req. i = DeliverJob de k \<and> k < length (queued s)
        \<and> sandboxed_request (worker_env de (sy_platform s)) (snd (queued s ! k)) req
        \<and> sy_sent (snd (system_step g i s)) = sy_sent s @ [req])"
proof (cases i)
  case (DeliverJob de k)
  show ?thesis
  proof (cases "k < length (queued s)")
    case True
    let ?env = "worker_env de (sy_platform s)" and ?job = "snd (queued s ! k)"
    have "sy_sent (snd (system_step g i s)) = w_sent (snd (handle_message Process (Inr ?job, ?env) (world_of s)))"
      using DeliverJob True by (simp add: deliver_job_def after_delivery_def Let_def split_beta)
    with handle_message_sent [of ?job ?env "world_of s"] DeliverJob True show ?thesis by (auto simp: world_of_def)
  qed (simp add: DeliverJob)
qed (auto simp: split_beta)

lemma run_sent:
  assumes "sy_sent s0 = []" and "req \<in> set (sy_sent (system_run g is s0))"
  shows "\<exists>xs de k ys. is = xs @ DeliverJob de k # ys \<and> k < length (queued (system_run g xs s0))
    \<and> sandboxed_request (worker_env de (sy_platform (system_run g xs s0))) (snd (queued (system_run g xs s0) ! k)) req"
  using assms(2)
proof (induction "is" rule: rev_induct)
  case (snoc i "is")
  let ?s = "system_run g is s0"
  from step_sent [of g i ?s] snoc.prems
  consider "req \<in> set (sy_sent ?s)"
    | de k where "i = DeliverJob de k" "k < length (queued ?s)" "sandboxed_request (worker_env de (sy_platform ?s)) (snd (queued ?s ! k)) req"
    by auto
  then show ?case
  proof cases
    case 1
    from snoc.IH [OF this] obtain xs de k ys where "is = xs @ DeliverJob de k # ys" "k < length (queued (system_run g xs s0))"
      "sandboxed_request (worker_env de (sy_platform (system_run g xs s0))) (snd (queued (system_run g xs s0) ! k)) req" by blast
    then show ?thesis by (intro exI [of _ xs] exI [of _ de] exI [of _ k] exI [of _ "ys @ [i]"]) simp
  next
    case 2
    then show ?thesis by (intro exI [of _ "is"] exI [of _ de] exI [of _ k] exI [of _ "[]"]) simp
  qed
qed (simp add: assms(1))

text \<open>A connection the worker is given is a row of its tenant.\<close>

lemma lookup_owner:
  assumes "qe_GetConnection de p c t = Inr (Some conn)"
  shows "\<exists>row\<in>set (db_connections (pf_meta p)). mc_tenant row = t \<and> mc_adapter row = cn_adapter conn
    \<and> pg_cast (me_pg (de_meta de)) c = Inr (mc_id row)"
proof -
  let ?db = "(pf_meta p)\<lparr>db_faults := []\<rparr>" and ?pg = "me_pg (de_meta de)"
  obtain pc where pc: "fst (grpc_GetConnection (de_meta de) c t ?db) = Inr (Some pc)" "cn_adapter conn = pn_adapter pc"
    using assms by (auto simp: qe_GetConnection_def split: option.splits sum.splits)
  then obtain row where row: "fst (repo_GetConnection ?pg c t ?db) = Inr (Some row)" "pn_adapter pc = mc_adapter row"
    by (auto simp: grpc_GetConnection_def svc_GetConnection_def toProtoConnection_def split: if_splits prod.splits sum.splits option.splits)
  have "db_read q ?db = (q ?db, ?db)" for q :: "meta_db \<Rightarrow> goerr + meta_connection option" by (rule db_read_ok) simp
  with row obtain i r where "pg_cast ?pg c = Inr i" "find (\<lambda>c. mc_id c = i \<and> mc_tenant c = t) (db_connections (pf_meta p)) = Some r"
    "row = scan_connection r"
    by (auto simp: repo_GetConnection_def split: sum.splits option.splits)
  then show ?thesis using row(2) pc(2) by (auto simp: find_Some_iff scan_connection_def intro: nth_mem)
qed

section \<open>Statements run for their owner only\<close>

text \<open>C1. However requests, deliveries, probes, route messages and faults are interleaved: every statement sent to
  Connection Manager is the sandboxed form of one that was submitted before, through the gateway, with a
  valid token of some user, and it runs on a connection row of that very user, with the user as the tenant
  value of the row's policy.\<close>

theorem executed_for_owner:
  assumes "gw_jwt g = Some m" and "list_all orderly is" and "queued s0 = []" and "sy_sent s0 = []"
    and "req \<in> set (sy_sent (system_run g is s0))"
  shows "\<exists>xs i ys de k zs job p row conn pol.
    is = xs @ i # ys @ DeliverJob de k # zs \<and> submits m i job \<and> p = sy_platform (system_run g (xs @ i # ys) s0)
    \<and> row \<in> set (db_connections (pf_meta p)) \<and> mc_tenant row = qj_tenant job
    \<and> xq_conn req = qj_conn job \<and> pg_cast (me_pg (de_meta de)) (xq_conn req) = Inr (mc_id row) \<and> xq_adapter req = mc_adapter row
    \<and> qe_GetConnection de p (qj_conn job) (qj_tenant job) = Inr (Some conn)
    \<and> policyFromConnection (cn_params conn) (qj_tenant job) = Inr pol \<and> TenantValue pol = qj_tenant job
    \<and> Allowed (ValidatePolicy (qj_sql job) pol) \<and> xq_sql req = Sanitized (ValidatePolicy (qj_sql job) pol)"
proof -
  from run_sent [OF assms(4,5)] obtain before de k zs where d: "is = before @ DeliverJob de k # zs"
    "k < length (queued (system_run g before s0))"
    "sandboxed_request (worker_env de (sy_platform (system_run g before s0))) (snd (queued (system_run g before s0) ! k)) req"
    by blast
  let ?s = "system_run g before s0"
  define job where "job = snd (queued ?s ! k)"
  have "(fst (queued ?s ! k), job) \<in> set (queued ?s)" using d(2) by (simp add: job_def)
  moreover have "list_all orderly before" using assms(2) d(1) by simp
  ultimately obtain xs i ys where i: "before = xs @ i # ys" "submits m i job"
    using run_queue [OF assms(1) _ assms(3)] by blast
  from d(3) obtain conn pol params where r: "qe_GetConnection de (sy_platform ?s) (qj_conn job) (qj_tenant job) = Inr (Some conn)"
    "policyFromConnection (cn_params conn) (qj_tenant job) = Inr pol" "TenantValue pol = qj_tenant job"
    "Allowed (ValidatePolicy (qj_sql job) pol)"
    "req = exec_request_for job conn params (Sanitized (ValidatePolicy (qj_sql job) pol))"
    unfolding sandboxed_request_def job_def [symmetric] by (auto simp: worker_env_def)
  from lookup_owner [OF r(1)] obtain row where "row \<in> set (db_connections (pf_meta (sy_platform ?s)))"
    "mc_tenant row = qj_tenant job" "mc_adapter row = cn_adapter conn" "pg_cast (me_pg (de_meta de)) (qj_conn job) = Inr (mc_id row)"
    by blast
  with d(1) i r show ?thesis
    by (intro exI [of _ xs] exI [of _ i] exI [of _ ys] exI [of _ de] exI [of _ k] exI [of _ zs] exI [of _ job]
        exI [of _ "sy_platform ?s"] exI [of _ row] exI [of _ conn] exI [of _ pol]) (simp add: exec_request_for_def)
qed

section \<open>A concrete run\<close>

definition plain_meta_env :: meta_env where
  "plain_meta_env = sample_meta_env\<lparr>me_codec := sample_codec, me_key := None\<rparr>"

definition sample_delivery_env :: delivery_env where
  "sample_delivery_env = \<lparr>de_meta = plain_meta_env, de_codec = sample_codec, de_show = (\<lambda>v. ''v''), de_lookup = None,
     de_exec = NoFault, de_new_struct = Inr, de_event_id = (\<lambda>i. ''uuid-'' @ i), de_jlen = (\<lambda>rows. 2), de_elapsed = 0,
     de_now = 9\<rparr>"

definition sample_site :: system where
  "sample_site = (let s = first_start sample_drivers (NewStore 5) in s\<lparr>sy_platform := (sy_platform s)\<lparr>pf_meta := empty_db\<lparr>
     db_connections := [\<lparr>mc_id = ''c1'', mc_workspace = ''w'', mc_user = ''u1'', mc_tenant = ''u1'', mc_name = ''main'',
       mc_adapter = ''mysql'', mc_params = [(''query_policy'', JObj [(''allowed_tables'', JArr [JStr ''users''])])],
       mc_created = 0\<rparr>]\<rparr>\<rparr>\<rparr>)"

definition sample_submit_request :: gw_request where
  "sample_submit_request = \<lparr>gr_method = ''POST'', gr_route = GSubmitQuery (Inr (''C1'', ''SELECT id FROM users'')), gr_query = [],
     gr_origin = [], gr_auth = ''Bearer token''\<rparr>"

definition sample_inputs :: "input list" where
  "sample_inputs = [HttpRequest sample_platform_env sample_gw_env sample_submit_request, DeliverJob sample_delivery_env 0]"

lemma sample_run:
  "map xq_sql (sy_sent (system_run sample_gateway sample_inputs sample_site)) = [''SELECT id FROM users LIMIT 10000'']"
  by code_simp

lemma executed_for_owner_witness:
  "\<exists>req\<in>set (sy_sent (system_run sample_gateway sample_inputs sample_site)). \<exists>i job.
    i \<in> set sample_inputs \<and> submits sample_manager i job \<and> xq_conn req = qj_conn job"
proof -
  let ?sent = "sy_sent (system_run sample_gateway sample_inputs sample_site)"
  obtain req where req: "req \<in> set ?sent" using sample_run by (cases ?sent) auto
  have m: "gw_jwt sample_gateway = Some sample_manager" by simp
  have o: "list_all orderly sample_inputs"
    by (simp add: sample_inputs_def safe_restart_def sample_platform_env_def)
  have e: "queued sample_site = []" "sy_sent sample_site = []"
    by (simp_all add: sample_site_def first_start_def queued_def NewGRPCServer_def Let_def)
  from executed_for_owner [OF m o e req] obtain xs i ys de k zs job where
    "sample_inputs = xs @ i # ys @ DeliverJob de k # zs" "submits sample_manager i job" "xq_conn req = qj_conn job" by blast
  moreover from this(1) have "i \<in> set sample_inputs" by (metis in_set_conv_decomp)
  ultimately show ?thesis using req by blast
qed

section \<open>What the audit table says\<close>

lemma Publish_entry:
  assumes "Publish fresh now ev (Some p) = (e, q)"
  shows "\<exists>p'. q = Some p' \<and> (pub_log p' = pub_log p
    \<or> (\<exists>x ev'. pub_log p' = pub_log p @ [(x, ev')] \<and> ev_tenant ev' = ev_tenant ev \<and> ev_resource ev' = ev_resource ev))"
  using Publish_log [OF assms] by metis

lemma process_body_audit: "w_audit (snd (process_body env job w)) = w_audit w"
  using process_body_facts [of job w env] by (simp add: settles_def)

lemma Process_audit:
  assumes "w_audit w = Some p"
  shows "\<exists>p'. w_audit (snd (Process env job w)) = Some p' \<and> (pub_log p' = pub_log p
    \<or> (\<exists>x ev. pub_log p' = pub_log p @ [(x, ev)] \<and> ev_tenant ev = qj_tenant job \<and> ev_resource ev = qj_id job))"
proof -
  obtain v w1 where "process_body env job w = (v, w1)" by fastforce
  moreover obtain err ok msg where "v = (err, ok, msg)" by (cases v)
  ultimately have b: "process_body env job w = ((err, ok, msg), w1)" by simp
  have a: "w_audit w1 = Some p" using process_body_audit [of env job w] assms b by simp
  obtain e q where pub: "Publish [] (pe_now env) (audit_event env job ok msg) (Some p) = (e, q)" by fastforce
  have "w_audit (snd (Process env job w)) = q"
    using b a pub by (simp add: Process_eq publish_audit_def split: option.split)
  moreover have "ev_tenant (audit_event env job ok msg) = qj_tenant job" "ev_resource (audit_event env job ok msg) = qj_id job"
    by (simp_all add: audit_event_def)
  ultimately show ?thesis using Publish_entry [OF pub] by metis
qed

lemma audit_simps [simp]:
  "pub_log (sy_audit (disturb c s)) = pub_log (sy_audit s)"
  "sy_audit (after_delivery de w s) = the (w_audit w)"
  by (simp_all add: disturb_def after_delivery_def Let_def)

lemma step_published:
  assumes "(x, ev) \<in> set (pub_log (sy_audit (snd (system_step g i s))))"
  shows "(x, ev) \<in> set (pub_log (sy_audit s)) \<or> (\<exists>de k job. i = DeliverJob de k \<and> k < length (queued s)
    \<and> snd (queued s ! k) = job \<and> ev_tenant ev = qj_tenant job \<and> ev_resource ev = qj_id job)"
proof (cases i)
  case (DeliverJob de k)
  show ?thesis
  proof (cases "k < length (queued s)")
    case True
    let ?job = "snd (queued s ! k)"
    have "snd (handle_message Process (Inr ?job, env) w) = snd (Process env ?job w)" for env w
      by (simp add: handle_message_def split: prod.split option.split)
    then have "sy_audit (snd (system_step g i s)) = the (w_audit (snd (Process (worker_env de (sy_platform s)) ?job (world_of s))))"
      using DeliverJob True by (simp add: deliver_job_def split_beta)
    moreover have "w_audit (world_of s) = Some (sy_audit s)" by (simp add: world_of_def)
    ultimately have "(x, ev) \<in> set (pub_log (sy_audit s)) \<or> ev_tenant ev = qj_tenant ?job \<and> ev_resource ev = qj_id ?job"
      using assms Process_audit [of "world_of s" "sy_audit s" "worker_env de (sy_platform s)" ?job] by auto
    then show ?thesis using DeliverJob True by blast
  qed (use assms DeliverJob in simp)
qed (use assms in \<open>auto simp: split_beta split: if_splits\<close>)

lemma run_published:
  assumes "pub_log (sy_audit s0) = []" and "(x, ev) \<in> set (pub_log (sy_audit (system_run g is s0)))"
  shows "\<exists>xs de k ys job. is = xs @ DeliverJob de k # ys \<and> k < length (queued (system_run g xs s0))
    \<and> snd (queued (system_run g xs s0) ! k) = job \<and> ev_tenant ev = qj_tenant job \<and> ev_resource ev = qj_id job"
  using assms(2)
proof (induction "is" rule: rev_induct)
  case (snoc i "is")
  let ?s = "system_run g is s0"
  from step_published [of x ev g i ?s] snoc.prems
  consider "(x, ev) \<in> set (pub_log (sy_audit ?s))"
    | de k job where "i = DeliverJob de k" "k < length (queued ?s)" "snd (queued ?s ! k) = job"
        "ev_tenant ev = qj_tenant job" "ev_resource ev = qj_id job"
    by fastforce
  then show ?case
  proof cases
    case 1
    from snoc.IH [OF this] obtain xs de k ys job where "is = xs @ DeliverJob de k # ys"
      "k < length (queued (system_run g xs s0))" "snd (queued (system_run g xs s0) ! k) = job"
      "ev_tenant ev = qj_tenant job" "ev_resource ev = qj_id job" by blast
    then show ?thesis by (intro exI [of _ xs] exI [of _ de] exI [of _ k] exI [of _ "ys @ [i]"] exI [of _ job]) simp
  next
    case 2
    then show ?thesis by (intro exI [of _ "is"] exI [of _ de] exI [of _ k] exI [of _ "[]"] exI [of _ job]) simp
  qed
qed (simp add: assms(1))

end
