(* ===== verification/Platform_Invariants.thy ===== *)
theory Platform_Invariants
  imports Platform_Run_Facts
begin

text \<open>
  The invariants of the stores of all services under every run of the platform, from the invariants of the
  single services: the tables of Meta Service, the routes of Connection Manager and the jobs of Query Engine,
  and what the audit table says.
\<close>

section \<open>Requests to the gateway\<close>

definition tables_ok :: "pg_env \<Rightarrow> meta_db \<Rightarrow> bool" where
  "tables_ok pg db \<longleftrightarrow> references_hold db \<and> unique_keys db \<and> lifecycle_states db \<and> (inj (pg_id pg) \<longrightarrow> fresh_ids pg db)"

lemma tables_run: "tables_ok pg db \<Longrightarrow> tables_ok pg (fold (meta_step pg) ops db)"
  using references.run_keeps [of db pg ops] uniqueness.run_keeps [of db pg ops] lifecycle.run_keeps [of db pg ops]
    identities.run_keeps [of pg db ops] by (simp add: tables_ok_def)

lemma tables_reached: "reaches pg db db' \<Longrightarrow> tables_ok pg db \<Longrightarrow> tables_ok pg db'"
  by (auto simp: reaches_def tables_run)

lemma perform_meta: "reaches (me_pg (pe_meta pe)) (pf_meta p) (pf_meta (perform (platform_clients pe) c p))"
  by (cases c) (simp_all add: perform.simps on_meta_platform on_query_platform meta_http_def meta_serve_reaches split_beta)

lemma perform_registry: "pf_registry (perform (platform_clients pe) c p) = pf_registry p"
  by (cases c) (simp_all add: perform.simps on_meta_platform on_query_platform meta_http_def split_beta)

lemma touches_keyed: "touches i st st' \<Longrightarrow> keyed st \<Longrightarrow> keyed st'"
  by (simp add: touches_def)

lemma keyed_peek: "peek st' = peek st \<Longrightarrow> keyed st \<Longrightarrow> keyed st'"
  by (simp add: keyed_def)

lemma GetForTenant_keyed: "GetForTenant i t st = (x, st') \<Longrightarrow> keyed st \<Longrightarrow> keyed st'"
  by (auto simp: GetForTenant_def split: prod.splits sum.splits dest: touches_keyed [OF GetJob_touches])

lemma get_object_peek: "get_object k st = (x, st') \<Longrightarrow> peek st' = peek st"
  by (auto simp: get_object_def dest!: pop_faultE(4) split: prod.splits fault.splits option.splits if_splits)

lemma GetResultPage_keyed:
  assumes "GetResultPage i p n st = (x, st')" and "keyed st"
  shows "keyed st'"
proof -
  obtain y st1 where g: "GetJob i st = (y, st1)" by fastforce
  have k: "keyed st1" using touches_keyed [OF GetJob_touches [OF g] assms(2)] .
  have "st' = st1 \<or> (\<exists>k z. get_object k st1 = (z, st'))"
  proof (cases y)
    case (Inr r)
    then show ?thesis using assms(1) g
      by (cases "job_ref r = []"; cases "st_objects st1"; cases "get_object (job_ref r) st1")
         (auto simp: GetResultPage_def split: sum.splits)
  qed (use assms(1) g in \<open>simp add: GetResultPage_def\<close>)
  then show ?thesis using k keyed_peek get_object_peek by blast
qed

lemma GetResultPageForTenant_keyed:
  assumes "GetResultPageForTenant i t p n st = (x, st')" and "keyed st"
  shows "keyed st'"
proof -
  obtain y st1 where g: "GetForTenant i t st = (y, st1)" by fastforce
  note k = GetForTenant_keyed [OF g assms(2)]
  show ?thesis
  proof (cases y)
    case (Inr r)
    then have "GetResultPage i p n st1 = (x, st')" using assms(1) g by (simp add: GetResultPageForTenant_def)
    from GetResultPage_keyed [OF this k] show ?thesis .
  qed (use assms(1) g k in \<open>simp add: GetResultPageForTenant_def\<close>)
qed

lemma keyed_upd: "peek st' = (peek st)(i \<mapsto> c) \<Longrightarrow> job_id c = i \<Longrightarrow> keyed st \<Longrightarrow> keyed st'"
  by (simp add: keyed_def)

lemma CreateContext_keyed:
  assumes "CreateContext r st = (x, st')" and "keyed st"
  shows "keyed st'"
proof (cases x)
  case (Inr c)
  with CreateContext_peek(1) [OF assms(1)] keyed_upd assms(2) show ?thesis by blast
next
  case (Inl e)
  from CreateContext_peek(2) [OF assms(1) this] keyed_upd [of st' st "job_id r"] keyed_peek assms(2) show ?thesis by blast
qed

lemma MarkFailed_keyed: "keyed st \<Longrightarrow> keyed (snd (MarkFailed i msg st))"
  using touches_keyed [OF MarkFailed_touches [OF surjective_pairing]] by blast

lemma SubmitQuery_keyed: "SubmitQuery n q s = (x, s') \<Longrightarrow> keyed (qs_store s) \<Longrightarrow> keyed (qs_store s')"
  by (auto simp: SubmitQuery_def split: if_splits option.splits prod.splits sum.splits
    dest!: CreateContext_keyed simp: MarkFailed_keyed)

lemma GetJobStatus_keyed: "GetJobStatus i t s = (x, s') \<Longrightarrow> keyed (qs_store s) \<Longrightarrow> keyed (qs_store s')"
  by (auto simp: GetJobStatus_def split: if_splits prod.splits sum.splits dest: GetForTenant_keyed)

lemma GetJobResult_keyed: "GetJobResult f i t p n s = (x, s') \<Longrightarrow> keyed (qs_store s) \<Longrightarrow> keyed (qs_store s')"
  by (auto simp: GetJobResult_def split: if_splits prod.splits dest: GetResultPageForTenant_keyed)

lemma survive_keyed: "safe_restart pe \<Longrightarrow> keyed (qs_store (snd r)) \<Longrightarrow> keyed (qs_store (snd (survive pe r)))"
  by (cases r) (auto simp: survive_def safe_restart_def split: outcome.split)

lemma perform_keyed:
  "safe_restart pe \<Longrightarrow> keyed (qs_store (pf_query p)) \<Longrightarrow> keyed (qs_store (pf_query (perform (platform_clients pe) c p)))"
  by (cases c) (simp_all add: perform.simps on_meta_platform on_query_platform meta_http_def split_beta
    survive_keyed GetJobResult_keyed [OF surjective_pairing] GetJobStatus_keyed [OF surjective_pairing]
    SubmitQuery_keyed [OF surjective_pairing])

text \<open>Three invariants of the services behind the gateway.\<close>

interpretation tables: service_invariant "platform_clients pe" "\<lambda>p. tables_ok (me_pg (pe_meta pe)) (pf_meta p)" for pe
  by unfold_locales (rule tables_reached [OF perform_meta])

interpretation routes: service_invariant "platform_clients pe" "\<lambda>p. pf_registry p = r" for pe r
  by unfold_locales (simp add: perform_registry)

interpretation job_keys: service_invariant "platform_clients pe" "\<lambda>p. safe_restart pe \<longrightarrow> keyed (qs_store (pf_query p))" for pe
  by unfold_locales (simp add: perform_keyed)

interpretation audit_table: service_invariant "platform_clients pe" "\<lambda>p. db_audit (pf_meta p) = rows" for pe rows
  by unfold_locales (simp add: reaches_audit [OF perform_meta])

section \<open>Steps of the platform\<close>

fun uses_database :: "pg_env \<Rightarrow> input \<Rightarrow> bool" where
  "uses_database pg (HttpRequest pe env req) = (me_pg (pe_meta pe) = pg \<and> safe_restart pe)"
| "uses_database pg (PersistAudit pg' k) = (pg' = pg)"
| "uses_database pg _ = True"

definition sound :: "pg_env \<Rightarrow> drivers \<Rightarrow> system \<Rightarrow> bool" where
  "sound pg ds s \<longleftrightarrow> tables_ok pg (pf_meta (sy_platform s)) \<and> reachable ds (pf_registry (sy_platform s))
     \<and> keyed (qs_store (pf_query (sy_platform s)))"

lemma ExecuteQuery_reachable: "reachable ds r \<Longrightarrow> reachable ds (snd (ExecuteQuery co sh q r))"
  by (auto simp: ExecuteQuery_def keep_pools_def Let_def intro: reachable.use_pool split: sum.split prod.split option.split)

lemma qe_ExecuteQuery_reachable: "reachable ds r \<Longrightarrow> reachable ds (snd (qe_ExecuteQuery de q r))"
  using ExecuteQuery_reachable [of ds r]
  by (auto simp: qe_ExecuteQuery_def cm_execute_def split: fault.split sum.split prod.split) (metis snd_conv)+

lemma fold_reachable: "reachable ds r \<Longrightarrow> reachable ds (fold (\<lambda>q r. snd (qe_ExecuteQuery de q r)) qs r)"
  by (induction qs arbitrary: r) (simp_all add: qe_ExecuteQuery_reachable)

lemma peek_now [simp]: "peek (st\<lparr>st_now := n\<rparr>) = peek st"
  by (rule ext) (simp add: peek_def split: option.split)

lemma handle_job: "snd (handle_message Process (Inr job, env) w) = snd (Process env job w)"
  by (simp add: handle_message_def split: prod.split option.split)

lemma sink_reaches: "snd (sink_message pg (Inr ev) db) = meta_step pg (OpAudit ev) db"
  by (simp add: sink_message_def split: prod.split option.split)

lemma step_sound:
  assumes "uses_database pg i" and "sound pg ds s"
  shows "sound pg ds (snd (system_step g i s))"
proof (cases i)
  case (HttpRequest pe env req)
  have "sound pg ds (s\<lparr>sy_platform := snd (gateway_handler env g (platform_clients pe) req (sy_platform s))\<rparr>)"
    using assms HttpRequest tables.request_keeps [of pe "sy_platform s" env g req]
      routes.request_keeps [of "sy_platform s" "pf_registry (sy_platform s)" env g pe req]
      job_keys.request_keeps [of pe "sy_platform s" env g req]
    by (auto simp: sound_def)
  then show ?thesis using HttpRequest by (simp add: split_beta)
next
  case (DeliverJob de k)
  show ?thesis
  proof (cases "k < length (queued s)")
    case True
    let ?job = "snd (queued s ! k)" and ?env = "worker_env de (sy_platform s)"
    have "keyed (w_store (snd (Process ?env ?job (world_of s))))"
      using touches_keyed [OF Process_touches] assms(2) by (simp add: world_of_def sound_def)
    then show ?thesis using DeliverJob True assms(2)
      by (simp add: deliver_job_def split_beta handle_job after_delivery_def Let_def sound_def fold_reachable)
  qed (use DeliverJob assms in simp)
next
  case (PersistAudit pg' k)
  with assms tables_run [of pg "pf_meta (sy_platform s)" "[OpAudit (snd (pub_log (sy_audit s) ! k))]"] show ?thesis
    by (simp add: sound_def split_beta sink_reaches)
next
  case (ProbePlugins le)
  with assms tables_reached [OF check_reaches, of pg "(pf_meta (sy_platform s), sy_bus s)" le] show ?thesis
    by (simp add: sound_def split_beta)
next
  case (RouteMessage dial k)
  with assms show ?thesis by (simp add: sound_def on_plugin_route_def decode_route_def reachable.route)
next
  case (Disturb c)
  with assms tables_run [of pg "pf_meta (sy_platform s)" "[OpTime (cd_now c), OpFaults (cd_db c)]"] show ?thesis
    by (simp add: sound_def disturb_def Let_def keyed_def)
qed

lemma run_sound: "list_all (uses_database pg) is \<Longrightarrow> sound pg ds s \<Longrightarrow> sound pg ds (system_run g is s)"
  by (induction "is" arbitrary: s) (simp_all add: step_sound)

lemma empty_tables_ok: "tables_ok pg empty_db"
  by (simp add: tables_ok_def references_hold_def unique_keys_def lifecycle_states_def fresh_ids_def empty_db_def)

text \<open>C2. Every run of the platform, from its first start, under any interleaving and any faults, keeps the stores of
  its services intact: references of the tables lead to rows, natural keys and identifiers are unique, plugins are
  in a legal state, each connection to a plugin is behind one route or closed, and jobs are kept under their
  identifiers.\<close>

theorem platform_invariant:
  assumes "list_all (uses_database pg) is" and "keyed st" and "inj (pg_id pg)"
    and "p = sy_platform (system_run g is (first_start ds st))"
  shows "references_hold (pf_meta p) \<and> unique_keys (pf_meta p) \<and> lifecycle_states (pf_meta p) \<and> fresh_ids pg (pf_meta p)
    \<and> accounted (pf_registry p) \<and> keyed (qs_store (pf_query p))"
proof -
  have "sound pg ds (first_start ds st)"
    using assms(2) by (simp add: sound_def first_start_def NewGRPCServer_def empty_tables_ok reachable.initial)
  from run_sound [OF assms(1) this, of g] show ?thesis
    using assms(3,4) by (auto simp: sound_def tables_ok_def dest: reachable_accounted)
qed

section \<open>Rows of the audit table\<close>

definition rows_published :: "system \<Rightarrow> bool" where
  "rows_published s \<longleftrightarrow> (\<forall>row\<in>set (db_audit (pf_meta (sy_platform s))). \<exists>x ev. (x, ev) \<in> set (pub_log (sy_audit s))
     \<and> row = ev\<lparr>ev_id := ev_id row\<rparr>)"

lemma rows_published_same:
  "rows_published s \<Longrightarrow> db_audit (pf_meta (sy_platform s')) = db_audit (pf_meta (sy_platform s)) \<Longrightarrow>
   set (pub_log (sy_audit s)) \<subseteq> set (pub_log (sy_audit s')) \<Longrightarrow> rows_published s'"
  unfolding rows_published_def by (metis subsetD)

lemma step_rows:
  assumes "rows_published s"
  shows "rows_published (snd (system_step g i s))"
proof (cases i)
  case (HttpRequest pe env req)
  with audit_table.request_keeps [where s = "sy_platform s" and pe = pe and env = env and g = g and req = req, OF refl] show ?thesis
    by (intro rows_published_same [OF assms]) (simp_all add: split_beta)
next
  case (DeliverJob de k)
  have "set (pub_log (sy_audit s)) \<subseteq> set (pub_log (the (w_audit (snd (Process env job (world_of s))))))" for env job
    using Process_audit [of "world_of s" "sy_audit s" env job] by (auto simp: world_of_def)
  then show ?thesis using DeliverJob
    by (intro rows_published_same [OF assms]) (simp_all add: deliver_job_def split_beta handle_job after_delivery_def Let_def)
next
  case (PersistAudit pg k)
  show ?thesis
  proof (cases "k < length (pub_log (sy_audit s))")
    case True
    obtain x ev where e: "pub_log (sy_audit s) ! k = (x, ev)" by fastforce
    then have "(x, ev) \<in> set (pub_log (sy_audit s))" using True nth_mem by metis
    moreover have log: "sy_audit (snd (system_step g i s)) = sy_audit s"
      and db: "pf_meta (sy_platform (snd (system_step g i s))) = snd (SaveAuditEvent pg ev (pf_meta (sy_platform s)))"
      using PersistAudit True e by (simp_all add: split_beta sink_reaches)
    moreover have "persists pg ev (db_audit (pf_meta (sy_platform s)))
        (db_audit (snd (SaveAuditEvent pg ev (pf_meta (sy_platform s)))))"
      by (rule SaveAuditEvent_persists(1) [OF surjective_pairing])
    ultimately show ?thesis
      using assms unfolding rows_published_def log db persists_def by (elim disjE) (simp, force)
  qed (use PersistAudit assms in simp)
next
  case (ProbePlugins le)
  with reaches_audit [OF check_reaches, of le "(pf_meta (sy_platform s), sy_bus s)"] show ?thesis
    by (intro rows_published_same [OF assms]) (simp_all add: split_beta)
next
  case (RouteMessage dial k)
  then show ?thesis by (intro rows_published_same [OF assms]) simp_all
next
  case (Disturb c)
  then show ?thesis by (intro rows_published_same [OF assms]) (simp_all add: disturb_def Let_def)
qed

lemma run_rows: "rows_published s \<Longrightarrow> rows_published (system_run g is s)"
  by (induction "is" arbitrary: s) (simp_all add: step_rows)

text \<open>C3. No audit row is made up: after any run of the platform every row of the audit table is about a job that an
  earlier step put in the stream, which was a request to the gateway with a valid token of the very tenant the
  row names, and that a later step delivered to a worker; the resource of the row is the identifier of that job.\<close>

theorem audited_for_submitter:
  assumes "gw_jwt g = Some m" and "list_all orderly is" and "s0 = first_start ds st"
    and "row \<in> set (db_audit (pf_meta (sy_platform (system_run g is s0))))"
  shows "\<exists>xs i ys de k zs job. is = xs @ i # ys @ DeliverJob de k # zs \<and> submits m i job
    \<and> queued (system_run g (xs @ [i]) s0) = queued (system_run g xs s0) @ [(querySubject, job)]
    \<and> k < length (queued (system_run g (xs @ i # ys) s0)) \<and> snd (queued (system_run g (xs @ i # ys) s0) ! k) = job
    \<and> ev_tenant row = qj_tenant job \<and> ev_resource row = qj_id job"
proof -
  have z: "queued s0 = []" "pub_log (sy_audit s0) = []"
    by (simp_all add: assms(3) first_start_def queued_def NewGRPCServer_def)
  have "rows_published s0" by (simp add: rows_published_def assms(3) first_start_def empty_db_def)
  from run_rows [OF this] assms(4) obtain x ev where
    ev: "(x, ev) \<in> set (pub_log (sy_audit (system_run g is s0)))" "row = ev\<lparr>ev_id := ev_id row\<rparr>"
    unfolding rows_published_def by blast
  have row: "ev_tenant row = ev_tenant ev" "ev_resource row = ev_resource ev" by (subst ev(2), simp)+
  from run_published [OF z(2) ev(1)] obtain before de k zs job where d: "is = before @ DeliverJob de k # zs"
    "k < length (queued (system_run g before s0))" "snd (queued (system_run g before s0) ! k) = job"
    "ev_tenant ev = qj_tenant job" "ev_resource ev = qj_id job" by blast
  then have "(fst (queued (system_run g before s0) ! k), job) \<in> set (queued (system_run g before s0))"
    by (metis nth_mem prod.collapse)
  moreover have "list_all orderly before" using assms(2) d(1) by simp
  ultimately obtain xs i ys where "before = xs @ i # ys" "enqueues m g (system_run g xs s0) i job"
    using run_enqueued [OF assms(1) _ z(1)] by blast
  with d row show ?thesis
    by (intro exI [of _ xs] exI [of _ i] exI [of _ ys] exI [of _ de] exI [of _ k] exI [of _ zs] exI [of _ job])
       (simp add: enqueues_def)
qed

section \<open>A concrete run\<close>

definition audited_inputs :: "input list" where
  "audited_inputs = sample_inputs @ [PersistAudit sample_pg 0]"

lemma audited_run:
  "map ev_tenant (db_audit (pf_meta (sy_platform (system_run sample_gateway audited_inputs
     (first_start sample_drivers (NewStore 5)))))) = [''u1'']"
  by code_simp

lemma audited_inputs_ok:
  "list_all orderly audited_inputs" "list_all (uses_database sample_pg) audited_inputs" "keyed (NewStore 5)"
  by (simp_all add: audited_inputs_def sample_inputs_def safe_restart_def sample_platform_env_def sample_meta_env_def
    keyed_def peek_def NewStore_def)

lemma audited_for_submitter_witness:
  "\<exists>row job xs i. row \<in> set (db_audit (pf_meta (sy_platform (system_run sample_gateway audited_inputs
       (first_start sample_drivers (NewStore 5))))))
     \<and> submits sample_manager i job \<and> ev_resource row = qj_id job
     \<and> queued (system_run sample_gateway (xs @ [i]) (first_start sample_drivers (NewStore 5)))
         = queued (system_run sample_gateway xs (first_start sample_drivers (NewStore 5))) @ [(querySubject, job)]"
proof -
  let ?rows = "db_audit (pf_meta (sy_platform (system_run sample_gateway audited_inputs (first_start sample_drivers (NewStore 5)))))"
  obtain row where row: "row \<in> set ?rows" using audited_run by (cases ?rows) auto
  have "gw_jwt sample_gateway = Some sample_manager" by simp
  from audited_for_submitter [OF this audited_inputs_ok(1) refl row] row show ?thesis by metis
qed

lemma platform_invariant_witness:
  "unique_keys (pf_meta (sy_platform (system_run sample_gateway audited_inputs (first_start sample_drivers (NewStore 5)))))"
  using platform_invariant [OF audited_inputs_ok(2,3) sample_pg_inj refl, of sample_gateway sample_drivers] by blast

end
