(* ===== verification/Example_Plugin.thy ===== *)
theory Example_Plugin
  imports Platform_Run_Facts
begin

text \<open>
  The example plugin (\<^verbatim>\<open>example/plugin/main.go\<close>): its five handlers, and the plugin as Connection Manager sees it
  behind a route, where an error arrives as the text of its status. Statements are read as ASCII, as in the
  sandbox. The last section meets the plugin with the platform that is to use it.
\<close>

section \<open>The handlers\<close>

record adapter_info =
  ai_name :: string
  ai_version :: string
  ai_author :: string
  ai_features :: "string list"

record dialect_capability =
  dc_function :: string
  dc_supported :: bool
  dc_notes :: string

record demo_answer =
  da_columns :: "string list"
  da_rows :: "jval list list"
  da_count :: int

definition demo_GetAdapterInfo :: adapter_info where
  "demo_GetAdapterInfo =
     \<lparr>ai_name = ''example'', ai_version = ''0.1.0'', ai_author = ''n0 contributors'',
      ai_features = [''test_connection'', ''schema'', ''select_literal'']\<rparr>"

definition demo_TestConnection :: "gomap \<Rightarrow> rpc_error + bool \<times> string" where
  "demo_TestConnection params =
     (if get_str params ''api_key'' = [] then Inl (Status InvalidArgument ''api_key is required'')
      else Inr (True, []))"

definition demo_GetSchema :: "table_info list" where
  "demo_GetSchema =
     [\<lparr>ti_name = ''demo_metrics'',
       ti_columns = [\<lparr>ci_name = ''metric'', ci_type = ''text'', ci_nullable = False\<rparr>,
                     \<lparr>ci_name = ''value'', ci_type = ''double'', ci_nullable = False\<rparr>]\<rparr>]"

text \<open>The numbers 42 and 12.5 as the bits of a double.\<close>

definition demo_ExecuteQuery :: "string \<Rightarrow> rpc_error + demo_answer" where
  "demo_ExecuteQuery q =
     (let query = trim_space (trim_suffix '';'' q) in
      if \<not> equal_fold query ''SELECT * FROM demo_metrics''
      then Inl (Status InvalidArgument ''example plugin only supports SELECT * FROM demo_metrics'')
      else let rows = [[JStr ''requests'', JNum 0x4045000000000000], [JStr ''latency_ms'', JNum 0x4029000000000000]]
        in Inr \<lparr>da_columns = [''metric'', ''value''], da_rows = rows, da_count = int (length rows)\<rparr>)"

definition demo_GetDialectCapabilities :: "dialect_capability list \<times> string list" where
  "demo_GetDialectCapabilities =
     ([\<lparr>dc_function = ''select'', dc_supported = True,
        dc_notes = ''The example accepts only SELECT * FROM demo_metrics''\<rparr>],
      [''text'', ''double''])"

section \<open>The plugin behind a route\<close>

text \<open>Parameters and the row limit of a query are not read.\<close>

definition from_plugin :: "rpc_error + 'a \<Rightarrow> goerr + 'a" where
  "from_plugin r = (case r of Inl e \<Rightarrow> Inl (Err (rpc_text (over_wire e))) | Inr x \<Rightarrow> Inr x)"

definition demo_client :: plugin_client where
  "demo_client =
     \<lparr>pc_test = (\<lambda>params. from_plugin (demo_TestConnection params)),
      pc_schema = (\<lambda>params. Inr demo_GetSchema),
      pc_execute = (\<lambda>params sql limit.
        map_sum id (\<lambda>a. (da_columns a, da_rows a)) (from_plugin (demo_ExecuteQuery sql)))\<rparr>"

text \<open>Reached through the external adapter, the one statement is answered with two named rows of protobuf messages.\<close>

lemma demo_query_answered:
  "external_ExecuteQuery demo_client i ''SELECT * FROM demo_metrics;'' n p =
     Inr [[(''metric'', pb_value (JStr ''requests'')), (''value'', pb_value (JNum 0x4045000000000000))],
          [(''metric'', pb_value (JStr ''latency_ms'')), (''value'', pb_value (JNum 0x4029000000000000))]]"
proof -
  have "from_plugin (demo_ExecuteQuery ''SELECT * FROM demo_metrics;'') =
      Inr \<lparr>da_columns = [''metric'', ''value''],
        da_rows = [[JStr ''requests'', JNum 0x4045000000000000], [JStr ''latency_ms'', JNum 0x4029000000000000]], da_count = 2\<rparr>"
    by code_simp
  then show ?thesis by (simp add: external_ExecuteQuery_def demo_client_def row_of_def)
qed

section \<open>No statement of the platform is the one the plugin answers\<close>

text \<open>The bytes the plugin does not trim, which lower case leaves apart from those it trims.\<close>

definition ink :: "char \<Rightarrow> bool" where
  "ink c \<longleftrightarrow> \<not> ascii_space c \<and> c \<noteq> CHR '';''"

lemma ink_lower: "ink (lower_char c) = ink c"
proof -
  have "list_all (\<lambda>c. ink (lower_char c) = ink c) Enum.enum" by code_simp
  then show ?thesis by (simp add: list_all_iff enum_UNIV)
qed

lemma ink_to_lower: "filter ink (to_lower s) = to_lower (filter ink s)"
  by (simp add: to_lower_def filter_map o_def ink_lower)

lemma ink_trim_space: "filter ink (trim_space s) = filter ink s"
proof -
  from trim_with_split [of s ascii_space] obtain x y where s: "s = x @ trim_space s @ y"
    "list_all ascii_space x" "list_all ascii_space y" unfolding trim_space_def by blast
  then have "filter ink x = []" "filter ink y = []" by (auto simp: filter_empty_conv list_all_iff ink_def)
  with arg_cong [OF s(1), of "filter ink"] show ?thesis by simp
qed

lemma ink_trim_suffix: "filter ink (trim_suffix '';'' s) = filter ink s"
proof -
  have "filter ink s = filter ink (take (length s - 1) s @ drop (length s - 1) s)" by simp
  then show ?thesis unfolding filter_append by (simp add: trim_suffix_def ink_def)
qed

lemma demo_answers_ink:
  assumes "demo_ExecuteQuery q = Inr a"
  shows "to_lower (filter ink q) = ''select*fromdemo_metrics''"
proof -
  have "to_lower (trim_space (trim_suffix '';'' q)) = to_lower ''SELECT * FROM demo_metrics''"
    using assms by (simp add: demo_ExecuteQuery_def Let_def equal_fold_def split: if_splits)
  from arg_cong [OF this, of "filter ink"]
  have "to_lower (filter ink q) = filter ink (to_lower ''SELECT * FROM demo_metrics'')"
    by (simp add: ink_to_lower ink_trim_space ink_trim_suffix)
  also have "\<dots> = ''select*fromdemo_metrics''" by code_simp
  finally show ?thesis .
qed

text \<open>So no quote and no zero can be part of a statement the plugin answers, and neither can \<^verbatim>\<open>limit\<close>.\<close>

lemma demo_no_byte:
  assumes "demo_ExecuteQuery q = Inr a" and "c \<in> set q" and "ink c"
  shows "lower_char c \<in> set ''select*fromdemo_metrics''"
  unfolding demo_answers_ink [OF assms(1), symmetric] to_lower_def using assms(2,3) by simp

lemma demo_no_quote:
  assumes "demo_ExecuteQuery q = Inr a"
  shows "dq \<notin> set q" and "bq \<notin> set q" and "CHR ''0'' \<notin> set q"
proof -
  have "lower_char dq \<notin> set ''select*fromdemo_metrics''" "lower_char bq \<notin> set ''select*fromdemo_metrics''"
    "lower_char (CHR ''0'') \<notin> set ''select*fromdemo_metrics''" by code_simp+
  moreover have "ink dq" "ink bq" "ink (CHR ''0'')" by code_simp+
  ultimately show "dq \<notin> set q" "bq \<notin> set q" "CHR ''0'' \<notin> set q" using demo_no_byte [OF assms] by blast+
qed

lemma demo_no_limit:
  assumes "demo_ExecuteQuery (x @ v @ y) = Inr a" and "to_lower v = ''limit''"
  shows False
proof -
  have "filter ink v = v"
  proof -
    have "to_lower (filter ink v) = to_lower v" unfolding ink_to_lower [symmetric] assms(2) by code_simp
    from arg_cong [OF this, of length] show ?thesis by (metis filter_True length_filter_less length_map less_irrefl to_lower_def)
  qed
  with demo_answers_ink [OF assms(1)] assms(2)
  have e: "to_lower (filter ink x) @ ''limit'' @ to_lower (filter ink y) = ''select*fromdemo_metrics''"
    by (simp add: to_lower_def)
  let ?n = "length (to_lower (filter ink x))"
  have "list_all (\<lambda>n. take 5 (drop n ''select*fromdemo_metrics'') \<noteq> ''limit'') [0..<24]" by code_simp
  moreover have "?n < 24" using arg_cong [OF e, of length] by simp
  ultimately have "take 5 (drop ?n ''select*fromdemo_metrics'') \<noteq> ''limit''" unfolding list_all_iff by fastforce
  then show False unfolding e [symmetric] by simp
qed

text \<open>A token of a statement is a piece of it, and unquoted it is compared in lower case.\<close>

lemma covers_infix: "covers i s ts \<Longrightarrow> t \<in> set ts \<Longrightarrow> \<exists>a b. s = a @ tok_value t @ b"
proof (induction i s ts rule: covers.induct)
  case (2 i s u ts)
  define k where "k = tok_start u - i"
  define n where "n = tok_end u - tok_start u"
  from "2.prems"(1) have c: "tok_value u = take n (drop k s)" "covers (tok_end u) (drop (k + n) s) ts"
    unfolding k_def n_def covers.simps(2) Let_def by blast+
  show ?case
  proof (cases "t = u")
    case True
    then have "s = take k s @ tok_value t @ drop n (drop k s)"
      using c(1) by (metis append_take_drop_id)
    then show ?thesis by blast
  next
    case False
    with "2.prems"(2) "2.IH" [OF k_def n_def c(2)] obtain a b where "drop (k + n) s = a @ tok_value t @ b" by auto
    then have "s = (take (k + n) s @ a) @ tok_value t @ b" by (metis append.assoc append_take_drop_id)
    then show ?thesis by blast
  qed
qed simp

lemma limit_token:
  assumes "lex s = Inr ts" and "t \<in> set ts" and "tok_lower t = ''limit''" and "dq \<notin> set s" and "bq \<notin> set s"
  shows "\<exists>a b. s = a @ tok_value t @ b \<and> to_lower (tok_value t) = ''limit''"
proof -
  obtain a b where s: "s = a @ tok_value t @ b" using covers_infix lex_from_covers assms(1,2) unfolding lex_def by blast
  then have "dq \<notin> set (tok_value t)" "bq \<notin> set (tok_value t)" using assms(4,5) by (metis Un_iff set_append)+
  then have w: "word_key v = to_lower v \<or> word_key v = v \<and> hd v = sq" if "v = tok_value t" for v
    using that [symmetric] by (cases v) (auto simp: word_key_def to_lower_def)
  have "to_lower v = ''limit''" if "v = tok_value t" for v
  proof -
    have k: "word_key v = ''limit''" using lex_key [OF assms(1,2)] assms(3) that by simp
    then have "v \<noteq> ''limit'' \<or> hd v \<noteq> sq" by auto
    with w [OF that] k show ?thesis by auto
  qed
  with s show ?thesis by blast
qed

text \<open>A tenant predicate brings quotes, a missing limit a zero, and a limit that is there itself.\<close>

lemma tenant_quoted:
  assumes "apply_tenant pol s ts tables als = Inr rewritten" and "rewritten \<noteq> s"
  shows "dq \<in> set rewritten"
  using assms by (auto simp: apply_tenant_def injectPredicate_def tenant_predicate_def quoteIdentifier_def Let_def
      split: if_splits prod.splits option.splits)

lemma admitted_not_answered:
  assumes "Allowed (ValidatePolicy sql pol)"
  shows "demo_ExecuteQuery (Sanitized (ValidatePolicy sql pol)) \<noteq> Inr a"
  using assms
proof (rule allowedE)
  fix ts als rewritten
  assume lx: "lex (normalise sql) = Inr ts"
    and ten: "apply_tenant pol (normalise sql) ts (Tables (ValidatePolicy sql pol)) als = Inr rewritten"
    and lim: "apply_limit ts rewritten = Inr (Sanitized (ValidatePolicy sql pol))"
  let ?s = "Sanitized (ValidatePolicy sql pol)"
  show ?thesis
  proof
    assume d: "demo_ExecuteQuery ?s = Inr a"
    show False
    proof (cases "parseLimit ts")
      case (Inr lm)
      show False
      proof (cases lm)
        case None
        have "itoa DefaultRowLimit = ''10000''" by code_simp
        with lim Inr None have "?s = rewritten @ '' LIMIT 10000''" by (simp add: apply_limit_def)
        then have "CHR ''0'' \<in> set ?s" by simp
        with demo_no_quote(3) [OF d] show False by blast
      next
        case (Some n)
        with lim Inr have s: "?s = rewritten" by (auto simp: apply_limit_def split: if_splits)
        with tenant_quoted [OF ten] demo_no_quote(1) [OF d] have n: "normalise sql = ?s" by metis
        from parseLimit_Some [OF Inr [unfolded Some]] obtain t where t: "t \<in> set ts" "tok_lower t = ''limit''"
          by (metis Some in_set_conv_decomp)
        from limit_token [OF lx t] n demo_no_quote(1,2) [OF d]
        obtain x y where "?s = x @ tok_value t @ y" "to_lower (tok_value t) = ''limit''" by auto
        with demo_no_limit d show False by metis
      qed
    qed (use lim in \<open>simp add: apply_limit_def\<close>)
  qed
qed

text \<open>C38. The example plugin cannot be queried through the platform: it refuses every request a worker sends in
  any run, since the sandbox adds a limit, or keeps one, and the plugin answers a single statement without it.\<close>

theorem example_plugin_refuses_platform:
  assumes "sy_sent s0 = []" and "req \<in> set (sy_sent (system_run g is s0))"
  shows "pc_execute demo_client params (xq_sql req) (xq_limit req) =
    Inl (Err ''rpc error: code = InvalidArgument desc = example plugin only supports SELECT * FROM demo_metrics'')"
proof -
  from run_sent [OF assms] obtain sql pol where "Allowed (ValidatePolicy sql pol)" "xq_sql req = Sanitized (ValidatePolicy sql pol)"
    unfolding sandboxed_request_def by (auto simp: exec_request_for_def)
  then have "demo_ExecuteQuery (xq_sql req) \<noteq> Inr a" for a using admitted_not_answered by simp
  then have "\<not> equal_fold (trim_space (trim_suffix '';'' (xq_sql req))) ''SELECT * FROM demo_metrics''"
    unfolding demo_ExecuteQuery_def Let_def by metis
  then show ?thesis by (simp add: demo_client_def from_plugin_def demo_ExecuteQuery_def Let_def)
qed

lemma example_plugin_refuses_platform_witness:
  "\<exists>req\<in>set (sy_sent (system_run sample_gateway sample_inputs sample_site)).
    \<exists>e. pc_execute demo_client None (xq_sql req) (xq_limit req) = Inl e"
proof -
  let ?sent = "sy_sent (system_run sample_gateway sample_inputs sample_site)"
  obtain req where req: "req \<in> set ?sent" using sample_run by (cases ?sent) auto
  have "sy_sent sample_site = []" by (simp add: sample_site_def first_start_def Let_def)
  from example_plugin_refuses_platform [OF this req] req show ?thesis by blast
qed

end
