(* ===== verification/Lifecycle.thy ===== *)
theory Lifecycle
  imports Go_Prelude
begin

text \<open>
  A service as a process: the requests it makes to the outside, the resources it opens and closes, the goroutines
  it starts, and the stack of deferred releases of its main function. A Go function that may fail is an action on
  the process; \<^verbatim>\<open>log.Fatal\<close> ends the process without running the deferred releases. The last section is the
  shutdown: main first waits for the goroutines it waits for and then releases its resources in reverse order. Any
  other goroutine may end meanwhile, or run for ever: the process ends when main returns, and they with it.
\<close>

section \<open>Events\<close>

datatype resource =
    Signals | NatsConn | GrpcClient string | Repository | JobStore | Registry | RouteSubscription | WorkerPool
  | GrpcServer | DiscoverySubscription | MetricsServer

datatype thread = AuditSinkThread | PluginManagerThread | HttpThread

text \<open>An opened resource and a started goroutine carry the resources they were given.\<close>

datatype 'q occurrence =
    Requested 'q
  | Opened resource "resource list"
  | Closed resource
  | Spawned thread "resource list"
  | Ended thread
  | Warned string
  | Fatal string
  | Serving

record 'q process =
  pr_trace :: "'q occurrence list"
  pr_defers :: "resource list"

definition idle :: "'q process" where
  "idle = \<lparr>pr_trace = [], pr_defers = []\<rparr>"

section \<open>Actions\<close>

type_synonym ('q, 'a) action = "'q process \<Rightarrow> (goerr + 'a) \<times> 'q process"

definition gives :: "'a \<Rightarrow> ('q, 'a) action" where
  "gives x p = (Inr x, p)"

definition fails :: "goerr \<Rightarrow> ('q, 'a) action" where
  "fails e p = (Inl e, p)"

definition and_then :: "('q, 'a) action \<Rightarrow> ('a \<Rightarrow> ('q, 'b) action) \<Rightarrow> ('q, 'b) action" where
  "and_then m f p = (case m p of (Inl e, p') \<Rightarrow> (Inl e, p') | (Inr x, p') \<Rightarrow> f x p')"

definition emit :: "'q occurrence \<Rightarrow> ('q, unit) action" where
  "emit ev p = (Inr (), p\<lparr>pr_trace := pr_trace p @ [ev]\<rparr>)"

definition defer_close :: "resource \<Rightarrow> ('q, unit) action" where
  "defer_close r p = (Inr (), p\<lparr>pr_defers := r # pr_defers p\<rparr>)"

text \<open>A request is answered by the site the process runs at.\<close>

definition request :: "('q \<Rightarrow> goerr option) \<Rightarrow> 'q \<Rightarrow> ('q, unit) action" where
  "request site q p =
     (case site q of
        Some e \<Rightarrow> (Inl e, p\<lparr>pr_trace := pr_trace p @ [Requested q]\<rparr>)
      | None \<Rightarrow> (Inr (), p\<lparr>pr_trace := pr_trace p @ [Requested q]\<rparr>))"

text \<open>\<^verbatim>\<open>fmt.Errorf("...: %w", err)\<close>, a second attempt, and a cleanup before an error is returned.\<close>

definition wrapped :: "string \<Rightarrow> ('q, 'a) action \<Rightarrow> ('q, 'a) action" where
  "wrapped msg m p = (case m p of (Inl e, p') \<Rightarrow> (Inl (wrap msg e), p') | (Inr x, p') \<Rightarrow> (Inr x, p'))"

definition or_else :: "('q, 'a) action \<Rightarrow> (goerr \<Rightarrow> ('q, 'a) action) \<Rightarrow> ('q, 'a) action" where
  "or_else m f p = (case m p of (Inl e, p') \<Rightarrow> f e p' | (Inr x, p') \<Rightarrow> (Inr x, p'))"

definition on_error :: "('q, unit) action \<Rightarrow> ('q, 'a) action \<Rightarrow> ('q, 'a) action" where
  "on_error c m p = (case m p of (Inl e, p') \<Rightarrow> (Inl e, snd (c p')) | (Inr x, p') \<Rightarrow> (Inr x, p'))"

text \<open>\<^verbatim>\<open>log.Fatal\<close> with a message, and with the error itself, as \<^verbatim>\<open>cobra.CheckErr\<close> ends the process too.\<close>

definition or_fatal :: "string \<Rightarrow> ('q, 'a) action \<Rightarrow> ('q, 'a) action" where
  "or_fatal msg m p =
     (case m p of
        (Inl e, p') \<Rightarrow> (Inl (wrap msg e), p'\<lparr>pr_trace := pr_trace p' @ [Fatal msg]\<rparr>)
      | (Inr x, p') \<Rightarrow> (Inr x, p'))"

definition or_exit :: "('q, 'a) action \<Rightarrow> ('q, 'a) action" where
  "or_exit m p =
     (case m p of
        (Inl e, p') \<Rightarrow> (Inl e, p'\<lparr>pr_trace := pr_trace p' @ [Fatal (error_text e)]\<rparr>)
      | (Inr x, p') \<Rightarrow> (Inr x, p'))"

definition of_result :: "goerr + 'a \<Rightarrow> ('q, 'a) action" where
  "of_result r p = (r, p)"

section \<open>What is open and what runs\<close>

fun opened_by :: "'q occurrence \<Rightarrow> (resource \<times> resource list) list \<Rightarrow> (resource \<times> resource list) list" where
  "opened_by (Opened r args) rs = (r, args) # rs"
| "opened_by (Closed r) rs = filter (\<lambda>x. fst x \<noteq> r) rs"
| "opened_by ev rs = rs"

fun started_by :: "'q occurrence \<Rightarrow> (thread \<times> resource list) list \<Rightarrow> (thread \<times> resource list) list" where
  "started_by (Spawned t args) ts = (t, args) # ts"
| "started_by (Ended t) ts = filter (\<lambda>x. fst x \<noteq> t) ts"
| "started_by ev ts = ts"

definition live :: "'q occurrence list \<Rightarrow> (resource \<times> resource list) list" where
  "live tr = fold opened_by tr []"

definition running :: "'q occurrence list \<Rightarrow> (thread \<times> resource list) list" where
  "running tr = fold started_by tr []"

text \<open>Every open resource, and every running goroutine of \<open>W\<close>, has all it was given open.\<close>

definition supported :: "thread set \<Rightarrow> 'q occurrence list \<Rightarrow> bool" where
  "supported W tr \<longleftrightarrow>
     (\<forall>(r, args)\<in>set (live tr). set args \<subseteq> fst ` set (live tr))
     \<and> (\<forall>(t, args)\<in>set (running tr). t \<in> W \<longrightarrow> set args \<subseteq> fst ` set (live tr))"

text \<open>At every moment of a trace.\<close>

definition throughout :: "('q occurrence list \<Rightarrow> bool) \<Rightarrow> 'q occurrence list \<Rightarrow> bool" where
  "throughout P tr \<longleftrightarrow> (\<forall>n\<le>length tr. P (take n tr))"

section \<open>Shutdown\<close>

text \<open>The goroutines main still waits for, and the process; \<open>close\<close> is how main releases a resource. Main has returned when
  it waits for none and has nothing left to release; no step is possible then.\<close>

inductive main_step ::
  "(resource \<Rightarrow> ('q, unit) action) \<Rightarrow> thread list \<times> 'q process \<Rightarrow> thread list \<times> 'q process \<Rightarrow> bool"
  for close :: "resource \<Rightarrow> ('q, unit) action" where
  waits: "t \<notin> fst ` set (running (pr_trace p)) \<Longrightarrow> main_step close (t # ws, p) (ws, p)"
| releases: "pr_defers p = r # rs \<Longrightarrow> main_step close ([], p) ([], snd (close r (p\<lparr>pr_defers := rs\<rparr>)))"

inductive stop_step ::
  "(resource \<Rightarrow> ('q, unit) action) \<Rightarrow> thread list \<times> 'q process \<Rightarrow> thread list \<times> 'q process \<Rightarrow> bool"
  for close :: "resource \<Rightarrow> ('q, unit) action" where
  ends: "t \<in> fst ` set (running (pr_trace p)) \<Longrightarrow> ws \<noteq> [] \<or> pr_defers p \<noteq> [] \<Longrightarrow>
    stop_step close (ws, p) (ws, p\<lparr>pr_trace := pr_trace p @ [Ended t]\<rparr>)"
| main: "main_step close s s' \<Longrightarrow> stop_step close s s'"

inductive_simps main_step_returned: "main_step close ([], p) s"
inductive_simps stop_step_returned: "stop_step close ([], p) s"

definition stops_to ::
  "(resource \<Rightarrow> ('q, unit) action) \<Rightarrow> thread list \<times> 'q process \<Rightarrow> thread list \<times> 'q process \<Rightarrow> bool" where
  "stops_to close = (stop_step close)\<^sup>*\<^sup>*"

section \<open>Facts of actions\<close>

lemma live_snoc [simp]: "live [] = []" "live (tr @ [ev]) = opened_by ev (live tr)"
  by (simp_all add: live_def)

lemma running_snoc [simp]: "running [] = []" "running (tr @ [ev]) = started_by ev (running tr)"
  by (simp_all add: running_def)

lemma throughout_Nil [simp]: "throughout P [] \<longleftrightarrow> P []"
  by (simp add: throughout_def)

lemma throughout_snoc [simp]: "throughout P (tr @ [ev]) \<longleftrightarrow> throughout P tr \<and> P (tr @ [ev])"
  by (auto simp: throughout_def le_Suc_eq)

lemma throughout_last: "throughout P tr \<Longrightarrow> P tr"
  unfolding throughout_def by (metis order_refl take_all_iff)

lemma throughout_mono: "throughout P tr \<Longrightarrow> (\<And>xs. P xs \<Longrightarrow> Q xs) \<Longrightarrow> throughout Q tr"
  by (simp add: throughout_def)

text \<open>A stack of resources, each given only what lies below it.\<close>

fun stacked :: "(resource \<times> resource list) list \<Rightarrow> bool" where
  "stacked [] = True"
| "stacked ((r, args) # rs) = (r \<notin> fst ` set rs \<and> set args \<subseteq> fst ` set rs \<and> stacked rs)"

lemma stacked_args: "stacked rs \<Longrightarrow> (r, args) \<in> set rs \<Longrightarrow> set args \<subseteq> fst ` set rs"
  by (induction rs rule: stacked.induct) auto

text \<open>The state between two steps of a main function: \<open>rs\<close> is open, the first of it perhaps not yet deferred, and
  \<open>ts\<close> runs.\<close>

definition holds :: "(resource \<times> resource list) list \<Rightarrow> resource list \<Rightarrow> (thread \<times> resource list) list \<Rightarrow> 'q process \<Rightarrow> bool" where
  "holds rs ds ts p \<longleftrightarrow>
     live (pr_trace p) = rs \<and> pr_defers p = ds \<and> running (pr_trace p) = ts \<and> stacked rs
     \<and> (\<forall>(t, args)\<in>set ts. set args \<subseteq> fst ` set rs) \<and> throughout (supported UNIV) (pr_trace p)"

text \<open>An action leads from one such state to another, or fails with everything supported up to then.\<close>

definition leads ::
  "(resource \<times> resource list) list \<Rightarrow> resource list \<Rightarrow> (thread \<times> resource list) list \<Rightarrow> ('q, 'a) action \<Rightarrow>
   (resource \<times> resource list) list \<Rightarrow> resource list \<Rightarrow> (thread \<times> resource list) list \<Rightarrow> bool" where
  "leads rs ds ts m rs' ds' ts' \<longleftrightarrow>
     (\<forall>p. holds rs ds ts p \<longrightarrow>
        (case m p of
           (Inl e, p') \<Rightarrow> throughout (supported UNIV) (pr_trace p')
         | (Inr x, p') \<Rightarrow> holds rs' ds' ts' p'))"

named_theorems leads_intros

lemma leads_and_then [leads_intros]:
  "leads rs ds ts m rs1 ds1 ts1 \<Longrightarrow> (\<And>x. leads rs1 ds1 ts1 (f x) rs2 ds2 ts2) \<Longrightarrow> leads rs ds ts (and_then m f) rs2 ds2 ts2"
  by (fastforce simp: leads_def and_then_def split: prod.splits sum.splits)

lemma leads_same [leads_intros]: "leads rs ds ts (gives x) rs ds ts" "leads rs ds ts (fails e) rs ds ts"
  "leads rs ds ts (of_result r) rs ds ts"
  by (auto simp: leads_def gives_def fails_def of_result_def holds_def split: sum.split)

lemma supported_keeps:
  assumes "supported W tr" and "live (tr @ [ev]) = live tr" and "running (tr @ [ev]) = running tr"
  shows "supported W (tr @ [ev])"
  unfolding supported_def assms(2,3) using assms(1) unfolding supported_def .

lemma holds_supported: "holds rs ds ts p \<Longrightarrow> supported UNIV (pr_trace p)"
  by (simp add: holds_def throughout_last)

lemma leads_request [leads_intros]: "leads rs ds ts (request site q) rs ds ts"
proof -
  have "supported UNIV (pr_trace p @ [Requested q])" if "holds rs ds ts p" for p
    by (rule supported_keeps) (simp_all add: holds_supported [OF that])
  then show ?thesis by (auto simp: leads_def request_def holds_def split: option.split)
qed

text \<open>Logging and reaching the wait for the end of the process change nothing that is open.\<close>

lemma leads_note [leads_intros]: "leads rs ds ts (emit (Warned msg)) rs ds ts" "leads rs ds ts (emit Serving) rs ds ts"
proof -
  have "supported UNIV (pr_trace p @ [Warned msg])" "supported UNIV (pr_trace p @ [Serving])" if "holds rs ds ts p" for p
    by (rule supported_keeps; simp add: holds_supported [OF that])+
  then show "leads rs ds ts (emit (Warned msg)) rs ds ts" "leads rs ds ts (emit Serving) rs ds ts"
    by (auto simp: leads_def emit_def holds_def)
qed

lemma leads_wrapped [leads_intros]: "leads rs ds ts m rs' ds' ts' \<Longrightarrow> leads rs ds ts (wrapped msg m) rs' ds' ts'"
  by (fastforce simp: leads_def wrapped_def split: prod.splits sum.splits)

lemma throughout_fatal: "throughout (supported UNIV) tr \<Longrightarrow> throughout (supported UNIV) (tr @ [Fatal msg])"
  using supported_keeps [of UNIV tr "Fatal msg"] by (simp add: throughout_last)

lemma leads_or_fatal [leads_intros]:
  assumes "leads rs ds ts m rs' ds' ts'"
  shows "leads rs ds ts (or_fatal msg m) rs' ds' ts'" and "leads rs ds ts (or_exit m) rs' ds' ts'"
  using assms throughout_fatal unfolding leads_def or_fatal_def or_exit_def
  by (fastforce split: prod.splits sum.splits)+

lemma leads_defer [leads_intros]: "leads rs ds ts (defer_close r) rs (r # ds) ts"
  by (auto simp: leads_def defer_close_def holds_def)

lemma stacked_supported:
  assumes "stacked (live tr)" and "\<forall>(t, args)\<in>set (running tr). t \<in> W \<longrightarrow> set args \<subseteq> fst ` set (live tr)"
  shows "supported W tr"
  unfolding supported_def
proof
  show "\<forall>(r, args)\<in>set (live tr). set args \<subseteq> fst ` set (live tr)" using stacked_args [OF assms(1)] by blast
qed (rule assms(2))

lemma supported_mono: "supported UNIV tr \<Longrightarrow> supported W tr"
  unfolding supported_def by blast

lemma holds_open:
  assumes "holds rs ds ts p" and "r \<notin> fst ` set rs" and "set args \<subseteq> fst ` set rs"
  shows "holds ((r, args) # rs) ds ts (p\<lparr>pr_trace := pr_trace p @ [Opened r args]\<rparr>)"
proof -
  have h: "live (pr_trace p) = rs" "running (pr_trace p) = ts" "stacked rs" "\<forall>(t, as)\<in>set ts. set as \<subseteq> fst ` set rs"
    "throughout (supported UNIV) (pr_trace p)" "pr_defers p = ds" using assms(1) by (simp_all add: holds_def)
  have t: "\<forall>(t, as)\<in>set ts. set as \<subseteq> fst ` set ((r, args) # rs)" using h(4) by fastforce
  with h assms(2,3) have "supported UNIV (pr_trace p @ [Opened r args])" by (intro stacked_supported) simp_all
  with h t assms(2,3) show ?thesis by (simp add: holds_def)
qed

lemma holds_spawn:
  assumes "holds rs ds ts p" and "set args \<subseteq> fst ` set rs"
  shows "holds rs ds ((t, args) # ts) (p\<lparr>pr_trace := pr_trace p @ [Spawned t args]\<rparr>)"
proof -
  have h: "live (pr_trace p) = rs" "running (pr_trace p) = ts" "stacked rs" "\<forall>(t, as)\<in>set ts. set as \<subseteq> fst ` set rs"
    "throughout (supported UNIV) (pr_trace p)" "pr_defers p = ds" using assms(1) by (simp_all add: holds_def)
  then have "supported UNIV (pr_trace p @ [Spawned t args])" using assms(2) by (intro stacked_supported) simp_all
  with h assms(2) show ?thesis by (simp add: holds_def)
qed

lemma leads_open [leads_intros]:
  "r \<notin> fst ` set rs \<Longrightarrow> set args \<subseteq> fst ` set rs \<Longrightarrow> leads rs ds ts (emit (Opened r args)) ((r, args) # rs) ds ts"
  by (auto simp: leads_def emit_def intro!: holds_open)

lemma leads_spawn [leads_intros]:
  "set args \<subseteq> fst ` set rs \<Longrightarrow> leads rs ds ts (emit (Spawned t args)) rs ds ((t, args) # ts)"
  by (auto simp: leads_def emit_def intro!: holds_spawn)

text \<open>A failure that closes what was opened on the way, as \<^verbatim>\<open>natsclient.New\<close> does: the failing call leaves all as it is.\<close>

definition stays :: "('q, 'a) action \<Rightarrow> bool" where
  "stays m \<longleftrightarrow> (\<forall>p e p' rs ds ts. m p = (Inl e, p') \<longrightarrow> holds rs ds ts p \<longrightarrow> holds rs ds ts p')"

lemma stays_intros [leads_intros]:
  "stays (request site q)" "stays m \<Longrightarrow> stays (wrapped msg m)"
  using leads_request unfolding stays_def
  by (auto simp: wrapped_def leads_def holds_def request_def supported_keeps throughout_last
      split: prod.splits sum.splits option.splits)

lemma stacked_pop: "stacked ((r, args) # rs) \<Longrightarrow> filter (\<lambda>x. fst x \<noteq> r) rs = rs"
  by (simp add: filter_id_conv) force

lemma holds_close:
  assumes "holds ((r, args) # rs) ds ts p" and "\<forall>(t, as)\<in>set ts. set as \<subseteq> fst ` set rs"
  shows "holds rs ds ts (p\<lparr>pr_trace := pr_trace p @ [Closed r]\<rparr>)"
proof -
  have h: "live (pr_trace p) = (r, args) # rs" "running (pr_trace p) = ts" "stacked ((r, args) # rs)"
    "throughout (supported UNIV) (pr_trace p)" "pr_defers p = ds" using assms(1) by (simp_all add: holds_def)
  then have l: "live (pr_trace p @ [Closed r]) = rs" "running (pr_trace p @ [Closed r]) = ts" "stacked rs"
    using stacked_pop [OF h(3)] by simp_all
  with assms(2) have "supported UNIV (pr_trace p @ [Closed r])" by (intro stacked_supported) simp_all
  with h(4,5) l assms(2) show ?thesis by (simp add: holds_def)
qed

lemma leads_on_error [leads_intros]:
  assumes "leads ((r, args) # rs) ds ts m rs' ds' ts'" and "stays m" and "\<forall>(t, as)\<in>set ts. set as \<subseteq> fst ` set rs"
  shows "leads ((r, args) # rs) ds ts (on_error (emit (Closed r)) m) rs' ds' ts'"
  unfolding leads_def
proof (intro allI impI)
  fix p :: "'a process"
  assume h: "holds ((r, args) # rs) ds ts p"
  show "case on_error (emit (Closed r)) m p of
      (Inl e, p') \<Rightarrow> throughout (supported UNIV) (pr_trace p') | (Inr x, p') \<Rightarrow> holds rs' ds' ts' p'"
  proof (cases "m p")
    case (Pair x p')
    show ?thesis
    proof (cases x)
      case (Inl e)
      with Pair assms(2) h have "holds ((r, args) # rs) ds ts p'" unfolding stays_def by blast
      from holds_close [OF this assms(3)] Pair Inl show ?thesis by (simp add: on_error_def emit_def holds_def)
    next
      case (Inr y)
      with Pair assms(1) h show ?thesis by (fastforce simp: leads_def on_error_def)
    qed
  qed
qed

section \<open>Facts of the shutdown\<close>

text \<open>A process that has started: what is open is deferred, and it has served no request without what it needs.\<close>

definition settled :: "'q process \<Rightarrow> bool" where
  "settled p \<longleftrightarrow> (\<exists>rs ts. holds rs (map fst rs) ts p)"

text \<open>During a shutdown: while main waits for goroutines everything is open, and what is open is on the stack.\<close>

definition stopping :: "thread set \<Rightarrow> thread list \<times> 'q process \<Rightarrow> bool" where
  "stopping W s \<longleftrightarrow>
     (case s of (ws, p) \<Rightarrow>
        stacked (live (pr_trace p)) \<and> pr_defers p = map fst (live (pr_trace p)) \<and> throughout (supported W) (pr_trace p)
        \<and> set ws \<subseteq> W \<and> (ws \<noteq> [] \<longrightarrow> (\<forall>(t, args)\<in>set (running (pr_trace p)). set args \<subseteq> fst ` set (live (pr_trace p))))
        \<and> W \<inter> fst ` set (running (pr_trace p)) \<subseteq> set ws)"

lemma settled_stopping:
  assumes "settled p" and "set ws \<subseteq> W" and "W \<inter> fst ` set (running (pr_trace p)) \<subseteq> set ws"
  shows "stopping W (ws, p)"
proof -
  from assms(1) obtain rs ts where h: "holds rs (map fst rs) ts p" unfolding settled_def by blast
  have "throughout (supported W) (pr_trace p)"
    using h supported_mono throughout_mono [of "supported UNIV"] unfolding holds_def by blast
  with h assms(2,3) show ?thesis by (simp add: stopping_def holds_def)
qed

lemma running_ended: "set (running (tr @ [Ended t])) = {x \<in> set (running tr). fst x \<noteq> t}"
  by simp

text \<open>A release that only makes requests before it closes the resource.\<close>

definition closes :: "(resource \<Rightarrow> ('q, unit) action) \<Rightarrow> bool" where
  "closes close \<longleftrightarrow>
     (\<forall>r p. \<exists>qs. snd (close r p) = p\<lparr>pr_trace := pr_trace p @ map Requested qs @ [Closed r]\<rparr>)"

lemma closesE:
  assumes "closes close"
  obtains qs where "snd (close r (p\<lparr>pr_defers := rs\<rparr>)) = p\<lparr>pr_defers := rs, pr_trace := pr_trace p @ map Requested qs @ [Closed r]\<rparr>"
proof -
  from assms obtain qs where "snd (close r (p\<lparr>pr_defers := rs\<rparr>))
      = (p\<lparr>pr_defers := rs\<rparr>)\<lparr>pr_trace := pr_trace (p\<lparr>pr_defers := rs\<rparr>) @ map Requested qs @ [Closed r]\<rparr>"
    unfolding closes_def by blast
  then show thesis by (intro that) simp
qed

lemma requests_change_nothing [simp]:
  "live (tr @ map Requested qs) = live tr" "running (tr @ map Requested qs) = running tr"
  by (induction qs rule: rev_induct) (simp_all flip: append_assoc)

lemma throughout_requests: "throughout (supported W) tr \<Longrightarrow> throughout (supported W) (tr @ map Requested qs)"
proof (induction qs rule: rev_induct)
  case (snoc q qs)
  then have t: "throughout (supported W) (tr @ map Requested qs)" by simp
  have "supported W ((tr @ map Requested qs) @ [Requested q])" by (rule supported_keeps [OF throughout_last [OF t]]) (simp_all only: live_snoc running_snoc opened_by.simps started_by.simps)
  with t show ?case by (simp flip: append_assoc)
qed simp

text \<open>Each step of a shutdown keeps what is open on the stack and supported.\<close>

lemma stop_step_cases [consumes 1, case_names ends waits releases]:
  assumes "stop_step close s s'"
  obtains t p ws where "s = (ws, p)" "s' = (ws, p\<lparr>pr_trace := pr_trace p @ [Ended t]\<rparr>)"
      "t \<in> fst ` set (running (pr_trace p))" "ws \<noteq> [] \<or> pr_defers p \<noteq> []"
    | t p ws where "s = (t # ws, p)" "s' = (ws, p)" "t \<notin> fst ` set (running (pr_trace p))"
    | p r rs where "s = ([], p)" "s' = ([], snd (close r (p\<lparr>pr_defers := rs\<rparr>)))" "pr_defers p = r # rs"
  using assms by (auto elim!: stop_step.cases main_step.cases)

lemma stopping_step:
  assumes "stop_step close s s'" and "stopping W s" and "closes close"
  shows "stopping W s'"
  using assms(1)
proof (cases rule: stop_step_cases)
  case (ends t p ws)
  have st: "stacked (live (pr_trace p))" "throughout (supported W) (pr_trace p)" using assms(2) ends by (simp_all add: stopping_def)
  have "supported W (pr_trace p @ [Ended t])"
    using throughout_last [OF st(2)] unfolding supported_def by auto
  with ends assms(2) show ?thesis unfolding stopping_def by auto
next
  case (waits t p ws)
  with assms(2) show ?thesis by (auto simp: stopping_def)
next
  case (releases p r rs)
  with assms(2) obtain args rest where l: "live (pr_trace p) = (r, args) # rest" "rs = map fst rest"
    by (cases "live (pr_trace p)") (auto simp: stopping_def)
  obtain qs where q: "snd (close r (p\<lparr>pr_defers := rs\<rparr>))
      = p\<lparr>pr_defers := rs, pr_trace := pr_trace p @ map Requested qs @ [Closed r]\<rparr>"
    by (rule closesE [OF assms(3)])
  have st: "stacked ((r, args) # rest)" "throughout (supported W) (pr_trace p)" "W \<inter> fst ` set (running (pr_trace p)) = {}"
    using assms(2) releases l by (auto simp: stopping_def)
  let ?tr = "pr_trace p @ map Requested qs"
  have l': "live (?tr @ [Closed r]) = rest" "running (?tr @ [Closed r]) = running (pr_trace p)"
    using stacked_pop [OF st(1)] l by (simp_all only: live_snoc running_snoc requests_change_nothing) simp_all
  have "t \<notin> W" if "(t, as) \<in> set (running (pr_trace p))" for t as using st(3) that by force
  with st(1) have "supported W (?tr @ [Closed r])"
    unfolding supported_def l' using stacked_args [of rest] by fastforce
  with throughout_requests [OF st(2), of qs] have "throughout (supported W) (?tr @ [Closed r])"
    unfolding throughout_snoc by blast
  with releases l l' st q show ?thesis by (simp add: stopping_def del: live_snoc running_snoc flip: append_assoc)
qed

lemma stopping_run:
  assumes "stops_to close s s'" and "stopping W s" and "closes close"
  shows "stopping W s'"
  using assms(1,2) unfolding stops_to_def
  by (induction rule: rtranclp_induct) (auto intro: stopping_step [OF _ _ assms(3)])

text \<open>Main stays where it is as long as it waits, and makes its way down alone once it need not.\<close>

lemma waiting_open:
  assumes "stops_to close (ws0, p) (ws, q)" and "ws \<noteq> []"
  shows "pr_defers q = pr_defers p \<and> live (pr_trace q) = live (pr_trace p)"
proof -
  have "fst s \<noteq> [] \<longrightarrow> pr_defers (snd s) = pr_defers p \<and> live (pr_trace (snd s)) = live (pr_trace p)"
    if "stops_to close (ws0, p) s" for s
    using that unfolding stops_to_def
  proof (induction rule: rtranclp_induct)
    case (step s s')
    from step.hyps(2) step.IH show ?case by (cases rule: stop_step_cases) auto
  qed simp
  from this [OF assms(1)] assms(2) show ?thesis by simp
qed

fun closed_in :: "'q occurrence \<Rightarrow> resource list" where
  "closed_in (Closed r) = [r]"
| "closed_in ev = []"

definition closings :: "'q occurrence list \<Rightarrow> resource list" where
  "closings tr = concat (map closed_in tr)"

lemma closings_simps [simp]: "closings (tr @ [Closed r]) = closings tr @ [r]" "closings (tr @ map Requested qs) = closings tr"
proof -
  show "closings (tr @ [Closed r]) = closings tr @ [r]" by (simp add: closings_def)
  show "closings (tr @ map Requested qs) = closings tr" by (induction qs) (simp_all add: closings_def)
qed

lemma releases_down:
  assumes "closes close" and "stacked rs" and "live (pr_trace p) = rs" and "pr_defers p = map fst rs"
  shows "\<exists>q. (main_step close ^^ length rs) ([], p) ([], q) \<and> pr_defers q = [] \<and> live (pr_trace q) = []
    \<and> running (pr_trace q) = running (pr_trace p) \<and> closings (pr_trace q) = closings (pr_trace p) @ map fst rs"
  using assms(2-4)
proof (induction rs arbitrary: p)
  case (Cons x rs)
  obtain r args where x: "x = (r, args)" by fastforce
  obtain qs where q: "snd (close r (p\<lparr>pr_defers := map fst rs\<rparr>))
      = p\<lparr>pr_defers := map fst rs, pr_trace := pr_trace p @ map Requested qs @ [Closed r]\<rparr>"
    by (rule closesE [OF assms(1)])
  define p' where "p' = p\<lparr>pr_defers := map fst rs, pr_trace := pr_trace p @ map Requested qs @ [Closed r]\<rparr>"
  have "live (pr_trace p') = rs" "running (pr_trace p') = running (pr_trace p)" "pr_defers p' = map fst rs"
    "closings (pr_trace p') = closings (pr_trace p) @ [r]"
    using Cons.prems stacked_pop [of r args rs] x by (simp_all add: p'_def flip: append_assoc)
  moreover from this Cons.IH [of p'] Cons.prems x obtain p'' where "(main_step close ^^ length rs) ([], p') ([], p'')"
    "pr_defers p'' = []" "live (pr_trace p'') = []" "running (pr_trace p'') = running (pr_trace p')"
    "closings (pr_trace p'') = closings (pr_trace p') @ map fst rs" by auto
  moreover have "main_step close ([], p) ([], p')"
    using main_step.releases [of p r "map fst rs" close] Cons.prems x q by (simp add: p'_def)
  then have "(main_step close ^^ length rs) ([], p') ([], p'') \<Longrightarrow> (main_step close ^^ Suc (length rs)) ([], p) ([], p'')"
    by (rule relpowp_Suc_I2)
  ultimately show ?case using x by (intro exI [of _ p'']) simp
qed simp

lemma stops_waiting:
  "(\<forall>t\<in>set ws. t \<notin> fst ` set (running (pr_trace p))) \<Longrightarrow> (main_step close ^^ length ws) (ws, p) ([], p)"
proof (induction ws)
  case (Cons t ws)
  then have "main_step close (t # ws, p) (ws, p)" by (intro main_step.waits) simp
  moreover have "(main_step close ^^ length ws) (ws, p) ([], p)" using Cons by simp
  ultimately show ?case unfolding length_Cons by (rule relpowp_Suc_I2)
qed simp

lemma main_finishes:
  assumes "closes close" and "stopping W (ws, p)" and "\<forall>t\<in>set ws. t \<notin> fst ` set (running (pr_trace p))"
  shows "\<exists>q. (main_step close ^^ (length ws + length (pr_defers p))) (ws, p) ([], q) \<and> pr_defers q = [] \<and> live (pr_trace q) = []
    \<and> running (pr_trace q) = running (pr_trace p) \<and> closings (pr_trace q) = closings (pr_trace p) @ pr_defers p"
proof -
  have "stacked (live (pr_trace p))" "pr_defers p = map fst (live (pr_trace p))" using assms(2) by (simp_all add: stopping_def)
  with releases_down [OF assms(1) this(1) refl this(2)] stops_waiting [OF assms(3), of close] show ?thesis
    unfolding relpowp_add by auto
qed

lemma main_stops: "(main_step close ^^ n) s s' \<Longrightarrow> stops_to close s s'"
  unfolding stops_to_def
proof (induction n arbitrary: s')
  case (Suc n)
  then obtain t where "(stop_step close)\<^sup>*\<^sup>* s t" "main_step close t s'" by auto
  then show ?case by (auto intro: stop_step.main rtranclp.rtrancl_into_rtrancl)
qed simp

text \<open>Where no step is possible main has returned.\<close>

lemma stop_progress:
  assumes "\<nexists>s. stop_step close (ws, p) s"
  shows "ws = []" and "pr_defers p = []"
proof -
  show "ws = []"
  proof (cases ws)
    case (Cons t us)
    show ?thesis
    proof (cases "t \<in> fst ` set (running (pr_trace p))")
      case True
      then have "stop_step close (ws, p) (ws, p\<lparr>pr_trace := pr_trace p @ [Ended t]\<rparr>)" using Cons by (intro stop_step.ends) simp_all
      with assms show ?thesis by blast
    next
      case False
      then have "stop_step close (ws, p) (us, p)" unfolding Cons by (intro stop_step.main main_step.waits)
      with assms show ?thesis by blast
    qed
  qed
  then show "pr_defers p = []"
    using assms stop_step.main [OF main_step.releases [of p _ _ close]] by (cases "pr_defers p") auto
qed

section \<open>Service processes\<close>

text \<open>What the shutdown of a service relies on: a start that succeeds has settled, everything it had opened was
  supported at every moment, and a release closes the resource it is called for.\<close>

locale service_process =
  fixes start :: "('q, 'a) action" and close :: "resource \<Rightarrow> ('q, unit) action" and awaited :: "thread list"
  assumes start_settles: "start idle = (Inr x, p) \<Longrightarrow> settled p"
    and start_supported: "throughout (supported UNIV) (pr_trace (snd (start idle)))"
    and release_closes: "closes close"
begin

lemma stays_stopping:
  "start idle = (Inr x, p) \<Longrightarrow> stops_to close (awaited, p) (ws, q) \<Longrightarrow> stopping (set awaited) (ws, q)"
  by (rule stopping_run [OF _ settled_stopping [OF start_settles] release_closes]) auto

lemma supported_to_the_end:
  "start idle = (Inr x, p) \<Longrightarrow> stops_to close (awaited, p) (ws, q) \<Longrightarrow> throughout (supported (set awaited)) (pr_trace q)"
  using stays_stopping by (fastforce simp: stopping_def)

lemma waits_with_all_open:
  "stops_to close (awaited, p) (ws, q) \<Longrightarrow> ws \<noteq> [] \<Longrightarrow> pr_defers q = pr_defers p \<and> live (pr_trace q) = live (pr_trace p)"
  by (rule waiting_open)

lemma main_returns:
  assumes "start idle = (Inr x, p)" and "stops_to close (awaited, p) (ws, q)" and "\<forall>t\<in>set ws. t \<notin> fst ` set (running (pr_trace q))"
  shows "\<exists>r. (main_step close ^^ (length ws + length (pr_defers q))) (ws, q) ([], r) \<and> pr_defers r = [] \<and> live (pr_trace r) = []
    \<and> running (pr_trace r) = running (pr_trace q) \<and> closings (pr_trace r) = closings (pr_trace q) @ pr_defers q"
  by (rule main_finishes [OF release_closes stays_stopping [OF assms(1,2)] assms(3)])

lemma returned_closed:
  assumes "start idle = (Inr x, p)" and "stops_to close (awaited, p) (ws, q)" and "\<nexists>s. stop_step close (ws, q) s"
  shows "ws = []" and "live (pr_trace q) = []"
  using stays_stopping [OF assms(1,2)] stop_progress [OF assms(3)] by (simp_all add: stopping_def)

end

lemma holds_idle: "holds [] [] [] idle"
  by (simp add: holds_def idle_def supported_def)

lemma service_processI:
  assumes "leads [] [] [] start rs (map fst rs) ts" and "closes close"
  shows "service_process start close"
proof
  show "settled p" if "start idle = (Inr x, p)" for x p
    using assms(1) holds_idle that unfolding leads_def settled_def by fastforce
  show "throughout (supported UNIV) (pr_trace (snd (start idle)))"
    using assms(1) holds_idle unfolding leads_def holds_def by (fastforce split: prod.splits sum.splits)
qed (rule assms(2))

end
