(* ===== verification/Startup.thy ===== *)
theory Startup
  imports Lifecycle Bootstrap Worker Gateway QueryServer
begin

text \<open>
  The functions the main programs start with: the NATS client (\<^verbatim>\<open>pkg/shared/natsclient\<close>), the gRPC clients of the
  services, the listeners, the metrics server (\<^verbatim>\<open>pkg/shared/observability\<close>) and the loading of the configuration.
  What the libraries behind them answer is the \<open>site\<close> a process runs at: an error for a request, or none.
\<close>

section \<open>Requests to the outside\<close>

datatype retention = LimitsPolicy | InterestPolicy | WorkQueuePolicy

record stream_config =
  sc_name :: string
  sc_subjects :: "string list"
  sc_replicas :: int
  sc_retention :: retention
  sc_max_age :: int

record consumer_config =
  cc_name :: string
  cc_replicas :: int
  cc_ack_wait :: int
  cc_max_deliver :: int

datatype outside =
    NatsConnect string int
  | JetStreamInit
  | CreateKeyValue string
  | OpenKeyValue string
  | DrainConn
  | CreateOrUpdateStream stream_config
  | CreateOrUpdateConsumer string consumer_config
  | DialGrpc string
  | NewObjectClient string string string bool
  | BucketExists string
  | MakeBucket string
  | SetBucketLifecycle string string int
  | NewPgPool string
  | Subscribe string
  | Listen string

type_synonym proc = "outside process"
type_synonym 'a op = "(outside, 'a) action"

text \<open>What viper fills into a configuration struct from the flags and their defaults is \<open>si_viper\<close>; \<open>si_bucket\<close> tells
  whether the bucket exists; \<open>si_discover\<close> answers discovery requests; the last three are what the job store finds.\<close>

record site =
  si_fails :: "outside \<Rightarrow> goerr option"
  si_bucket :: "string \<Rightarrow> bool"
  si_discover :: "string \<Rightarrow> discovery_reply"
  si_environ :: "string \<Rightarrow> string option"
  si_bind :: "goerr option"
  si_viper :: "(string \<times> cfg_value) list \<Rightarrow> cfg_field list \<Rightarrow> goerr + cfg_field list"
  si_keys :: "string \<rightharpoonup> string + job_record"
  si_objects :: "string \<rightharpoonup> string + gomap list"
  si_store_faults :: "fault list"
  si_now :: int

section \<open>The NATS client\<close>

record nats_client =
  nc_timeout :: int

definition natsclient_New :: "site \<Rightarrow> string \<Rightarrow> int \<Rightarrow> nats_client op" where
  "natsclient_New site url timeout =
     and_then (wrapped ''nats connect'' (request (si_fails site) (NatsConnect url timeout))) (\<lambda>_.
     and_then (emit (Opened NatsConn [])) (\<lambda>_.
     and_then (on_error (emit (Closed NatsConn)) (wrapped ''jetstream init'' (request (si_fails site) JetStreamInit))) (\<lambda>_.
     and_then (on_error (emit (Closed NatsConn)) (wrapped ''kv init''
       (or_else (request (si_fails site) (CreateKeyValue ''n0''))
          (\<lambda>_. request (si_fails site) (OpenKeyValue ''n0''))))) (\<lambda>_.
     gives \<lparr>nc_timeout = timeout\<rparr>))))"

text \<open>The connection is closed at once when draining it is refused.\<close>

definition natsclient_Close :: "site \<Rightarrow> nats_client option \<Rightarrow> unit op" where
  "natsclient_Close site c =
     (case c of
        None \<Rightarrow> gives ()
      | Some _ \<Rightarrow>
          and_then (or_else (request (si_fails site) DrainConn) (\<lambda>_. gives ())) (\<lambda>_. emit (Closed NatsConn)))"

definition EnsureStream :: "site \<Rightarrow> stream_config \<Rightarrow> unit op" where
  "EnsureStream site cfg =
     wrapped (''ensure stream '' @ sc_name cfg) (request (si_fails site) (CreateOrUpdateStream cfg))"

section \<open>Clients\<close>

text \<open>\<^verbatim>\<open>grpc.NewClient\<close> behind the resolved address, for the service of that name.\<close>

definition dial_service :: "site \<Rightarrow> string \<Rightarrow> string \<Rightarrow> string op" where
  "dial_service site service addr =
     and_then (of_result (ResolveGRPCAddr (Some (si_discover site)) service addr)) (\<lambda>target.
     and_then (wrapped (''dial '' @ service @ '' at '' @ target) (request (si_fails site) (DialGrpc target))) (\<lambda>_.
     and_then (emit (Opened (GrpcClient service) [])) (\<lambda>_.
     gives target)))"

definition NewMetaClient :: "site \<Rightarrow> string \<Rightarrow> string op" where
  "NewMetaClient site addr = dial_service site ''meta-service'' addr"

definition NewQueryEngineClient :: "site \<Rightarrow> string \<Rightarrow> string op" where
  "NewQueryEngineClient site addr = dial_service site ''query-engine'' addr"

definition NewConnectionManagerClient :: "site \<Rightarrow> string \<Rightarrow> string op" where
  "NewConnectionManagerClient site addr = dial_service site ''connection-manager'' addr"

definition qe_NewMetaClient :: "site \<Rightarrow> string \<Rightarrow> string op" where
  "qe_NewMetaClient site addr = dial_service site ''meta-service'' addr"

definition qe_NewConnectionManagerClient :: "site \<Rightarrow> string \<Rightarrow> string op" where
  "qe_NewConnectionManagerClient site addr = dial_service site ''connection-manager'' addr"

definition NewCMClient :: "site \<Rightarrow> string \<Rightarrow> string op" where
  "NewCMClient site addr = dial_service site ''connection-manager'' addr"

definition NewPostgresRepositoryFromDSN :: "site \<Rightarrow> string \<Rightarrow> unit op" where
  "NewPostgresRepositoryFromDSN site dsn =
     and_then (wrapped ''create pool'' (request (si_fails site) (NewPgPool dsn))) (\<lambda>_. emit (Opened Repository []))"

section \<open>Listeners\<close>

text \<open>A gRPC server on the handlers that were given \<open>args\<close>; the goroutine that serves belongs to it.\<close>

definition start_grpc :: "site \<Rightarrow> string \<Rightarrow> resource list \<Rightarrow> unit op" where
  "start_grpc site addr args =
     and_then (wrapped (''listen '' @ addr) (request (si_fails site) (Listen addr))) (\<lambda>_. emit (Opened GrpcServer args))"

definition qe_StartGRPC :: "site \<Rightarrow> string \<Rightarrow> resource list \<Rightarrow> unit op" where
  "qe_StartGRPC site addr svc = start_grpc site addr svc"

definition cm_StartGRPC :: "site \<Rightarrow> string \<Rightarrow> resource list \<Rightarrow> unit op" where
  "cm_StartGRPC site addr reg = start_grpc site addr reg"

definition meta_StartGRPC :: "site \<Rightarrow> string \<Rightarrow> resource list \<Rightarrow> unit op" where
  "meta_StartGRPC site addr svc = start_grpc site addr svc"

definition register_responder :: "site \<Rightarrow> string \<Rightarrow> string \<Rightarrow> string \<Rightarrow> unit op" where
  "register_responder site service grpcAddr advertiseAddr =
     and_then (of_result (RegisterGRPCResponder (si_fails site (Subscribe (grpcDiscoverySubject service))) (Some (\<lambda>s. []))
         service grpcAddr advertiseAddr)) (\<lambda>_.
     emit (Opened DiscoverySubscription [NatsConn]))"

text \<open>How \<^verbatim>\<open>ListenAndServe\<close> returned, and the error of the drain that follows the end of the context. The result is the
  error of \<^verbatim>\<open>Start\<close>, the warnings of the drain, and its deadline.\<close>

datatype serve_result = ServeReturned | ServerClosed | ServeFailed goerr

definition drain_warning :: "string \<Rightarrow> goerr option \<Rightarrow> string list" where
  "drain_warning msg shutdown = (case shutdown of None \<Rightarrow> [] | Some e \<Rightarrow> [msg])"

definition serve_error :: "serve_result \<Rightarrow> goerr option" where
  "serve_error r = (case r of ServeReturned \<Rightarrow> None | ServerClosed \<Rightarrow> None | ServeFailed e \<Rightarrow> Some e)"

definition qe_HTTPServer_Start :: "serve_result \<Rightarrow> goerr option \<Rightarrow> goerr option \<times> string list \<times> int" where
  "qe_HTTPServer_Start served shutdown =
     (serve_error served, drain_warning ''query-engine HTTP shutdown failed'' shutdown, graceful_WithTimeout 30000000000)"

definition cm_HTTPServer_Start :: "serve_result \<Rightarrow> goerr option \<Rightarrow> goerr option \<times> string list \<times> int" where
  "cm_HTTPServer_Start served shutdown =
     (serve_error served, drain_warning ''connection-manager HTTP shutdown failed'' shutdown, graceful_WithTimeout 30000000000)"

definition meta_HTTPServer_Start :: "serve_result \<Rightarrow> goerr option \<Rightarrow> goerr option \<times> string list \<times> int" where
  "meta_HTTPServer_Start served shutdown =
     (serve_error served, drain_warning ''meta-service HTTP shutdown failed'' shutdown, graceful_WithTimeout 30000000000)"

definition gateway_Start :: "serve_result \<Rightarrow> goerr option \<Rightarrow> goerr option \<times> string list \<times> int" where
  "gateway_Start served shutdown =
     (map_option (wrap ''http server'') (serve_error served), drain_warning ''http shutdown error'' shutdown,
      graceful_WithTimeout 30000000000)"

section \<open>The metrics server\<close>

text \<open>The routes of its handler, with the Prometheus handler \<open>prom\<close>: a status and a body.\<close>

definition metrics_serve :: "int \<times> string \<Rightarrow> string \<Rightarrow> int \<times> string" where
  "metrics_serve prom path =
     (if path = ''/metrics'' then prom else if path = ''/healthz'' then (200, ''ok'') else (404, ''404 page not found''))"

definition StartMetricsServer :: "string \<Rightarrow> unit op" where
  "StartMetricsServer addr = emit (Opened MetricsServer [])"

definition observability_Shutdown :: "goerr option \<Rightarrow> string list \<times> int" where
  "observability_Shutdown shutdown =
     (drain_warning ''metrics server shutdown failed'' shutdown, graceful_WithTimeout 10000000000)"

section \<open>Configuration\<close>

definition InitCobra :: "goerr option \<Rightarrow> goerr option" where
  "InitCobra bind = map_option (wrap ''bind flags'') bind"

text \<open>\<open>None\<close> stands for a value that is no pointer to a struct.\<close>

definition config_Load ::
  "(cfg_field list \<Rightarrow> goerr + cfg_field list) \<Rightarrow> (string \<Rightarrow> string option) \<Rightarrow> cfg_field list option \<Rightarrow> goerr + cfg_field list" where
  "config_Load unmarshal environ cfg =
     (case cfg of
        None \<Rightarrow> Inl (Err ''config must be a non-nil pointer to struct'')
      | Some fs \<Rightarrow>
          (case unmarshal fs of
             Inl e \<Rightarrow> Inl (wrap ''config unmarshal'' e)
           | Inr fs' \<Rightarrow>
               (case loadFromEnv environ fs' of
                  Inl e \<Rightarrow> Inl (wrap ''config env override'' e)
                | Inr fs'' \<Rightarrow> Inr fs'')))"

definition BaseConfig :: cfg_field where
  "BaseConfig = CEmbedded [CField ''app_name'' (CString []), CField ''environment'' (CString []),
     CField ''log_level'' (CString []), CField ''nats_url'' (CString [])]"

text \<open>A field of a loaded configuration, embedded ones included.\<close>

fun find_field :: "string \<Rightarrow> cfg_field list \<Rightarrow> cfg_value option" where
  "find_field tag [] = None"
| "find_field tag (CField t v # fs) = (if t = tag then Some v else find_field tag fs)"
| "find_field tag (CEmbedded es # fs) = (case find_field tag es of Some v \<Rightarrow> Some v | None \<Rightarrow> find_field tag fs)"

definition cfg_string :: "cfg_field list \<Rightarrow> string \<Rightarrow> string" where
  "cfg_string cfg tag = (case find_field tag cfg of Some (CString s) \<Rightarrow> s | _ \<Rightarrow> [])"

definition cfg_int :: "cfg_field list \<Rightarrow> string \<Rightarrow> int" where
  "cfg_int cfg tag = (case find_field tag cfg of Some (CInt bits n) \<Rightarrow> n | _ \<Rightarrow> 0)"

definition cfg_bool :: "cfg_field list \<Rightarrow> string \<Rightarrow> bool" where
  "cfg_bool cfg tag = (case find_field tag cfg of Some (CBool b) \<Rightarrow> b | _ \<Rightarrow> False)"

text \<open>What every main function does first: the flags are bound, the configuration is loaded, and a context is made that
  ends with a signal; the timeout passed to it is not used.\<close>

definition load_config :: "site \<Rightarrow> (string \<times> cfg_value) list \<Rightarrow> cfg_field list \<Rightarrow> cfg_field list op" where
  "load_config site flags struct =
     and_then (or_exit (case InitCobra (si_bind site) of Some e \<Rightarrow> fails e | None \<Rightarrow> gives ())) (\<lambda>_.
     or_exit (of_result (config_Load (si_viper site flags) (si_environ site) (Some struct))))"

definition ContextWithShutdown :: "unit op" where
  "ContextWithShutdown = emit (Opened Signals [])"

section \<open>The object store of the query engine\<close>

definition ensureBucketLifecycle :: "site \<Rightarrow> string \<Rightarrow> int \<Rightarrow> unit op" where
  "ensureBucketLifecycle site bucket ttlHours =
     request (si_fails site) (SetBucketLifecycle bucket ''results/'' (lifecycle_days ttlHours))"

definition ensureBucket :: "site \<Rightarrow> string \<Rightarrow> int \<Rightarrow> unit op" where
  "ensureBucket site bucket ttlHours =
     and_then (request (si_fails site) (BucketExists bucket)) (\<lambda>_.
     if si_bucket site bucket then ensureBucketLifecycle site bucket ttlHours
     else and_then (request (si_fails site) (MakeBucket bucket)) (\<lambda>_.
       ensureBucketLifecycle site bucket ttlHours))"

section \<open>The example plugin\<close>

text \<open>\<^verbatim>\<open>run\<close>: the listener's answer, and what comes first, the end of the context or the return of \<^verbatim>\<open>Serve\<close>.\<close>

datatype plugin_event = ContextDone | Served "goerr option"

definition ErrServerStopped :: goerr where
  "ErrServerStopped = Err ''grpc: the server has been stopped''"

definition plugin_run :: "site \<Rightarrow> string \<Rightarrow> plugin_event \<Rightarrow> unit op" where
  "plugin_run site address first =
     and_then (wrapped (''listen on '' @ address) (request (si_fails site) (Listen address))) (\<lambda>_.
     and_then (emit (Opened GrpcServer [])) (\<lambda>_.
     case first of
       ContextDone \<Rightarrow> emit (Closed GrpcServer)
     | Served None \<Rightarrow> gives ()
     | Served (Some e) \<Rightarrow> (if e = ErrServerStopped then gives () else fails e)))"

definition plugin_main :: "site \<Rightarrow> string \<Rightarrow> plugin_event \<Rightarrow> unit op" where
  "plugin_main site addr first =
     and_then ContextWithShutdown (\<lambda>_.
     and_then (defer_close Signals) (\<lambda>_.
     or_exit (plugin_run site addr first)))"

end
