(* ===== verification/Lifecycle_Rules.thy ===== *)
theory Lifecycle_Rules
  imports Lifecycle
begin

text \<open>
  Rules for actions, one collection for each way to look at them: the states they lead through, the sites at which they
  succeed, the events they add and the requests they have made when they succeed. A main function is run
  through by its rules, construct by construct.
\<close>

section \<open>States\<close>

lemma leads_or_else [leads_intros]:
  assumes "stays m" and "leads rs ds ts m rs ds ts" and "\<And>e. leads rs ds ts (f e) rs ds ts"
  shows "leads rs ds ts (or_else m f) rs ds ts"
  unfolding leads_def
proof (intro allI impI)
  fix p :: "'a process"
  assume h: "holds rs ds ts p"
  obtain x p' where m: "m p = (x, p')" by fastforce
  show "case or_else m f p of (Inl e, p') \<Rightarrow> throughout (supported UNIV) (pr_trace p') | (Inr y, p') \<Rightarrow> holds rs ds ts p'"
  proof (cases x)
    case (Inl e)
    with assms(1) m h have "holds rs ds ts p'" unfolding stays_def by blast
    with assms(3) [of e] show ?thesis using m Inl by (simp add: leads_def or_else_def)
  next
    case (Inr y)
    with assms(2) m h show ?thesis by (fastforce simp: leads_def or_else_def)
  qed
qed

lemma stays_or_else [leads_intros]:
  assumes "stays m" and "\<And>e. stays (f e)"
  shows "stays (or_else m f)"
  unfolding stays_def or_else_def
proof (intro allI impI)
  fix p e p' rs ds ts
  assume e: "(case m p of (Inl e, p') \<Rightarrow> f e p' | (Inr x, p') \<Rightarrow> (Inr x, p')) = (Inl e, p')" and h: "holds rs ds ts p"
  then obtain e1 p1 where "m p = (Inl e1, p1)" "f e1 p1 = (Inl e, p')" by (auto split: prod.splits sum.splits)
  with assms h show "holds rs ds ts p'" unfolding stays_def by blast
qed

lemma leads_branch [leads_intros]:
  "leads rs ds ts m rs' ds' ts' \<Longrightarrow> leads rs ds ts n rs' ds' ts' \<Longrightarrow> leads rs ds ts (if b then m else n) rs' ds' ts'"
  by simp

lemma leads_cases [leads_intros]:
  "leads rs ds ts m rs' ds' ts' \<Longrightarrow> (\<And>y. leads rs ds ts (f y) rs' ds' ts') \<Longrightarrow>
    leads rs ds ts (case z of None \<Rightarrow> m | Some y \<Rightarrow> f y) rs' ds' ts'"
  "(\<And>e. leads rs ds ts (g e) rs' ds' ts') \<Longrightarrow> (\<And>y. leads rs ds ts (h y) rs' ds' ts') \<Longrightarrow>
    leads rs ds ts (case r of Inl e \<Rightarrow> g e | Inr y \<Rightarrow> h y) rs' ds' ts'"
  by (simp_all split: option.split sum.split)

lemma leads_discard:
  "leads [] [] [] m rs (map fst rs) ts \<Longrightarrow> \<exists>rs ts. leads [] [] [] (and_then m (\<lambda>x. gives ())) rs (map fst rs) ts"
  by (blast intro: leads_and_then leads_same)

section \<open>Success\<close>

definition yields :: "('q, 'a) action \<Rightarrow> 'a \<Rightarrow> bool" where
  "yields m x \<longleftrightarrow> (\<forall>p. fst (m p) = Inr x)"

named_theorems yields_intros

lemma yieldsE: "yields m x \<Longrightarrow> \<exists>q. m p = (Inr x, q)"
  unfolding yields_def by (metis prod.collapse)

lemma yields_and_then [yields_intros]:
  assumes "yields m x" and "yields (f x) y"
  shows "yields (and_then m f) y"
  unfolding yields_def
proof
  fix p
  obtain q where "m p = (Inr x, q)" using yieldsE [OF assms(1)] by blast
  moreover obtain r where "f x q = (Inr y, r)" using yieldsE [OF assms(2)] by blast
  ultimately show "fst (and_then m f p) = Inr y" by (simp add: and_then_def)
qed

lemma yields_basic [yields_intros]:
  "yields (gives x) x" "yields (emit ev) ()" "yields (defer_close r) ()" "yields (of_result (Inr x)) x"
  "site q = None \<Longrightarrow> yields (request site q) ()"
  by (simp_all add: yields_def gives_def emit_def defer_close_def of_result_def request_def)

lemma yields_wraps [yields_intros]:
  assumes "yields m x"
  shows "yields (wrapped msg m) x" "yields (or_fatal msg m) x" "yields (or_exit m) x" "yields (or_else m f) x" "yields (on_error c m) x"
  using assms
  by (simp_all add: yields_def wrapped_def or_fatal_def or_exit_def or_else_def on_error_def prod.case_eq_if)

section \<open>Events\<close>

text \<open>All events an action adds have a property.\<close>

definition adds :: "('q occurrence \<Rightarrow> bool) \<Rightarrow> ('q, 'a) action \<Rightarrow> bool" where
  "adds P m \<longleftrightarrow> (\<forall>p. \<exists>tr. pr_trace (snd (m p)) = pr_trace p @ tr \<and> (\<forall>ev\<in>set tr. P ev))"

named_theorems adds_intros

lemma addsE:
  assumes "adds P m"
  obtains tr where "pr_trace (snd (m p)) = pr_trace p @ tr" and "\<forall>ev\<in>set tr. P ev"
  using assms unfolding adds_def by blast

lemma adds_and_then [adds_intros]:
  assumes "adds P m" and "\<And>x. adds P (f x)"
  shows "adds P (and_then m f)"
  unfolding adds_def
proof
  fix p
  obtain x q where m: "m p = (x, q)" by fastforce
  obtain tr where tr: "pr_trace q = pr_trace p @ tr" "\<forall>ev\<in>set tr. P ev" using addsE [OF assms(1), of p] m by (metis snd_conv)
  show "\<exists>tr. pr_trace (snd (and_then m f p)) = pr_trace p @ tr \<and> (\<forall>ev\<in>set tr. P ev)"
  proof (cases x)
    case (Inl e)
    with m tr show ?thesis by (auto simp: and_then_def)
  next
    case (Inr y)
    obtain tr' where "pr_trace (snd (f y q)) = pr_trace q @ tr'" "\<forall>ev\<in>set tr'. P ev" by (rule addsE [OF assms(2)])
    with m tr Inr show ?thesis by (intro exI [of _ "tr @ tr'"]) (auto simp: and_then_def)
  qed
qed

lemma adds_basic [adds_intros]:
  "adds P (gives x)" "adds P (fails e)" "adds P (of_result r)" "adds P (defer_close d)" "P ev \<Longrightarrow> adds P (emit ev)"
  "P (Requested q) \<Longrightarrow> adds P (request site q)"
  by (auto simp: adds_def gives_def fails_def of_result_def defer_close_def emit_def request_def split: option.split)

lemma adds_extend:
  assumes "adds P m" and "\<And>p. \<exists>ys. pr_trace (snd (n p)) = pr_trace (snd (m p)) @ ys \<and> (\<forall>ev\<in>set ys. P ev)"
  shows "adds P n"
  unfolding adds_def
proof
  fix p
  obtain tr where "pr_trace (snd (m p)) = pr_trace p @ tr" "\<forall>ev\<in>set tr. P ev" by (rule addsE [OF assms(1)])
  moreover obtain ys where "pr_trace (snd (n p)) = pr_trace (snd (m p)) @ ys" "\<forall>ev\<in>set ys. P ev" using assms(2) by blast
  ultimately show "\<exists>tr. pr_trace (snd (n p)) = pr_trace p @ tr \<and> (\<forall>ev\<in>set tr. P ev)"
    by (intro exI [of _ "tr @ ys"]) auto
qed

lemma adds_wraps [adds_intros]:
  assumes "adds P m"
  shows "adds P (wrapped msg m)" and "(\<And>msg. P (Fatal msg)) \<Longrightarrow> adds P (or_fatal msg m)"
    and "(\<And>msg. P (Fatal msg)) \<Longrightarrow> adds P (or_exit m)"
    and "(\<And>e. adds P (f e)) \<Longrightarrow> adds P (or_else m f)" and "adds P c \<Longrightarrow> adds P (on_error c m)"
proof -
  show "adds P (wrapped msg m)"
    by (rule adds_extend [OF assms]) (simp add: wrapped_def prod.case_eq_if split: sum.split)
  show "adds P (or_fatal msg m)" if "\<And>msg. P (Fatal msg)"
    using that by (intro adds_extend [OF assms]) (simp add: or_fatal_def prod.case_eq_if split: sum.split)
  show "adds P (or_exit m)" if "\<And>msg. P (Fatal msg)"
    using that by (intro adds_extend [OF assms]) (simp add: or_exit_def prod.case_eq_if split: sum.split)
  show "adds P (or_else m f)" if "\<And>e. adds P (f e)"
    using that unfolding adds_def [of P "f e" for e]
    by (intro adds_extend [OF assms]) (simp add: or_else_def prod.case_eq_if split: sum.split)
  show "adds P (on_error c m)" if "adds P c"
    using that unfolding adds_def [of P c]
    by (intro adds_extend [OF assms]) (simp add: on_error_def prod.case_eq_if split: sum.split)
qed

lemma adds_cases [adds_intros]:
  "adds P m \<Longrightarrow> adds P n \<Longrightarrow> adds P (if b then m else n)"
  "adds P m \<Longrightarrow> (\<And>y. adds P (f y)) \<Longrightarrow> adds P (case z of None \<Rightarrow> m | Some y \<Rightarrow> f y)"
  "(\<And>e. adds P (g e)) \<Longrightarrow> (\<And>y. adds P (h y)) \<Longrightarrow> adds P (case r of Inl e \<Rightarrow> g e | Inr y \<Rightarrow> h y)"
  by (simp_all split: option.split sum.split)

text \<open>The events before an action that succeeds stay, and those behind it come from it.\<close>

lemma and_then_succeeds: "and_then m f p = (Inr y, q) \<Longrightarrow> \<exists>x p1. m p = (Inr x, p1) \<and> f x p1 = (Inr y, q)"
  by (auto simp: and_then_def split: prod.splits sum.splits)

lemma adds_keeps: "adds P m \<Longrightarrow> m p = (x, q) \<Longrightarrow> ev \<in> set (pr_trace p) \<Longrightarrow> ev \<in> set (pr_trace q)"
  by (metis Un_iff addsE set_append snd_conv)

lemma request_asked: "request site c p = (x, q) \<Longrightarrow> Requested c \<in> set (pr_trace q)"
  by (auto simp: request_def split: option.splits)

text \<open>What has been asked for when an action succeeds.\<close>

definition asks :: "'q \<Rightarrow> ('q, 'a) action \<Rightarrow> bool" where
  "asks c m \<longleftrightarrow> (\<forall>p x q. m p = (Inr x, q) \<longrightarrow> Requested c \<in> set (pr_trace q))"

lemma asks_request: "asks c (request site c)"
  by (auto simp: asks_def request_asked)

lemma asks_wraps: "asks c m \<Longrightarrow> asks c (wrapped msg m)" "asks c m \<Longrightarrow> asks c (or_fatal msg m)"
  by (auto simp: asks_def wrapped_def or_fatal_def split: prod.splits sum.splits)

lemma asks_first: "asks c m \<Longrightarrow> (\<And>x. adds (\<lambda>ev. True) (f x)) \<Longrightarrow> asks c (and_then m f)"
  unfolding asks_def by (blast dest: and_then_succeeds adds_keeps)

lemma asks_later: "(\<And>x. asks c (f x)) \<Longrightarrow> asks c (and_then m f)"
  unfolding asks_def by (blast dest: and_then_succeeds)

end
