(* ===== verification/Mains_Facts.thy ===== *)
theory Mains_Facts
  imports Mains Lifecycle_Rules Bootstrap_Facts
begin

text \<open>
  What holds of the four processes: resources are closed after everything that was given them, shutdowns end with
  nothing open, production runs with keys and a durable store, and the streams cover what is published.
\<close>

section \<open>The states a start goes through\<close>

lemma leads_ensure [leads_intros]: "leads rs ds ts (EnsureStream site cfg) rs ds ts"
  unfolding EnsureStream_def by (intro leads_intros)

lemma leads_dial [leads_intros]:
  "GrpcClient service \<notin> fst ` set rs \<Longrightarrow> leads rs ds ts (dial_service site service addr) ((GrpcClient service, []) # rs) ds ts"
  unfolding dial_service_def by (rule leads_intros | simp)+

lemma leads_connect [leads_intros]:
  "leads [] [] [] (connect_nats site cfg) [(NatsConn, []), (Signals, [])] [NatsConn, Signals] []"
  unfolding connect_nats_def ContextWithShutdown_def natsclient_New_def by (rule leads_intros | simp)+

lemma leads_load [leads_intros]: "leads rs ds ts (load_config site flags struct) rs ds ts"
  unfolding load_config_def by (rule leads_intros)+

lemma leads_grpc [leads_intros]:
  "GrpcServer \<notin> fst ` set rs \<Longrightarrow> set args \<subseteq> fst ` set rs \<Longrightarrow>
    leads rs ds ts (start_grpc site addr args) ((GrpcServer, args) # rs) ds ts"
  unfolding start_grpc_def by (rule leads_intros | simp)+

lemma leads_announce [leads_intros]:
  "DiscoverySubscription \<notin> fst ` set rs \<Longrightarrow> NatsConn \<in> fst ` set rs \<Longrightarrow>
    leads rs ds ts (announce site service cfg) ((DiscoverySubscription, [NatsConn]) # rs) (DiscoverySubscription # ds) ts"
  unfolding announce_def register_responder_def by (rule leads_intros | simp)+

lemma leads_metrics [leads_intros]:
  "MetricsServer \<notin> fst ` set rs \<Longrightarrow>
    leads rs ds ts serve_metrics ((MetricsServer, []) # rs) (MetricsServer # ds) ts"
  unfolding serve_metrics_def StartMetricsServer_def by (rule leads_intros | simp)+

lemma leads_bucket [leads_intros]: "leads rs ds ts (ensureBucket site bucket ttl) rs ds ts"
  unfolding ensureBucket_def ensureBucketLifecycle_def by (rule leads_intros)+

lemma leads_objects [leads_intros]: "leads rs ds ts (object_client site cfg) rs ds ts"
  unfolding object_client_def by (rule leads_intros)+

lemma leads_store [leads_intros]:
  "JobStore \<notin> fst ` set rs \<Longrightarrow> leads rs ds ts (open_store site cfg objects) ((JobStore, []) # rs) (JobStore # ds) ts"
  unfolding open_store_def Let_def by (rule leads_intros | simp)+

text \<open>What each service has open when it serves, last opened first.\<close>

definition query_engine_open :: "(resource \<times> resource list) list" where
  "query_engine_open =
     [(MetricsServer, []), (DiscoverySubscription, [NatsConn]), (GrpcServer, [JobStore, NatsConn]),
      (WorkerPool, [cm_client, meta_client, JobStore, NatsConn]), (JobStore, []), (cm_client, []), (meta_client, []),
      (NatsConn, []), (Signals, [])]"

definition gateway_open :: "(resource \<times> resource list) list" where
  "gateway_open =
     [(MetricsServer, []), (cm_client, []), (query_client, []), (meta_client, []), (NatsConn, []), (Signals, [])]"

definition meta_service_open :: "(resource \<times> resource list) list" where
  "meta_service_open =
     [(MetricsServer, []), (DiscoverySubscription, [NatsConn]), (GrpcServer, [Repository, cm_client]), (cm_client, []),
      (Repository, []), (NatsConn, []), (Signals, [])]"

definition connection_manager_open :: "(resource \<times> resource list) list" where
  "connection_manager_open =
     [(MetricsServer, []), (DiscoverySubscription, [NatsConn]), (GrpcServer, [Registry]), (RouteSubscription, [NatsConn, Registry]),
      (Registry, []), (NatsConn, []), (Signals, [])]"

lemma query_engine_leads:
  "leads [] [] [] (query_engine_main site) query_engine_open (map fst query_engine_open) [(HttpThread, [JobStore, NatsConn])]"
  unfolding query_engine_main_def query_engine_open_def ensure_streams_def dial_services_def qe_NewMetaClient_def
    qe_NewConnectionManagerClient_def qe_StartGRPC_def list.map fst_conv
  by (rule leads_intros | simp)+

lemma gateway_leads:
  "leads [] [] [] (gateway_main site) gateway_open (map fst gateway_open) [(HttpThread, [meta_client, query_client, cm_client])]"
  unfolding gateway_main_def gateway_open_def gateway_clients_def NewMetaClient_def NewQueryEngineClient_def
    NewConnectionManagerClient_def list.map fst_conv
  by (rule leads_intros | simp)+

lemma meta_service_leads:
  "leads [] [] [] (meta_service_main site) meta_service_open (map fst meta_service_open)
     [(HttpThread, [Repository, cm_client]), (PluginManagerThread, [Repository, NatsConn]), (AuditSinkThread, [Repository, NatsConn])]"
  unfolding meta_service_main_def meta_service_open_def start_background_def NewPostgresRepositoryFromDSN_def NewCMClient_def
    meta_StartGRPC_def list.map fst_conv
  by (rule leads_intros | simp)+

lemma connection_manager_leads:
  "leads [] [] [] (connection_manager_main site) connection_manager_open (map fst connection_manager_open) [(HttpThread, [Registry])]"
  unfolding connection_manager_main_def connection_manager_open_def cm_StartGRPC_def list.map fst_conv
  by (rule leads_intros | simp)+

section \<open>The four services as processes\<close>

datatype service = RunQueryEngine | RunGateway | RunMetaService | RunConnectionManager

fun start_of :: "service \<Rightarrow> site \<Rightarrow> unit op" where
  "start_of RunQueryEngine site = and_then (query_engine_main site) (\<lambda>x. gives ())"
| "start_of RunGateway site = and_then (gateway_main site) (\<lambda>x. gives ())"
| "start_of RunMetaService site = and_then (meta_service_main site) (\<lambda>x. gives ())"
| "start_of RunConnectionManager site = and_then (connection_manager_main site) (\<lambda>x. gives ())"

definition awaits :: "service \<Rightarrow> thread list" where
  "awaits svc = (if svc = RunMetaService then [AuditSinkThread] else [])"

lemma start_leads: "\<exists>rs ts. leads [] [] [] (start_of svc site) rs (map fst rs) ts"
  using leads_discard [OF query_engine_leads] leads_discard [OF gateway_leads] leads_discard [OF meta_service_leads]
    leads_discard [OF connection_manager_leads]
  by (cases svc) (simp_all only: start_of.simps)

lemma release_closes: "closes (release_resource site)"
  unfolding closes_def
proof (intro allI)
  fix r and p :: proc
  have "pr_trace p @ [Closed r] = pr_trace p @ map Requested [] @ [Closed r]"
    "pr_trace p @ [Requested DrainConn] @ [Closed r] = pr_trace p @ map Requested [DrainConn] @ [Closed r]" by simp_all
  then have "snd (release_resource site r p) = p\<lparr>pr_trace := pr_trace p @ map Requested [] @ [Closed r]\<rparr>
      \<or> snd (release_resource site r p) = p\<lparr>pr_trace := pr_trace p @ map Requested [DrainConn] @ [Closed r]\<rparr>"
    by (simp add: release_resource_def natsclient_Close_def and_then_def or_else_def request_def emit_def gives_def
        split: option.split)
  then show "\<exists>qs. snd (release_resource site r p) = p\<lparr>pr_trace := pr_trace p @ map Requested qs @ [Closed r]\<rparr>" by blast
qed

interpretation n0: service_process "start_of svc site" "release_resource site" "awaits svc" for svc site
proof -
  obtain rs ts where "leads [] [] [] (start_of svc site) rs (map fst rs) ts" using start_leads by blast
  then show "service_process (start_of svc site) (release_resource site)" by (rule service_processI) (rule release_closes)
qed

text \<open>C35. No service closes a resource under one that was given it: at every moment of a start, whether it fails or not,
  and of any shutdown, everything open has all it was constructed with open, and so has the audit sink.\<close>

theorem resources_outlive_users:
  "throughout (supported UNIV) (pr_trace (snd (start_of svc site idle)))
   \<and> (\<forall>p ws q. start_of svc site idle = (Inr (), p) \<longrightarrow> stops_to (release_resource site) (awaits svc, p) (ws, q)
        \<longrightarrow> throughout (supported (set (awaits svc))) (pr_trace q))"
  using n0.start_supported n0.supported_to_the_end by blast


text \<open>The goroutines nobody waits for are cut off: whenever Query Engine serves, its HTTP server may still run when the job
  store is closed and main returns, and so may the plugin manager of Meta Service when the repository is closed.\<close>

lemma http_server_cut_off:
  assumes "query_engine_main site idle = (Inr x, p)"
  shows "\<exists>q. stops_to (release_resource site) ([], p) ([], q) \<and> live (pr_trace q) = []
    \<and> running (pr_trace q) = [(HttpThread, [JobStore, NatsConn])]"
proof -
  have "holds query_engine_open (map fst query_engine_open) [(HttpThread, [JobStore, NatsConn])] p"
    using query_engine_leads [of site] assms holds_idle unfolding leads_def by fastforce
  with releases_down [OF release_closes [of site], of query_engine_open p] main_stops show ?thesis
    by (fastforce simp: holds_def)
qed

section \<open>A site at which everything succeeds\<close>

text \<open>A struct field is filled from the flag of its tag, and nothing is set in the environment.\<close>

fun fill_field :: "(string \<times> cfg_value) list \<Rightarrow> cfg_field \<Rightarrow> cfg_field" where
  "fill_field flags (CField t v) = CField t (case map_of flags t of Some w \<Rightarrow> w | None \<Rightarrow> v)"
| "fill_field flags (CEmbedded fs) = CEmbedded (map (fill_field flags) fs)"

definition calm_site :: "((string \<times> cfg_value) list \<Rightarrow> (string \<times> cfg_value) list) \<Rightarrow> site" where
  "calm_site given = \<lparr>si_fails = (\<lambda>q. None), si_bucket = (\<lambda>b. True), si_discover = (\<lambda>s. NoResponders), si_environ = (\<lambda>n. None),
     si_bind = None, si_viper = (\<lambda>flags fs. Inr (map (fill_field (given flags)) fs)), si_keys = Map.empty,
     si_objects = Map.empty, si_store_faults = [], si_now = 0\<rparr>"

lemma calm_simps [simp]:
  "si_fails (calm_site given) q = None" "si_discover (calm_site given) s = NoResponders" "si_environ (calm_site given) n = None"
  "si_bind (calm_site given) = None" "si_viper (calm_site given) flags fs = Inr (map (fill_field (given flags)) fs)"
  "si_store_faults (calm_site given) = []" "si_now (calm_site given) = 0"
  by (simp_all add: calm_site_def)

lemma nothing_set:
  "loadFromEnv (\<lambda>n. None) fs = Inr fs" "load_field (\<lambda>n. None) f = Inr f"
  by (induction "\<lambda>n :: string. None :: string option" fs and "\<lambda>n :: string. None :: string option" f
      rule: loadFromEnv_load_field.induct) (simp_all add: lookup_env_def)

lemma calm_load [yields_intros]:
  "yields (load_config (calm_site given) flags struct) (map (fill_field (given flags)) struct)"
proof -
  have "si_environ (calm_site given) = (\<lambda>n. None)" by (rule ext) simp
  then have "config_Load (si_viper (calm_site given) flags) (si_environ (calm_site given)) (Some struct)
      = Inr (map (fill_field (given flags)) struct)"
    by (simp add: config_Load_def nothing_set)
  then show ?thesis unfolding load_config_def by (auto simp: InitCobra_def intro!: yields_intros)
qed

lemma calm_natsclient [yields_intros]: "yields (natsclient_New (calm_site given) url timeout) \<lparr>nc_timeout = timeout\<rparr>"
  unfolding natsclient_New_def by (rule yields_intros | simp)+

lemma calm_connect [yields_intros]: "yields (connect_nats (calm_site given) cfg) \<lparr>nc_timeout = 5000000000\<rparr>"
  unfolding connect_nats_def ContextWithShutdown_def by (rule yields_intros)+

lemma calm_ensure [yields_intros]: "yields (EnsureStream (calm_site given) cfg) ()"
  unfolding EnsureStream_def by (rule yields_intros | simp)+

lemma calm_dial [yields_intros]: "addr \<noteq> [] \<Longrightarrow> yields (dial_service (calm_site given) service addr) addr"
proof -
  assume "addr \<noteq> []"
  then have "ResolveGRPCAddr (Some (si_discover (calm_site given))) service addr = Inr addr" by (simp add: ResolveGRPCAddr_def)
  then show ?thesis unfolding dial_service_def by (auto intro!: yields_intros)
qed

lemma calm_grpc [yields_intros]: "yields (start_grpc (calm_site given) addr args) ()"
  unfolding start_grpc_def by (rule yields_intros | simp)+

lemma calm_metrics [yields_intros]: "yields serve_metrics ()"
  unfolding serve_metrics_def StartMetricsServer_def by (rule yields_intros)+

lemma calm_announce [yields_intros]:
  assumes "effectiveAdvertiseAddr (cfg_string cfg ''grpc_addr'') (cfg_string cfg ''grpc_advertise_addr'') \<noteq> []"
  shows "yields (announce (calm_site given) service cfg) ()"
proof -
  have "\<exists>r. RegisterGRPCResponder None (Some (\<lambda>s. [])) service (cfg_string cfg ''grpc_addr'') (cfg_string cfg ''grpc_advertise_addr'')
      = Inr r"
    using assms by (simp add: RegisterGRPCResponder_def Let_def)
  then show ?thesis unfolding announce_def register_responder_def by (auto intro!: yields_intros)
qed

lemma effective_default: "effectiveAdvertiseAddr '':8080'' [] \<noteq> []"
  by code_simp

lemma connection_manager_up: "yields (connection_manager_main (calm_site id)) InfoLevel"
proof -
  let ?cfg = "map (fill_field connection_manager_flags) connection_manager_Config"
  have c: "cfg_string ?cfg ''grpc_addr'' = '':8080''" "cfg_string ?cfg ''grpc_advertise_addr'' = []"
    "cfg_string ?cfg ''log_level'' = ''info''" by code_simp+
  then have a: "effectiveAdvertiseAddr (cfg_string ?cfg ''grpc_addr'') (cfg_string ?cfg ''grpc_advertise_addr'') \<noteq> []"
    using effective_default by simp
  have l: "logger_level (cfg_string ?cfg ''log_level'') = InfoLevel" unfolding c by code_simp
  show ?thesis unfolding connection_manager_main_def cm_StartGRPC_def
    by (rule yields_intros calm_load [where given = id, unfolded id_apply] | simp add: a l | rule yields_basic(1) [of InfoLevel, folded l])+
qed

text \<open>Which hypotheses the first two claims need holds at such a site.\<close>

lemma started:
  assumes "yields (connection_manager_main (calm_site given)) l"
  obtains p where "start_of RunConnectionManager (calm_site given) idle = (Inr (), p)"
proof -
  have "yields (start_of RunConnectionManager (calm_site given)) ()"
    using assms by (auto intro: yields_intros)
  from yieldsE [OF this, of idle] that show thesis by blast
qed

text \<open>A whole life of Connection Manager: it starts, and main releases seven resources while the HTTP server runs on.\<close>

lemma connection_manager_life:
  obtains p where "start_of RunConnectionManager (calm_site id) idle = (Inr (), p)" "pr_defers p = map fst connection_manager_open"
proof -
  obtain p where p: "start_of RunConnectionManager (calm_site id) idle = (Inr (), p)" by (rule started [OF connection_manager_up])
  have "leads [] [] [] (start_of RunConnectionManager (calm_site id)) connection_manager_open (map fst connection_manager_open)
      [(HttpThread, [Registry])]"
    unfolding start_of.simps by (rule leads_and_then [OF connection_manager_leads leads_same(1)])
  then have "holds connection_manager_open (map fst connection_manager_open) [(HttpThread, [Registry])] p"
    using p holds_idle unfolding leads_def by fastforce
  with p that show thesis by (simp add: holds_def)
qed

lemma resources_outlive_users_witness:
  "\<exists>(p :: proc) (r :: proc). start_of RunConnectionManager (calm_site id) idle = (Inr (), p)
    \<and> closings (pr_trace r) = closings (pr_trace p) @ map fst connection_manager_open \<and> throughout (supported {}) (pr_trace r)"
proof -
  obtain p where p: "start_of RunConnectionManager (calm_site id) idle = (Inr (), p)" "pr_defers p = map fst connection_manager_open"
    by (rule connection_manager_life)
  have w: "awaits RunConnectionManager = []" by (simp add: awaits_def)
  have "stops_to (release_resource (calm_site id)) (awaits RunConnectionManager, p) ([], p)" by (simp add: stops_to_def w)
  from n0.main_returns [OF p(1) this] obtain r where r: "stops_to (release_resource (calm_site id)) ([], p) ([], r)"
    "closings (pr_trace r) = closings (pr_trace p) @ map fst connection_manager_open" using main_stops p(2) by fastforce
  with resources_outlive_users [of RunConnectionManager "calm_site id"] p(1) have "throughout (supported {}) (pr_trace r)"
    unfolding w by force
  with p(1) r(2) show ?thesis by blast
qed


section \<open>Streams\<close>

text \<open>The only streams anyone configures.\<close>

definition known_stream :: "outside occurrence \<Rightarrow> bool" where
  "known_stream ev \<longleftrightarrow> (\<forall>cfg. ev = Requested (CreateOrUpdateStream cfg) \<longrightarrow> cfg = qe_query_stream \<or> cfg = qe_audit_stream)"

lemma known_simps [simp]:
  "known_stream (Opened r args)" "known_stream (Closed r)" "known_stream (Spawned t args)" "known_stream (Warned msg)"
  "known_stream (Fatal msg)" "known_stream Serving"
  "known_stream (Requested c) \<longleftrightarrow> (\<forall>cfg. c = CreateOrUpdateStream cfg \<longrightarrow> cfg = qe_query_stream \<or> cfg = qe_audit_stream)"
  by (auto simp: known_stream_def)

lemma same_streams [simp]: "meta_audit_stream = qe_audit_stream" "streamConfig ''QUERIES'' = qe_query_stream"
  by (simp_all add: meta_audit_stream_def qe_audit_stream_def streamConfig_def qe_query_stream_def)

lemmas startup_defs =
  connect_nats_def ContextWithShutdown_def natsclient_New_def load_config_def announce_def register_responder_def serve_metrics_def
  StartMetricsServer_def EnsureStream_def dial_service_def start_grpc_def

lemma streams_known: "adds known_stream (start_of svc site)"
proof (cases svc)
  case RunQueryEngine
  show ?thesis unfolding RunQueryEngine start_of.simps query_engine_main_def startup_defs ensure_streams_def dial_services_def
    qe_NewMetaClient_def qe_NewConnectionManagerClient_def qe_StartGRPC_def object_client_def ensureBucket_def
    ensureBucketLifecycle_def open_store_def Let_def
    by (rule adds_intros | simp)+
next
  case RunGateway
  show ?thesis unfolding RunGateway start_of.simps gateway_main_def startup_defs gateway_clients_def NewMetaClient_def
    NewQueryEngineClient_def NewConnectionManagerClient_def
    by (rule adds_intros | simp)+
next
  case RunMetaService
  show ?thesis unfolding RunMetaService start_of.simps meta_service_main_def startup_defs start_background_def
    NewPostgresRepositoryFromDSN_def NewCMClient_def meta_StartGRPC_def
    by (rule adds_intros | simp)+
next
  case RunConnectionManager
  show ?thesis unfolding RunConnectionManager start_of.simps connection_manager_main_def startup_defs cm_StartGRPC_def
    by (rule adds_intros | simp)+
qed

lemma asks_ensure: "asks (CreateOrUpdateStream cfg) (EnsureStream site cfg)"
  unfolding EnsureStream_def by (intro asks_wraps asks_request)

lemma query_engine_rest:
  "adds (\<lambda>ev. True) (and_then (dial_services site cfg) (\<lambda>_.
     and_then (object_client site cfg) (\<lambda>objects.
     and_then (open_store site cfg objects) (\<lambda>st.
     and_then (emit (Opened WorkerPool [cm_client, meta_client, JobStore, NatsConn])) (\<lambda>_.
     and_then (defer_close WorkerPool) (\<lambda>_.
     and_then (or_fatal ''grpc start failed'' (qe_StartGRPC site (cfg_string cfg ''grpc_addr'') [JobStore, NatsConn])) (\<lambda>_.
     and_then (defer_close GrpcServer) (\<lambda>_.
     and_then (announce site ''query-engine'' cfg) (\<lambda>_.
     and_then (emit (Spawned HttpThread [JobStore, NatsConn])) (\<lambda>_.
     and_then serve_metrics (\<lambda>_.
     gives (r st))))))))))))"
  unfolding startup_defs dial_services_def qe_NewMetaClient_def qe_NewConnectionManagerClient_def qe_StartGRPC_def
    object_client_def ensureBucket_def ensureBucketLifecycle_def open_store_def Let_def
  by (rule adds_intros TrueI)+

lemma query_engine_streams:
  "asks (CreateOrUpdateStream qe_query_stream) (query_engine_main site)"
  "asks (CreateOrUpdateStream qe_audit_stream) (query_engine_main site)"
proof -
  have a: "adds (\<lambda>ev. True) (or_fatal msg (EnsureStream site cfg))" "adds (\<lambda>ev. True) (or_fatal msg (request (si_fails site) c))" for msg cfg c
    unfolding EnsureStream_def by (rule adds_intros TrueI)+
  have "asks (CreateOrUpdateStream qe_query_stream) (ensure_streams site)"
    unfolding ensure_streams_def by (intro asks_first asks_wraps asks_ensure adds_and_then a)
  moreover have "asks (CreateOrUpdateStream qe_audit_stream) (ensure_streams site)"
    unfolding ensure_streams_def by (rule asks_later) (intro asks_first asks_wraps asks_ensure a)
  ultimately show "asks (CreateOrUpdateStream qe_query_stream) (query_engine_main site)"
    "asks (CreateOrUpdateStream qe_audit_stream) (query_engine_main site)"
    unfolding query_engine_main_def
    by (auto intro!: asks_later [of _ _ "load_config s f c" for s f c] asks_later [of _ _ "connect_nats s c" for s c]
        asks_first [OF _ query_engine_rest])
qed

text \<open>C36. Every job and every audit event falls into a stream: the query engine has configured, before it serves, a stream
  with a subject that covers the one it publishes jobs on and one that covers the subject of every tenant's events,
  and no two services configure a stream of one name differently. \<open>matches\<close> is the matching of subjects in NATS:
  \<^verbatim>\<open>*\<close> stands for one token, \<^verbatim>\<open>>\<close> for one or more.\<close>

theorem published_subjects_streamed:
  assumes star: "\<And>p t. set p \<inter> {CHR ''*'', CHR ''>''} = {} \<Longrightarrow> t \<noteq> [] \<Longrightarrow> CHR ''.'' \<notin> set t \<Longrightarrow> matches (p @ ''.*'') (p @ ''.'' @ t)"
    and tail: "\<And>p t. set p \<inter> {CHR ''*'', CHR ''>''} = {} \<Longrightarrow> t \<noteq> [] \<Longrightarrow> matches (p @ ''.>'') (p @ ''.'' @ t)"
    and up: "query_engine_main site idle = (Inr x, p)"
  shows "(\<exists>cfg. Requested (CreateOrUpdateStream cfg) \<in> set (pr_trace p) \<and> (\<exists>pat\<in>set (sc_subjects cfg). matches pat querySubject))
    \<and> (tenant \<noteq> [] \<longrightarrow> (\<exists>cfg. Requested (CreateOrUpdateStream cfg) \<in> set (pr_trace p)
        \<and> (\<exists>pat\<in>set (sc_subjects cfg). matches pat (SubjectPrefix @ ''.'' @ sanitizeSubjectToken tenant))))
    \<and> (Requested (CreateOrUpdateStream c1) \<in> set (pr_trace (snd (start_of s1 site1 idle)))
        \<longrightarrow> Requested (CreateOrUpdateStream c2) \<in> set (pr_trace (snd (start_of s2 site2 idle)))
        \<longrightarrow> sc_name c1 = sc_name c2 \<longrightarrow> c1 = c2)"
proof (intro conjI impI)
  have q: "Requested (CreateOrUpdateStream qe_query_stream) \<in> set (pr_trace p)"
    "Requested (CreateOrUpdateStream qe_audit_stream) \<in> set (pr_trace p)"
    using query_engine_streams [of site] up unfolding asks_def by blast+
  have "matches (''QUERIES'' @ ''.*'') (''QUERIES'' @ ''.'' @ ''jobs'')" by (rule star) simp_all
  with q(1) show "\<exists>cfg. Requested (CreateOrUpdateStream cfg) \<in> set (pr_trace p) \<and> (\<exists>pat\<in>set (sc_subjects cfg). matches pat querySubject)"
    by (intro exI [of _ qe_query_stream]) (simp add: qe_query_stream_def querySubject_def)
  show "\<exists>cfg. Requested (CreateOrUpdateStream cfg) \<in> set (pr_trace p)
      \<and> (\<exists>pat\<in>set (sc_subjects cfg). matches pat (SubjectPrefix @ ''.'' @ sanitizeSubjectToken tenant))" if "tenant \<noteq> []"
  proof -
    have "matches (SubjectPrefix @ ''.>'') (SubjectPrefix @ ''.'' @ sanitizeSubjectToken tenant)"
      using that by (intro tail) (simp_all add: SubjectPrefix_def sanitizeSubjectToken_def)
    with q(2) show ?thesis by (intro exI [of _ qe_audit_stream]) (simp add: qe_audit_stream_def SubjectPrefix_def)
  qed
  have known: "c = qe_query_stream \<or> c = qe_audit_stream"
    if "Requested (CreateOrUpdateStream c) \<in> set (pr_trace (snd (start_of s si idle)))" for c s si
  proof -
    obtain tr where "pr_trace (snd (start_of s si idle)) = pr_trace idle @ tr" "\<forall>ev\<in>set tr. known_stream ev"
      by (rule addsE [OF streams_known])
    with that show ?thesis by (fastforce simp: idle_def)
  qed
  show "c1 = c2" if "Requested (CreateOrUpdateStream c1) \<in> set (pr_trace (snd (start_of s1 site1 idle)))"
    "Requested (CreateOrUpdateStream c2) \<in> set (pr_trace (snd (start_of s2 site2 idle)))" "sc_name c1 = sc_name c2"
    using known [OF that(1)] known [OF that(2)] that(3) by (auto simp: qe_query_stream_def qe_audit_stream_def)
qed

lemma query_engine_up: "\<exists>x. yields (query_engine_main (calm_site id)) x"
proof -
  let ?cfg = "map (fill_field query_engine_flags) query_engine_Config"
  have a: "effectiveAdvertiseAddr (cfg_string ?cfg ''grpc_addr'') (cfg_string ?cfg ''grpc_advertise_addr'') \<noteq> []"
    "cfg_string ?cfg ''meta_service_addr'' \<noteq> []" "cfg_string ?cfg ''connection_manager_addr'' \<noteq> []"
    "cfg_string ?cfg ''s3_endpoint'' = []" by code_simp+
  have "newRedisClient (durable_settings ?cfg None) = Inr (Standalone ''localhost:6379'' [] [] 0)" by code_simp
  then obtain st ttl where "NewDurableStore k [] 0 (durable_settings ?cfg None) = Inr (st k, ttl k)" for k
    by (simp add: NewDurableStore_def durable_settings_def)
  then have st: "yields (open_store (calm_site id) ?cfg None) (st (si_keys (calm_site id)))"
    unfolding open_store_def by (auto simp: choose_store_def intro!: yields_intros)
  have o: "yields (object_client (calm_site id) ?cfg) None"
    unfolding object_client_def by (simp add: a(4) yields_intros)
  have s: "yields (ensure_streams (calm_site id)) ()" "yields (dial_services (calm_site id) ?cfg) ()"
    unfolding ensure_streams_def dial_services_def qe_NewMetaClient_def qe_NewConnectionManagerClient_def
    by (rule yields_intros | simp add: a)+
  show ?thesis unfolding query_engine_main_def qe_StartGRPC_def
    by (rule exI) (rule calm_load [where given = id, unfolded id_apply] s o st yields_intros | simp add: a)+
qed

definition sample_matches :: "string \<Rightarrow> string \<Rightarrow> bool" where
  "sample_matches pat s \<longleftrightarrow>
     (let n = length pat - 1; rest = drop n s in
      take n pat = take n s \<and> rest \<noteq> [] \<and> (last pat = CHR ''>'' \<or> CHR ''.'' \<notin> set rest))"

lemma published_subjects_streamed_witness:
  "\<exists>p :: proc. \<exists>cfg. Requested (CreateOrUpdateStream cfg) \<in> set (pr_trace p) \<and> (\<exists>pat\<in>set (sc_subjects cfg). sample_matches pat querySubject)"
proof -
  obtain x where y: "yields (query_engine_main (calm_site id)) x" using query_engine_up by blast
  obtain p where up: "query_engine_main (calm_site id) idle = (Inr x, p)" using yieldsE [OF y, of idle] by blast
  have "sample_matches (p @ ''.*'') (p @ ''.'' @ t)" if "t \<noteq> []" "CHR ''.'' \<notin> set t" for p t
    using that by (simp add: sample_matches_def Let_def)
  moreover have "sample_matches (p @ ''.>'') (p @ ''.'' @ t)" if "t \<noteq> []" for p t
    using that by (simp add: sample_matches_def Let_def)
  ultimately have "\<exists>cfg. Requested (CreateOrUpdateStream cfg) \<in> set (pr_trace p)
      \<and> (\<exists>pat\<in>set (sc_subjects cfg). sample_matches pat querySubject)"
    by (intro conjunct1 [OF published_subjects_streamed [OF _ _ up, of sample_matches]]) simp_all
  then show ?thesis by blast
qed

section \<open>Production\<close>

text \<open>The configuration a service has loaded.\<close>

definition configured :: "site \<Rightarrow> (string \<times> cfg_value) list \<Rightarrow> cfg_field list \<Rightarrow> cfg_field list \<Rightarrow> bool" where
  "configured site flags struct cfg \<longleftrightarrow> config_Load (si_viper site flags) (si_environ site) (Some struct) = Inr cfg"

lemma load_configured: "load_config site flags struct p = (Inr cfg, q) \<Longrightarrow> configured site flags struct cfg"
  by (auto simp: load_config_def configured_def or_exit_def of_result_def dest!: and_then_succeeds
      split: prod.splits sum.splits)

lemma or_exit_result: "or_exit (of_result r) p = (Inr x, q) \<Longrightarrow> r = Inr x"
  by (auto simp: or_exit_def of_result_def split: sum.splits)

lemma open_store_durable:
  assumes "open_store site cfg objects p = (Inr st, q)" and "equal_fold (cfg_string cfg ''environment'') ''production''"
  shows "st_redis st \<noteq> None"
proof -
  from assms(1) have "choose_store (cfg_string cfg ''environment'') (si_now site)
      (NewDurableStore (si_keys site) (si_store_faults site) (si_now site) (durable_settings cfg objects)) = Inr st"
    by (auto simp: open_store_def Let_def gives_def dest!: and_then_succeeds or_exit_result)
  with assms(2) show ?thesis
    by (auto simp: choose_store_def NewDurableStore_def split: sum.splits prod.splits fault.splits if_splits)
qed

lemma gateway_key:
  assumes "gateway_main site idle = (Inr g, p)" and "configured site gateway_flags gateway_Config cfg"
  shows "jwt_config (cfg_string cfg ''environment'') (cfg_string cfg ''jwt_secret'') (cfg_int cfg ''jwt_expiry_hours'') = Inr (gw_jwt g)"
proof -
  from assms(1) obtain cfg' q where l: "load_config site gateway_flags gateway_Config idle = (Inr cfg', q)"
    "jwt_config (cfg_string cfg' ''environment'') (cfg_string cfg' ''jwt_secret'') (cfg_int cfg' ''jwt_expiry_hours'') = Inr (gw_jwt g)"
    unfolding gateway_main_def
    by (auto dest!: and_then_succeeds or_exit_result simp: gives_def SetMetaHTTPBase_def gateway_NewServer_def Let_def)
  from load_configured [OF l(1)] assms(2) have "cfg' = cfg" by (simp add: configured_def)
  with l(2) show ?thesis by simp
qed

lemma meta_service_key:
  assumes "meta_service_main site idle = (Inr ms, p)" and "configured site meta_service_flags meta_service_Config cfg"
  shows "encrypter_config (cfg_string cfg ''environment'') (cfg_string cfg ''encryption_key'') = Inr (mn_encrypter ms)"
proof -
  from assms(1) obtain cfg' q where l: "load_config site meta_service_flags meta_service_Config idle = (Inr cfg', q)"
    "encrypter_config (cfg_string cfg' ''environment'') (cfg_string cfg' ''encryption_key'') = Inr (mn_encrypter ms)"
    unfolding meta_service_main_def by (auto dest!: and_then_succeeds or_exit_result simp: gives_def)
  from load_configured [OF l(1)] assms(2) have "cfg' = cfg" by (simp add: configured_def)
  with l(2) show ?thesis by simp
qed

lemma query_engine_store:
  assumes "query_engine_main site idle = (Inr qe, p)" and "configured site query_engine_flags query_engine_Config cfg"
  shows "\<exists>objects q q'. open_store site cfg objects q = (Inr (qn_store qe), q')"
proof -
  from assms(1) obtain cfg' objects q q1 q2 where l: "load_config site query_engine_flags query_engine_Config idle = (Inr cfg', q)"
    "open_store site cfg' objects q1 = (Inr (qn_store qe), q2)"
    unfolding query_engine_main_def by (auto dest!: and_then_succeeds simp: gives_def)
  from load_configured [OF l(1)] assms(2) have "cfg' = cfg" by (simp add: configured_def)
  with l(2) show ?thesis by blast
qed

text \<open>C37. No service serves in production without its secrets or on memory alone: the gateway then checks tokens under a
  key of at least 32 bytes that expire, Meta Service encrypts under a key of 32, and the query engine keeps its jobs in
  Redis.\<close>

theorem production_is_guarded:
  assumes "equal_fold (cfg_string cfg ''environment'') ''production''"
  shows "(configured site gateway_flags gateway_Config cfg \<longrightarrow> gateway_main site idle = (Inr g, p) \<longrightarrow>
        (\<exists>m. gw_jwt g = Some m \<and> 32 \<le> length (jm_secret m) \<and> 0 < jm_expiry m))
    \<and> (configured site meta_service_flags meta_service_Config cfg \<longrightarrow> meta_service_main site idle = (Inr ms, p) \<longrightarrow>
        (\<exists>k. mn_encrypter ms = Some k \<and> length k = 32))
    \<and> (configured site query_engine_flags query_engine_Config cfg \<longrightarrow> query_engine_main site idle = (Inr qe, p) \<longrightarrow>
        st_redis (qn_store qe) \<noteq> None)"
proof (intro conjI impI)
  assume c: "configured site gateway_flags gateway_Config cfg" and m: "gateway_main site idle = (Inr g, p)"
  from production_has_keys [OF disjI1 [OF assms]] gateway_key [OF m c]
  show "\<exists>m. gw_jwt g = Some m \<and> 32 \<le> length (jm_secret m) \<and> 0 < jm_expiry m" by blast
next
  assume c: "configured site meta_service_flags meta_service_Config cfg" and m: "meta_service_main site idle = (Inr ms, p)"
  from production_has_keys [OF disjI1 [OF assms]] meta_service_key [OF m c] show "\<exists>k. mn_encrypter ms = Some k \<and> length k = 32" by blast
next
  assume c: "configured site query_engine_flags query_engine_Config cfg" and m: "query_engine_main site idle = (Inr qe, p)"
  from query_engine_store [OF m c] open_store_durable assms show "st_redis (qn_store qe) \<noteq> None" by blast
qed

definition sample_secret :: string where
  "sample_secret = b64_encode False True (replicate 32 CHR ''k'')"

definition production_flags :: "(string \<times> cfg_value) list \<Rightarrow> (string \<times> cfg_value) list" where
  "production_flags flags = (''environment'', CString ''Production'') # (''jwt_secret'', CString sample_secret) # flags"

lemma production_gateway_up:
  fixes cfg
  defines "cfg \<equiv> map (fill_field (production_flags gateway_flags)) gateway_Config"
  shows "configured (calm_site production_flags) gateway_flags gateway_Config cfg"
    and "cfg_string cfg ''environment'' = ''Production''" and "\<exists>g. yields (gateway_main (calm_site production_flags)) g"
proof -
  have "si_environ (calm_site production_flags) = (\<lambda>n. None)" by (rule ext) simp
  then show "configured (calm_site production_flags) gateway_flags gateway_Config cfg"
    by (simp add: configured_def config_Load_def nothing_set cfg_def)
  have "cfg_string (map (fill_field ((''environment'', CString ''Production'') # (''jwt_secret'', CString s) # gateway_flags)) gateway_Config) ''environment''
        = ''Production''"
    "cfg_string (map (fill_field ((''environment'', CString ''Production'') # (''jwt_secret'', CString s) # gateway_flags)) gateway_Config) ''jwt_secret'' = s"
    "cfg_string (map (fill_field ((''environment'', CString ''Production'') # (''jwt_secret'', CString s) # gateway_flags)) gateway_Config) ''meta_service_addr'' \<noteq> []"
    "cfg_string (map (fill_field ((''environment'', CString ''Production'') # (''jwt_secret'', CString s) # gateway_flags)) gateway_Config) ''query_engine_addr'' \<noteq> []"
    "cfg_string (map (fill_field ((''environment'', CString ''Production'') # (''jwt_secret'', CString s) # gateway_flags)) gateway_Config) ''connection_manager_addr'' \<noteq> []"
    for s
    by (simp_all add: cfg_string_def gateway_Config_def gateway_flags_def BaseConfig_def)
  then have c: "cfg_string cfg ''environment'' = ''Production''" "cfg_string cfg ''jwt_secret'' = sample_secret"
    "cfg_string cfg ''meta_service_addr'' \<noteq> []" "cfg_string cfg ''query_engine_addr'' \<noteq> []"
    "cfg_string cfg ''connection_manager_addr'' \<noteq> []"
    unfolding cfg_def production_flags_def by blast+
  then show "cfg_string cfg ''environment'' = ''Production''" by blast
  have ne: "sample_secret \<noteq> []" unfolding sample_secret_def by code_simp
  have "b64_decode sample_secret = Inr (replicate 32 CHR ''k'')" unfolding sample_secret_def by (simp add: b64_roundtrip)
  then obtain j where j: "jwt_config (cfg_string cfg ''environment'') (cfg_string cfg ''jwt_secret'') (cfg_int cfg ''jwt_expiry_hours'') = Inr j"
    using ne by (simp add: c jwt_config_def)
  have "yields (gateway_clients (calm_site production_flags) cfg) ()"
    unfolding gateway_clients_def NewMetaClient_def NewQueryEngineClient_def NewConnectionManagerClient_def
    by (rule yields_intros | simp add: c)+
  then show "\<exists>g. yields (gateway_main (calm_site production_flags)) g"
    unfolding gateway_main_def
    by (intro exI) (rule calm_load [where given = production_flags, of gateway_flags gateway_Config, folded cfg_def] yields_intros
      | assumption | simp add: j)+
qed

lemma production_is_guarded_witness:
  "\<exists>g p m. gateway_main (calm_site production_flags) idle = (Inr g, p) \<and> gw_jwt g = Some m \<and> 32 \<le> length (jm_secret m)"
proof -
  obtain g where y: "yields (gateway_main (calm_site production_flags)) g" using production_gateway_up(3) by blast
  obtain p where up: "gateway_main (calm_site production_flags) idle = (Inr g, p)" using yieldsE [OF y, of idle] by blast
  let ?cfg = "map (fill_field (production_flags gateway_flags)) gateway_Config"
  have e: "equal_fold (cfg_string ?cfg ''environment'') ''production''" unfolding production_gateway_up(2) by code_simp
  from production_is_guarded [OF e, of "calm_site production_flags" g p] production_gateway_up(1) up show ?thesis by blast
qed

section \<open>What a start does not check\<close>

text \<open>The HTTP listener of a service is opened in a goroutine whose error is only logged: Agent Gateway serves without having
  listened at all.\<close>

lemma gateway_never_listens: "adds (\<lambda>ev. \<forall>a. ev \<noteq> Requested (Listen a)) (gateway_main site)"
  unfolding gateway_main_def startup_defs gateway_clients_def NewMetaClient_def NewQueryEngineClient_def NewConnectionManagerClient_def
  by (rule adds_intros | simp)+

text \<open>The default address a gateway dials when discovery is silent is the default HTTP address of the query engine.\<close>

lemma default_address_is_http:
  "cfg_string (map (fill_field gateway_flags) gateway_Config) ''query_engine_addr''
     = ''localhost'' @ cfg_string (map (fill_field query_engine_flags) query_engine_Config) ''http_addr''"
  "cfg_string (map (fill_field meta_service_flags) meta_service_Config) ''connection_manager_addr''
     = ''localhost'' @ cfg_string (map (fill_field meta_service_flags) meta_service_Config) ''http_addr''"
  "cfg_string (map (fill_field query_engine_flags) query_engine_Config) ''grpc_addr''
     = cfg_string (map (fill_field connection_manager_flags) connection_manager_Config) ''grpc_addr''"
  by (simp_all add: cfg_string_def gateway_Config_def gateway_flags_def BaseConfig_def query_engine_Config_def query_engine_flags_def
      meta_service_Config_def meta_service_flags_def connection_manager_Config_def connection_manager_flags_def)

end
